(* ===== verification/Prelude.thy ===== *)
theory Prelude
  imports Main "HOL-Library.State_Monad"
begin

text \<open>
  Shared vocabulary of the development: the error values of the Go code, the result types of
  fallible operations, and a small Hoare logic over the library's state monad. A Docker call of the
  program is a state transformer, so a Manager or Provider method is a term of
  \<open>('s, 'a) state\<close>, and its properties are triples \<open>valid P m Q\<close>.
\<close>

section \<open>Errors\<close>

text \<open>
  A Go \<open>error\<close> is a tree: a leaf carries its class (the \<open>errdefs\<close> class of a daemon answer, or the
  not-found and duplicate classes of \<open>garm-provider-common\<close>), \<open>fmt.Errorf("...: %w", e)\<close> is
  \<open>WrapErr\<close> and \<open>errors.Join\<close> is \<open>JoinErr\<close>. The texts keep the fixed wording of the source.
\<close>

datatype gerr =
    NotFoundErr string
  | ConflictErr string
  | ForbiddenErr string
  | SystemErr string
  | ContextErr string
  | PlainErr string
  | DuplicateUserErr string
  | GarmNotFoundErr string
  | WrapErr string gerr
  | JoinErr "gerr list"

type_synonym 'a res = "gerr + 'a"

fun is_not_found :: "gerr \<Rightarrow> bool" where
  "is_not_found (NotFoundErr _) = True"
| "is_not_found (WrapErr _ e) = is_not_found e"
| "is_not_found (JoinErr es) = list_ex is_not_found es"
| "is_not_found _ = False"

fun is_conflict :: "gerr \<Rightarrow> bool" where
  "is_conflict (ConflictErr _) = True"
| "is_conflict (WrapErr _ e) = is_conflict e"
| "is_conflict (JoinErr es) = list_ex is_conflict es"
| "is_conflict _ = False"

fun is_context :: "gerr \<Rightarrow> bool" where
  "is_context (ContextErr _) = True"
| "is_context (WrapErr _ e) = is_context e"
| "is_context (JoinErr es) = list_ex is_context es"
| "is_context _ = False"

text \<open>\<open>err.Error()\<close>: a wrap prepends its context, a join separates with newlines.\<close>

fun join_with :: "string \<Rightarrow> string list \<Rightarrow> string" where
  "join_with sep [] = ''''"
| "join_with sep [x] = x"
| "join_with sep (x # y # ys) = x @ sep @ join_with sep (y # ys)"

fun err_text :: "gerr \<Rightarrow> string" where
  "err_text (NotFoundErr m) = m"
| "err_text (ConflictErr m) = m"
| "err_text (ForbiddenErr m) = m"
| "err_text (SystemErr m) = m"
| "err_text (ContextErr m) = m"
| "err_text (PlainErr m) = m"
| "err_text (DuplicateUserErr m) = m"
| "err_text (GarmNotFoundErr m) = m"
| "err_text (WrapErr c e) = c @ '': '' @ err_text e"
| "err_text (JoinErr es) = join_with [CHR 0x0A] (map err_text es)"

text \<open>\<open>errors.Join\<close>: nil when no error was collected.\<close>

definition join_errs :: "gerr list \<Rightarrow> gerr option" where
  "join_errs es = (if es = [] then None else Some (JoinErr es))"

lemma join_errs_None [simp]: "join_errs es = None \<longleftrightarrow> es = []"
  by (simp add: join_errs_def)

definition opt_list :: "'a option \<Rightarrow> 'a list" where
  "opt_list x = (case x of None \<Rightarrow> [] | Some y \<Rightarrow> [y])"

lemma opt_list_simps [simp]:
  "opt_list None = []" "opt_list (Some x) = [x]" "opt_list y = [] \<longleftrightarrow> y = None"
  by (simp_all add: opt_list_def split: option.splits)

section \<open>State transformers and triples\<close>

abbreviation ret :: "'a \<Rightarrow> ('s, 'a) state" where
  "ret \<equiv> State_Monad.return"

definition valid :: "('s \<Rightarrow> bool) \<Rightarrow> ('s, 'a) state \<Rightarrow> ('a \<Rightarrow> 's \<Rightarrow> bool) \<Rightarrow> bool" where
  "valid P m Q \<longleftrightarrow> (\<forall>s r s'. P s \<longrightarrow> run_state m s = (r, s') \<longrightarrow> Q r s')"

named_theorems wp

lemma validI [intro?]: "(\<And>s r s'. P s \<Longrightarrow> run_state m s = (r, s') \<Longrightarrow> Q r s') \<Longrightarrow> valid P m Q"
  by (simp add: valid_def)

lemma validD: "valid P m Q \<Longrightarrow> P s \<Longrightarrow> run_state m s = (r, s') \<Longrightarrow> Q r s'"
  by (simp add: valid_def)

lemma valid_return [wp]: "valid (Q a) (ret a) Q"
  by (simp add: valid_def)

lemma valid_bind [wp]:
  assumes "\<And>a. valid (R a) (f a) Q" and "valid P m R"
  shows "valid P (m \<bind> f) Q"
  using assms unfolding valid_def by (fastforce split: prod.splits)

lemma valid_pre: "valid P' m Q \<Longrightarrow> (\<And>s. P s \<Longrightarrow> P' s) \<Longrightarrow> valid P m Q"
  unfolding valid_def by blast

lemma valid_post: "valid P m Q' \<Longrightarrow> (\<And>r s. Q' r s \<Longrightarrow> Q r s) \<Longrightarrow> valid P m Q"
  unfolding valid_def by blast

lemma valid_conj: "valid P m Q \<Longrightarrow> valid P m R \<Longrightarrow> valid P m (\<lambda>r s. Q r s \<and> R r s)"
  by (simp add: valid_def)

lemma valid_if [wp]:
  "(b \<Longrightarrow> valid P m Q) \<Longrightarrow> (\<not> b \<Longrightarrow> valid P' m' Q) \<Longrightarrow>
   valid (\<lambda>s. (b \<longrightarrow> P s) \<and> (\<not> b \<longrightarrow> P' s)) (if b then m else m') Q"
  by (simp add: valid_def)

lemma valid_sum [wp]:
  "(\<And>e. x = Inl e \<Longrightarrow> valid (P e) (f e) Q) \<Longrightarrow> (\<And>a. x = Inr a \<Longrightarrow> valid (P' a) (g a) Q) \<Longrightarrow>
   valid (\<lambda>s. case x of Inl e \<Rightarrow> P e s | Inr a \<Rightarrow> P' a s) (case x of Inl e \<Rightarrow> f e | Inr a \<Rightarrow> g a) Q"
  by (cases x) simp_all

lemma valid_option [wp]:
  "(x = None \<Longrightarrow> valid P m Q) \<Longrightarrow> (\<And>a. x = Some a \<Longrightarrow> valid (P' a) (g a) Q) \<Longrightarrow>
   valid (\<lambda>s. case x of None \<Rightarrow> P s | Some a \<Rightarrow> P' a s) (case x of None \<Rightarrow> m | Some a \<Rightarrow> g a) Q"
  by (cases x) simp_all

lemma valid_ex: "(\<And>x. valid (P x) m Q) \<Longrightarrow> valid (\<lambda>s. \<exists>x. P x s) m Q"
  by (auto simp: valid_def)

lemma valid_imp: "(A \<Longrightarrow> valid P m Q) \<Longrightarrow> valid (\<lambda>s. A \<and> P s) m Q"
  by (auto simp: valid_def)

text \<open>A Go \<open>for ... range\<close> loop that threads accumulators, and its invariant rule.\<close>

fun for_each :: "('x \<Rightarrow> 'a \<Rightarrow> ('s, 'a) state) \<Rightarrow> 'x list \<Rightarrow> 'a \<Rightarrow> ('s, 'a) state" where
  "for_each f [] a = ret a"
| "for_each f (x # xs) a = f x a \<bind> (\<lambda>b. for_each f xs b)"

lemma valid_for_each_prefix:
  assumes "\<And>ys x zs a. xs = ys @ x # zs \<Longrightarrow> valid (I ys a) (f x a) (I (ys @ [x]))"
  shows "valid (I [] a) (for_each f xs a) (I xs)"
proof -
  have "valid (I ys a) (for_each f zs a) (I xs)" if "xs = ys @ zs" for ys zs a
    using that
  proof (induction zs arbitrary: ys a)
    case Nil
    then show ?case by (simp add: valid_def)
  next
    case (Cons z zs)
    show ?case unfolding for_each.simps
      by (rule valid_bind, rule Cons.IH, use Cons.prems in simp, rule assms [OF Cons.prems])
  qed
  from this [of "[]" xs] show ?thesis by simp
qed

lemma valid_for_each:
  assumes "\<And>x a. x \<in> set xs \<Longrightarrow> valid (I a) (f x a) I"
  shows "valid (I a) (for_each f xs a) I"
  by (rule valid_for_each_prefix [where I = "\<lambda>_. I"]) (use assms in auto)

text \<open>The result of a bind, read off a run.\<close>

lemma run_bindE:
  assumes "run_state (m \<bind> f) s = (r, s')"
  obtains a s1 where "run_state m s = (a, s1)" "run_state (f a) s1 = (r, s')"
  using assms by (auto split: prod.splits)

lemma run_returnE: "run_state (ret a) s = (r, s') \<Longrightarrow> r = a \<and> s' = s"
  by simp

end
