(* ===== verification/Go_Time.thy ===== *)
theory Go_Time
  imports Go_Strings
begin

text \<open>
  Instants and the RFC 3339 codec of Go's \<open>time\<close> package, which the program uses for every
  \<open>created-at\<close> and \<open>last-used\<close> label and to read \<open>State.FinishedAt\<close>. An instant is the
  number of nanoseconds since the Unix epoch, as an unbounded integer. The calendar is the
  proleptic Gregorian one. The parser follows \<open>time.Parse\<close> for the layout \<open>RFC3339\<close>: it also
  takes a one-digit hour, a fraction of any length after \<open>'.'\<close> or \<open>','\<close>, and a numeric offset.
\<close>

type_synonym time = int
type_synonym duration = int

definition second :: duration where "second = 1000000000"
definition minute :: duration where "minute = 60 * second"
definition hour :: duration where "hour = 60 * minute"

text \<open>
  A Go \<open>Duration\<close> is an \<open>int64\<close>: arithmetic on it wraps (\<open>i64\<close>), and \<open>Time.Sub\<close> saturates.
\<close>

definition i64 :: "int \<Rightarrow> int" where
  "i64 i = (i + 2 ^ 63) mod 2 ^ 64 - 2 ^ 63"

definition time_sub :: "time \<Rightarrow> time \<Rightarrow> duration" where
  "time_sub t u = max (- (2 ^ 63)) (min (2 ^ 63 - 1) (t - u))"

lemma i64_id: "- (2 ^ 63) \<le> i \<Longrightarrow> i < 2 ^ 63 \<Longrightarrow> i64 i = i"
  by (simp add: i64_def)

lemma i64_range: "- (2 ^ 63) \<le> i64 i \<and> i64 i < 2 ^ 63"
  by (simp add: i64_def)

lemma time_sub_exact: "t - u \<le> 2 ^ 63 - 1 \<Longrightarrow> - (2 ^ 63) \<le> t - u \<Longrightarrow> time_sub t u = t - u"
  by (simp add: time_sub_def)

lemma time_sub_less: "d \<le> 2 ^ 63 - 1 \<Longrightarrow> - (2 ^ 63) < d \<Longrightarrow> time_sub t u < d \<longleftrightarrow> t - u < d"
  by (auto simp: time_sub_def)

section \<open>Days and dates\<close>

definition days_from_civil :: "int \<Rightarrow> int \<Rightarrow> int \<Rightarrow> int" where
  "days_from_civil y m d =
     (let y' = (if m \<le> 2 then y - 1 else y);
          era = y' div 400;
          yoe = y' mod 400;
          mp = (if m > 2 then m - 3 else m + 9);
          doy = (153 * mp + 2) div 5 + d - 1;
          doe = yoe * 365 + yoe div 4 - yoe div 100 + doy
      in era * 146097 + doe - 719468)"

text \<open>
  Years start in March here, so that the leap day ends a year. Cycles of 400, 100, 4 and 1 years
  are split off in turn; the last century of a cycle and the last year of a leap cycle are one day
  longer, hence the \<open>min\<close>.
\<close>

definition civil_from_days :: "int \<Rightarrow> int \<times> int \<times> int" where
  "civil_from_days z0 =
     (let z = z0 + 719468;
          n400 = z div 146097; r = z mod 146097;
          n100 = min 3 (r div 36524); r1 = r - 36524 * n100;
          n4 = r1 div 1461; r2 = r1 mod 1461;
          n1 = min 3 (r2 div 365); doy = r2 - 365 * n1;
          mp = (5 * doy + 2) div 153;
          d = doy - (153 * mp + 2) div 5 + 1;
          m = (if mp < 10 then mp + 3 else mp - 9);
          y = 400 * n400 + 100 * n100 + 4 * n4 + n1
      in (if m \<le> 2 then y + 1 else y, m, d))"

definition is_leap :: "int \<Rightarrow> bool" where
  "is_leap y \<longleftrightarrow> y mod 4 = 0 \<and> (y mod 100 \<noteq> 0 \<or> y mod 400 = 0)"

definition days_in :: "int \<Rightarrow> int \<Rightarrow> int" where
  "days_in y m =
     (if m = 2 then (if is_leap y then 29 else 28)
      else if m \<in> {4, 6, 9, 11} then 30 else 31)"

section \<open>Formatting\<close>

definition two :: "int \<Rightarrow> string" where
  "two n = [digit_char (nat (n div 10)), digit_char (nat (n mod 10))]"

definition pad4 :: "int \<Rightarrow> string" where
  "pad4 y =
     (if 0 \<le> y \<and> y \<le> 9999 then two (y div 100) @ two (y mod 100) else itoa y)"

definition format_seconds :: "time \<Rightarrow> string" where
  "format_seconds t =
     (let s = t div second; day = s div 86400; r = s mod 86400;
          (y, m, d) = civil_from_days day
      in pad4 y @ ''-'' @ two m @ ''-'' @ two d @ ''T'' @
         two (r div 3600) @ '':'' @ two (r mod 3600 div 60) @ '':'' @ two (r mod 60))"

text \<open>\<open>t.UTC().Format(time.RFC3339)\<close> and \<open>t.UTC().Format(time.RFC3339Nano)\<close>.\<close>

definition format_rfc3339 :: "time \<Rightarrow> string" where
  "format_rfc3339 t = format_seconds t @ ''Z''"

definition pad9 :: "nat \<Rightarrow> string" where
  "pad9 n = (let s = nat_str n in replicate (9 - length s) (CHR ''0'') @ s)"

definition format_rfc3339_nano :: "time \<Rightarrow> string" where
  "format_rfc3339_nano t =
     (let ns = nat (t mod second);
          frac = (if ns = 0 then '''' else CHR ''.'' # trim_right_by (\<lambda>c. c = CHR ''0'') (pad9 ns))
      in format_seconds t @ frac @ ''Z'')"

section \<open>Parsing\<close>

fun get_num2 :: "string \<Rightarrow> (int \<times> string) option" where
  "get_num2 (a # b # s) =
     (if is_digit a \<and> is_digit b then Some (int (10 * digit_val a + digit_val b), s) else None)"
| "get_num2 _ = None"

fun get_num12 :: "string \<Rightarrow> (int \<times> string) option" where
  "get_num12 (a # b # s) =
     (if \<not> is_digit a then None
      else if is_digit b then Some (int (10 * digit_val a + digit_val b), s)
      else Some (int (digit_val a), b # s))"
| "get_num12 [a] = (if is_digit a then Some (int (digit_val a), []) else None)"
| "get_num12 [] = None"

fun expect :: "char \<Rightarrow> string \<Rightarrow> string option" where
  "expect c (x # s) = (if x = c then Some s else None)"
| "expect c [] = None"

definition get_year :: "string \<Rightarrow> (int \<times> string) option" where
  "get_year s =
     (if length s < 4 \<or> \<not> list_all is_digit (take 4 s) then None
      else Some (int (dec_val (take 4 s)), drop 4 s))"

text \<open>Fraction digits past the ninth are dropped.\<close>

definition frac_ns :: "string \<Rightarrow> int" where
  "frac_ns ds = int (dec_val (take 9 ds)) * 10 ^ (9 - length (take 9 ds))"

fun get_frac :: "string \<Rightarrow> int \<times> string" where
  "get_frac (c # d # s) =
     (if (c = CHR ''.'' \<or> c = CHR '','') \<and> is_digit d
      then (frac_ns (takeWhile is_digit (d # s)), dropWhile is_digit (d # s))
      else (0, c # d # s))"
| "get_frac s = (0, s)"

text \<open>The zone: \<open>Z\<close> or a signed \<open>hh:mm\<close>; the result is the offset in seconds.\<close>

definition get_zone :: "string \<Rightarrow> (int \<times> string) option" where
  "get_zone s =
     (case s of
        [] \<Rightarrow> None
      | c # r \<Rightarrow>
          if c = CHR ''Z'' then Some (0, r)
          else if c = CHR ''+'' \<or> c = CHR ''-'' then do {
            (h, r1) \<leftarrow> get_num2 r;
            r2 \<leftarrow> expect (CHR '':'') r1;
            (m, r3) \<leftarrow> get_num2 r2;
            if h > 24 \<or> m > 60 then None
            else Some ((if c = CHR ''-'' then -1 else 1) * (h * 3600 + m * 60), r3)
          }
          else None)"

definition parse_rfc3339 :: "string \<Rightarrow> (time \<times> int) option" where
  "parse_rfc3339 s0 = do {
     (y, s1) \<leftarrow> get_year s0;
     s2 \<leftarrow> expect (CHR ''-'') s1;
     (m, s3) \<leftarrow> get_num2 s2;
     s4 \<leftarrow> expect (CHR ''-'') s3;
     (d, s5) \<leftarrow> get_num2 s4;
     s6 \<leftarrow> expect (CHR ''T'') s5;
     (h, s7) \<leftarrow> get_num12 s6;
     s8 \<leftarrow> expect (CHR '':'') s7;
     (mi, s9) \<leftarrow> get_num2 s8;
     s10 \<leftarrow> expect (CHR '':'') s9;
     (sec, s11) \<leftarrow> get_num2 s10;
     let (ns, s12) = get_frac s11;
     (off, s13) \<leftarrow> get_zone s12;
     if s13 \<noteq> [] \<or> m < 1 \<or> 12 < m \<or> d < 1 \<or> days_in y m < d \<or> 23 < h \<or> 59 < mi \<or> 59 < sec
     then None
     else Some ((days_from_civil y m d * 86400 + h * 3600 + mi * 60 + sec - off) * second + ns, off)
   }"

text \<open>\<open>t.Year()\<close> reads the calendar in the parsed zone.\<close>

definition time_year :: "time \<times> int \<Rightarrow> int" where
  "time_year t = fst (civil_from_days ((fst t div second + snd t) div 86400))"

text \<open>Go's zero \<open>time.Time\<close>: January 1 of year 1, UTC.\<close>

definition zero_time :: time where
  "zero_time = - 62135596800 * second"

end
