(* ===== verification/Labels.thy ===== *)
theory Labels
  imports Go_Time
begin

text \<open>
  Label keys, roles, label builders and the ownership predicate of ADR-004, from
  \<open>internal/spec/labels.go\<close>. A label map is a partial function; \<open>lget\<close> is Go's index
  expression, which reads a missing key as the empty string. A Docker filter is the list of its
  \<open>label\<close> terms, \<open>k=v\<close> or \<open>k\<close>. Evaluating a filter (\<open>filters.Args.MatchKVList\<close>) is code of
  the Docker SDK: it is a parameter of the model wherever a daemon is, and \<open>match_kv_ok\<close> states
  its documented behaviour.
\<close>

type_synonym labels = "string \<rightharpoonup> string"

definition lget :: "labels \<Rightarrow> string \<Rightarrow> string" where
  "lget l k = (case l k of None \<Rightarrow> '''' | Some v \<Rightarrow> v)"

lemma lget_upd [simp]: "lget (l(k \<mapsto> v)) j = (if j = k then v else lget l j)"
  by (simp add: lget_def)

lemma lget_empty [simp]: "lget Map.empty k = ''''"
  by (simp add: lget_def)

lemma lget_Some: "l k = Some v \<Longrightarrow> lget l k = v"
  by (simp add: lget_def)

lemma lget_nonempty: "lget l k = v \<Longrightarrow> v \<noteq> '''' \<Longrightarrow> l k = Some v"
  by (auto simp: lget_def split: option.splits)

section \<open>Keys and values\<close>

definition LabelManaged :: string where "LabelManaged = ''garm.docker/managed''"
definition LabelControllerID :: string where "LabelControllerID = ''garm.docker/controller-id''"
definition LabelPoolID :: string where "LabelPoolID = ''garm.docker/pool-id''"
definition LabelInstanceName :: string where "LabelInstanceName = ''garm.docker/instance-name''"
definition LabelRole :: string where "LabelRole = ''garm.docker/role''"
definition LabelResource :: string where "LabelResource = ''garm.docker/resource''"
definition LabelCreatedAt :: string where "LabelCreatedAt = ''garm.docker/created-at''"
definition LabelCache :: string where "LabelCache = ''garm.docker/cache''"
definition LabelRepo :: string where "LabelRepo = ''garm.docker/repo''"
definition LabelRepoURLDigest :: string where "LabelRepoURLDigest = ''garm.docker/repo-url-digest''"
definition LabelGeneration :: string where "LabelGeneration = ''garm.docker/generation''"
definition LabelPnpmMajor :: string where "LabelPnpmMajor = ''garm.docker/pnpm-major''"
definition LabelLastUsed :: string where "LabelLastUsed = ''garm.docker/last-used''"
definition LabelCacheKind :: string where "LabelCacheKind = ''garm.docker/cache-kind''"
definition LabelImageDigest :: string where "LabelImageDigest = ''garm.docker/image-digest''"
definition LabelOSRelease :: string where "LabelOSRelease = ''garm.docker/os-release''"
definition LabelOSType :: string where "LabelOSType = ''garm.docker/os-type''"
definition LabelOSArch :: string where "LabelOSArch = ''garm.docker/os-arch''"
definition LabelCreateNonce :: string where "LabelCreateNonce = ''garm.docker/create-nonce''"

lemmas label_keys =
  LabelManaged_def LabelControllerID_def LabelPoolID_def LabelInstanceName_def LabelRole_def
  LabelResource_def LabelCreatedAt_def LabelCache_def LabelRepo_def LabelRepoURLDigest_def
  LabelGeneration_def LabelPnpmMajor_def LabelLastUsed_def LabelCacheKind_def
  LabelImageDigest_def LabelOSRelease_def LabelOSType_def LabelOSArch_def LabelCreateNonce_def

text \<open>The keys are pairwise different.\<close>

definition all_label_keys :: "string list" where
  "all_label_keys =
     [LabelManaged, LabelControllerID, LabelPoolID, LabelInstanceName, LabelRole, LabelResource,
      LabelCreatedAt, LabelCache, LabelRepo, LabelRepoURLDigest, LabelGeneration, LabelPnpmMajor,
      LabelLastUsed, LabelCacheKind, LabelImageDigest, LabelOSRelease, LabelOSType, LabelOSArch,
      LabelCreateNonce]"

lemma distinct_label_keys: "distinct all_label_keys"
  by (simp add: all_label_keys_def label_keys)

lemma distinct_label_keys_rev: "distinct (rev all_label_keys)"
  by (simp add: distinct_label_keys)

lemmas label_keys_distinct [simp] =
  distinct_label_keys [unfolded all_label_keys_def distinct.simps list.set insert_iff empty_iff
    de_Morgan_disj not_False_eq_True simp_thms]
  distinct_label_keys_rev [unfolded all_label_keys_def rev.simps append.simps distinct.simps list.set
    insert_iff empty_iff de_Morgan_disj not_False_eq_True simp_thms]

lemma label_keys_no_eq [simp]:
  "k \<in> set all_label_keys \<Longrightarrow> CHR ''='' \<notin> set k"
  by (auto simp: all_label_keys_def label_keys)

definition RoleRunner :: string where "RoleRunner = ''runner''"
definition RoleDind :: string where "RoleDind = ''dind''"
definition RoleCacheHelper :: string where "RoleCacheHelper = ''cache-helper''"
definition RoleDiagPruneStamp :: string where "RoleDiagPruneStamp = ''diag-prune-stamp''"
definition RoleThrottleStamp :: string where "RoleThrottleStamp = ''throttle-stamp''"

definition ResourceJobNetwork :: string where "ResourceJobNetwork = ''job-network''"
definition ResourceWorkspace :: string where "ResourceWorkspace = ''workspace''"
definition ResourceSocket :: string where "ResourceSocket = ''socket''"
definition ResourceDindState :: string where "ResourceDindState = ''dind-state''"

lemmas role_values =
  RoleRunner_def RoleDind_def RoleCacheHelper_def RoleDiagPruneStamp_def RoleThrottleStamp_def
lemmas resource_values =
  ResourceJobNetwork_def ResourceWorkspace_def ResourceSocket_def ResourceDindState_def

section \<open>Builders\<close>

record alloc_identity =
  id_controller :: string
  id_pool :: string
  id_instance :: string

definition base_labels :: "alloc_identity \<Rightarrow> time \<Rightarrow> labels" where
  "base_labels i t =
     [LabelManaged \<mapsto> ''true'',
      LabelControllerID \<mapsto> id_controller i,
      LabelPoolID \<mapsto> id_pool i,
      LabelInstanceName \<mapsto> id_instance i,
      LabelCreatedAt \<mapsto> format_rfc3339 t]"

definition container_labels :: "alloc_identity \<Rightarrow> string \<Rightarrow> time \<Rightarrow> labels" where
  "container_labels i role t = (base_labels i t)(LabelRole \<mapsto> role)"

definition resource_labels :: "alloc_identity \<Rightarrow> string \<Rightarrow> time \<Rightarrow> labels" where
  "resource_labels i resource t = (base_labels i t)(LabelResource \<mapsto> resource)"

definition network_labels :: "alloc_identity \<Rightarrow> time \<Rightarrow> labels" where
  "network_labels i t = resource_labels i ResourceJobNetwork t"

definition workspace_volume_labels :: "alloc_identity \<Rightarrow> time \<Rightarrow> labels" where
  "workspace_volume_labels i t = resource_labels i ResourceWorkspace t"

definition socket_volume_labels :: "alloc_identity \<Rightarrow> time \<Rightarrow> labels" where
  "socket_volume_labels i t = resource_labels i ResourceSocket t"

definition dind_state_volume_labels :: "alloc_identity \<Rightarrow> time \<Rightarrow> labels" where
  "dind_state_volume_labels i t = resource_labels i ResourceDindState t"

definition dind_container_labels :: "alloc_identity \<Rightarrow> time \<Rightarrow> labels" where
  "dind_container_labels i t = container_labels i RoleDind t"

section \<open>Filters and the ownership predicate\<close>

definition label_eq :: "string \<Rightarrow> string \<Rightarrow> string" where
  "label_eq k v = k @ CHR ''='' # v"

definition match_predicate_filters :: "string \<Rightarrow> string list" where
  "match_predicate_filters cid =
     [label_eq LabelManaged ''true'', label_eq LabelControllerID cid, LabelInstanceName]"

definition matches_predicate :: "labels \<Rightarrow> string \<Rightarrow> bool" where
  "matches_predicate l cid =
     (if lget l LabelManaged \<noteq> ''true'' then False
      else if lget l LabelControllerID \<noteq> cid then False
      else if l LabelInstanceName = None then False
      else if lget l LabelCache = ''true'' then False
      else True)"

definition is_managed_runner :: "labels \<Rightarrow> string \<Rightarrow> bool" where
  "is_managed_runner l cid \<longleftrightarrow> matches_predicate l cid \<and> lget l LabelRole = RoleRunner"

text \<open>One term of a label filter, as the Docker API documents it.\<close>

definition match_term :: "labels \<Rightarrow> string \<Rightarrow> bool" where
  "match_term l t =
     (case str_cut t ''='' of (k, v, has) \<Rightarrow>
        (case l k of None \<Rightarrow> False | Some w \<Rightarrow> has \<longrightarrow> v = w))"

definition match_kv_ok :: "(string list \<Rightarrow> labels \<Rightarrow> bool) \<Rightarrow> bool" where
  "match_kv_ok mkv \<longleftrightarrow> (\<forall>fs l. mkv fs l = list_all (match_term l) fs)"

definition label_terms_match :: "string list \<Rightarrow> labels \<Rightarrow> bool" where
  "label_terms_match fs l = list_all (match_term l) fs"

lemma match_kv_ok_terms [simp]: "match_kv_ok label_terms_match"
  by (simp add: match_kv_ok_def label_terms_match_def)

lemma match_kv_okD: "match_kv_ok mkv \<Longrightarrow> mkv fs l = list_all (match_term l) fs"
  by (simp add: match_kv_ok_def)

lemma match_term_eq [simp]:
  "k \<in> set all_label_keys \<Longrightarrow> match_term l (label_eq k v) \<longleftrightarrow> l k = Some v"
  by (auto simp: match_term_def label_eq_def str_cut_sep split: option.splits)

lemma match_term_key [simp]:
  "k \<in> set all_label_keys \<Longrightarrow> match_term l k \<longleftrightarrow> l k \<noteq> None"
  by (auto simp: match_term_def str_cut_absent split: option.splits)

lemma in_all_label_keys [simp]:
  "LabelManaged \<in> set all_label_keys" "LabelControllerID \<in> set all_label_keys"
  "LabelInstanceName \<in> set all_label_keys" "LabelCreateNonce \<in> set all_label_keys"
  "LabelResource \<in> set all_label_keys" "LabelRole \<in> set all_label_keys"
  "LabelCache \<in> set all_label_keys" "LabelCacheKind \<in> set all_label_keys"
  "LabelRepo \<in> set all_label_keys" "LabelRepoURLDigest \<in> set all_label_keys"
  "LabelGeneration \<in> set all_label_keys" "LabelPnpmMajor \<in> set all_label_keys"
  "LabelOSRelease \<in> set all_label_keys" "LabelImageDigest \<in> set all_label_keys"
  by (simp_all add: all_label_keys_def)

lemma matches_predicate_iff:
  "matches_predicate l cid \<longleftrightarrow>
     l LabelManaged = Some ''true'' \<and> lget l LabelControllerID = cid \<and>
     l LabelInstanceName \<noteq> None \<and> l LabelCache \<noteq> Some ''true''"
  by (auto simp: matches_predicate_def lget_def split: option.splits)

lemma base_labels_simps [simp]:
  "base_labels i t LabelManaged = Some ''true''"
  "base_labels i t LabelControllerID = Some (id_controller i)"
  "base_labels i t LabelPoolID = Some (id_pool i)"
  "base_labels i t LabelInstanceName = Some (id_instance i)"
  "base_labels i t LabelCreatedAt = Some (format_rfc3339 t)"
  "base_labels i t LabelCache = None" "base_labels i t LabelCreateNonce = None"
  "base_labels i t LabelRole = None" "base_labels i t LabelResource = None"
  by (simp_all add: base_labels_def)

lemma matches_predicate_container [simp]:
  "matches_predicate (container_labels i r t) cid \<longleftrightarrow> id_controller i = cid"
  by (simp add: matches_predicate_iff container_labels_def lget_def)

lemma matches_predicate_resource [simp]:
  "matches_predicate (resource_labels i r t) cid \<longleftrightarrow> id_controller i = cid"
  by (simp add: matches_predicate_iff resource_labels_def lget_def)

lemma matches_predicate_upd_nonce [simp]:
  "matches_predicate (l(LabelCreateNonce \<mapsto> n)) cid = matches_predicate l cid"
  by (simp add: matches_predicate_iff lget_def)

end
