(* ===== verification/Names.thy ===== *)
theory Names
  imports Labels
begin

text \<open>
  Resource names of an allocation and their validation, from \<open>internal/spec/names.go\<close>. The names
  are functions of the instance name and, for volumes, of the attempt's nonce; the lemmas say when
  two of them can be equal.
\<close>

definition runner_container_name :: "string \<Rightarrow> string" where
  "runner_container_name instance_name = to_lower instance_name"

definition dind_container_name :: "string \<Rightarrow> string" where
  "dind_container_name instance_name = runner_container_name instance_name @ ''-dind''"

definition job_network_name :: "string \<Rightarrow> string" where
  "job_network_name instance_name = runner_container_name instance_name @ ''-net''"

definition volume_name :: "string \<Rightarrow> string \<Rightarrow> string \<Rightarrow> string" where
  "volume_name instance_name nonce suffix =
     runner_container_name instance_name @ ''-'' @ nonce @ ''-'' @ suffix"

definition workspace_volume_name :: "string \<Rightarrow> string \<Rightarrow> string" where
  "workspace_volume_name instance_name nonce = volume_name instance_name nonce ''workspace''"

definition socket_volume_name :: "string \<Rightarrow> string \<Rightarrow> string" where
  "socket_volume_name instance_name nonce = volume_name instance_name nonce ''socket''"

definition dind_state_volume_name :: "string \<Rightarrow> string \<Rightarrow> string" where
  "dind_state_volume_name instance_name nonce = volume_name instance_name nonce ''dind-state''"

definition docker_name_max_length :: nat where
  "docker_name_max_length = 255"

text \<open>The grammar \<open>^[a-zA-Z0-9][a-zA-Z0-9_.-]+$\<close>.\<close>

definition is_alnum :: "char \<Rightarrow> bool" where
  "is_alnum c \<longleftrightarrow> is_upper_ascii c \<or> is_lower_ascii c \<or> is_digit c"

definition docker_name_char :: "char \<Rightarrow> bool" where
  "docker_name_char c \<longleftrightarrow> is_alnum c \<or> c \<in> set ''_.-''"

fun docker_name_pattern :: "string \<Rightarrow> bool" where
  "docker_name_pattern (c # d # s) \<longleftrightarrow> is_alnum c \<and> list_all docker_name_char (d # s)"
| "docker_name_pattern _ \<longleftrightarrow> False"

definition validate_derived_name :: "string \<Rightarrow> string \<Rightarrow> gerr option" where
  "validate_derived_name kind name =
     (if name = '''' then Some (PlainErr (''derived '' @ kind @ '' name is empty''))
      else if length name > docker_name_max_length
      then Some (PlainErr (''derived '' @ kind @ '' name '' @ quoted name @ '' is '' @
             nat_str (length name) @ '' bytes, which exceeds the '' @ nat_str docker_name_max_length @
             ''-byte limit on names this provider derives, set by the filesystem limit on a local volume's directory name '' @ em_dash @
             '' the instance name is too long once this provider's generation-nonce/suffix are appended''))
      else if \<not> docker_name_pattern name
      then Some (PlainErr (''derived '' @ kind @ '' name '' @ quoted name @
             '' is not a valid Docker resource name (must match ^[a-zA-Z0-9][a-zA-Z0-9_.-]+$)''))
      else None)"

definition allocation_names :: "string \<Rightarrow> string \<Rightarrow> (string \<times> string) list" where
  "allocation_names instance_name nonce =
     [(''runner container'', runner_container_name instance_name),
      (''DinD sidecar container'', dind_container_name instance_name),
      (''job network'', job_network_name instance_name),
      (''workspace volume'', workspace_volume_name instance_name nonce),
      (''socket volume'', socket_volume_name instance_name nonce),
      (''dind-state volume'', dind_state_volume_name instance_name nonce)]"

definition validate_allocation_names :: "string \<Rightarrow> string \<Rightarrow> gerr option" where
  "validate_allocation_names instance_name nonce =
     join_errs (concat (map (\<lambda>(k, n). opt_list (validate_derived_name k n))
       (allocation_names instance_name nonce)))"

section \<open>Lemmas\<close>

definition docker_name_ok :: "string \<Rightarrow> bool" where
  "docker_name_ok n \<longleftrightarrow> 2 \<le> length n \<and> length n \<le> 255 \<and> is_alnum (hd n) \<and> list_all docker_name_char n"

lemma docker_name_pattern_iff:
  "docker_name_pattern n \<longleftrightarrow> 2 \<le> length n \<and> is_alnum (hd n) \<and> list_all docker_name_char n"
  by (cases n rule: docker_name_pattern.cases) (auto simp: docker_name_char_def)

lemma validate_derived_name_None: "validate_derived_name k n = None \<longleftrightarrow> docker_name_ok n"
  by (auto simp: validate_derived_name_def docker_name_ok_def docker_name_pattern_iff
      docker_name_max_length_def)

lemma is_alnum_lower [simp]: "is_alnum (lower_char c) = is_alnum c"
  by (auto simp: is_alnum_def lower_char_def is_upper_ascii_def is_lower_ascii_def is_digit_def)

lemma docker_name_char_lower [simp]: "docker_name_char (lower_char c) = docker_name_char c"
proof -
  have "lower_char c \<in> set ''_.-'' \<longleftrightarrow> c \<in> set ''_.-''" if "\<not> is_alnum c"
    using that by (auto simp: lower_char_def is_alnum_def)
  then show ?thesis by (auto simp: docker_name_char_def)
qed

lemma hd_to_lower: "s \<noteq> [] \<Longrightarrow> hd (to_lower s) = lower_char (hd s)"
  by (cases s) (auto simp: to_lower_def)

lemma list_all_name_lower [simp]: "list_all docker_name_char (to_lower s) = list_all docker_name_char s"
  by (induction s) (auto simp: to_lower_def)

lemma docker_name_ok_volume:
  assumes "list_all docker_name_char sfx"
  shows "docker_name_ok (volume_name i n sfx) \<longleftrightarrow>
    list_all docker_name_char i \<and> list_all docker_name_char n \<and>
    length i + length n + length sfx + 2 \<le> 255 \<and> (i \<noteq> [] \<and> is_alnum (hd i))"
proof (cases "i = []")
  case True
  then show ?thesis
    by (simp add: docker_name_ok_def volume_name_def runner_container_name_def to_lower_def is_alnum_def
        is_upper_ascii_def is_lower_ascii_def is_digit_def char_code_def)
next
  case False
  then have "to_lower i \<noteq> []" by (auto simp: to_lower_def)
  with False assms show ?thesis
    by (auto simp: docker_name_ok_def volume_name_def runner_container_name_def hd_append hd_to_lower
        docker_name_char_def [of "CHR ''-''"] Suc_le_eq)
qed

lemma volume_name_eq:
  assumes "length n = length m"
  shows "volume_name i n s = volume_name j m s \<longleftrightarrow> to_lower i = to_lower j \<and> n = m"
proof -
  have "to_lower i @ ''-'' @ n @ ''-'' @ s = to_lower j @ ''-'' @ m @ ''-'' @ s \<longleftrightarrow>
        to_lower i = to_lower j \<and> n = m"
    using assms by (auto simp: append_eq_append_conv simp flip: append_assoc)
  then show ?thesis by (simp add: volume_name_def runner_container_name_def)
qed

lemma last_volume_name: "s \<noteq> [] \<Longrightarrow> rev (volume_name i n s) = rev s @ CHR ''-'' # rev (runner_container_name i @ CHR ''-'' # n)"
  by (simp add: volume_name_def)

lemma volume_kinds_distinct:
  "workspace_volume_name i n \<noteq> socket_volume_name j m"
  "workspace_volume_name i n \<noteq> dind_state_volume_name j m"
  "socket_volume_name i n \<noteq> dind_state_volume_name j m"
proof -
  have "rev (workspace_volume_name i n) \<noteq> rev (socket_volume_name j m)"
    "rev (workspace_volume_name i n) \<noteq> rev (dind_state_volume_name j m)"
    "rev (socket_volume_name i n) \<noteq> rev (dind_state_volume_name j m)"
    by (simp_all add: workspace_volume_name_def socket_volume_name_def dind_state_volume_name_def
        last_volume_name)
  then show "workspace_volume_name i n \<noteq> socket_volume_name j m"
    "workspace_volume_name i n \<noteq> dind_state_volume_name j m"
    "socket_volume_name i n \<noteq> dind_state_volume_name j m" by metis+
qed

lemma concat_opt_list_None:
  "concat (map (\<lambda>(k, n). opt_list (f k n)) xs) = [] \<longleftrightarrow> (\<forall>(k, n) \<in> set xs. f k n = None)"
  by (induction xs) auto

lemma validate_allocation_names_None:
  "validate_allocation_names i n = None \<longleftrightarrow> (\<forall>(k, m) \<in> set (allocation_names i n). docker_name_ok m)"
  by (auto simp: validate_allocation_names_def concat_opt_list_None validate_derived_name_None)

end
