(* ===== verification/Docker_API.thy ===== *)
theory Docker_API
  imports Names "HOL-Library.Word"
begin

text \<open>
  The Docker client the program calls, from \<open>internal/docker/client.go\<close>: one field of \<open>client\<close>
  per method of the \<open>Client\<close> interface, as a state transformer over an arbitrary daemon state.
  The SDK types keep the fields the program sets or reads. A body stream is the bytes it delivers:
  an image pull yields the error of draining it, container logs yield the raw (multiplexed) bytes,
  and a stats sample yields the decoded block-IO entries. The credential archive is a value of
  \<open>archive\<close>, the tar encoding itself being the standard library's.

  The locale \<open>docker_store\<close> states what the program relies on of a daemon: list calls answer with
  the matching resources, a removal touches the named resource only, a network name is unique, a
  volume create on a used name returns the existing volume.
\<close>

section \<open>SDK types\<close>

record mount =
  m_type :: string
  m_source :: string
  m_target :: string
  m_read_only :: bool
  m_tmpfs_options :: "string list list"

record container_config =
  cc_image :: string
  cc_env :: "string list"
  cc_cmd :: "string list"
  cc_entrypoint :: "string list"
  cc_labels :: labels
  cc_tty :: bool

record host_config =
  hc_mounts :: "mount list"
  hc_tmpfs :: "(string \<times> string) list"
  hc_sysctls :: "(string \<times> string) list"
  hc_network_mode :: string
  hc_privileged :: bool
  hc_runtime :: string
  hc_group_add :: "string list"
  hc_log_driver :: string
  hc_memory :: int

definition empty_config :: container_config where
  "empty_config = \<lparr>cc_image = '''', cc_env = [], cc_cmd = [], cc_entrypoint = [],
     cc_labels = Map.empty, cc_tty = False\<rparr>"

definition empty_host :: host_config where
  "empty_host = \<lparr>hc_mounts = [], hc_tmpfs = [], hc_sysctls = [], hc_network_mode = '''',
     hc_privileged = False, hc_runtime = '''', hc_group_add = [], hc_log_driver = '''', hc_memory = 0\<rparr>"

record container_state =
  cs_status :: string
  cs_running :: bool
  cs_paused :: bool
  cs_restarting :: bool
  cs_dead :: bool
  cs_oom_killed :: bool
  cs_exit_code :: int
  cs_finished_at :: string
  cs_error :: string

record mount_point =
  mp_type :: string
  mp_name :: string
  mp_destination :: string
  mp_rw :: bool

record container_json =
  cj_id :: string
  cj_name :: string
  cj_state :: "container_state option"
  cj_host :: "host_config option"
  cj_config :: "container_config option"
  cj_mounts :: "mount_point list"
  cj_networks :: "(string \<times> string) list"

record container_summary =
  su_id :: string
  su_names :: "string list"
  su_image :: string
  su_labels :: labels
  su_state :: string
  su_status :: string

record network_summary =
  ns_id :: string
  ns_name :: string
  ns_labels :: labels

record volume =
  vol_name :: string
  vol_labels :: labels

record image_inspect =
  im_id :: string
  im_labels :: "labels option"

record tar_entry =
  te_name :: string
  te_data :: string
  te_mode :: nat

datatype archive = Tar "tar_entry list" | RawBytes string

section \<open>The client interface\<close>

text \<open>What waiting for a container gives: an error, its exit code with the daemon's own error, or the timeout.\<close>

datatype wait_answer = WaitFailed gerr | WaitEnded int "string option" | WaitTimedOut gerr

record 's client =
  image_pull :: "string \<Rightarrow> ('s, gerr + gerr option) state"
  image_inspect :: "string \<Rightarrow> ('s, image_inspect res) state"
  container_create :: "container_config \<Rightarrow> host_config \<Rightarrow> string \<Rightarrow> ('s, string \<times> gerr option) state"
  container_start :: "string \<Rightarrow> ('s, gerr option) state"
  container_stop :: "string \<Rightarrow> ('s, gerr option) state"
  container_inspect :: "string \<Rightarrow> ('s, container_json res) state"
  container_remove :: "string \<Rightarrow> bool \<Rightarrow> bool \<Rightarrow> ('s, gerr option) state"
  container_list :: "bool \<Rightarrow> string list \<Rightarrow> ('s, container_summary list res) state"
  container_wait :: "string \<Rightarrow> ('s, wait_answer) state"
  exec_stream :: "string \<Rightarrow> string list \<Rightarrow> archive \<Rightarrow> ('s, int res) state"
  exec_output :: "string \<Rightarrow> string list \<Rightarrow> ('s, (string \<times> int) res) state"
  container_stats :: "string \<Rightarrow> ('s, (gerr + (string \<times> 64 word) list) res) state"
  container_logs :: "string \<Rightarrow> string \<Rightarrow> ('s, string res) state"
  container_top :: "string \<Rightarrow> ('s, (string list \<times> string list list) res) state"
  network_create :: "string \<Rightarrow> bool \<Rightarrow> labels \<Rightarrow> ('s, string \<times> gerr option) state"
  network_remove :: "string \<Rightarrow> ('s, gerr option) state"
  network_list :: "string list \<Rightarrow> ('s, network_summary list res) state"
  volume_create :: "string \<Rightarrow> labels \<Rightarrow> ('s, volume res) state"
  volume_inspect :: "string \<Rightarrow> ('s, volume res) state"
  volume_remove :: "string \<Rightarrow> bool \<Rightarrow> ('s, gerr option) state"
  volume_list :: "string list \<Rightarrow> ('s, volume option list res) state"

section \<open>What a daemon stores\<close>

text \<open>
  The abstract view of a daemon: containers and networks by ID, volumes by name, each with its
  name and labels. Anonymous volumes, which a container's removal reaps, are not part of it.
\<close>

datatype rid = Ctr string | Net string | Vol string

type_synonym store = "rid \<rightharpoonup> string \<times> labels"

definition labels_of :: "store \<Rightarrow> rid \<Rightarrow> labels option" where
  "labels_of v r = map_option snd (v r)"

text \<open>Every resource is as before, or was one \<open>D\<close> holds of and is gone.\<close>

definition removes :: "(rid \<Rightarrow> string \<Rightarrow> labels \<Rightarrow> bool) \<Rightarrow> store \<Rightarrow> store \<Rightarrow> bool" where
  "removes D v w \<longleftrightarrow> (\<forall>r. w r = v r \<or> (w r = None \<and> (\<exists>n l. v r = Some (n, l) \<and> D r n l)))"

lemma removes_refl [simp]: "removes D v v"
  by (simp add: removes_def)

lemma removes_trans: "removes D u v \<Longrightarrow> removes D v w \<Longrightarrow> removes D u w"
  unfolding removes_def by metis

lemma removes_mono: "removes D v w \<Longrightarrow> (\<And>r n l. v r = Some (n, l) \<Longrightarrow> D r n l \<Longrightarrow> E r n l) \<Longrightarrow> removes E v w"
  unfolding removes_def by metis

lemma removes_del: "v r = Some (n, l) \<Longrightarrow> D r n l \<Longrightarrow> removes D v (v(r := None))"
  by (auto simp: removes_def)

lemma removes_back: "removes D v w \<Longrightarrow> w r = Some e \<Longrightarrow> v r = Some e"
  unfolding removes_def by (metis option.distinct(1))

lemma removes_not_None: "removes D v w \<Longrightarrow> v r = None \<Longrightarrow> w r = None"
  by (auto simp: removes_def dest: spec [of _ r])

lemma removes_kept: "removes D v w \<Longrightarrow> v r = Some (n, l) \<Longrightarrow> \<not> D r n l \<Longrightarrow> w r = Some (n, l)"
  by (auto simp: removes_def dest: spec [of _ r])

text \<open>A list answer: exactly the resources of one kind that satisfy the filter.\<close>

definition lists_matching ::
  "(string \<Rightarrow> rid) \<Rightarrow> ('x \<Rightarrow> string) \<Rightarrow> ('x \<Rightarrow> labels) \<Rightarrow> string list \<Rightarrow> store \<Rightarrow> 'x list \<Rightarrow> bool" where
  "lists_matching K idf labf fs v xs \<longleftrightarrow>
     distinct (map idf xs) \<and>
     (\<forall>x\<in>set xs. labels_of v (K (idf x)) = Some (labf x) \<and> list_all (match_term (labf x)) fs) \<and>
     (\<forall>i l. labels_of v (K i) = Some l \<longrightarrow> list_all (match_term l) fs \<longrightarrow>
        (\<exists>x\<in>set xs. idf x = i \<and> labf x = l))"

lemma lists_matchingD:
  "lists_matching K idf labf fs v xs \<Longrightarrow> x \<in> set xs \<Longrightarrow>
   labels_of v (K (idf x)) = Some (labf x) \<and> list_all (match_term (labf x)) fs"
  by (simp add: lists_matching_def)

lemma lists_matchingE:
  assumes "lists_matching K idf labf fs v xs" "labels_of v (K i) = Some l" "list_all (match_term l) fs"
  obtains x where "x \<in> set xs" "idf x = i" "labf x = l"
  using assms unfolding lists_matching_def by blast

text \<open>What a removal answers: success and not-found leave the resource gone, any other error is
  ambiguous.\<close>

definition removal :: "rid \<Rightarrow> store \<Rightarrow> gerr option \<Rightarrow> store \<Rightarrow> bool" where
  "removal r v res w \<longleftrightarrow>
     (w = v \<or> w = v(r := None)) \<and>
     (case res of None \<Rightarrow> w r = None | Some e \<Rightarrow> is_not_found e \<longrightarrow> w r = None)"

text \<open>What a container create may add: the container, and missing volumes it mounts, unlabelled.\<close>

definition container_creates ::
  "container_config \<Rightarrow> host_config \<Rightarrow> string \<Rightarrow> store \<Rightarrow> string \<times> gerr option \<Rightarrow> store \<Rightarrow> bool" where
  "container_creates cfg host n v res w \<longleftrightarrow>
     (\<forall>r e. v r = Some e \<longrightarrow> w r = Some e) \<and>
     (\<forall>r m l. w r = Some (m, l) \<longrightarrow> v r = None \<longrightarrow>
        (\<exists>i. r = Ctr i \<and> l = cc_labels cfg) \<or>
        (\<exists>mt\<in>set (hc_mounts host). m_type mt = ''volume'' \<and> r = Vol (m_source mt) \<and> l = Map.empty)) \<and>
     (snd res = None \<longrightarrow> v (Ctr (fst res)) = None \<and> labels_of w (Ctr (fst res)) = Some (cc_labels cfg))"

text \<open>
  Calls that change nothing an observer \<open>obs\<close> sees: lists, inspects, execs, waits, starts and stops,
  image calls.
\<close>

locale docker_reads =
  fixes c :: "'s client"
    and inv :: "'s \<Rightarrow> bool"
    and obs :: "'s \<Rightarrow> 'o"
  assumes rd_ctr_list: "inv s \<Longrightarrow> run_state (container_list c True fs) s = (rcl, s') \<Longrightarrow> inv s' \<and> obs s' = obs s"
    and rd_net_list: "inv s \<Longrightarrow> run_state (network_list c fs) s = (rnl, s') \<Longrightarrow> inv s' \<and> obs s' = obs s"
    and rd_vol_list: "inv s \<Longrightarrow> run_state (volume_list c fs) s = (rvl, s') \<Longrightarrow> inv s' \<and> obs s' = obs s"
    and rd_ctr_stop: "inv s \<Longrightarrow> run_state (container_stop c i) s = (r, s') \<Longrightarrow> inv s' \<and> obs s' = obs s"
    and rd_ctr_start: "inv s \<Longrightarrow> run_state (container_start c i) s = (r, s') \<Longrightarrow> inv s' \<and> obs s' = obs s"
    and rd_ctr_inspect: "inv s \<Longrightarrow> run_state (container_inspect c i) s = (rin, s') \<Longrightarrow> inv s' \<and> obs s' = obs s"
    and rd_exec_output: "inv s \<Longrightarrow> run_state (exec_output c i cmd) s = (reo, s') \<Longrightarrow> inv s' \<and> obs s' = obs s"
    and rd_exec_stream: "inv s \<Longrightarrow> run_state (exec_stream c i cmd a) s = (rei, s') \<Longrightarrow> inv s' \<and> obs s' = obs s"
    and rd_ctr_stats: "inv s \<Longrightarrow> run_state (container_stats c i) s = (rst, s') \<Longrightarrow> inv s' \<and> obs s' = obs s"
    and rd_ctr_logs: "inv s \<Longrightarrow> run_state (container_logs c i t) s = (rlo, s') \<Longrightarrow> inv s' \<and> obs s' = obs s"
    and rd_ctr_top: "inv s \<Longrightarrow> run_state (container_top c i) s = (rto, s') \<Longrightarrow> inv s' \<and> obs s' = obs s"
    and rd_ctr_wait: "inv s \<Longrightarrow> run_state (container_wait c i) s = (rw, s') \<Longrightarrow> inv s' \<and> obs s' = obs s"
    and rd_img_pull: "inv s \<Longrightarrow> run_state (image_pull c ref) s = (rip, s') \<Longrightarrow> inv s' \<and> obs s' = obs s"
    and rd_img_inspect: "inv s \<Longrightarrow> run_state (image_inspect c ref) s = (rii, s') \<Longrightarrow> inv s' \<and> obs s' = obs s"
    and rd_vol_inspect: "inv s \<Longrightarrow> run_state (volume_inspect c n) s = (rv, s') \<Longrightarrow> inv s' \<and> obs s' = obs s"

text \<open>The store itself: what lists answer, and what removals and creates do.\<close>

locale docker_store = docker_reads c inv view
  for c :: "'s client" and inv :: "'s \<Rightarrow> bool" and view :: "'s \<Rightarrow> store" +
  assumes net_unique: "inv s \<Longrightarrow> view s (Net i) = Some (n, l) \<Longrightarrow> view s (Net j) = Some (n, l') \<Longrightarrow> i = j"
    and vol_named: "inv s \<Longrightarrow> view s (Vol i) = Some (n, l) \<Longrightarrow> n = i"
    and ctr_list_ok: "inv s \<Longrightarrow> run_state (container_list c True fs) s = (Inr xs, s') \<Longrightarrow>
      lists_matching Ctr su_id su_labels fs (view s) xs"
    and net_list_ok: "inv s \<Longrightarrow> run_state (network_list c fs) s = (Inr ns, s') \<Longrightarrow>
      lists_matching Net ns_id ns_labels fs (view s) ns"
    and net_list_name: "inv s \<Longrightarrow> run_state (network_list c fs) s = (Inr ns, s') \<Longrightarrow> y \<in> set ns \<Longrightarrow>
      view s (Net (ns_id y)) = Some (ns_name y, ns_labels y)"
    and vol_list_ok: "inv s \<Longrightarrow> run_state (volume_list c fs) s = (Inr vs, s') \<Longrightarrow>
      lists_matching Vol vol_name vol_labels fs (view s) (List.map_filter id vs)"
    and ctr_remove: "inv s \<Longrightarrow> view s (Ctr i) \<noteq> None \<Longrightarrow>
      run_state (container_remove c i f rmv) s = (r, s') \<Longrightarrow> inv s' \<and> removal (Ctr i) (view s) r (view s')"
    and net_remove: "inv s \<Longrightarrow> view s (Net i) \<noteq> None \<Longrightarrow>
      run_state (network_remove c i) s = (r, s') \<Longrightarrow> inv s' \<and> removal (Net i) (view s) r (view s')"
    and vol_remove: "inv s \<Longrightarrow>
      run_state (volume_remove c n f) s = (r, s') \<Longrightarrow> inv s' \<and> removal (Vol n) (view s) r (view s')"
    and net_create: "inv s \<Longrightarrow> run_state (network_create c n internal l) s = ((i, r), s') \<Longrightarrow>
      inv s' \<and>
      (r = None \<longrightarrow> view s (Net i) = None \<and> (\<forall>j l'. view s (Net j) \<noteq> Some (n, l')) \<and>
         view s' = (view s)(Net i \<mapsto> (n, l))) \<and>
      (\<forall>e. r = Some e \<longrightarrow>
         (is_conflict e \<longrightarrow> view s' = view s \<and> (\<exists>j l'. view s (Net j) = Some (n, l'))) \<and>
         (view s' = view s \<or> (\<exists>j. view s (Net j) = None \<and> view s' = (view s)(Net j \<mapsto> (n, l)))))"
    and vol_create: "inv s \<Longrightarrow> n \<noteq> '''' \<Longrightarrow> run_state (volume_create c n l) s = (rv, s') \<Longrightarrow>
      inv s' \<and>
      (\<forall>v. rv = Inr v \<longrightarrow> vol_name v = n \<and>
         (case view s (Vol n) of
            Some (m, l') \<Rightarrow> vol_labels v = l' \<and> view s' = view s
          | None \<Rightarrow> vol_labels v = l \<and> view s' = (view s)(Vol n \<mapsto> (n, l)))) \<and>
      (\<forall>e. rv = Inl e \<longrightarrow> view s' = view s \<or> (view s (Vol n) = None \<and> view s' = (view s)(Vol n \<mapsto> (n, l))))"
    and vol_inspect_ok: "inv s \<Longrightarrow> run_state (volume_inspect c n) s = (Inr v, s') \<Longrightarrow>
      labels_of (view s) (Vol n) = Some (vol_labels v)"
    and ctr_create: "inv s \<Longrightarrow> run_state (container_create c cfg host n) s = (rc, s') \<Longrightarrow>
      inv s' \<and> container_creates cfg host n (view s) rc (view s')"

context docker_store begin

lemma ctr_list: "inv s \<Longrightarrow> run_state (container_list c True fs) s = (rcl, s') \<Longrightarrow>
    inv s' \<and> view s' = view s \<and> (\<forall>xs. rcl = Inr xs \<longrightarrow> lists_matching Ctr su_id su_labels fs (view s) xs)"
  using rd_ctr_list ctr_list_ok by blast

lemma net_list: "inv s \<Longrightarrow> run_state (network_list c fs) s = (rnl, s') \<Longrightarrow>
    inv s' \<and> view s' = view s \<and> (\<forall>ns. rnl = Inr ns \<longrightarrow> lists_matching Net ns_id ns_labels fs (view s) ns)"
  using rd_net_list net_list_ok by blast

lemma vol_list: "inv s \<Longrightarrow> run_state (volume_list c fs) s = (rvl, s') \<Longrightarrow>
    inv s' \<and> view s' = view s \<and>
    (\<forall>vs. rvl = Inr vs \<longrightarrow> lists_matching Vol vol_name vol_labels fs (view s) (List.map_filter id vs))"
  using rd_vol_list vol_list_ok by blast

end

end
