(* ===== verification/Sha256.thy ===== *)
theory Sha256
  imports Go_Strings "HOL-Library.Word"
begin

unbundle bit_operations_syntax

text \<open>
  \<open>crypto/sha256\<close> and \<open>encoding/hex\<close>, which the program uses for cache keys, alternate volume
  names and stamp names. Words are 32 bits wide, so \<open>+\<close> wraps as the algorithm wants.
\<close>

text \<open>
  The constants are the first 32 bits of the fractional parts of the cube roots of the first 64
  primes and of the square roots of the first eight; \<open>nat_root\<close> finds a root bit by bit.
\<close>

fun nat_root :: "nat \<Rightarrow> nat \<Rightarrow> nat \<Rightarrow> nat \<Rightarrow> nat" where
  "nat_root k n 0 a = a"
| "nat_root k n (Suc b) a = nat_root k n b (if (a + 2 ^ b) ^ k \<le> n then a + 2 ^ b else a)"

definition root_frac :: "nat \<Rightarrow> nat \<Rightarrow> 32 word" where
  "root_frac k p = of_nat (nat_root k (p * 2 ^ (32 * k)) 36 0)"

definition sha_primes :: "nat list" where
  "sha_primes =
   [2, 3, 5, 7, 11, 13, 17, 19, 23, 29, 31, 37, 41, 43, 47, 53, 59, 61, 67, 71, 73, 79, 83,
    89, 97, 101, 103, 107, 109, 113, 127, 131, 137, 139, 149, 151, 157, 163, 167, 173, 179,
    181, 191, 193, 197, 199, 211, 223, 227, 229, 233, 239, 241, 251, 257, 263, 269, 271, 277,
    281, 283, 293, 307, 311]"

lemma length_sha_primes [simp]: "length sha_primes = 64"
  by (simp add: sha_primes_def)

definition sha_k :: "32 word list" where
  "sha_k = map (root_frac 3) sha_primes"

definition sha_init :: "32 word list" where
  "sha_init = map (root_frac 2) (take 8 sha_primes)"

definition rotr :: "nat \<Rightarrow> 32 word \<Rightarrow> 32 word" where
  "rotr n x = drop_bit n x OR push_bit (32 - n) x"

text \<open>The message schedule, newest word first.\<close>

definition sched_step :: "32 word list \<Rightarrow> 32 word list" where
  "sched_step w =
     (let x = w ! 14; y = w ! 1;
          s0 = rotr 7 x XOR rotr 18 x XOR drop_bit 3 x;
          s1 = rotr 17 y XOR rotr 19 y XOR drop_bit 10 y
      in (w ! 15 + s0 + w ! 6 + s1) # w)"

definition schedule :: "32 word list \<Rightarrow> 32 word list" where
  "schedule ws = rev ((sched_step ^^ 48) (rev ws))"

fun sha_round :: "32 word list \<Rightarrow> 32 word \<times> 32 word \<Rightarrow> 32 word list" where
  "sha_round [a, b, c, d, e, f, g, h] (k, w) =
     (let s1 = rotr 6 e XOR rotr 11 e XOR rotr 25 e;
          ch = (e AND f) XOR (NOT e AND g);
          t1 = h + s1 + ch + k + w;
          s0 = rotr 2 a XOR rotr 13 a XOR rotr 22 a;
          maj = (a AND b) XOR (a AND c) XOR (b AND c)
      in [t1 + (s0 + maj), a, b, c, d + t1, e, f, g])"
| "sha_round st _ = st"

definition sha_block :: "32 word list \<Rightarrow> 32 word list \<Rightarrow> 32 word list" where
  "sha_block st ws = map2 (+) st (foldl sha_round st (zip sha_k (schedule ws)))"

definition be_bytes :: "nat \<Rightarrow> nat \<Rightarrow> nat list" where
  "be_bytes n x = map (\<lambda>i. x div 256 ^ (n - 1 - i) mod 256) [0..<n]"

definition sha_pad :: "nat list \<Rightarrow> nat list" where
  "sha_pad bs =
     (let n = length bs; z = (119 - n mod 64) mod 64
      in bs @ [128] @ replicate z 0 @ be_bytes 8 (8 * n))"

fun be_words :: "nat list \<Rightarrow> 32 word list" where
  "be_words (a # b # c # d # r) = of_nat (((a * 256 + b) * 256 + c) * 256 + d) # be_words r"
| "be_words _ = []"

fun sha_blocks :: "nat \<Rightarrow> 32 word list \<Rightarrow> 32 word list \<Rightarrow> 32 word list" where
  "sha_blocks 0 st ws = st"
| "sha_blocks (Suc n) st ws = sha_blocks n (sha_block st (take 16 ws)) (drop 16 ws)"

definition sha256_sum :: "string \<Rightarrow> nat list" where
  "sha256_sum s =
     (let p = sha_pad (map char_code s)
      in concat (map (\<lambda>w. be_bytes 4 (unat w)) (sha_blocks (length p div 64) sha_init (be_words p))))"

definition hex_encode :: "nat list \<Rightarrow> string" where
  "hex_encode bs = concat (map hex_byte bs)"

definition sha256_hex :: "string \<Rightarrow> string" where
  "sha256_hex s = hex_encode (sha256_sum s)"

lemma length_hex_encode [simp]: "length (hex_encode bs) = 2 * length bs"
  by (induction bs) (simp_all add: hex_encode_def hex_byte_def)

lemma length_be_bytes [simp]: "length (be_bytes n x) = n"
  by (simp add: be_bytes_def)

lemma length_sha_round [simp]: "length st = 8 \<Longrightarrow> length (sha_round st kw) = 8"
  by (cases "(st, kw)" rule: sha_round.cases) (simp_all add: Let_def)

lemma length_sha_rounds: "length st = 8 \<Longrightarrow> length (foldl sha_round st kws) = 8"
  by (induction kws arbitrary: st) simp_all

lemma length_sha_block [simp]: "length st = 8 \<Longrightarrow> length (sha_block st ws) = 8"
  by (simp add: sha_block_def length_sha_rounds)

lemma length_sha_blocks: "length st = 8 \<Longrightarrow> length (sha_blocks n st ws) = 8"
  by (induction n arbitrary: st ws) simp_all

text \<open>A digest is 32 bytes, so its hexadecimal form has 64 characters.\<close>

lemma length_sha256_sum [simp]: "length (sha256_sum s) = 32"
proof -
  have "length (sha_blocks n sha_init ws) = 8" for n ws
    by (rule length_sha_blocks) (simp add: sha_init_def)
  moreover have "length (concat (map (\<lambda>w. be_bytes 4 (unat w)) ws)) = 4 * length ws" for ws :: "32 word list"
    by (induction ws) simp_all
  ultimately show ?thesis by (simp add: sha256_sum_def Let_def)
qed

lemma length_sha256_hex [simp]: "length (sha256_hex s) = 64"
  by (simp add: sha256_hex_def)

definition is_hex_char :: "char \<Rightarrow> bool" where
  "is_hex_char c \<longleftrightarrow> is_digit c \<or> (97 \<le> char_code c \<and> char_code c \<le> 102)"

lemma is_hex_char_digit [simp]: "n < 16 \<Longrightarrow> is_hex_char (hex_digit n)"
  by (auto simp: is_hex_char_def hex_digit_def is_digit_def)

lemma hex_encode_chars: "list_all (\<lambda>b. b < 256) bs \<Longrightarrow> list_all is_hex_char (hex_encode bs)"
  by (induction bs) (auto simp: hex_encode_def hex_byte_def)

lemma be_bytes_range: "list_all (\<lambda>b. b < 256) (be_bytes n x)"
  by (simp add: be_bytes_def list_all_iff)

lemma sha256_hex_chars: "list_all is_hex_char (sha256_hex s)"
  unfolding sha256_hex_def sha256_sum_def Let_def
  by (rule hex_encode_chars) (simp add: list_all_iff be_bytes_range [unfolded list_all_iff])

lemma hex_digit_inj: "n < 16 \<Longrightarrow> m < 16 \<Longrightarrow> hex_digit n = hex_digit m \<longleftrightarrow> n = m"
  by (auto simp: hex_digit_def of_char_eq_iff simp flip: char_code_inj)

lemma hex_encode_inj:
  "list_all (\<lambda>b. b < 256) xs \<Longrightarrow> list_all (\<lambda>b. b < 256) ys \<Longrightarrow>
   hex_encode xs = hex_encode ys \<Longrightarrow> xs = ys"
proof (induction xs arbitrary: ys)
  case Nil
  then show ?case by (cases ys) (simp_all add: hex_encode_def hex_byte_def)
next
  case (Cons x xs)
  then obtain y ys' where ys: "ys = y # ys'"
    by (cases ys) (simp_all add: hex_encode_def hex_byte_def)
  have lt: "x div 16 < 16" "y div 16 < 16" using Cons.prems ys by auto
  have eq: "hex_digit (x div 16) = hex_digit (y div 16)" "hex_digit (x mod 16) = hex_digit (y mod 16)"
    "hex_encode xs = hex_encode ys'"
    using Cons.prems ys by (auto simp: hex_encode_def hex_byte_def)
  then have "x = y" using lt by (metis hex_digit_inj div_mult_mod_eq mod_less_divisor zero_less_numeral)
  then show ?case using Cons ys eq by auto
qed

end
