(* ===== verification/Fake_Docker.thy ===== *)
theory Fake_Docker
  imports Docker_API Sha256 "HOL-Library.AList"
begin

text \<open>
  The in-memory daemon \<open>FakeClient\<close> of \<open>internal/docker/fake.go\<close>, \<open>fake_logs.go\<close> and
  \<open>fake_dindio.go\<close>: its state, one transformer per method and the client record they form. Maps
  are lists in insertion order; the mutex is the atomicity of a method. The SDK's filter match
  and log framing are the fields of \<open>sdk\<close>. \<open>Fake_Store\<close> shows that the fake meets \<open>docker_store\<close>.
\<close>

section \<open>State\<close>

datatype log_stream = LogStdout | LogStderr

record sdk =
  sdk_match :: "string list \<Rightarrow> labels \<Rightarrow> bool"
  sdk_frame :: "log_stream \<Rightarrow> string \<Rightarrow> string"

record fake_log_entry =
  le_stream :: log_stream
  le_at :: time
  le_line :: string

record fake_container =
  fc_id :: string
  fc_name :: string
  fc_image :: string
  fc_labels :: labels
  fc_env :: "string list"
  fc_tmpfs :: "(string \<times> string) list"
  fc_tmpfs_mounts :: "(string \<times> string) list"
  fc_sysctls :: "(string \<times> string) list"
  fc_network_mode :: string
  fc_mounts :: "mount list"
  fc_cmd :: "string list"
  fc_privileged :: bool
  fc_runtime :: string
  fc_group_add :: "string list"
  fc_raw_runtime :: string
  fc_state :: string
  fc_oom_killed :: bool
  fc_exit_code :: int
  fc_finished_at :: "time option"
  fc_tty :: bool
  fc_logs :: "fake_log_entry list"
  fc_log_notify :: nat
  fc_log_driver :: string
  fc_processes :: "string list"
  fc_stats :: "(string \<times> 64 word) list"

record fake_network =
  fn_id :: string
  fn_name :: string
  fn_labels :: labels

record fake_volume =
  fv_name :: string
  fv_labels :: labels

record created_container =
  cr_name :: string
  cr_labels :: labels
  cr_entrypoint :: "string list"
  cr_cmd :: "string list"
  cr_mounts :: "mount list"
  cr_network_mode :: string
  cr_sysctls :: "(string \<times> string) list"

record exec_record =
  er_container :: string
  er_cmd :: "string list"
  er_stdin :: archive

record fake =
  fk_next_id :: nat
  fk_containers :: "fake_container list"
  fk_networks :: "fake_network list"
  fk_volumes :: "fake_volume list"
  fk_pulled :: "string list"
  fk_present :: "string list"
  fk_image_labels :: "(string \<times> labels) list"
  fk_pull_err :: "gerr option"
  fk_default_log_driver :: string
  fk_logs_err :: "gerr option"
  fk_exec_err :: "gerr option"
  fk_create_err :: "gerr option"
  fk_create_err_leaks :: bool
  fk_create_err_name :: string
  fk_exec_exit_code :: int
  fk_start_err :: "gerr option"
  fk_start_err_name :: string
  fk_host_lacks_ipv6 :: bool
  fk_ipv6_fails_at_create :: bool
  fk_ipv6_denied :: bool
  fk_inspect_err :: "gerr option"
  fk_remove_err :: "gerr option"
  fk_network_create_err :: "gerr option"
  fk_network_create_err_leaks :: bool
  fk_network_remove_err :: "gerr option"
  fk_volume_create_err :: "gerr option"
  fk_volume_remove_err :: "gerr option"
  fk_execs :: "exec_record list"
  fk_output_execs :: "exec_record list"
  fk_exec_output_text :: string
  fk_exec_output_exit :: int
  fk_exec_output_err :: "gerr option"
  fk_stats_err :: "gerr option"
  fk_created :: "created_container list"
  fk_batch_exit_code :: int
  fk_batch_wait_err :: "gerr option"
  fk_remove_order :: "string list"
  fk_now :: time

definition new_fake :: fake where
  "new_fake =
     \<lparr>fk_next_id = 0, fk_containers = [], fk_networks = [], fk_volumes = [], fk_pulled = [],
      fk_present = [], fk_image_labels = [], fk_pull_err = None, fk_default_log_driver = '''',
      fk_logs_err = None, fk_exec_err = None, fk_create_err = None, fk_create_err_leaks = False,
      fk_create_err_name = '''', fk_exec_exit_code = 0, fk_start_err = None, fk_start_err_name = '''',
      fk_host_lacks_ipv6 = False, fk_ipv6_fails_at_create = False, fk_ipv6_denied = False,
      fk_inspect_err = None, fk_remove_err = None, fk_network_create_err = None,
      fk_network_create_err_leaks = False, fk_network_remove_err = None,
      fk_volume_create_err = None, fk_volume_remove_err = None, fk_execs = [],
      fk_output_execs = [], fk_exec_output_text = '''', fk_exec_output_exit = 0,
      fk_exec_output_err = None, fk_stats_err = None, fk_created = [], fk_batch_exit_code = 0,
      fk_batch_wait_err = None, fk_remove_order = [], fk_now = 0\<rparr>"

section \<open>Lookups and helpers\<close>

definition find_by_name :: "fake \<Rightarrow> string \<Rightarrow> fake_container option" where
  "find_by_name f n = find (\<lambda>c. fc_name c = n) (fk_containers f)"

definition find_container :: "fake \<Rightarrow> string \<Rightarrow> fake_container option" where
  "find_container f i =
     (case find (\<lambda>c. fc_id c = i) (fk_containers f) of
        Some c \<Rightarrow> Some c
      | None \<Rightarrow> find_by_name f i)"

definition update_container :: "fake \<Rightarrow> fake_container \<Rightarrow> fake" where
  "update_container f c =
     f\<lparr>fk_containers := map (\<lambda>d. if fc_id d = fc_id c then c else d) (fk_containers f)\<rparr>"

definition find_network_by_id :: "fake \<Rightarrow> string \<Rightarrow> fake_network option" where
  "find_network_by_id f i = find (\<lambda>n. fn_id n = i) (fk_networks f)"

definition find_network_by_name :: "fake \<Rightarrow> string \<Rightarrow> fake_network option" where
  "find_network_by_name f n = find (\<lambda>x. fn_name x = n) (fk_networks f)"

definition find_network :: "fake \<Rightarrow> string \<Rightarrow> fake_network option" where
  "find_network f i =
     (case find_network_by_id f i of Some n \<Rightarrow> Some n | None \<Rightarrow> find_network_by_name f i)"

definition find_volume :: "fake \<Rightarrow> string \<Rightarrow> fake_volume option" where
  "find_volume f n = find (\<lambda>v. fv_name v = n) (fk_volumes f)"

text \<open>
  \<open>logNotify\<close> as the number of channels made so far: waking closes the current one and makes the next,
  so a follower that holds an older number is awake.
\<close>

definition wake_log_followers :: "fake_container \<Rightarrow> fake_container" where
  "wake_log_followers c = c\<lparr>fc_log_notify := Suc (fc_log_notify c)\<rparr>"

lemma wake_simps [simp]:
  "fc_id (wake_log_followers c) = fc_id c" "fc_name (wake_log_followers c) = fc_name c"
  "fc_labels (wake_log_followers c) = fc_labels c" "fc_state (wake_log_followers c) = fc_state c"
  "fc_mounts (wake_log_followers c) = fc_mounts c" "fc_network_mode (wake_log_followers c) = fc_network_mode c"
  "fc_tty (wake_log_followers c) = fc_tty c" "fc_logs (wake_log_followers c) = fc_logs c" "fc_log_notify (wake_log_followers c) = Suc (fc_log_notify c)"
  by (simp_all add: wake_log_followers_def)

definition joined_netns_owner :: "string \<Rightarrow> string option" where
  "joined_netns_owner mode =
     (if \<not> has_prefix mode ''container:'' \<or> drop 10 mode = '''' then None else Some (drop 10 mode))"

definition is_user_defined_network :: "string \<Rightarrow> bool" where
  "is_user_defined_network mode =
     (if joined_netns_owner mode \<noteq> None then False
      else mode \<notin> {'''', ''bridge'', ''host'', ''none'', ''default'', ''container''})"

definition normalize_runtime :: "string \<Rightarrow> string" where
  "normalize_runtime r = (if r = '''' then ''runc'' else r)"

definition runc_sysctl_error :: "string \<Rightarrow> string \<Rightarrow> gerr" where
  "runc_sysctl_error key reason =
     SystemErr (''failed to create task for container: failed to create shim task: OCI runtime create failed: runc create failed: unable to start container process: error during container init: open sysctl '' @
       key @ '' file: unsafe procfs detected: openat2 fsmount:fscontext:'' @
       ''proc/./sys/'' @ replace_all key ''.'' ''/'' @ '': '' @ reason)"

definition ipv6_sysctl_unsupported_error :: "string \<Rightarrow> gerr" where
  "ipv6_sysctl_unsupported_error key = runc_sysctl_error key ''no such file or directory''"

definition ipv6_sysctl_denied_error :: "string \<Rightarrow> gerr" where
  "ipv6_sysctl_denied_error key = runc_sysctl_error key ''permission denied''"

definition ipv6_sysctl_err :: "fake \<Rightarrow> string \<Rightarrow> gerr option" where
  "ipv6_sysctl_err f key =
     (if fk_host_lacks_ipv6 f then Some (ipv6_sysctl_unsupported_error key)
      else if fk_ipv6_denied f then Some (ipv6_sysctl_denied_error key)
      else None)"

definition ipv6_sysctl_key :: "host_config \<Rightarrow> string" where
  "ipv6_sysctl_key h =
     (case find (\<lambda>kv. has_prefix (fst kv) ''net.ipv6.'') (hc_sysctls h) of
        None \<Rightarrow> '''' | Some kv \<Rightarrow> fst kv)"

fun first_bad_tmpfs_option :: "string list list \<Rightarrow> string option" where
  "first_bad_tmpfs_option [] = None"
| "first_bad_tmpfs_option ([] # opts) = first_bad_tmpfs_option opts"
| "first_bad_tmpfs_option ((o1 # os) # opts) =
     (if o1 = ''uid'' \<or> o1 = ''gid'' then Some o1 else first_bad_tmpfs_option opts)"

fun reject_unsupported_tmpfs_mount :: "mount list \<Rightarrow> gerr option" where
  "reject_unsupported_tmpfs_mount [] = None"
| "reject_unsupported_tmpfs_mount (m # ms) =
     (if m_type m \<noteq> ''tmpfs'' then reject_unsupported_tmpfs_mount ms
      else (case first_bad_tmpfs_option (m_tmpfs_options m) of
              Some opt \<Rightarrow> Some (PlainErr (''invalid mount config for type '' @ quoted ''tmpfs'' @
                                    '': invalid option: '' @ opt))
            | None \<Rightarrow> reject_unsupported_tmpfs_mount ms))"

definition mount_points :: "fake_container \<Rightarrow> mount_point list" where
  "mount_points c =
     map (\<lambda>m. \<lparr>mp_type = m_type m, mp_name = m_source m, mp_destination = m_target m,
              mp_rw = (\<not> m_read_only m)\<rparr>) (fc_mounts c)"

definition to_container_json :: "fake_container \<Rightarrow> container_json" where
  "to_container_json c =
     \<lparr>cj_id = fc_id c,
      cj_name = CHR ''/'' # fc_name c,
      cj_state = Some
        \<lparr>cs_status = fc_state c, cs_running = (fc_state c = ''running''),
         cs_paused = False, cs_restarting = False,
         cs_dead = (fc_state c = ''dead''), cs_oom_killed = fc_oom_killed c,
         cs_exit_code = fc_exit_code c,
         cs_finished_at = (case fc_finished_at c of None \<Rightarrow> '''' | Some t \<Rightarrow> format_rfc3339_nano t),
         cs_error = ''''\<rparr>,
      cj_host = Some (empty_host
        \<lparr>hc_tmpfs := fc_tmpfs_mounts c, hc_privileged := fc_privileged c,
         hc_runtime := normalize_runtime (fc_runtime c), hc_group_add := fc_group_add c,
         hc_network_mode := fc_network_mode c\<rparr>),
      cj_config = Some \<lparr>cc_image = fc_image c, cc_env = fc_env c, cc_cmd = fc_cmd c,
         cc_entrypoint = [], cc_labels = fc_labels c, cc_tty = fc_tty c\<rparr>,
      cj_mounts = mount_points c,
      cj_networks = (if is_user_defined_network (fc_network_mode c)
                     then [(fc_network_mode c, ''10.240.0.2'')] else [])\<rparr>"

definition to_container_summary :: "fake_container \<Rightarrow> container_summary" where
  "to_container_summary c =
     \<lparr>su_id = fc_id c, su_names = [CHR ''/'' # fc_name c], su_image = fc_image c,
      su_labels = fc_labels c, su_state = fc_state c, su_status = fc_state c\<rparr>"

section \<open>Images and execs\<close>

definition fake_image_pull :: "string \<Rightarrow> fake \<Rightarrow> (gerr + gerr option) \<times> fake" where
  "fake_image_pull ref f0 =
     (let f = f0\<lparr>fk_pulled := fk_pulled f0 @ [ref]\<rparr>
      in case fk_pull_err f of
           Some e \<Rightarrow> (Inl e, f)
         | None \<Rightarrow> (Inr None, f\<lparr>fk_present := List.insert ref (fk_present f)\<rparr>))"

definition fake_image_id :: "string \<Rightarrow> string" where
  "fake_image_id ref = ''sha256:'' @ sha256_hex ref"

definition fake_image_inspect :: "string \<Rightarrow> fake \<Rightarrow> image_inspect res \<times> fake" where
  "fake_image_inspect ref f =
     (if ref \<notin> set (fk_present f) then (Inl (NotFoundErr (''image '' @ ref @ '' not found'')), f)
      else (Inr \<lparr>im_id = fake_image_id ref, im_labels = map_of (fk_image_labels f) ref\<rparr>, f))"

definition expected_credential_tar_extract_cmd :: "string list" where
  "expected_credential_tar_extract_cmd = [''tar'', ''-x'', ''-p'', ''-C'', ''/run/garm'']"

definition is_credential_tar_extract :: "string list \<Rightarrow> bool" where
  "is_credential_tar_extract cmd \<longleftrightarrow> cmd = expected_credential_tar_extract_cmd"

definition tar_failure_exit_code :: int where
  "tar_failure_exit_code = 2"

fun extract_tar_into_tmpfs :: "fake_container \<Rightarrow> archive \<Rightarrow> gerr option \<times> fake_container" where
  "extract_tar_into_tmpfs c (RawBytes b) = (Some (PlainErr ''archive/tar: invalid tar header''), c)"
| "extract_tar_into_tmpfs c (Tar es) =
     (None, c\<lparr>fc_tmpfs := foldl (\<lambda>m e. AList.update (te_name e) (te_data e) m) (fc_tmpfs c) es\<rparr>)"

definition fake_exec_stream :: "string \<Rightarrow> string list \<Rightarrow> archive \<Rightarrow> fake \<Rightarrow> int res \<times> fake" where
  "fake_exec_stream i cmd stdin f =
     (case fk_exec_err f of
        Some e \<Rightarrow> (Inl e, f)
      | None \<Rightarrow>
     (case find_container f i of
        None \<Rightarrow> (Inl (NotFoundErr (''container '' @ i @ '' not found'')), f)
      | Some c \<Rightarrow>
          if fc_state c \<noteq> ''running''
          then (Inl (PlainErr (''cannot exec in container '' @ i @ '': not running'')), f)
          else
            (let f1 = f\<lparr>fk_execs := fk_execs f @ [\<lparr>er_container = fc_id c, er_cmd = cmd, er_stdin = stdin\<rparr>]\<rparr>
             in if fk_exec_exit_code f1 \<noteq> 0 then (Inr (fk_exec_exit_code f1), f1)
                else if \<not> is_credential_tar_extract cmd
                then (Inl (PlainErr ''fake ExecStream only models `tar -x -C /run/garm`''), f1)
                else (case extract_tar_into_tmpfs c stdin of
                        (Some e, _) \<Rightarrow> (Inr tar_failure_exit_code, f1)
                      | (None, c') \<Rightarrow> (Inr 0, update_container f1 c')))))"

definition fake_exec_output :: "string \<Rightarrow> string list \<Rightarrow> fake \<Rightarrow> (string \<times> int) res \<times> fake" where
  "fake_exec_output i cmd f =
     (case fk_exec_output_err f of
        Some e \<Rightarrow> (Inl e, f)
      | None \<Rightarrow>
     (case find_container f i of
        None \<Rightarrow> (Inl (NotFoundErr (''container '' @ i @ '' not found'')), f)
      | Some c \<Rightarrow>
          if fc_state c \<noteq> ''running''
          then (Inl (PlainErr (''cannot exec in container '' @ i @ '': not running'')), f)
          else (Inr (fk_exec_output_text f, fk_exec_output_exit f),
                f\<lparr>fk_output_execs := fk_output_execs f @
                    [\<lparr>er_container = fc_id c, er_cmd = cmd, er_stdin = RawBytes []\<rparr>]\<rparr>)))"

definition fake_container_stats ::
  "string \<Rightarrow> fake \<Rightarrow> (gerr + (string \<times> 64 word) list) res \<times> fake" where
  "fake_container_stats i f =
     (case fk_stats_err f of
        Some e \<Rightarrow> (Inl e, f)
      | None \<Rightarrow>
     (case find_container f i of
        None \<Rightarrow> (Inl (NotFoundErr (''No such container: '' @ i)), f)
      | Some c \<Rightarrow>
          if fc_state c \<noteq> ''running'' \<and> fc_state c \<noteq> ''paused'' then (Inr (Inr []), f)
          else (case joined_netns_owner (fc_network_mode c) of
                  None \<Rightarrow> (Inr (Inr (fc_stats c)), f)
                | Some ref \<Rightarrow>
                    (case find_container f ref of
                       None \<Rightarrow> (Inr (Inr []), f)
                     | Some owner \<Rightarrow>
                         if fc_state owner \<noteq> ''running''
                         then (Inl (PlainErr ''invalid id: id is empty''), f)
                         else (Inr (Inr (fc_stats c)), f)))))"

record log_options =
  lo_stdout :: bool
  lo_stderr :: bool
  lo_timestamps :: bool
  lo_follow :: bool
  lo_tail :: string

definition tail_start :: "string \<Rightarrow> nat \<Rightarrow> nat" where
  "tail_start tail len =
     (case atoi tail of
        Inr n \<Rightarrow> if 0 \<le> n \<and> n < int len then len - nat n else 0
      | Inl _ \<Rightarrow> 0)"

text \<open>Up to the pump: which container is read, from which entry on.\<close>

definition open_logs :: "log_options \<Rightarrow> string \<Rightarrow> fake \<Rightarrow> (fake_container \<times> nat) res" where
  "open_logs opts i f =
     (case fk_logs_err f of
        Some e \<Rightarrow> Inl e
      | None \<Rightarrow>
          if \<not> lo_stdout opts \<and> \<not> lo_stderr opts
          then Inl (PlainErr ''bad parameters: you must choose at least one stream'')
          else
     (case find_container f i of
        None \<Rightarrow> Inl (NotFoundErr (''No such container: '' @ i))
      | Some c \<Rightarrow>
          if fc_log_driver c = ''none''
          then Inl (PlainErr ''configured logging driver does not support reading'')
          else Inr (c, tail_start (lo_tail opts) (length (fc_logs c)))))"

text \<open>What one entry adds to the body; an entry of a stream that was not chosen adds nothing.\<close>

definition write_log_entry :: "sdk \<Rightarrow> log_options \<Rightarrow> bool \<Rightarrow> fake_log_entry \<Rightarrow> string" where
  "write_log_entry k opts tty e =
     (if (case le_stream e of LogStdout \<Rightarrow> lo_stdout opts | LogStderr \<Rightarrow> lo_stderr opts)
      then (let line = (if lo_timestamps opts then format_rfc3339_nano (le_at e) @ '' '' else '''') @ le_line e
            in if tty then line else sdk_frame k (le_stream e) line)
      else '''')"

text \<open>
  \<open>ContainerLogs\<close> for the reads without follow, both streams and the last \<open>tail\<close> entries: the whole body.
  The pump that writes it, with and without follow, is in \<open>Fake_Logs\<close>.
\<close>

definition tail_options :: "string \<Rightarrow> log_options" where
  "tail_options tail =
     \<lparr>lo_stdout = True, lo_stderr = True, lo_timestamps = False, lo_follow = False, lo_tail = tail\<rparr>"

definition fake_container_logs :: "sdk \<Rightarrow> string \<Rightarrow> string \<Rightarrow> fake \<Rightarrow> string res \<times> fake" where
  "fake_container_logs k i tail f =
     (case open_logs (tail_options tail) i f of
        Inl e \<Rightarrow> (Inl e, f)
      | Inr (c, start) \<Rightarrow>
          (Inr (concat (map (write_log_entry k (tail_options tail) (fc_tty c)) (drop start (fc_logs c)))), f))"

definition top_titles :: "string list" where
  "top_titles = [''UID'', ''PID'', ''PPID'', ''C'', ''STIME'', ''TTY'', ''TIME'', ''CMD'']"

definition fake_container_top ::
  "string \<Rightarrow> fake \<Rightarrow> (string list \<times> string list list) res \<times> fake" where
  "fake_container_top i f =
     (case find_container f i of
        None \<Rightarrow> (Inl (NotFoundErr (''No such container: '' @ i)), f)
      | Some c \<Rightarrow>
          if fc_state c \<noteq> ''running''
          then (Inl (ConflictErr (''container '' @ fc_id c @ '' is not running'')), f)
          else (Inr (top_titles,
                  map (\<lambda>(n, cmd). [''1001'', nat_str (100 + n), ''1'', ''0'', ''00:00'', ''?'', ''00:00:00'', cmd])
                    (zip [0..<length (fc_processes c)] (fc_processes c))), f))"

section \<open>Containers\<close>

fun create_missing_volumes :: "mount list \<Rightarrow> fake \<Rightarrow> fake" where
  "create_missing_volumes [] f = f"
| "create_missing_volumes (m # ms) f =
     create_missing_volumes ms
       (if m_type m = ''volume'' \<and> m_source m \<noteq> '''' \<and> find_volume f (m_source m) = None
        then f\<lparr>fk_volumes := fk_volumes f @ [\<lparr>fv_name = m_source m, fv_labels = Map.empty\<rparr>]\<rparr>
        else f)"

definition record_container ::
  "container_config \<Rightarrow> host_config \<Rightarrow> string \<Rightarrow> fake \<Rightarrow> string \<times> fake" where
  "record_container cfg host container_name f0 =
     (let f1 = f0\<lparr>fk_next_id := fk_next_id f0 + 1\<rparr>;
          i = ''fake-'' @ nat_str (fk_next_id f1);
          name = (if container_name = '''' then i else container_name);
          driver = (if hc_log_driver host = '''' then fk_default_log_driver f1 else hc_log_driver host);
          c = \<lparr>fc_id = i, fc_name = name, fc_image = cc_image cfg, fc_labels = cc_labels cfg,
               fc_env = cc_env cfg, fc_tmpfs = [], fc_tmpfs_mounts = hc_tmpfs host,
               fc_sysctls = hc_sysctls host, fc_network_mode = hc_network_mode host,
               fc_mounts = hc_mounts host, fc_cmd = cc_cmd cfg, fc_privileged = hc_privileged host,
               fc_runtime = hc_runtime host, fc_group_add = hc_group_add host,
               fc_raw_runtime = hc_runtime host, fc_state = ''created'', fc_oom_killed = False,
               fc_exit_code = 0, fc_finished_at = None, fc_tty = cc_tty cfg, fc_logs = [], fc_log_notify = 0,
               fc_log_driver = driver, fc_processes = [], fc_stats = []\<rparr>;
          f2 = create_missing_volumes (hc_mounts host) f1;
          f3 = f2\<lparr>fk_containers := fk_containers f2 @ [c]\<rparr>;
          rec = \<lparr>cr_name = name, cr_labels = cc_labels cfg, cr_entrypoint = cc_entrypoint cfg,
                 cr_cmd = cc_cmd cfg, cr_mounts = hc_mounts host,
                 cr_network_mode = hc_network_mode host, cr_sysctls = hc_sysctls host\<rparr>
      in (i, f3\<lparr>fk_created := fk_created f3 @ [rec]\<rparr>))"

definition fake_container_create ::
  "container_config \<Rightarrow> host_config \<Rightarrow> string \<Rightarrow> fake \<Rightarrow> (string \<times> gerr option) \<times> fake" where
  "fake_container_create cfg host container_name f =
     (case reject_unsupported_tmpfs_mount (hc_mounts host) of
        Some e \<Rightarrow> (('''', Some e), f)
      | None \<Rightarrow>
     (let create_err = (if fk_create_err_name f \<noteq> '''' \<and> container_name \<noteq> fk_create_err_name f
                        then None else fk_create_err f);
          sysctl_err = (if fk_ipv6_fails_at_create f \<and> ipv6_sysctl_key host \<noteq> ''''
                        then ipv6_sysctl_err f (ipv6_sysctl_key host) else None)
      in if create_err \<noteq> None \<and> \<not> fk_create_err_leaks f then (('''', create_err), f)
         else if sysctl_err \<noteq> None then (('''', sysctl_err), f)
         else if create_err = None \<and> container_name \<noteq> '''' \<and> find_by_name f container_name \<noteq> None
         then (('''', Some (ConflictErr (''Conflict. The container name '' @
                 quoted (CHR ''/'' # container_name) @ '' is already in use''))), f)
         else (let (i, f') = record_container cfg host container_name f in ((i, create_err), f'))))"

definition first_sysctl_error :: "fake \<Rightarrow> (string \<times> string) list \<Rightarrow> gerr option" where
  "first_sysctl_error f kvs =
     (case find (\<lambda>kv. has_prefix (fst kv) ''net.ipv6.'' \<and> ipv6_sysctl_err f (fst kv) \<noteq> None) kvs of
        None \<Rightarrow> None | Some kv \<Rightarrow> ipv6_sysctl_err f (fst kv))"

definition missing_volume :: "fake \<Rightarrow> mount list \<Rightarrow> string option" where
  "missing_volume f ms =
     map_option m_source
       (find (\<lambda>m. m_type m = ''volume'' \<and> m_source m \<noteq> '''' \<and> find_volume f (m_source m) = None) ms)"

definition netns_error :: "fake \<Rightarrow> string \<Rightarrow> gerr option" where
  "netns_error f mode =
     (case joined_netns_owner mode of
        None \<Rightarrow> None
      | Some ref \<Rightarrow>
          (case find_container f ref of
             None \<Rightarrow> Some (NotFoundErr (''joining network namespace of container: No such container: '' @ ref))
           | Some owner \<Rightarrow>
               if fc_state owner \<noteq> ''running''
               then Some (ConflictErr (''cannot join network namespace of a non running container: container '' @
                      fc_name owner @ '' is '' @ fc_state owner))
               else None))"

definition fake_container_start :: "string \<Rightarrow> fake \<Rightarrow> gerr option \<times> fake" where
  "fake_container_start i f =
     (let co = find_container f i in
      if fk_start_err f \<noteq> None \<and>
         (fk_start_err_name f = '''' \<or> map_option fc_name co = Some (fk_start_err_name f))
      then (fk_start_err f, f)
      else (case co of
        None \<Rightarrow> (Some (NotFoundErr (''container '' @ i @ '' not found'')), f)
      | Some c \<Rightarrow>
     (case first_sysctl_error f (fc_sysctls c) of
        Some e \<Rightarrow> (Some e, f)
      | None \<Rightarrow>
          if is_user_defined_network (fc_network_mode c) \<and>
             find_network_by_name f (fc_network_mode c) = None \<and>
             find_network_by_id f (fc_network_mode c) = None
          then (Some (PlainErr (''failed to start container '' @ i @ '': network '' @
                  fc_network_mode c @ '' not found'')), f)
          else
     (case netns_error f (fc_network_mode c) of
        Some e \<Rightarrow> (Some e, f)
      | None \<Rightarrow>
     (case missing_volume f (fc_mounts c) of
        Some v \<Rightarrow> (Some (PlainErr (''failed to start container '' @ i @ '': volume '' @ v @ '' not found'')), f)
      | None \<Rightarrow> (None, update_container f (c\<lparr>fc_state := ''running''\<rparr>)))))))"

definition fake_container_stop :: "string \<Rightarrow> fake \<Rightarrow> gerr option \<times> fake" where
  "fake_container_stop i f =
     (case find_container f i of
        None \<Rightarrow> (Some (NotFoundErr (''container '' @ i @ '' not found'')), f)
      | Some c \<Rightarrow>
          (None, update_container f
                   (wake_log_followers (c\<lparr>fc_state := ''exited'', fc_finished_at := Some (fk_now f)\<rparr>))))"

definition fake_set_state :: "string \<Rightarrow> string \<Rightarrow> bool \<Rightarrow> fake \<Rightarrow> fake" where
  "fake_set_state i st oom f =
     (case find (\<lambda>c. fc_id c = i) (fk_containers f) of
        None \<Rightarrow> f
      | Some c \<Rightarrow>
          (let c1 = c\<lparr>fc_state := st, fc_oom_killed := oom\<rparr>
           in update_container f (wake_log_followers
                (if (st = ''exited'' \<or> st = ''dead'') \<and> fc_finished_at c1 = None
                 then c1\<lparr>fc_finished_at := Some (fk_now f)\<rparr> else c1))))"

definition fake_container_inspect :: "string \<Rightarrow> fake \<Rightarrow> container_json res \<times> fake" where
  "fake_container_inspect i f =
     (case fk_inspect_err f of
        Some e \<Rightarrow> (Inl e, f)
      | None \<Rightarrow>
     (case find_container f i of
        None \<Rightarrow> (Inl (NotFoundErr (''container '' @ i @ '' not found'')), f)
      | Some c \<Rightarrow> (Inr (to_container_json c), f)))"

definition fake_container_remove :: "string \<Rightarrow> fake \<Rightarrow> gerr option \<times> fake" where
  "fake_container_remove i f =
     (case fk_remove_err f of
        Some e \<Rightarrow> (Some e, f)
      | None \<Rightarrow>
     (case find_container f i of
        None \<Rightarrow> (Some (NotFoundErr (''container '' @ i @ '' not found'')), f)
      | Some c \<Rightarrow>
          (None, f\<lparr>fk_containers := filter (\<lambda>d. fc_id d \<noteq> fc_id c) (fk_containers f),
                   fk_remove_order := fk_remove_order f @ [''container:'' @ fc_id c]\<rparr>)))"

definition fake_container_list :: "sdk \<Rightarrow> string list \<Rightarrow> fake \<Rightarrow> container_summary list res \<times> fake" where
  "fake_container_list k fs f =
     (Inr (map to_container_summary (filter (\<lambda>c. sdk_match k fs (fc_labels c)) (fk_containers f))), f)"

definition fake_container_wait :: "string \<Rightarrow> fake \<Rightarrow> wait_answer \<times> fake" where
  "fake_container_wait i f =
     (case fk_batch_wait_err f of
        Some e \<Rightarrow> (WaitFailed e, f)
      | None \<Rightarrow>
     (case find_container f i of
        None \<Rightarrow> (WaitFailed (NotFoundErr (''container '' @ i @ '' not found'')), f)
      | Some c \<Rightarrow>
          (WaitEnded (fk_batch_exit_code f) None,
           if fc_state c = ''running'' \<or> fc_state c = ''created''
           then update_container f
                  (wake_log_followers (c\<lparr>fc_state := ''exited'',
                     fc_finished_at := (case fc_finished_at c of None \<Rightarrow> Some (fk_now f) | Some t \<Rightarrow> Some t)\<rparr>))
           else f)))"

section \<open>Networks\<close>

definition fake_network_create ::
  "string \<Rightarrow> labels \<Rightarrow> fake \<Rightarrow> (string \<times> gerr option) \<times> fake" where
  "fake_network_create name l f =
     (if fk_network_create_err f \<noteq> None \<and> \<not> fk_network_create_err_leaks f
      then (('''', fk_network_create_err f), f)
      else if find_network_by_name f name \<noteq> None
      then (('''', Some (ConflictErr (''network with name '' @ quoted name @ '' already exists''))), f)
      else
        (let f1 = f\<lparr>fk_next_id := fk_next_id f + 1\<rparr>;
             i = ''fake-net-'' @ nat_str (fk_next_id f1);
             f2 = f1\<lparr>fk_networks := fk_networks f1 @ [\<lparr>fn_id = i, fn_name = name, fn_labels = l\<rparr>]\<rparr>
         in ((i, fk_network_create_err f2), f2)))"

definition fake_network_remove :: "string \<Rightarrow> fake \<Rightarrow> gerr option \<times> fake" where
  "fake_network_remove i f =
     (case fk_network_remove_err f of
        Some e \<Rightarrow> (Some e, f)
      | None \<Rightarrow>
     (case find_network f i of
        None \<Rightarrow> (Some (NotFoundErr (''network '' @ i @ '' not found'')), f)
      | Some n \<Rightarrow>
          if list_ex (\<lambda>c. fc_network_mode c = fn_name n \<or> fc_network_mode c = fn_id n) (fk_containers f)
          then (Some (ForbiddenErr (''error while removing network: network '' @ fn_name n @ '' id '' @
                  fn_id n @ '' has active endpoints'')), f)
          else (None, f\<lparr>fk_networks := filter (\<lambda>m. fn_id m \<noteq> fn_id n) (fk_networks f),
                        fk_remove_order := fk_remove_order f @ [''network:'' @ fn_id n]\<rparr>)))"

definition fake_network_list :: "sdk \<Rightarrow> string list \<Rightarrow> fake \<Rightarrow> network_summary list res \<times> fake" where
  "fake_network_list k fs f =
     (Inr (map (\<lambda>n. \<lparr>ns_id = fn_id n, ns_name = fn_name n, ns_labels = fn_labels n\<rparr>)
        (filter (\<lambda>n. sdk_match k fs (fn_labels n)) (fk_networks f))), f)"

section \<open>Volumes\<close>

definition fake_volume_create :: "string \<Rightarrow> labels \<Rightarrow> fake \<Rightarrow> volume res \<times> fake" where
  "fake_volume_create name0 l f0 =
     (case fk_volume_create_err f0 of
        Some e \<Rightarrow> (Inl e, f0)
      | None \<Rightarrow>
     (let f = (if name0 = '''' then f0\<lparr>fk_next_id := fk_next_id f0 + 1\<rparr> else f0);
          name = (if name0 = '''' then ''fake-vol-'' @ nat_str (fk_next_id f) else name0)
      in case find_volume f name of
           Some v \<Rightarrow> (Inr \<lparr>vol_name = fv_name v, vol_labels = fv_labels v\<rparr>, f)
         | None \<Rightarrow>
             (Inr \<lparr>vol_name = name, vol_labels = l\<rparr>,
              f\<lparr>fk_volumes := fk_volumes f @ [\<lparr>fv_name = name, fv_labels = l\<rparr>]\<rparr>)))"

definition fake_volume_inspect :: "string \<Rightarrow> fake \<Rightarrow> volume res \<times> fake" where
  "fake_volume_inspect name f =
     (case find_volume f name of
        None \<Rightarrow> (Inl (NotFoundErr (''volume '' @ name @ '' not found'')), f)
      | Some v \<Rightarrow> (Inr \<lparr>vol_name = fv_name v, vol_labels = fv_labels v\<rparr>, f))"

definition volume_user :: "fake \<Rightarrow> string \<Rightarrow> fake_container option" where
  "volume_user f n =
     find (\<lambda>c. list_ex (\<lambda>m. m_type m = ''volume'' \<and> m_source m = n) (fc_mounts c)) (fk_containers f)"

definition fake_volume_remove :: "string \<Rightarrow> fake \<Rightarrow> gerr option \<times> fake" where
  "fake_volume_remove name f =
     (case fk_volume_remove_err f of
        Some e \<Rightarrow> (Some e, f)
      | None \<Rightarrow>
     (case find_volume f name of
        None \<Rightarrow> (Some (NotFoundErr (''volume '' @ name @ '' not found'')), f)
      | Some _ \<Rightarrow>
     (case volume_user f name of
        Some c \<Rightarrow> (Some (ConflictErr (''remove '' @ name @ '': volume is in use - ['' @ fc_id c @ '']'')), f)
      | None \<Rightarrow>
          (None, f\<lparr>fk_volumes := filter (\<lambda>v. fv_name v \<noteq> name) (fk_volumes f),
                   fk_remove_order := fk_remove_order f @ [''volume:'' @ name]\<rparr>))))"

definition fake_volume_list :: "sdk \<Rightarrow> string list \<Rightarrow> fake \<Rightarrow> volume option list res \<times> fake" where
  "fake_volume_list k fs f =
     (Inr (map (\<lambda>v. Some \<lparr>vol_name = fv_name v, vol_labels = fv_labels v\<rparr>)
        (filter (\<lambda>v. sdk_match k fs (fv_labels v)) (fk_volumes f))), f)"

section \<open>The client record\<close>

definition fake_client :: "sdk \<Rightarrow> fake client" where
  "fake_client k =
     \<lparr>image_pull = (\<lambda>ref. State (fake_image_pull ref)),
      image_inspect = (\<lambda>ref. State (fake_image_inspect ref)),
      container_create = (\<lambda>cfg host n. State (fake_container_create cfg host n)),
      container_start = (\<lambda>i. State (fake_container_start i)),
      container_stop = (\<lambda>i. State (fake_container_stop i)),
      container_inspect = (\<lambda>i. State (fake_container_inspect i)),
      container_remove = (\<lambda>i force rmvols. State (fake_container_remove i)),
      container_list = (\<lambda>allc fs. State (fake_container_list k fs)),
      container_wait = (\<lambda>i. State (fake_container_wait i)),
      exec_stream = (\<lambda>i cmd a. State (fake_exec_stream i cmd a)),
      exec_output = (\<lambda>i cmd. State (fake_exec_output i cmd)),
      container_stats = (\<lambda>i. State (fake_container_stats i)),
      container_logs = (\<lambda>i tail. State (fake_container_logs k i tail)),
      container_top = (\<lambda>i. State (fake_container_top i)),
      network_create = (\<lambda>n internal l. State (fake_network_create n l)),
      network_remove = (\<lambda>i. State (fake_network_remove i)),
      network_list = (\<lambda>fs. State (fake_network_list k fs)),
      volume_create = (\<lambda>n l. State (fake_volume_create n l)),
      volume_inspect = (\<lambda>n. State (fake_volume_inspect n)),
      volume_remove = (\<lambda>n force. State (fake_volume_remove n)),
      volume_list = (\<lambda>fs. State (fake_volume_list k fs))\<rparr>"

end
