(* ===== verification/Fake_Store.thy ===== *)
theory Fake_Store
  imports Fake_Docker
begin

text \<open>
  The fake daemon meets the contract \<open>docker_store\<close>. \<open>fake_view\<close> is its abstraction function,
  \<open>fake_inv\<close> its invariant (fresh and distinct IDs, unique network and volume names, and an
  injected network create error is not itself a conflict), which every operation keeps.
\<close>

section \<open>Keyed lists\<close>

lemma find_key_Some:
  "distinct (map k xs) \<Longrightarrow> find (\<lambda>x. k x = i) xs = Some x \<longleftrightarrow> x \<in> set xs \<and> k x = i"
  by (induction xs) auto

lemma find_key_None: "find (\<lambda>x. k x = i) xs = None \<longleftrightarrow> i \<notin> k ` set xs"
  by (induction xs) auto

lemma find_key_filter:
  "find (\<lambda>x. k x = i) (filter (\<lambda>x. k x \<noteq> j) xs) = (if i = j then None else find (\<lambda>x. k x = i) xs)"
  by (induction xs) auto

lemma find_key_append:
  "find P (xs @ ys) = (case find P xs of None \<Rightarrow> find P ys | Some x \<Rightarrow> Some x)"
  by (induction xs) auto

lemma find_key_snoc:
  "k c \<notin> k ` set xs \<Longrightarrow> find (\<lambda>x. k x = i) (xs @ [c]) = (if i = k c then Some c else find (\<lambda>x. k x = i) xs)"
  by (induction xs) auto

lemma find_SomeD: "find P xs = Some x \<Longrightarrow> x \<in> set xs \<and> P x"
  by (induction xs) (auto split: if_splits)

lemma map_upd_absent: "j \<notin> k ` set xs \<Longrightarrow> map (\<lambda>x. if k x = j then c else x) xs = xs"
  by (induction xs) auto

lemma find_key_upd:
  assumes "k c = j" and "d \<in> set xs" "k d = j" "distinct (map k xs)" "g c = g d"
  shows "map_option g (find (\<lambda>x. k x = i) (map (\<lambda>x. if k x = j then c else x) xs)) =
         map_option g (find (\<lambda>x. k x = i) xs)"
  using assms(2-) by (induction xs) (use assms(1) in \<open>auto simp: map_upd_absent\<close>)

lemma map_key_upd: "k c = j \<Longrightarrow> map k (map (\<lambda>x. if k x = j then c else x) xs) = map k xs"
  by (induction xs) auto

section \<open>View and invariant\<close>

definition fake_view :: "fake \<Rightarrow> store" where
  "fake_view f r =
     (case r of
        Ctr i \<Rightarrow> map_option (\<lambda>c. (fc_name c, fc_labels c)) (find (\<lambda>c. fc_id c = i) (fk_containers f))
      | Net i \<Rightarrow> map_option (\<lambda>n. (fn_name n, fn_labels n)) (find (\<lambda>n. fn_id n = i) (fk_networks f))
      | Vol n \<Rightarrow> map_option (\<lambda>v. (fv_name v, fv_labels v)) (find (\<lambda>v. fv_name v = n) (fk_volumes f)))"

text \<open>An injected error does not claim what only the store's content may say.\<close>

definition fake_faults_ok :: "fake \<Rightarrow> bool" where
  "fake_faults_ok f \<longleftrightarrow>
     (\<forall>e. fk_network_create_err f = Some e \<longrightarrow> \<not> is_conflict e) \<and>
     (\<forall>e. fk_remove_err f = Some e \<longrightarrow> \<not> is_not_found e) \<and>
     (\<forall>e. fk_network_remove_err f = Some e \<longrightarrow> \<not> is_not_found e) \<and>
     (\<forall>e. fk_volume_remove_err f = Some e \<longrightarrow> \<not> is_not_found e)"

definition fake_inv :: "fake \<Rightarrow> bool" where
  "fake_inv f \<longleftrightarrow>
     distinct (map fc_id (fk_containers f)) \<and>
     distinct (map fn_id (fk_networks f)) \<and>
     distinct (map fn_name (fk_networks f)) \<and>
     distinct (map fv_name (fk_volumes f)) \<and>
     list_all (\<lambda>i. \<exists>n \<le> fk_next_id f. i = ''fake-'' @ nat_str n) (map fc_id (fk_containers f)) \<and>
     list_all (\<lambda>i. \<exists>n \<le> fk_next_id f. i = ''fake-net-'' @ nat_str n) (map fn_id (fk_networks f)) \<and>
     fake_faults_ok f"

lemma fake_inv_new [simp]: "fake_inv new_fake"
  by (simp add: fake_inv_def fake_faults_ok_def new_fake_def)

lemma fake_view_cong:
  "fk_containers f = fk_containers g \<Longrightarrow> fk_networks f = fk_networks g \<Longrightarrow> fk_volumes f = fk_volumes g \<Longrightarrow>
   fake_view f = fake_view g"
  by (rule ext) (simp add: fake_view_def split: rid.split)

lemma fake_inv_cong:
  "fk_containers f = fk_containers g \<Longrightarrow> fk_networks f = fk_networks g \<Longrightarrow> fk_volumes f = fk_volumes g \<Longrightarrow>
   fk_next_id f = fk_next_id g \<Longrightarrow> fake_faults_ok f = fake_faults_ok g \<Longrightarrow>
   fake_inv f = fake_inv g"
  by (simp add: fake_inv_def)

lemma find_containerD: "find_container f i = Some c \<Longrightarrow> c \<in> set (fk_containers f)"
  by (auto simp: find_container_def find_by_name_def split: option.splits dest!: find_SomeD)

lemma find_container_by_id:
  "fake_view f (Ctr i) \<noteq> None \<Longrightarrow> find_container f i = find (\<lambda>c. fc_id c = i) (fk_containers f)"
  by (auto simp: fake_view_def find_container_def)

lemma update_container_same:
  assumes "fake_inv f" "find_container f i = Some c" "fc_id d = fc_id c" "fc_name d = fc_name c"
    "fc_labels d = fc_labels c"
  shows "fake_inv (update_container f d)" "fake_view (update_container f d) = fake_view f"
proof -
  have c: "c \<in> set (fk_containers f)" using assms(2) by (rule find_containerD)
  have m: "map fc_id (map (\<lambda>x. if fc_id x = fc_id d then d else x) (fk_containers f)) = map fc_id (fk_containers f)"
    by (rule map_key_upd) simp
  have "fake_inv (f\<lparr>fk_containers := xs\<rparr>)" if "map fc_id xs = map fc_id (fk_containers f)" for xs
    using assms(1) that unfolding fake_inv_def fake_faults_ok_def by simp
  from this [OF m] show "fake_inv (update_container f d)" by (simp add: update_container_def)
  have "map_option (\<lambda>c. (fc_name c, fc_labels c))
      (find (\<lambda>c. fc_id c = j) (map (\<lambda>x. if fc_id x = fc_id d then d else x) (fk_containers f))) =
    map_option (\<lambda>c. (fc_name c, fc_labels c)) (find (\<lambda>c. fc_id c = j) (fk_containers f))" for j
    by (rule find_key_upd [where d = c]) (use assms c in \<open>auto simp: fake_inv_def\<close>)
  then show "fake_view (update_container f d) = fake_view f"
    by (intro ext) (simp add: fake_view_def update_container_def split: rid.split)
qed

section \<open>Reads and state changes that keep the view\<close>

named_theorems fake_keep

lemma order_update_container [simp]: "fk_remove_order (update_container f c) = fk_remove_order f"
  by (simp add: update_container_def)

lemma fake_image_pull_keep [fake_keep]:
  "fake_inv f \<Longrightarrow> fake_image_pull x f = (r, g) \<Longrightarrow> fake_inv g \<and> fake_view g = fake_view f \<and> fk_remove_order g = fk_remove_order f"
  by (auto simp: fake_image_pull_def Let_def fake_inv_def fake_faults_ok_def split: option.splits intro!: fake_view_cong)

lemma fake_image_inspect_keep [fake_keep]:
  "fake_inv f \<Longrightarrow> fake_image_inspect x f = (r, g) \<Longrightarrow> fake_inv g \<and> fake_view g = fake_view f \<and> fk_remove_order g = fk_remove_order f"
  by (auto simp: fake_image_inspect_def split: if_splits)

lemma fake_exec_stream_keep [fake_keep]:
  assumes "fake_inv f" "fake_exec_stream i cmd a f = (r, g)"
  shows "fake_inv g \<and> fake_view g = fake_view f \<and> fk_remove_order g = fk_remove_order f"
proof -
  have upd: "fake_inv (h\<lparr>fk_execs := x\<rparr>)" "fake_view (h\<lparr>fk_execs := x\<rparr>) = fake_view h"
    "find_container (h\<lparr>fk_execs := x\<rparr>) j = find_container h j" if "fake_inv h" for h x j
    using that by (auto simp: fake_inv_def fake_faults_ok_def find_container_def find_by_name_def intro: fake_view_cong cong: option.case_cong)
  have "fc_id c' = fc_id c \<and> fc_name c' = fc_name c \<and> fc_labels c' = fc_labels c"
    if "extract_tar_into_tmpfs c a = (None, c')" for c c'
    using that by (cases a) auto
  then show ?thesis
    using assms update_container_same [OF upd(1) [OF assms(1)], unfolded upd(2,3) [OF assms(1)]]
    by (auto simp: fake_exec_stream_def Let_def upd [OF assms(1)] split: option.splits if_splits prod.splits)
qed

lemma fake_exec_output_keep [fake_keep]:
  "fake_inv f \<Longrightarrow> fake_exec_output i cmd f = (r, g) \<Longrightarrow> fake_inv g \<and> fake_view g = fake_view f \<and> fk_remove_order g = fk_remove_order f"
  by (auto simp: fake_exec_output_def fake_inv_def fake_faults_ok_def split: option.splits if_splits intro!: fake_view_cong)

lemma fake_container_stats_keep [fake_keep]:
  "fake_inv f \<Longrightarrow> fake_container_stats i f = (r, g) \<Longrightarrow> fake_inv g \<and> fake_view g = fake_view f \<and> fk_remove_order g = fk_remove_order f"
  by (auto simp: fake_container_stats_def split: option.splits if_splits)

lemma fake_container_logs_keep [fake_keep]:
  "fake_inv f \<Longrightarrow> fake_container_logs k i t f = (r, g) \<Longrightarrow> fake_inv g \<and> fake_view g = fake_view f \<and> fk_remove_order g = fk_remove_order f"
  by (auto simp: fake_container_logs_def Let_def split: sum.splits prod.splits option.splits if_splits)

lemma fake_container_start_keep [fake_keep]:
  assumes "fake_inv f" "fake_container_start i f = (r, g)"
  shows "fake_inv g \<and> fake_view g = fake_view f \<and> fk_remove_order g = fk_remove_order f"
  using assms update_container_same [OF assms(1)]
  by (auto simp: fake_container_start_def Let_def split: option.splits if_splits)

lemma fake_container_stop_keep [fake_keep]:
  assumes "fake_inv f" "fake_container_stop i f = (r, g)"
  shows "fake_inv g \<and> fake_view g = fake_view f \<and> fk_remove_order g = fk_remove_order f"
  using assms update_container_same [OF assms(1)]
  by (auto simp: fake_container_stop_def split: option.splits)

lemma fake_container_wait_keep [fake_keep]:
  assumes "fake_inv f" "fake_container_wait i f = (r, g)"
  shows "fake_inv g \<and> fake_view g = fake_view f \<and> fk_remove_order g = fk_remove_order f"
  using assms update_container_same [OF assms(1)]
  by (auto simp: fake_container_wait_def split: option.splits if_splits)

lemma fake_container_inspect_keep [fake_keep]:
  "fake_inv f \<Longrightarrow> fake_container_inspect i f = (r, g) \<Longrightarrow> fake_inv g \<and> fake_view g = fake_view f \<and> fk_remove_order g = fk_remove_order f"
  by (auto simp: fake_container_inspect_def split: option.splits)

section \<open>Lists\<close>

lemma lists_matching_find:
  assumes "distinct (map k ys)" "\<And>i. labels_of v (K i) = map_option lab (find (\<lambda>y. k y = i) ys)"
    and "\<And>y. idf (s y) = k y" "\<And>y. labf (s y) = lab y"
    and "xs = map s (filter (\<lambda>y. list_all (match_term (lab y)) fs) ys)"
  shows "lists_matching K idf labf fs v xs"
proof -
  have "labels_of v (K (k y)) = Some (lab y)" if "y \<in> set ys" for y
    using that assms(1,2) find_key_Some [of k ys "k y" y] by auto
  moreover have "\<exists>y\<in>set ys. k y = i \<and> lab y = l" if "labels_of v (K i) = Some l" for i l
    using that assms(2) by (auto dest!: find_SomeD)
  moreover have "distinct (map idf xs)"
    using assms(1,3) unfolding assms(5) by (auto simp: distinct_map inj_on_def)
  ultimately show ?thesis
    unfolding lists_matching_def using assms(3-5) by fastforce
qed

lemma map_filter_id_Some [simp]: "List.map_filter id (map (\<lambda>x. Some (g x)) xs) = map g xs"
  by (induction xs) (simp_all add: List.map_filter_simps)

lemma labels_of_fake_view [simp]:
  "labels_of (fake_view f) (Ctr i) = map_option fc_labels (find (\<lambda>c. fc_id c = i) (fk_containers f))"
  "labels_of (fake_view f) (Net i) = map_option fn_labels (find (\<lambda>c. fn_id c = i) (fk_networks f))"
  "labels_of (fake_view f) (Vol i) = map_option fv_labels (find (\<lambda>c. fv_name c = i) (fk_volumes f))"
  by (simp_all add: labels_of_def fake_view_def option.map_comp comp_def)

lemma fake_container_list_ok:
  assumes "match_kv_ok (sdk_match k)" "fake_inv f" "fake_container_list k fs f = (r, g)"
  shows "g = f" "r = Inr xs \<Longrightarrow> lists_matching Ctr su_id su_labels fs (fake_view f) xs"
proof -
  show "g = f" using assms(3) by (simp add: fake_container_list_def)
  show "lists_matching Ctr su_id su_labels fs (fake_view f) xs" if "r = Inr xs"
    by (rule lists_matching_find [where k = fc_id and lab = fc_labels and s = to_container_summary
          and ys = "fk_containers f"])
       (use assms that in \<open>auto simp: fake_inv_def to_container_summary_def fake_container_list_def match_kv_okD\<close>)
qed

lemma fake_network_list_ok:
  assumes "match_kv_ok (sdk_match k)" "fake_inv f" "fake_network_list k fs f = (r, g)"
  shows "g = f" "r = Inr xs \<Longrightarrow> lists_matching Net ns_id ns_labels fs (fake_view f) xs"
    "r = Inr xs \<Longrightarrow> x \<in> set xs \<Longrightarrow> fake_view f (Net (ns_id x)) = Some (ns_name x, ns_labels x)"
proof -
  show "g = f" using assms(3) by (simp add: fake_network_list_def)
  show "lists_matching Net ns_id ns_labels fs (fake_view f) xs" if "r = Inr xs"
    by (rule lists_matching_find [where k = fn_id and lab = fn_labels and ys = "fk_networks f"
          and s = "\<lambda>n. \<lparr>ns_id = fn_id n, ns_name = fn_name n, ns_labels = fn_labels n\<rparr>"])
       (use assms that in \<open>auto simp: fake_inv_def fake_network_list_def match_kv_okD\<close>)
  have "find (\<lambda>m. fn_id m = fn_id n) (fk_networks f) = Some n" if "n \<in> set (fk_networks f)" for n
    using that assms(2) find_key_Some [of fn_id "fk_networks f" "fn_id n" n] by (simp add: fake_inv_def)
  then show "fake_view f (Net (ns_id x)) = Some (ns_name x, ns_labels x)" if "r = Inr xs" "x \<in> set xs"
    using that assms(3) by (auto simp: fake_network_list_def fake_view_def)
qed

lemma fake_volume_list_ok:
  assumes "match_kv_ok (sdk_match k)" "fake_inv f" "fake_volume_list k fs f = (r, g)"
  shows "g = f" "r = Inr xs \<Longrightarrow> lists_matching Vol vol_name vol_labels fs (fake_view f) (List.map_filter id xs)"
proof -
  show "g = f" using assms(3) by (simp add: fake_volume_list_def)
  show "lists_matching Vol vol_name vol_labels fs (fake_view f) (List.map_filter id xs)" if "r = Inr xs"
    by (rule lists_matching_find [where k = fv_name and lab = fv_labels and ys = "fk_volumes f"
          and s = "\<lambda>v. \<lparr>vol_name = fv_name v, vol_labels = fv_labels v\<rparr>"])
       (use assms that in \<open>auto simp: fake_inv_def fake_volume_list_def match_kv_okD\<close>)
qed

section \<open>Removals\<close>

lemma fake_container_remove_ok:
  assumes inv: "fake_inv f" and v: "fake_view f (Ctr i) \<noteq> None"
    and run: "fake_container_remove i f = (r, g)"
  shows "fake_inv g \<and> removal (Ctr i) (fake_view f) r (fake_view g)"
proof -
  obtain c where c: "find (\<lambda>c. fc_id c = i) (fk_containers f) = Some c" "fc_id c = i"
    using v by (auto simp: fake_view_def dest: find_SomeD)
  have fc: "find_container f i = Some c" using find_container_by_id [OF v] c by simp
  have "fake_inv (f\<lparr>fk_containers := filter (\<lambda>d. fc_id d \<noteq> i) (fk_containers f), fk_remove_order := x\<rparr>)" for x
    using inv by (auto simp: fake_inv_def fake_faults_ok_def distinct_map inj_on_def list_all_iff)
  moreover have "fake_view (f\<lparr>fk_containers := filter (\<lambda>d. fc_id d \<noteq> i) (fk_containers f), fk_remove_order := x\<rparr>)
      = (fake_view f)(Ctr i := None)" for x
    by (rule ext) (auto simp: fake_view_def find_key_filter split: rid.split)
  ultimately show ?thesis
    using run fc c inv
    by (auto simp: fake_container_remove_def removal_def fake_inv_def fake_faults_ok_def split: option.splits)
qed

lemma fake_network_remove_ok:
  assumes inv: "fake_inv f" and v: "fake_view f (Net i) \<noteq> None"
    and run: "fake_network_remove i f = (r, g)"
  shows "fake_inv g \<and> removal (Net i) (fake_view f) r (fake_view g)"
proof -
  obtain n where n: "find (\<lambda>n. fn_id n = i) (fk_networks f) = Some n" "fn_id n = i"
    using v by (auto simp: fake_view_def dest: find_SomeD)
  have fn: "find_network f i = Some n" using n by (simp add: find_network_def find_network_by_id_def)
  have "fake_inv (f\<lparr>fk_networks := filter (\<lambda>d. fn_id d \<noteq> i) (fk_networks f), fk_remove_order := x\<rparr>)" for x
    using inv by (auto simp: fake_inv_def fake_faults_ok_def distinct_map inj_on_def list_all_iff)
  moreover have "fake_view (f\<lparr>fk_networks := filter (\<lambda>d. fn_id d \<noteq> i) (fk_networks f), fk_remove_order := x\<rparr>)
      = (fake_view f)(Net i := None)" for x
    by (rule ext) (auto simp: fake_view_def find_key_filter split: rid.split)
  ultimately show ?thesis
    using run fn n inv
    by (auto simp: fake_network_remove_def removal_def fake_inv_def fake_faults_ok_def
        split: option.splits if_splits)
qed

lemma fake_volume_remove_ok:
  assumes inv: "fake_inv f" and run: "fake_volume_remove n f = (r, g)"
  shows "fake_inv g \<and> removal (Vol n) (fake_view f) r (fake_view g)"
proof -
  have "fake_inv (f\<lparr>fk_volumes := filter (\<lambda>d. fv_name d \<noteq> n) (fk_volumes f), fk_remove_order := x\<rparr>)" for x
    using inv by (auto simp: fake_inv_def fake_faults_ok_def distinct_map inj_on_def list_all_iff)
  moreover have "fake_view (f\<lparr>fk_volumes := filter (\<lambda>d. fv_name d \<noteq> n) (fk_volumes f), fk_remove_order := x\<rparr>)
      = (fake_view f)(Vol n := None)" for x
    by (rule ext) (auto simp: fake_view_def find_key_filter split: rid.split)
  moreover have "find_volume f n = None \<Longrightarrow> fake_view f (Vol n) = None"
    by (simp add: find_volume_def fake_view_def)
  ultimately show ?thesis
    using run inv
    by (auto simp: fake_volume_remove_def removal_def fake_inv_def fake_faults_ok_def split: option.splits)
qed

section \<open>Creations\<close>

lemma fresh_id:
  assumes "list_all (\<lambda>i. \<exists>n \<le> N. i = p @ nat_str n) xs"
  shows "p @ nat_str (Suc N) \<notin> set xs" "list_all (\<lambda>i. \<exists>n \<le> Suc N. i = p @ nat_str n) xs"
  using assms by (fastforce simp: list_all_iff le_Suc_eq)+

lemma fake_network_create_ok:
  assumes inv: "fake_inv f" and run: "fake_network_create n l f = ((i, r), g)"
  shows "fake_inv g \<and>
      (r = None \<longrightarrow> fake_view f (Net i) = None \<and> (\<forall>j l'. fake_view f (Net j) \<noteq> Some (n, l')) \<and>
         fake_view g = (fake_view f)(Net i \<mapsto> (n, l))) \<and>
      (\<forall>e. r = Some e \<longrightarrow>
         (is_conflict e \<longrightarrow> fake_view g = fake_view f \<and> (\<exists>j l'. fake_view f (Net j) = Some (n, l'))) \<and>
         (fake_view g = fake_view f \<or>
          (\<exists>j. fake_view f (Net j) = None \<and> fake_view g = (fake_view f)(Net j \<mapsto> (n, l)))))"
proof -
  define i' where "i' = ''fake-net-'' @ nat_str (Suc (fk_next_id f))"
  define h where "h = f\<lparr>fk_next_id := Suc (fk_next_id f),
    fk_networks := fk_networks f @ [\<lparr>fn_id = i', fn_name = n, fn_labels = l\<rparr>]\<rparr>"
  have fr: "i' \<notin> set (map fn_id (fk_networks f))"
    "list_all (\<lambda>j. \<exists>m \<le> Suc (fk_next_id f). j = ''fake-net-'' @ nat_str m) (map fn_id (fk_networks f))"
    "list_all (\<lambda>j. \<exists>m \<le> Suc (fk_next_id f). j = ''fake-'' @ nat_str m) (map fc_id (fk_containers f))"
    using inv fresh_id [of "fk_next_id f" "''fake-net-''" "map fn_id (fk_networks f)"]
      fresh_id [of "fk_next_id f" "''fake-''" "map fc_id (fk_containers f)"]
    unfolding i'_def fake_inv_def by auto
  have none: "find_network_by_name f n \<noteq> None \<Longrightarrow> \<exists>j l'. fake_view f (Net j) = Some (n, l')"
  proof -
    assume "find_network_by_name f n \<noteq> None"
    then obtain x where x: "x \<in> set (fk_networks f)" "fn_name x = n"
      by (auto simp: find_network_by_name_def dest: find_SomeD)
    then have "fake_view f (Net (fn_id x)) = Some (n, fn_labels x)"
      using inv by (auto simp: fake_view_def fake_inv_def find_key_Some)
    then show ?thesis by blast
  qed
  have some: "find_network_by_name f n = None \<Longrightarrow> fake_view f (Net j) \<noteq> Some (n, l')" for j l'
    by (auto simp: find_network_by_name_def find_key_None fake_view_def dest!: find_SomeD)
  have hinv: "fake_inv h" if "find_network_by_name f n = None"
    using inv fr that
    by (auto simp: fake_inv_def fake_faults_ok_def h_def i'_def find_network_by_name_def find_key_None)
  have hview: "fake_view h = (fake_view f)(Net i' \<mapsto> (n, l))"
    using fr(1)
    by (intro ext) (auto simp: fake_view_def h_def find_key_snoc split: rid.split)
  have fresh: "fake_view f (Net i') = None"
    using fr(1) by (auto simp: fake_view_def find_key_None)
  have nc: "is_conflict e \<Longrightarrow> fk_network_create_err f \<noteq> Some e" for e
    using inv by (auto simp: fake_inv_def fake_faults_ok_def)
  have "fake_network_create n l f =
     (if fk_network_create_err f \<noteq> None \<and> \<not> fk_network_create_err_leaks f
      then (('''', fk_network_create_err f), f)
      else if find_network_by_name f n \<noteq> None
      then (('''', Some (ConflictErr (''network with name '' @ quoted n @ '' already exists''))), f)
      else ((i', fk_network_create_err f), h))"
    by (simp add: fake_network_create_def Let_def h_def i'_def)
  then consider
      "r = fk_network_create_err f" "r \<noteq> None" "g = f" |
      "\<exists>m. r = Some (ConflictErr m)" "g = f" "find_network_by_name f n \<noteq> None" |
      "i = i'" "r = fk_network_create_err f" "g = h" "find_network_by_name f n = None"
    using run by (auto split: if_splits)
  then show ?thesis
  proof cases
    case 1
    then show ?thesis using inv nc by auto
  next
    case 2
    then show ?thesis using inv none by auto
  next
    case 3
    then have "fake_inv g" "fake_view g = (fake_view f)(Net i' \<mapsto> (n, l))" using hinv hview by auto
    then show ?thesis using 3 fresh some nc by auto
  qed
qed

lemma fake_add_volume:
  assumes "fake_inv f" "find_volume f n = None"
  shows "fake_inv (f\<lparr>fk_volumes := fk_volumes f @ [\<lparr>fv_name = n, fv_labels = l\<rparr>]\<rparr>)"
    and "fake_view (f\<lparr>fk_volumes := fk_volumes f @ [\<lparr>fv_name = n, fv_labels = l\<rparr>]\<rparr>) =
      (fake_view f)(Vol n \<mapsto> (n, l))"
    and "fake_view f (Vol n) = None"
proof -
  have n: "n \<notin> fv_name ` set (fk_volumes f)" using assms(2) by (simp add: find_volume_def find_key_None)
  show "fake_inv (f\<lparr>fk_volumes := fk_volumes f @ [\<lparr>fv_name = n, fv_labels = l\<rparr>]\<rparr>)"
    using assms(1) n unfolding fake_inv_def fake_faults_ok_def by simp
  show "fake_view (f\<lparr>fk_volumes := fk_volumes f @ [\<lparr>fv_name = n, fv_labels = l\<rparr>]\<rparr>) =
      (fake_view f)(Vol n \<mapsto> (n, l))"
    using n by (intro ext) (auto simp: fake_view_def find_key_snoc split: rid.split)
  show "fake_view f (Vol n) = None" using assms(2) by (simp add: fake_view_def find_volume_def)
qed

lemma fake_volume_create_ok:
  assumes inv: "fake_inv f" and n: "n \<noteq> ''''" and run: "fake_volume_create n l f = (rv, g)"
  shows "fake_inv g \<and>
      (\<forall>v. rv = Inr v \<longrightarrow> vol_name v = n \<and>
         (case fake_view f (Vol n) of
            Some (m, l') \<Rightarrow> vol_labels v = l' \<and> fake_view g = fake_view f
          | None \<Rightarrow> vol_labels v = l \<and> fake_view g = (fake_view f)(Vol n \<mapsto> (n, l)))) \<and>
      (\<forall>e. rv = Inl e \<longrightarrow> fake_view g = fake_view f)"
proof -
  define h where "h = f\<lparr>fk_volumes := fk_volumes f @ [\<lparr>fv_name = n, fv_labels = l\<rparr>]\<rparr>"
  have "fake_inv h" "fake_view h = (fake_view f)(Vol n \<mapsto> (n, l))" if "find_volume f n = None"
    using fake_add_volume [OF inv that] by (simp_all add: h_def)
  then show ?thesis
    using run n inv unfolding fake_volume_create_def Let_def
    by (auto simp: h_def [symmetric] find_volume_def fake_view_def split: option.splits dest: find_SomeD)
qed

lemma fake_volume_inspect_ok:
  "fake_volume_inspect n f = (rv, g) \<Longrightarrow>
   g = f \<and> (\<forall>v. rv = Inr v \<longrightarrow> labels_of (fake_view f) (Vol n) = Some (vol_labels v))"
  by (auto simp: fake_volume_inspect_def labels_of_def fake_view_def find_volume_def split: option.splits)

lemma create_missing_volumes_ok:
  assumes "fake_inv f"
  shows "fake_inv (create_missing_volumes ms f) \<and>
    fk_containers (create_missing_volumes ms f) = fk_containers f \<and>
    fk_next_id (create_missing_volumes ms f) = fk_next_id f \<and>
    (\<forall>r e. fake_view f r = Some e \<longrightarrow> fake_view (create_missing_volumes ms f) r = Some e) \<and>
    (\<forall>r m l. fake_view (create_missing_volumes ms f) r = Some (m, l) \<longrightarrow> fake_view f r = None \<longrightarrow>
       (\<exists>mt\<in>set ms. m_type mt = ''volume'' \<and> r = Vol (m_source mt) \<and> l = Map.empty))"
  using assms
proof (induction ms arbitrary: f)
  case (Cons m ms)
  define h where "h = f\<lparr>fk_volumes := fk_volumes f @ [\<lparr>fv_name = m_source m, fv_labels = Map.empty\<rparr>]\<rparr>"
  show ?case
  proof (cases "m_type m = ''volume'' \<and> m_source m \<noteq> '''' \<and> find_volume f (m_source m) = None")
    case True
    have h: "fake_inv h" "fk_containers h = fk_containers f" "fk_next_id h = fk_next_id f"
      "fake_view h = (fake_view f)(Vol (m_source m) \<mapsto> (m_source m, Map.empty))"
      "fake_view f (Vol (m_source m)) = None"
      using fake_add_volume(3) [OF Cons.prems] fake_add_volume(1,2) [OF Cons.prems, of "m_source m" Map.empty] True by (simp_all add: h_def)
    have "create_missing_volumes (m # ms) f = create_missing_volumes ms h" using True by (simp add: h_def)
    note eq = this and IH = Cons.IH [OF h(1)]
    have a: "fake_view h r = Some e" if "fake_view f r = Some e" for r e
      using that h(4,5) by auto
    have b: "r = Vol (m_source m) \<and> l = Map.empty"
      if "fake_view h r = Some (k, l)" "fake_view f r = None" for r k l
      using that h(4) by (auto split: if_splits)
    show ?thesis unfolding eq
    proof (intro conjI allI impI)
      fix r k l
      assume *: "fake_view (create_missing_volumes ms h) r = Some (k, l)" "fake_view f r = None"
      show "\<exists>mt\<in>set (m # ms). m_type mt = ''volume'' \<and> r = Vol (m_source mt) \<and> l = Map.empty"
      proof (cases "fake_view h r")
        case None
        then show ?thesis using IH *(1) by force
      next
        case (Some e)
        with IH have "fake_view (create_missing_volumes ms h) r = Some e" by blast
        with Some *(1) have "fake_view h r = Some (k, l)" by simp
        from b [OF this *(2)] True show ?thesis by auto
      qed
    qed (use IH a h in auto)
  next
    case False
    then have "create_missing_volumes (m # ms) f = create_missing_volumes ms f" by auto
    with Cons.IH [OF Cons.prems] show ?thesis by fastforce
  qed
qed simp

lemma record_container_ok:
  assumes inv: "fake_inv f" and run: "record_container cfg host n f = (i, g)"
  shows "fake_inv g \<and> container_creates cfg host n (fake_view f) (i, r) (fake_view g)"
proof -
  define f1 where "f1 = f\<lparr>fk_next_id := Suc (fk_next_id f)\<rparr>"
  define f2 where "f2 = create_missing_volumes (hc_mounts host) f1"
  have i: "i = ''fake-'' @ nat_str (Suc (fk_next_id f))"
    using run by (auto simp: record_container_def Let_def)
  obtain c x where g: "g = f2\<lparr>fk_containers := fk_containers f2 @ [c], fk_created := x\<rparr>"
    and c: "fc_id c = i" "fc_labels c = cc_labels cfg"
    using run unfolding record_container_def Let_def f2_def f1_def by force
  have fr: "i \<notin> set (map fc_id (fk_containers f))"
    "list_all (\<lambda>j. \<exists>m \<le> Suc (fk_next_id f). j = ''fake-net-'' @ nat_str m) (map fn_id (fk_networks f))"
    "list_all (\<lambda>j. \<exists>m \<le> Suc (fk_next_id f). j = ''fake-'' @ nat_str m) (map fc_id (fk_containers f))"
    using inv fresh_id [of "fk_next_id f" "''fake-net-''" "map fn_id (fk_networks f)"]
      fresh_id [of "fk_next_id f" "''fake-''" "map fc_id (fk_containers f)"]
    unfolding i fake_inv_def by auto
  have f1: "fake_inv f1" "fake_view f1 = fake_view f"
    using inv fr by (auto simp: f1_def fake_inv_def fake_faults_ok_def intro: fake_view_cong)
  note f2 = create_missing_volumes_ok [OF f1(1), of "hc_mounts host", folded f2_def, unfolded f1(2)]
  have "fake_inv g"
    using f2 fr(1,3) unfolding g fake_inv_def fake_faults_ok_def
    by (auto simp: c i f1_def)
  moreover have vg: "fake_view g = (fake_view f2)(Ctr i \<mapsto> (fc_name c, cc_labels cfg))"
    using f2 fr(1)
    by (intro ext) (auto simp: fake_view_def g c f1_def find_key_snoc split: rid.split)
  moreover have "fake_view f (Ctr i) = None" using fr(1) by (auto simp: fake_view_def find_key_None)
  ultimately show ?thesis
    using f2 unfolding container_creates_def vg by (auto simp: labels_of_def split: if_splits)
qed

lemma fake_container_create_ok:
  assumes inv: "fake_inv f" and run: "fake_container_create cfg host n f = (rc, g)"
  shows "fake_inv g \<and> container_creates cfg host n (fake_view f) rc (fake_view g)"
proof -
  have same: "container_creates cfg host n (fake_view f) (i, Some e) (fake_view f)" for i e
    by (auto simp: container_creates_def)
  have rc: "container_creates cfg host n (fake_view f) (i, r) (fake_view g) \<and> fake_inv g"
    if "record_container cfg host n f = (i, g)" for i g r
    using record_container_ok [OF inv that] by auto
  show ?thesis
    using run inv same unfolding fake_container_create_def Let_def
    by (auto split: option.splits if_splits prod.splits dest!: rc)
qed

section \<open>The contract\<close>

lemma fake_list_keep [fake_keep]:
  "fake_container_list k fs f = (rc, g) \<Longrightarrow> g = f"
  "fake_network_list k fs f = (rn, g) \<Longrightarrow> g = f"
  "fake_volume_list k fs f = (rv, g) \<Longrightarrow> g = f"
  "fake_volume_inspect n f = (ri, g) \<Longrightarrow> g = f"
  "fake_container_top i f = (rt, g) \<Longrightarrow> g = f"
  by (auto simp: fake_container_list_def fake_network_list_def fake_volume_list_def fake_volume_inspect_def
      fake_container_top_def split: option.splits if_splits)

lemma fake_docker_reads: "docker_reads (fake_client k) fake_inv fake_view"
  by unfold_locales (auto simp: fake_client_def dest: fake_keep)

theorem fake_docker_store:
  assumes m: "match_kv_ok (sdk_match k)"
  shows "docker_store (fake_client k) fake_inv fake_view"
proof (rule docker_store.intro [OF fake_docker_reads], unfold_locales, goal_cases)
  case (1 s i n l j l')
  then show ?case
    by (auto simp: fake_view_def fake_inv_def distinct_map inj_on_def dest!: find_SomeD)
next
  case (2 s i n l)
  then show ?case by (auto simp: fake_view_def dest!: find_SomeD)
next
  case (3 s fs xs s')
  then show ?case using fake_container_list_ok(2) [OF m, of s fs "Inr xs" s'] by (auto simp: fake_client_def)
next
  case (4 s fs xs s')
  then show ?case using fake_network_list_ok(2) [OF m, of s fs "Inr xs" s'] by (auto simp: fake_client_def)
next
  case (5 s fs xs s' x)
  then show ?case using fake_network_list_ok(3) [OF m, of s fs "Inr xs" s'] by (auto simp: fake_client_def)
next
  case (6 s fs xs s')
  then show ?case using fake_volume_list_ok(2) [OF m, of s fs "Inr xs" s'] by (auto simp: fake_client_def)
next
  case (7 s i f rv r s')
  then show ?case using fake_container_remove_ok by (auto simp: fake_client_def)
next
  case (8 s i r s')
  then show ?case using fake_network_remove_ok by (auto simp: fake_client_def)
next
  case (9 s n f r s')
  then show ?case using fake_volume_remove_ok by (auto simp: fake_client_def)
next
  case (10 s n internal l i r s')
  then show ?case using fake_network_create_ok [of s n l i r s'] by (simp add: fake_client_def)
next
  case (11 s n l rv s')
  then show ?case using fake_volume_create_ok [of s n l rv s'] by (simp add: fake_client_def)
next
  case (12 s n v s')
  then show ?case using fake_volume_inspect_ok [of n s "Inr v" s'] by (auto simp: fake_client_def)
next
  case (13 s cfg host n rc s')
  then show ?case using fake_container_create_ok [of s cfg host n rc s'] by (simp add: fake_client_def)
qed

lemma fake_reads_order: "docker_reads (fake_client k) fake_inv fk_remove_order"
  by unfold_locales (auto simp: fake_client_def dest: fake_keep)

definition fake_sdk :: sdk where
  "fake_sdk = \<lparr>sdk_match = label_terms_match, sdk_frame = (\<lambda>n line. line)\<rparr>"

lemma match_fake_sdk [simp]: "match_kv_ok (sdk_match fake_sdk)"
  by (simp add: fake_sdk_def)

interpretation fake: docker_store "fake_client fake_sdk" fake_inv fake_view
  by (rule fake_docker_store) simp

text \<open>No reading call adds to the fake's record of removals.\<close>

interpretation fake_order: docker_reads "fake_client fake_sdk" fake_inv fk_remove_order
  by (rule fake_reads_order)

end
