(* ===== verification/Topology.thy ===== *)
theory Topology
  imports Fake_Store
begin

text \<open>
  The topology Manager and the gate every teardown removal passes, from
  \<open>internal/topology/topology.go\<close> and the scope part of \<open>teardown.go\<close>. The Manager keeps no state
  of its own: every question it asks is a list call on the daemon.

  \<open>m_now\<close> reads the clock, \<open>m_ctx_err\<close> the error of a report's context, \<open>m_demux\<close> is the SDK's log
  demultiplexer \<open>stdcopy.StdCopy\<close>. A call that fails because its context ended is a call that
  fails.
\<close>

section \<open>The Manager\<close>

record 's manager =
  m_cli :: "'s client"
  m_controller :: string
  m_inflight_grace :: duration
  m_exited_grace :: duration
  m_now :: "'s \<Rightarrow> time"
  m_ctx_err :: "'s \<Rightarrow> gerr option"
  m_demux :: "string \<Rightarrow> string res"

definition inflight_create_grace :: duration where
  "inflight_create_grace = 20 * minute"

definition exited_runner_grace :: duration where
  "exited_runner_grace = 2 * minute"

definition new_manager ::
  "'s client \<Rightarrow> string \<Rightarrow> ('s \<Rightarrow> time) \<Rightarrow> ('s \<Rightarrow> gerr option) \<Rightarrow> (string \<Rightarrow> string res) \<Rightarrow> 's manager" where
  "new_manager cli controller now ctx_err demux =
     \<lparr>m_cli = cli, m_controller = controller, m_inflight_grace = inflight_create_grace,
      m_exited_grace = exited_runner_grace, m_now = now, m_ctx_err = ctx_err, m_demux = demux\<rparr>"

definition read_state :: "('s \<Rightarrow> 'a) \<Rightarrow> ('s, 'a) state" where
  "read_state g = State (\<lambda>s. (g s, s))"

lemma run_read_state [simp]: "run_state (read_state g) s = (g s, s)"
  by (simp add: read_state_def)

lemma valid_read_state [wp]: "valid (\<lambda>s. Q (g s) s) (read_state g) Q"
  by (simp add: valid_def)

definition instance_scoped_filter :: "'s manager \<Rightarrow> string \<Rightarrow> string list" where
  "instance_scoped_filter m instance_name =
     [label_eq LabelManaged ''true'', label_eq LabelControllerID (m_controller m),
      label_eq LabelInstanceName instance_name]"

definition instance_scoped_nonce_filter :: "'s manager \<Rightarrow> string \<Rightarrow> string \<Rightarrow> string list" where
  "instance_scoped_nonce_filter m instance_name nonce =
     instance_scoped_filter m instance_name @ [label_eq LabelCreateNonce nonce]"

definition filters_for_nonce :: "string \<Rightarrow> string \<Rightarrow> string list" where
  "filters_for_nonce controller nonce =
     [label_eq LabelManaged ''true'', label_eq LabelControllerID controller,
      label_eq LabelCreateNonce nonce]"

definition parse_created_at :: "labels \<Rightarrow> time option" where
  "parse_created_at l =
     (let raw = lget l LabelCreatedAt
      in if raw = '''' then None else map_option fst (parse_rfc3339 raw))"

section \<open>Claims\<close>

fun first_live_claim :: "string \<Rightarrow> network_summary list \<Rightarrow> string option" where
  "first_live_claim cid [] = None"
| "first_live_claim cid (n # ns) =
     (if matches_predicate (ns_labels n) cid \<and> lget (ns_labels n) LabelResource = ResourceJobNetwork
      then Some (lget (ns_labels n) LabelCreateNonce)
      else first_live_claim cid ns)"

text \<open>\<open>liveClaimNonce\<close>: the nonce the instance's claim network holds now, if one exists.\<close>

definition live_claim_nonce :: "'s manager \<Rightarrow> string \<Rightarrow> ('s, string option res) state" where
  "live_claim_nonce m instance_name = do {
     r \<leftarrow> network_list (m_cli m)
            (instance_scoped_filter m instance_name @ [label_eq LabelResource ResourceJobNetwork]);
     case r of
       Inl e \<Rightarrow> ret (Inl (WrapErr (''failed to read live claim nonce for '' @ quoted instance_name) e))
     | Inr ns \<Rightarrow> ret (Inr (first_live_claim (m_controller m) ns))
   }"

fun collect_claims :: "string \<Rightarrow> network_summary list \<Rightarrow> (string \<rightharpoonup> string) \<Rightarrow> (string \<rightharpoonup> string)" where
  "collect_claims cid [] out = out"
| "collect_claims cid (n # ns) out =
     collect_claims cid ns
       (if \<not> matches_predicate (ns_labels n) cid then out
        else if lget (ns_labels n) LabelResource \<noteq> ResourceJobNetwork then out
        else if lget (ns_labels n) LabelInstanceName = '''' then out
        else out(lget (ns_labels n) LabelInstanceName \<mapsto> lget (ns_labels n) LabelCreateNonce))"

definition claim_nonces_by_instance :: "'s manager \<Rightarrow> string list \<Rightarrow> ('s, (string \<rightharpoonup> string) res) state" where
  "claim_nonces_by_instance m fs = do {
     r \<leftarrow> network_list (m_cli m) fs;
     case r of
       Inl e \<Rightarrow> ret (Inl (WrapErr ''failed to list claim networks for teardown scoping'' e))
     | Inr ns \<Rightarrow> ret (Inr (collect_claims (m_controller m) ns Map.empty))
   }"

section \<open>The teardown scope\<close>

datatype teardown_mode = Exact | Generation | All

record teardown_scope =
  ts_mode :: teardown_mode
  ts_exact :: string
  ts_captured :: "string \<rightharpoonup> string"
  ts_report_on_delete :: bool

definition may_remove :: "'s manager \<Rightarrow> teardown_scope \<Rightarrow> labels \<Rightarrow> ('s, bool res) state" where
  "may_remove m sc l =
     (if \<not> matches_predicate l (m_controller m) then ret (Inr False)
      else
        (let nonce = lget l LabelCreateNonce
         in case ts_mode sc of
              Exact \<Rightarrow> ret (Inr (nonce = ts_exact sc))
            | All \<Rightarrow> ret (Inr True)
            | Generation \<Rightarrow>
                (let inst = lget l LabelInstanceName
                 in case ts_captured sc inst of
                      Some gen \<Rightarrow> ret (Inr (nonce = gen))
                    | None \<Rightarrow> do {
                        r \<leftarrow> live_claim_nonce m inst;
                        case r of
                          Inl e \<Rightarrow> ret (Inl e)
                        | Inr live \<Rightarrow>
                            ret (Inr (case live of
                                        None \<Rightarrow> True
                                      | Some live_nonce \<Rightarrow> \<not> (live_nonce \<noteq> '''' \<and> nonce = live_nonce)))
                      })))"

text \<open>
  What the gate's answer depends on besides the labels: \<open>scope_allows sc cid live l\<close>, where \<open>live\<close>
  is the live claim of the label's instance.
\<close>

definition scope_allows :: "teardown_scope \<Rightarrow> string \<Rightarrow> (string \<Rightarrow> string option) \<Rightarrow> labels \<Rightarrow> bool" where
  "scope_allows sc cid live l \<longleftrightarrow>
     matches_predicate l cid \<and>
     (case ts_mode sc of
        Exact \<Rightarrow> lget l LabelCreateNonce = ts_exact sc
      | All \<Rightarrow> True
      | Generation \<Rightarrow>
          (case ts_captured sc (lget l LabelInstanceName) of
             Some gen \<Rightarrow> lget l LabelCreateNonce = gen
           | None \<Rightarrow>
               (case live (lget l LabelInstanceName) of
                  None \<Rightarrow> True
                | Some n \<Rightarrow> n \<noteq> '''' \<longrightarrow> lget l LabelCreateNonce \<noteq> n)))"

lemma scope_allows_predicate: "scope_allows sc cid live l \<Longrightarrow> matches_predicate l cid"
  by (simp add: scope_allows_def)

lemma first_live_claim_in:
  "first_live_claim cid ns = Some k \<Longrightarrow>
   \<exists>n\<in>set ns. matches_predicate (ns_labels n) cid \<and> lget (ns_labels n) LabelResource = ResourceJobNetwork \<and>
     lget (ns_labels n) LabelCreateNonce = k"
  by (induction ns) (auto split: if_splits)

lemma first_live_claim_None:
  "first_live_claim cid ns = None \<longleftrightarrow>
   (\<forall>n\<in>set ns. \<not> (matches_predicate (ns_labels n) cid \<and> lget (ns_labels n) LabelResource = ResourceJobNetwork))"
  by (induction ns) auto

lemma collect_claims_Some:
  "collect_claims cid ns out i = Some k \<Longrightarrow>
   out i = Some k \<or>
   (\<exists>n\<in>set ns. matches_predicate (ns_labels n) cid \<and> lget (ns_labels n) LabelResource = ResourceJobNetwork \<and>
      lget (ns_labels n) LabelInstanceName = i \<and> i \<noteq> '''' \<and> lget (ns_labels n) LabelCreateNonce = k)"
  by (induction ns arbitrary: out) (fastforce split: if_splits)+

lemma collect_claims_mono: "out i \<noteq> None \<Longrightarrow> collect_claims cid ns out i \<noteq> None"
  by (induction ns arbitrary: out) auto

lemma collect_claims_covers:
  "n \<in> set ns \<Longrightarrow> matches_predicate (ns_labels n) cid \<Longrightarrow>
   lget (ns_labels n) LabelResource = ResourceJobNetwork \<Longrightarrow> lget (ns_labels n) LabelInstanceName = i \<Longrightarrow>
   i \<noteq> '''' \<Longrightarrow> collect_claims cid ns out i \<noteq> None"
proof (induction ns arbitrary: out)
  case (Cons x ns)
  show ?case
  proof (cases "n = x")
    case True
    then show ?thesis
      using Cons.prems collect_claims_mono [of "out(i \<mapsto> lget (ns_labels n) LabelCreateNonce)" i cid ns] by simp
  next
    case False
    then show ?thesis unfolding collect_claims.simps using Cons.prems by (intro Cons.IH) auto
  qed
qed simp

section \<open>Calls that keep the store\<close>

context docker_reads begin

text \<open>\<open>keeps m\<close>: the computation leaves the invariant and the observation as they are.\<close>

definition keeps :: "('s, 'a) state \<Rightarrow> bool" where
  "keeps m \<longleftrightarrow> (\<forall>v. valid (\<lambda>s. inv s \<and> obs s = v) m (\<lambda>_ s. inv s \<and> obs s = v))"

lemma keepsI: "(\<And>s r s'. inv s \<Longrightarrow> run_state m s = (r, s') \<Longrightarrow> inv s' \<and> obs s' = obs s) \<Longrightarrow> keeps m"
  by (simp add: keeps_def valid_def)

lemma keepsD: "keeps m \<Longrightarrow> inv s \<Longrightarrow> run_state m s = (r, s') \<Longrightarrow> inv s' \<and> obs s' = obs s"
  by (simp add: keeps_def valid_def)

lemma keeps_return: "keeps (ret a)"
  by (rule keepsI) simp

lemma keeps_read: "keeps (read_state g)"
  by (rule keepsI) simp

lemma keeps_bind: "keeps m \<Longrightarrow> (\<And>a. keeps (f a)) \<Longrightarrow> keeps (m \<bind> f)"
  unfolding keeps_def by (rule allI, rule valid_bind) auto

lemma keeps_for_each: "(\<And>x a. x \<in> set xs \<Longrightarrow> keeps (f x a)) \<Longrightarrow> keeps (for_each f xs a)"
  unfolding keeps_def by (rule allI, rule valid_for_each) auto

lemma keeps_if: "(b \<Longrightarrow> keeps m) \<Longrightarrow> (\<not> b \<Longrightarrow> keeps m') \<Longrightarrow> keeps (if b then m else m')"
  by simp

lemma keeps_sum: "(\<And>e. keeps (f e)) \<Longrightarrow> (\<And>a. keeps (g a)) \<Longrightarrow> keeps (case x of Inl e \<Rightarrow> f e | Inr a \<Rightarrow> g a)"
  by (cases x) auto

lemma keeps_option: "keeps m \<Longrightarrow> (\<And>a. keeps (g a)) \<Longrightarrow> keeps (case x of None \<Rightarrow> m | Some a \<Rightarrow> g a)"
  by (cases x) auto

lemma keeps_prod: "(\<And>a b. keeps (f a b)) \<Longrightarrow> keeps (case x of (a, b) \<Rightarrow> f a b)"
  by (cases x) auto

lemma keeps_ctr_list: "keeps (container_list c True fs)"
  by (rule keepsI) (rule rd_ctr_list)

lemma keeps_net_list: "keeps (network_list c fs)"
  by (rule keepsI) (rule rd_net_list)

lemma keeps_vol_list: "keeps (volume_list c fs)"
  by (rule keepsI) (rule rd_vol_list)

lemma keeps_ctr_stop: "keeps (container_stop c i)"
  by (rule keepsI) (rule rd_ctr_stop)

lemma keeps_ctr_inspect: "keeps (container_inspect c i)"
  by (rule keepsI) (rule rd_ctr_inspect)

lemma keeps_ctr_start: "keeps (container_start c i)"
  by (rule keepsI) (rule rd_ctr_start)

lemma keeps_exec_output: "keeps (exec_output c i cmd)"
  by (rule keepsI) (rule rd_exec_output)

lemma keeps_exec_stream: "keeps (exec_stream c i cmd a)"
  by (rule keepsI) (rule rd_exec_stream)

lemma keeps_ctr_stats: "keeps (container_stats c i)"
  by (rule keepsI) (rule rd_ctr_stats)

lemma keeps_ctr_logs: "keeps (container_logs c i t)"
  by (rule keepsI) (rule rd_ctr_logs)

lemma keeps_ctr_top: "keeps (container_top c i)"
  by (rule keepsI) (rule rd_ctr_top)

lemma keeps_ctr_wait: "keeps (container_wait c i)"
  by (rule keepsI) (rule rd_ctr_wait)

lemma keeps_img_pull: "keeps (image_pull c ref)"
  by (rule keepsI) (rule rd_img_pull)

lemma keeps_img_inspect: "keeps (image_inspect c ref)"
  by (rule keepsI) (rule rd_img_inspect)

lemma keeps_vol_inspect: "keeps (volume_inspect c n)"
  by (rule keepsI) (rule rd_vol_inspect)

lemmas keeps_calls =
  keeps_ctr_list keeps_net_list keeps_vol_list keeps_ctr_stop keeps_ctr_inspect keeps_ctr_start
  keeps_exec_output keeps_exec_stream keeps_ctr_stats keeps_ctr_logs keeps_ctr_top keeps_ctr_wait
  keeps_img_pull keeps_img_inspect keeps_vol_inspect

lemmas keeps_rules = keeps_return keeps_read keeps_bind keeps_for_each keeps_if keeps_sum keeps_option
  keeps_prod keeps_calls

lemma keeps_live_claim: "m_cli m = c \<Longrightarrow> keeps (live_claim_nonce m i)"
  unfolding live_claim_nonce_def by (simp, intro keeps_rules)

lemma keeps_may_remove: "m_cli m = c \<Longrightarrow> keeps (may_remove m sc l)"
  unfolding may_remove_def Let_def
  by (cases "ts_mode sc"; simp only: teardown_mode.case) (intro keeps_rules keeps_live_claim; assumption)+

end

end
