(* ===== verification/Regex.thy ===== *)
theory Regex
  imports Go_Strings
begin

text \<open>
  Regular expressions of Go's \<open>regexp\<close>, as far as the program's patterns use them, with a
  derivative matcher that is proved to decide the language of the expression. Character classes are
  predicates on bytes: every class of the program is ASCII, and a negated class takes each byte of a
  multi-byte rune.
\<close>

datatype rx =
    Zero
  | Eps
  | Cls "char \<Rightarrow> bool"
  | Seq rx rx
  | Alt rx rx
  | Star rx

primrec lang :: "rx \<Rightarrow> string set" where
  "lang Zero = {}"
| "lang Eps = {[]}"
| "lang (Cls P) = {[c] | c. P c}"
| "lang (Seq r s) = {u @ v | u v. u \<in> lang r \<and> v \<in> lang s}"
| "lang (Alt r s) = lang r \<union> lang s"
| "lang (Star r) = {concat ws | ws. set ws \<subseteq> lang r}"

primrec nullable :: "rx \<Rightarrow> bool" where
  "nullable Zero = False"
| "nullable Eps = True"
| "nullable (Cls P) = False"
| "nullable (Seq r s) = (nullable r \<and> nullable s)"
| "nullable (Alt r s) = (nullable r \<or> nullable s)"
| "nullable (Star r) = True"

text \<open>Smart constructors keep the derivatives small.\<close>

fun mk_seq :: "rx \<Rightarrow> rx \<Rightarrow> rx" where
  "mk_seq Zero s = Zero"
| "mk_seq Eps s = s"
| "mk_seq r s = (if s = Zero then Zero else Seq r s)"

fun mk_alt :: "rx \<Rightarrow> rx \<Rightarrow> rx" where
  "mk_alt Zero s = s"
| "mk_alt r Zero = r"
| "mk_alt r s = Alt r s"

primrec deriv :: "char \<Rightarrow> rx \<Rightarrow> rx" where
  "deriv c Zero = Zero"
| "deriv c Eps = Zero"
| "deriv c (Cls P) = (if P c then Eps else Zero)"
| "deriv c (Seq r s) =
     (if nullable r then mk_alt (mk_seq (deriv c r) s) (deriv c s) else mk_seq (deriv c r) s)"
| "deriv c (Alt r s) = mk_alt (deriv c r) (deriv c s)"
| "deriv c (Star r) = mk_seq (deriv c r) (Star r)"

definition rx_match :: "rx \<Rightarrow> string \<Rightarrow> bool" where
  "rx_match r s \<longleftrightarrow> nullable (foldl (\<lambda>r c. deriv c r) r s)"

text \<open>\<open>MatchString\<close>: the pattern matches somewhere in the text.\<close>

fun rx_search :: "rx \<Rightarrow> string \<Rightarrow> bool" where
  "rx_search r s =
     (rx_match (Seq r (Star (Cls (\<lambda>_. True)))) s \<or> (case s of [] \<Rightarrow> False | _ # t \<Rightarrow> rx_search r t))"

declare rx_search.simps [simp del]

primrec lit :: "string \<Rightarrow> rx" where
  "lit [] = Eps"
| "lit (c # s) = Seq (Cls (\<lambda>d. d = c)) (lit s)"

primrec rep :: "nat \<Rightarrow> rx \<Rightarrow> rx" where
  "rep 0 r = Eps"
| "rep (Suc n) r = Seq r (rep n r)"

definition at_least :: "nat \<Rightarrow> rx \<Rightarrow> rx" where
  "at_least n r = Seq (rep n r) (Star r)"

section \<open>The matcher decides the language\<close>

lemma nullable_iff: "nullable r \<longleftrightarrow> [] \<in> lang r"
proof (induction r)
  case (Star r)
  have "\<exists>ws. [] = concat ws \<and> set ws \<subseteq> lang r" by (rule exI [of _ "[]"]) simp
  then show ?case by simp
qed auto

lemma lang_mk_seq [simp]: "lang (mk_seq r s) = lang (Seq r s)"
  by (cases "(r, s)" rule: mk_seq.cases) auto

lemma lang_mk_alt [simp]: "lang (mk_alt r s) = lang (Alt r s)"
  by (cases "(r, s)" rule: mk_alt.cases) auto

lemma lang_Star_Cons:
  "c # w \<in> lang (Star r) \<longleftrightarrow> (\<exists>u v. w = u @ v \<and> c # u \<in> lang r \<and> v \<in> lang (Star r))"
proof
  assume "c # w \<in> lang (Star r)"
  then obtain ws where ws: "c # w = concat ws" "set ws \<subseteq> lang r" by auto
  then show "\<exists>u v. w = u @ v \<and> c # u \<in> lang r \<and> v \<in> lang (Star r)"
  proof (induction ws)
    case (Cons x ws)
    show ?case
    proof (cases x)
      case Nil
      then show ?thesis using Cons by simp
    next
      case (Cons d u)
      then have "w = u @ concat ws" "c # u \<in> lang r" "set ws \<subseteq> lang r"
        using Cons.prems \<open>c # w = concat (x # ws)\<close> \<open>set (x # ws) \<subseteq> lang r\<close> by auto
      then show ?thesis by auto
    qed
  qed simp
next
  assume "\<exists>u v. w = u @ v \<and> c # u \<in> lang r \<and> v \<in> lang (Star r)"
  then obtain u ws where "w = u @ concat ws" "c # u \<in> lang r" "set ws \<subseteq> lang r" by auto
  then have "c # w = concat ((c # u) # ws)" "set ((c # u) # ws) \<subseteq> lang r" by auto
  then show "c # w \<in> lang (Star r)" unfolding lang.simps by blast
qed

lemma lang_deriv: "w \<in> lang (deriv c r) \<longleftrightarrow> c # w \<in> lang r"
proof (induction r arbitrary: w)
  case (Seq r s)
  have "c # w \<in> lang (Seq r s) \<longleftrightarrow>
    (\<exists>u v. w = u @ v \<and> c # u \<in> lang r \<and> v \<in> lang s) \<or> ([] \<in> lang r \<and> c # w \<in> lang s)"
    by (auto simp: Cons_eq_append_conv)
  then show ?case using Seq by (auto simp: nullable_iff)
next
  case (Star r)
  have "w \<in> lang (deriv c (Star r)) \<longleftrightarrow> (\<exists>u v. w = u @ v \<and> u \<in> lang (deriv c r) \<and> v \<in> lang (Star r))"
    by (simp del: lang.simps(6))
  then show ?case unfolding lang_Star_Cons Star .
qed auto

theorem rx_match_iff: "rx_match r s \<longleftrightarrow> s \<in> lang r"
proof -
  have "nullable (foldl (\<lambda>r c. deriv c r) r s) \<longleftrightarrow> s \<in> lang r" for r
    by (induction s arbitrary: r) (simp_all add: nullable_iff lang_deriv)
  then show ?thesis by (simp add: rx_match_def)
qed

lemma lang_any [simp]: "lang (Star (Cls (\<lambda>_. True))) = UNIV"
proof -
  have "s = concat (map (\<lambda>c. [c]) s) \<and> set (map (\<lambda>c. [c]) s) \<subseteq> lang (Cls (\<lambda>_. True))" for s
    by (induction s) auto
  then show ?thesis unfolding lang.simps by blast
qed

lemma rx_match_prefix:
  "rx_match (Seq r (Star (Cls (\<lambda>_. True)))) s \<longleftrightarrow> (\<exists>m z. s = m @ z \<and> m \<in> lang r)"
  unfolding rx_match_iff lang.simps(4) lang_any by blast

theorem rx_search_iff: "rx_search r s \<longleftrightarrow> (\<exists>a m z. s = a @ m @ z \<and> m \<in> lang r)"
proof (induction s)
  case Nil
  show ?case by (subst rx_search.simps) (simp add: rx_match_prefix)
next
  case (Cons c s)
  have "(\<exists>a m z. c # s = a @ m @ z \<and> m \<in> lang r) \<longleftrightarrow>
    (\<exists>m z. c # s = m @ z \<and> m \<in> lang r) \<or> (\<exists>a m z. s = a @ m @ z \<and> m \<in> lang r)" (is "?L \<longleftrightarrow> ?R1 \<or> ?R2")
  proof
    assume ?L
    then obtain a m z where "c # s = a @ m @ z" "m \<in> lang r" by blast
    then show "?R1 \<or> ?R2" by (cases a) auto
  next
    assume "?R1 \<or> ?R2"
    then show ?L
    proof
      assume ?R1
      then obtain m z where "c # s = [] @ m @ z" "m \<in> lang r" by auto
      then show ?L by blast
    next
      assume ?R2
      then obtain a m z where "c # s = (c # a) @ m @ z" "m \<in> lang r" by auto
      then show ?L by blast
    qed
  qed
  then show ?case
    by (subst rx_search.simps) (simp add: rx_match_prefix Cons)
qed

lemma lang_lit [simp]: "lang (lit s) = {s}"
  by (induction s) auto

lemma lang_rep_Cls: "lang (rep n (Cls P)) = {s. length s = n \<and> list_all P s}"
proof (induction n)
  case (Suc n)
  have "lang (rep (Suc n) (Cls P)) = {c # v | c v. P c \<and> v \<in> lang (rep n (Cls P))}"
    unfolding rep.simps lang.simps(3,4) mem_Collect_eq
    by (intro set_eqI iffI; clarsimp; metis append_Cons append_Nil)
  also have "\<dots> = {s. length s = Suc n \<and> list_all P s}"
    unfolding Suc by (auto simp: length_Suc_conv)
  finally show ?case .
qed auto

lemma lang_Star_Cls: "lang (Star (Cls P)) = {s. list_all P s}"
proof -
  have "list_all P (concat ws)" if "set ws \<subseteq> lang (Cls P)" for ws
    using that by (induction ws) auto
  moreover have "\<exists>ws. s = concat ws \<and> set ws \<subseteq> lang (Cls P)" if "list_all P s" for s
    using that by (intro exI [of _ "map (\<lambda>c. [c]) s"]) (auto simp: list_all_iff)
  ultimately show ?thesis unfolding lang.simps(6) by blast
qed

lemma lang_at_least_Cls: "lang (at_least n (Cls P)) = {s. n \<le> length s \<and> list_all P s}"
proof -
  have "s \<in> lang (at_least n (Cls P)) \<longleftrightarrow> n \<le> length s \<and> list_all P s" for s
  proof
    assume "s \<in> lang (at_least n (Cls P))"
    then show "n \<le> length s \<and> list_all P s"
      by (auto simp: at_least_def lang_rep_Cls lang_Star_Cls simp del: lang.simps(6))
  next
    assume "n \<le> length s \<and> list_all P s"
    then have "s = take n s @ drop n s" "take n s \<in> lang (rep n (Cls P))" "drop n s \<in> lang (Star (Cls P))"
      by (auto simp: lang_rep_Cls lang_Star_Cls list_all_iff simp del: lang.simps(6)
          dest: in_set_takeD in_set_dropD)
    then show "s \<in> lang (at_least n (Cls P))" unfolding at_least_def lang.simps(4) by blast
  qed
  then show ?thesis by blast
qed

end
