(* ===== verification/Log_Screen.thy ===== *)
theory Log_Screen
  imports Regex
begin

text \<open>
  The credential screen for container output, from \<open>internal/logging/tail.go\<close>: risky words, risky
  patterns, PEM blocks, and the printable, bounded form of a line that passes. Lower-casing is the
  ASCII one, so a non-ASCII letter that Unicode folds to an ASCII one is not folded here.
\<close>

definition withheld_line :: string where
  "withheld_line = ''[line withheld: it may carry a credential]''"

definition risky_words :: "string list" where
  "risky_words =
     [''token'', ''bearer'', ''authorization'', ''jitconfig'', ''jit_config'', ''jit-config'',
      ''jit config'', ''credential'', ''rsaparam'', ''modulus'', ''exponent'', ''password'',
      ''passwd'', ''secret'', ''apikey'', ''api_key'', ''api-key'', ''private key'', ''-----begin'',
      ''-----end'', ''metadata'', ''callback'', ''cookie'']"

definition is_letter :: "char \<Rightarrow> bool" where
  "is_letter c \<longleftrightarrow> is_upper_ascii c \<or> is_lower_ascii c"

definition cls_alnum :: rx where
  "cls_alnum = Cls (\<lambda>c. is_letter c \<or> is_digit c)"

definition cls_b64 :: rx where
  "cls_b64 = Cls (\<lambda>c. is_letter c \<or> is_digit c \<or> c \<in> set ''+/=_-'')"

definition cls_word :: rx where
  "cls_word = Cls (\<lambda>c. is_letter c \<or> is_digit c \<or> c \<in> set ''_-'')"

definition one_of :: "string \<Rightarrow> rx" where
  "one_of cs = Cls (\<lambda>c. c \<in> set cs)"

text \<open>\<open>(?i)\<close> on an ASCII literal.\<close>

definition lit_fold :: "string \<Rightarrow> rx" where
  "lit_fold s = foldr (\<lambda>c r. Seq (Cls (\<lambda>d. lower_char d = lower_char c)) r) s Eps"

definition rx_not_space :: rx where
  "rx_not_space = Cls (\<lambda>c. \<not> c \<in> set [CHR 0x09, CHR 0x0A, CHR 0x0C, CHR 0x0D, CHR '' ''])"

definition risky_patterns :: "rx list" where
  "risky_patterns =
     [Seq (lit ''gh'') (Seq (one_of ''opsur'') (Seq (lit ''_'') (at_least 16 cls_alnum))),
      lit ''github_pat_'',
      Seq (lit ''eyJ'') (at_least 8 cls_word),
      Seq (lit ''AKIA'') (rep 16 (Cls (\<lambda>c. is_digit c \<or> is_upper_ascii c))),
      Seq (lit ''xox'') (Seq (one_of ''abposr'') (lit ''-'')),
      Seq (Cls is_letter) (Seq (Star (Cls (\<lambda>c. is_letter c \<or> is_digit c \<or> c \<in> set ''+.-'')))
        (Seq (lit ''://'') (Seq (at_least 1 (Cls (\<lambda>c. \<not> c \<in> set [CHR 0x09, CHR 0x0A, CHR 0x0C, CHR 0x0D, CHR '' '', CHR ''/'', CHR ''@''])))
          (lit ''@'')))),
      Seq (lit_fold ''http'') (Seq (Alt (lit_fold ''s'') Eps) (Seq (lit ''://'')
        (Seq (Star rx_not_space) (Seq (lit ''?'') (Seq (Star rx_not_space) (lit ''=''))))))]"

definition credential_run_len :: nat where
  "credential_run_len = 20"

definition credential_run :: rx where
  "credential_run = at_least credential_run_len cls_b64"

definition bare_blob :: rx where
  "bare_blob = at_least 8 cls_b64"

definition line_is_risky :: "string \<Rightarrow> string \<Rightarrow> bool" where
  "line_is_risky line lower =
     (if list_ex (\<lambda>w. str_contains lower w) risky_words then True
      else if list_ex (\<lambda>re. rx_search re line) risky_patterns then True
      else if rx_search credential_run line then True
      else (let trimmed = trim_space line
            in rx_match bare_blob trimmed \<and> contains_any trimmed ''0123456789+/=''))"

section \<open>Printable lines\<close>

definition in_range :: "nat \<Rightarrow> nat \<Rightarrow> char \<Rightarrow> bool" where
  "in_range a b c \<longleftrightarrow> a \<le> char_code c \<and> char_code c \<le> b"

text \<open>The length of the UTF-8 sequence at the front, 0 when it is not valid.\<close>

definition utf8_len :: "string \<Rightarrow> nat" where
  "utf8_len s =
     (case s of
        [] \<Rightarrow> 0
      | a # r \<Rightarrow>
          (let n = char_code a; cont = in_range 0x80 0xBF in
           if n < 0x80 then 1
           else if 0xC2 \<le> n \<and> n \<le> 0xDF then (case r of b # _ \<Rightarrow> if cont b then 2 else 0 | _ \<Rightarrow> 0)
           else if 0xE0 \<le> n \<and> n \<le> 0xEF then
             (case r of
                b # c # _ \<Rightarrow>
                  if in_range (if n = 0xE0 then 0xA0 else 0x80) (if n = 0xED then 0x9F else 0xBF) b \<and> cont c
                  then 3 else 0
              | _ \<Rightarrow> 0)
           else if 0xF0 \<le> n \<and> n \<le> 0xF4 then
             (case r of
                b # c # d # _ \<Rightarrow>
                  if in_range (if n = 0xF0 then 0x90 else 0x80) (if n = 0xF4 then 0x8F else 0xBF) b \<and> cont c \<and> cont d
                  then 4 else 0
              | _ \<Rightarrow> 0)
           else 0))"

definition replacement_char :: string where
  "replacement_char = [CHR 0xEF, CHR 0xBF, CHR 0xBD]"

definition ellipsis :: string where
  "ellipsis = [CHR 0xE2, CHR 0x80, CHR 0xA6]"

text \<open>\<open>strings.ToValidUTF8\<close>: a run of invalid bytes becomes one replacement.\<close>

function to_valid_utf8 :: "bool \<Rightarrow> string \<Rightarrow> string" where
  "to_valid_utf8 in_run s =
     (if s = [] then []
      else if utf8_len s = 0
      then (if in_run then [] else replacement_char) @ to_valid_utf8 True (tl s)
      else take (utf8_len s) s @ to_valid_utf8 False (drop (utf8_len s) s))"
  by pat_completeness auto
termination
  by (relation "measure (\<lambda>(b, s). length s)") auto

declare to_valid_utf8.simps [simp del]

definition is_ctl :: "char \<Rightarrow> bool" where
  "is_ctl c \<longleftrightarrow> char_code c < 32 \<or> char_code c = 127"

text \<open>\<open>unicode.IsControl\<close> on valid UTF-8: the C0 controls, DEL, and \<open>U+0080\<close> to \<open>U+009F\<close>.\<close>

fun blank_controls :: "string \<Rightarrow> string" where
  "blank_controls (c # d # s) =
     (if is_ctl c then CHR '' '' # blank_controls (d # s)
      else if char_code c = 0xC2 \<and> in_range 0x80 0x9F d then CHR '' '' # blank_controls s
      else c # blank_controls (d # s))"
| "blank_controls [c] = [if is_ctl c then CHR '' '' else c]"
| "blank_controls [] = []"

definition rune_start :: "char \<Rightarrow> bool" where
  "rune_start c \<longleftrightarrow> \<not> in_range 0x80 0xBF c"

fun rune_cut :: "string \<Rightarrow> nat \<Rightarrow> nat" where
  "rune_cut s 0 = 0"
| "rune_cut s (Suc n) = (if rune_start (s ! Suc n) then Suc n else rune_cut s n)"

definition printable :: "string \<Rightarrow> nat \<Rightarrow> string" where
  "printable s0 max_bytes =
     (let s = blank_controls (to_valid_utf8 False s0)
      in if max_bytes = 0 \<or> length s \<le> max_bytes then s
         else take (rune_cut s max_bytes) s @ ellipsis)"

section \<open>The screen\<close>

fun safe_log_lines_from :: "bool \<Rightarrow> string list \<Rightarrow> nat \<Rightarrow> string list \<times> nat" where
  "safe_log_lines_from in_pem [] max_bytes = ([], 0)"
| "safe_log_lines_from in_pem (line # lines) max_bytes =
     (let lower = to_lower line;
          pem = (in_pem \<or> str_contains lower ''-----begin'')
      in if \<not> str_contains lower ''-----begin'' \<and> in_pem \<and> str_contains lower ''-----end''
         then (let (safe, withheld) = safe_log_lines_from False lines max_bytes
               in (withheld_line # safe, withheld + 1))
         else if pem \<or> line_is_risky line lower
         then (let (safe, withheld) = safe_log_lines_from pem lines max_bytes
               in (withheld_line # safe, withheld + 1))
         else (let (safe, withheld) = safe_log_lines_from pem lines max_bytes
               in (printable line max_bytes # safe, withheld)))"

definition safe_log_lines :: "string list \<Rightarrow> nat \<Rightarrow> string list \<times> nat" where
  "safe_log_lines lines max_bytes = safe_log_lines_from False lines max_bytes"

section \<open>Lemmas\<close>

lemma utf8_len_le: "utf8_len s \<le> length s"
  by (auto simp: utf8_len_def Let_def split: list.splits)

lemma is_ctl_space [simp]: "\<not> is_ctl CHR '' ''"
  by (simp add: is_ctl_def char_code_def)

lemma is_ctl_blank: "c \<in> set (blank_controls s) \<Longrightarrow> \<not> is_ctl c"
  by (induction s rule: blank_controls.induct) (auto split: if_splits)

lemma rune_cut_le: "rune_cut s n \<le> n"
  by (induction n) auto

lemma printable_no_ctl: "c \<in> set (printable s n) \<Longrightarrow> \<not> is_ctl c"
  by (auto simp: printable_def Let_def ellipsis_def is_ctl_def char_code_def dest!: in_set_takeD
      dest: is_ctl_blank split: if_splits)

lemma printable_length: "0 < n \<Longrightarrow> length (printable s n) \<le> n + 3"
  using rune_cut_le [of "blank_controls (to_valid_utf8 False s)" n]
  by (auto simp: printable_def Let_def ellipsis_def)

lemma withheld_no_ctl: "c \<in> set withheld_line \<Longrightarrow> \<not> is_ctl c"
  by (auto simp: withheld_line_def is_ctl_def char_code_def)

lemma safe_length: "length (fst (safe_log_lines_from b ls n)) = length ls"
  by (induction ls arbitrary: b) (simp_all add: Let_def split_def)

lemma safe_nth:
  "i < length ls \<Longrightarrow>
   fst (safe_log_lines_from b ls n) ! i = withheld_line \<or>
   (fst (safe_log_lines_from b ls n) ! i = printable (ls ! i) n \<and> \<not> line_is_risky (ls ! i) (to_lower (ls ! i)))"
  by (induction ls arbitrary: b i) (auto simp: Let_def split_def nth_Cons split: nat.splits)

lemma safe_risky_withheld:
  "i < length ls \<Longrightarrow> line_is_risky (ls ! i) (to_lower (ls ! i)) \<Longrightarrow>
   fst (safe_log_lines_from b ls n) ! i = withheld_line"
  by (induction ls arbitrary: b i) (auto simp: Let_def split_def nth_Cons split: nat.splits)

lemma safe_elem:
  "x \<in> set (fst (safe_log_lines_from b ls n)) \<Longrightarrow>
   x = withheld_line \<or>
   (\<exists>l\<in>set ls. x = printable l n \<and> \<not> line_is_risky l (to_lower l))"
  by (induction ls arbitrary: b) (auto simp: Let_def split_def split: if_splits)

text \<open>From a begin line up to the first end line after it, every line is withheld.\<close>

lemma safe_pem_from:
  "i < length ls \<Longrightarrow> (\<And>j. j < i \<Longrightarrow> \<not> str_contains (to_lower (ls ! j)) ''-----end'') \<Longrightarrow>
   fst (safe_log_lines_from True ls n) ! i = withheld_line"
proof (induction ls arbitrary: i)
  case (Cons l ls)
  show ?case
  proof (cases i)
    case 0
    then show ?thesis by (simp add: Let_def split_def)
  next
    case (Suc k)
    then have "\<not> str_contains (to_lower l) ''-----end''" using Cons.prems(2) [of 0] by simp
    moreover have "fst (safe_log_lines_from True ls n) ! k = withheld_line"
      using Cons.prems Suc by (intro Cons.IH) force+
    ultimately show ?thesis using Suc by (simp add: Let_def split_def)
  qed
qed simp

lemma safe_pem:
  assumes "k < i" "i < length ls" "str_contains (to_lower (ls ! k)) ''-----begin''"
    and "\<And>j. k < j \<Longrightarrow> j < i \<Longrightarrow> \<not> str_contains (to_lower (ls ! j)) ''-----end''"
  shows "fst (safe_log_lines_from b ls n) ! i = withheld_line"
  using assms
proof (induction ls arbitrary: b i k)
  case (Cons l ls)
  obtain i' where i: "i = Suc i'" using Cons.prems(1) by (cases i) auto
  have *: "fst (safe_log_lines_from b' ls n) ! i' = withheld_line" if "k = Suc k'" for k' b'
  proof (rule Cons.IH)
    show "k' < i'" "i' < length ls" "str_contains (to_lower (ls ! k')) ''-----begin''"
      using Cons.prems i that by auto
    fix j assume "k' < j" "j < i'"
    then show "\<not> str_contains (to_lower (ls ! j)) ''-----end''"
      using Cons.prems(4) [of "Suc j"] i that by simp
  qed
  show ?case
  proof (cases k)
    case 0
    have "fst (safe_log_lines_from True ls n) ! i' = withheld_line"
    proof (rule safe_pem_from)
      show "i' < length ls" using Cons.prems i by simp
      fix j assume "j < i'"
      then show "\<not> str_contains (to_lower (ls ! j)) ''-----end''"
        using Cons.prems(4) [of "Suc j"] i 0 by simp
    qed
    then show ?thesis using 0 Cons.prems(3) i by (simp add: Let_def split_def)
  next
    case (Suc k')
    from * [OF Suc] show ?thesis using i by (auto simp: Let_def split_def)
  qed
qed simp

text \<open>The count is the number of lines replaced.\<close>

lemma safe_count: "snd (safe_log_lines_from b ls n) \<le> length ls"
proof (induction ls arbitrary: b)
  case (Cons l ls)
  have "snd (safe_log_lines_from b' ls n) \<le> Suc (length ls)" for b' using Cons [of b'] by simp
  with Cons show ?case by (simp add: Let_def split_def)
qed simp

lemma str_contains_iff: "str_contains s sub \<longleftrightarrow> (\<exists>a b. s = a @ sub @ b)"
proof (induction s)
  case Nil
  then show ?case by (auto simp: str_contains_def)
next
  case (Cons c s)
  have "(\<exists>a b. c # s = a @ sub @ b) \<longleftrightarrow> has_prefix (c # s) sub \<or> (\<exists>a b. s = a @ sub @ b)"
  proof
    assume "\<exists>a b. c # s = a @ sub @ b"
    then obtain a b where "c # s = a @ sub @ b" by blast
    then show "has_prefix (c # s) sub \<or> (\<exists>a b. s = a @ sub @ b)"
      by (cases a) (auto simp: has_prefix_iff)
  next
    assume "has_prefix (c # s) sub \<or> (\<exists>a b. s = a @ sub @ b)"
    then show "\<exists>a b. c # s = a @ sub @ b"
      by (auto simp: has_prefix_iff intro: exI [of _ "[]"]) (metis append_Cons)
  qed
  with Cons show ?case by (auto simp: str_contains_def)
qed

end
