(* ===== verification/Dindio_Parse.thy ===== *)
theory Dindio_Parse
  imports Go_Strings "HOL-Library.Word"
begin

text \<open>
  The parsers of the DinD sidecar's IO report, from \<open>internal/topology/dindio_parse.go\<close>: block-IO
  counters of a stats sample, the cgroup \<open>io.stat\<close> records, the image probe's records, and the
  runner's repository from its environment. Byte counts are 64-bit words, so their sums wrap as the
  code's do. A stats sample is taken after its JSON decoding.
\<close>

section \<open>Stats sample\<close>

definition err_no_blkio_writes :: gerr where
  "err_no_blkio_writes = PlainErr ''stats sample has no blkio write counters''"

fun sum_writes :: "(string \<times> 64 word) list \<Rightarrow> 64 word \<Rightarrow> bool \<Rightarrow> 64 word \<times> bool" where
  "sum_writes [] tot found = (tot, found)"
| "sum_writes ((op, v) # es) tot found =
     (if equal_fold op ''write'' then sum_writes es (tot + v) True else sum_writes es tot found)"

definition parse_blkio_write_bytes :: "gerr + (string \<times> 64 word) list \<Rightarrow> 64 word res" where
  "parse_blkio_write_bytes sample =
     (case sample of
        Inl e \<Rightarrow> Inl (WrapErr ''failed to decode stats sample'' e)
      | Inr es \<Rightarrow>
          (case sum_writes es 0 False of
             (tot, found) \<Rightarrow> if \<not> found then Inl err_no_blkio_writes else Inr tot))"

section \<open>io.stat\<close>

definition io_stat_path :: string where
  "io_stat_path = ''/sys/fs/cgroup/io.stat''"

definition io_stat_script :: string where
  "io_stat_script =
     ''if [ -e '' @ io_stat_path @ '' ] && io=$(sed '' @ [CHR 0x27] @ ''s/^/io /'' @ [CHR 0x27] @ '' '' @
     io_stat_path @ '' 2>/dev/null); then'' @ [CHR 0x0A] @ ''  echo io_stat'' @ [CHR 0x0A] @
     ''  [ -z '' @ quoted ''$io'' @ '' ] || printf '' @ [CHR 0x27] @ ''%s'' @ [CHR 0x5C] @ ''n'' @ [CHR 0x27] @
     '' '' @ quoted ''$io'' @ [CHR 0x0A] @ ''else'' @ [CHR 0x0A] @ ''  echo io_stat_missing'' @ [CHR 0x0A] @ ''fi''"

definition err_no_io_stat :: gerr where
  "err_no_io_stat = PlainErr ''cgroup io.stat not readable in the sidecar''"

record device_writes =
  dw_device :: string
  dw_bytes :: "64 word"

record io_stat =
  io_written :: "64 word"
  io_devices :: "device_writes list"

definition by_device :: "io_stat \<Rightarrow> string" where
  "by_device st =
     join_with '','' (map (\<lambda>d. dw_device d @ ''='' @ nat_str (unat (dw_bytes d))) (io_devices st))"

definition is_decimal :: "string \<Rightarrow> bool" where
  "is_decimal s \<longleftrightarrow> s \<noteq> [] \<and> list_all is_digit s"

fun find_wbytes :: "string \<Rightarrow> string list \<Rightarrow> device_writes res" where
  "find_wbytes dev [] = Inl (PlainErr ''no wbytes'')"
| "find_wbytes dev (kv # kvs) =
     (case str_cut kv ''='' of (k, v, ok) \<Rightarrow>
        if \<not> ok \<or> k \<noteq> ''wbytes'' then find_wbytes dev kvs
        else (case parse_uint 64 v of
                Inl e \<Rightarrow> Inl (WrapErr ''bad wbytes'' e)
              | Inr n \<Rightarrow> Inr \<lparr>dw_device = dev, dw_bytes = of_nat n\<rparr>))"

definition parse_io_stat_line :: "string list \<Rightarrow> device_writes res" where
  "parse_io_stat_line fs =
     (case fs of
        [] \<Rightarrow> Inl (PlainErr ''no device'')
      | dev # kvs \<Rightarrow>
          (case str_cut dev '':'' of (major, minor, ok) \<Rightarrow>
             if \<not> ok \<or> \<not> is_decimal major \<or> \<not> is_decimal minor
             then Inl (PlainErr (''device '' @ quoted dev @ '' is not MAJ:MIN''))
             else find_wbytes dev kvs))"

fun parse_io_lines :: "string list \<Rightarrow> io_stat \<Rightarrow> bool \<Rightarrow> (io_stat \<times> bool) res" where
  "parse_io_lines [] st present = Inr (st, present)"
| "parse_io_lines (line # lines) st present =
     (case str_fields line of
        [] \<Rightarrow> parse_io_lines lines st present
      | f # fs \<Rightarrow>
          if f = ''io_stat'' then parse_io_lines lines st True
          else if f = ''io'' then
            (case parse_io_stat_line fs of
               Inl e \<Rightarrow> Inl (WrapErr (''malformed io.stat line '' @ quoted line) e)
             | Inr d \<Rightarrow>
                 parse_io_lines lines
                   (st\<lparr>io_devices := io_devices st @ [d], io_written := io_written st + dw_bytes d\<rparr>) present)
          else parse_io_lines lines st present)"

definition parse_io_stat :: "string \<Rightarrow> io_stat res" where
  "parse_io_stat out =
     (case parse_io_lines (split_on (CHR 0x0A) out) \<lparr>io_written = 0, io_devices = []\<rparr> False of
        Inl e \<Rightarrow> Inl e
      | Inr (st, present) \<Rightarrow> if \<not> present then Inl err_no_io_stat else Inr st)"

section \<open>The image probe\<close>

record image_probe =
  ip_driver :: string
  ip_store :: string
  ip_images :: nat
  ip_image_bytes :: "64 word"
  ip_content_bytes :: "64 word"
  ip_has_content :: bool

definition empty_probe :: image_probe where
  "empty_probe = \<lparr>ip_driver = '''', ip_store = '''', ip_images = 0, ip_image_bytes = 0,
     ip_content_bytes = 0, ip_has_content = False\<rparr>"

definition parse_uint_field :: "string list \<Rightarrow> nat \<Rightarrow> 64 word res" where
  "parse_uint_field fs want =
     (if length fs \<noteq> want then Inl (PlainErr (''want '' @ nat_str want @ '' fields''))
      else map_sum id of_nat (parse_uint 64 (fs ! (want - 1))))"

definition apply_record ::
  "string list \<Rightarrow> image_probe \<times> string list \<Rightarrow> (image_probe \<times> string list) res" where
  "apply_record fs = (\<lambda>(p, seen).
     (if hd fs = ''driver'' then
        (if length fs \<noteq> 2 then Inl (PlainErr ''want 2 fields'') else Inr (p\<lparr>ip_driver := fs ! 1\<rparr>, seen))
      else if hd fs = ''store'' then
        (if length fs \<noteq> 2 then Inl (PlainErr ''want 2 fields'') else Inr (p\<lparr>ip_store := fs ! 1\<rparr>, seen))
      else if hd fs = ''content_kib'' then
        (case parse_uint_field fs 2 of
           Inl e \<Rightarrow> Inl e
         | Inr kib \<Rightarrow> Inr (p\<lparr>ip_content_bytes := kib * 1024, ip_has_content := True\<rparr>, seen))
      else if hd fs = ''image'' then
        (case parse_uint_field fs 3 of
           Inl e \<Rightarrow> Inl e
         | Inr sz \<Rightarrow>
             if fs ! 1 \<in> set seen then Inr (p, seen)
             else Inr (p\<lparr>ip_images := ip_images p + 1, ip_image_bytes := ip_image_bytes p + sz\<rparr>,
                       fs ! 1 # seen))
      else Inr (p, seen)))"

fun apply_records ::
  "string list \<Rightarrow> image_probe \<times> string list \<Rightarrow> (image_probe \<times> string list) res" where
  "apply_records [] ps = Inr ps"
| "apply_records (line # lines) ps =
     (if str_fields line = [] then apply_records lines ps
      else (case apply_record (str_fields line) ps of
              Inl e \<Rightarrow> Inl (WrapErr (''malformed probe line '' @ quoted line) e)
            | Inr ps' \<Rightarrow> apply_records lines ps'))"

definition parse_image_probe :: "string \<Rightarrow> image_probe res" where
  "parse_image_probe out =
     (case apply_records (split_on (CHR 0x0A) out) (empty_probe, []) of
        Inl e \<Rightarrow> Inl e
      | Inr (p, seen) \<Rightarrow>
          if ip_driver p = '''' then Inl (PlainErr ''probe output has no driver record'') else Inr p)"

section \<open>The runner's repository\<close>

fun env_vals :: "string list \<Rightarrow> (string \<rightharpoonup> string) \<Rightarrow> (string \<rightharpoonup> string)" where
  "env_vals [] m = m"
| "env_vals (kv # kvs) m =
     (case str_cut kv ''='' of (k, v, ok) \<Rightarrow> env_vals kvs (if ok then m(k \<mapsto> v) else m))"

definition repo_from_env :: "string list \<Rightarrow> string" where
  "repo_from_env env =
     (let vals = env_vals env Map.empty;
          get = (\<lambda>k. case vals k of None \<Rightarrow> '''' | Some v \<Rightarrow> v);
          org = get ''RUNNER_ORG''; repo = get ''RUNNER_REPO''; ent = get ''RUNNER_ENTERPRISE''
      in if org \<noteq> '''' \<and> repo \<noteq> '''' then org @ ''/'' @ repo
         else if org \<noteq> '''' then org
         else if ent \<noteq> '''' then ''enterprises/'' @ ent
         else '''')"

section \<open>Lemmas\<close>

lemma sum_writes_eq:
  "sum_writes es t b =
     (t + sum_list (map snd (filter (\<lambda>e. equal_fold (fst e) ''write'') es)),
      b \<or> list_ex (\<lambda>e. equal_fold (fst e) ''write'') es)"
  by (induction es arbitrary: t b) (auto simp: add.assoc)

lemma parse_io_lines_sum:
  "parse_io_lines ls st p = Inr (st', p') \<Longrightarrow>
   \<exists>ds. io_devices st' = io_devices st @ ds \<and> io_written st' = io_written st + sum_list (map dw_bytes ds)"
proof (induction ls arbitrary: st p)
  case (Cons l ls)
  show ?case
  proof (cases "str_fields l")
    case (Cons f fs)
    show ?thesis
    proof (cases "f = ''io''")
      case True
      then obtain d where d: "parse_io_stat_line fs = Inr d"
        using Cons.prems Cons by (auto split: sum.splits)
      with True Cons.prems Cons have
        "parse_io_lines ls (st\<lparr>io_devices := io_devices st @ [d], io_written := io_written st + dw_bytes d\<rparr>) p
           = Inr (st', p')" by simp
      from Cons.IH [OF this] obtain ds where
        "io_devices st' = (io_devices st @ [d]) @ ds"
        "io_written st' = (io_written st + dw_bytes d) + sum_list (map dw_bytes ds)" by auto
      then show ?thesis by (intro exI [of _ "d # ds"]) (simp add: add.assoc)
    next
      case False
      with Cons.prems Cons show ?thesis by (auto intro: Cons.IH split: if_splits)
    qed
  next
    case Nil
    with Cons.prems show ?thesis by (auto intro: Cons.IH)
  qed
qed simp

lemma find_wbytes_device: "find_wbytes dev kvs = Inr d \<Longrightarrow> dw_device d = dev"
  by (induction kvs) (auto split: prod.splits if_splits sum.splits)

lemma parse_io_stat_line_device:
  assumes "parse_io_stat_line fs = Inr d"
  shows "fs \<noteq> [] \<and> dw_device d = hd fs \<and>
    (\<exists>a b. hd fs = a @ '':'' @ b \<and> is_decimal a \<and> is_decimal b)"
proof -
  obtain dev kvs where fs: "fs = dev # kvs" using assms by (auto simp: parse_io_stat_line_def split: list.splits)
  obtain a b ok where cut: "str_cut dev '':'' = (a, b, ok)" by (cases "str_cut dev '':''")
  have ok: "ok" "is_decimal a" "is_decimal b" "find_wbytes dev kvs = Inr d"
    using assms cut by (auto simp: fs parse_io_stat_line_def split: if_splits)
  with cut ok have "dev = a @ '':'' @ b" using str_cut_found [of dev "CHR '':''" a b] by simp
  then show ?thesis using ok find_wbytes_device [OF ok(4)] fs by auto
qed

text \<open>The probe's image count is the number of distinct IDs seen.\<close>

lemma apply_record_images:
  assumes "apply_record fs (p, seen) = Inr (p', seen')" "ip_images p = length seen" "distinct seen"
  shows "ip_images p' = length seen' \<and> distinct seen' \<and> set seen \<subseteq> set seen'"
  using assms by (auto simp: apply_record_def Let_def split: if_splits sum.splits)

lemma apply_records_images:
  "apply_records ls (p, seen) = Inr (p', seen') \<Longrightarrow> ip_images p = length seen \<Longrightarrow> distinct seen \<Longrightarrow>
   ip_images p' = length seen' \<and> distinct seen'"
proof (induction ls arbitrary: p seen)
  case (Cons l ls)
  show ?case
  proof (cases "str_fields l = []")
    case False
    then obtain q s where q: "apply_record (str_fields l) (p, seen) = Inr (q, s)"
      using Cons.prems(1) by (auto split: sum.splits)
    with False Cons.prems(1) have "apply_records ls (q, s) = Inr (p', seen')" by simp
    then show ?thesis using Cons.IH apply_record_images [OF q Cons.prems(2,3)] by blast
  qed (use Cons in simp)
qed simp

end
