(* ===== verification/Spec_Build.thy ===== *)
theory Spec_Build
  imports Docker_API
begin

text \<open>
  Container builders and the DinD mode rules, from \<open>internal/spec/mounts.go\<close>, \<open>dind.go\<close> and the
  builders of \<open>externals.go\<close> and \<open>diag.go\<close>.
\<close>

section \<open>Mounts and layout\<close>

definition CredentialDir :: string where "CredentialDir = ''/run/garm''"
definition RunnerWorkDir :: string where "RunnerWorkDir = ''/actions-runner/_work''"
definition RunnerUID :: string where "RunnerUID = ''1001''"
definition RunnerGID :: string where "RunnerGID = ''1001''"
definition ReadyMarker :: string where "ReadyMarker = ''.delivered''"
definition credential_dir_mode :: string where "credential_dir_mode = ''0700''"
definition credential_tmpfs_size_bytes :: nat where "credential_tmpfs_size_bytes = 16 * 2 ^ 20"
definition RunnerIPv6Sysctl :: string where "RunnerIPv6Sysctl = ''net.ipv6.conf.all.disable_ipv6''"

definition credential_tmpfs_map :: "(string \<times> string) list" where
  "credential_tmpfs_map =
     [(CredentialDir,
       ''rw,noexec,nosuid,nodev,size='' @ nat_str credential_tmpfs_size_bytes @ '',mode='' @
       credential_dir_mode @ '',uid='' @ RunnerUID @ '',gid='' @ RunnerGID)]"

definition volume_mount :: "string \<Rightarrow> string \<Rightarrow> mount" where
  "volume_mount src target =
     \<lparr>m_type = ''volume'', m_source = src, m_target = target, m_read_only = False, m_tmpfs_options = []\<rparr>"

definition workspace_mount :: mount where
  "workspace_mount = volume_mount '''' RunnerWorkDir"

definition named_workspace_mount :: "string \<Rightarrow> mount" where
  "named_workspace_mount name = volume_mount name RunnerWorkDir"

definition cache_volume_mount :: "string \<Rightarrow> string \<Rightarrow> mount" where
  "cache_volume_mount name target = volume_mount name target"

definition RunnerExternalsDir :: string where "RunnerExternalsDir = ''/actions-runner/externals''"
definition RunnerDiagDir :: string where "RunnerDiagDir = ''/actions-runner/_diag''"
definition RunnerDiagDirEnv :: string where "RunnerDiagDirEnv = ''GARM_DIAG_DIR''"

definition externals_ro_mount :: "string \<Rightarrow> mount" where
  "externals_ro_mount name = (volume_mount name RunnerExternalsDir)\<lparr>m_read_only := True\<rparr>"

definition diag_logs_mount :: "string \<Rightarrow> mount" where
  "diag_logs_mount name = volume_mount name RunnerDiagDir"

section \<open>The runner container\<close>

record runner_container_spec =
  rs_image :: string
  rs_env :: "string list"
  rs_labels :: labels
  rs_memory_bytes :: int
  rs_workspace_volume :: string
  rs_network :: string
  rs_socket_volume :: string
  rs_toolcache_volume :: string
  rs_toolcache_path :: string
  rs_pnpm_volume :: string
  rs_pnpm_path :: string
  rs_externals_volume :: string
  rs_diag_volume :: string

section \<open>DinD modes\<close>

definition dind_mode_none :: string where "dind_mode_none = ''none''"
definition dind_mode_privileged_sidecar :: string where
  "dind_mode_privileged_sidecar = ''privileged-sidecar''"
definition dind_mode_sysbox_runc :: string where "dind_mode_sysbox_runc = ''sysbox-runc''"
definition dind_runtime_sysbox :: string where "dind_runtime_sysbox = ''sysbox-runc''"

definition DindSocketDir :: string where "DindSocketDir = ''/run''"
definition DindSocketPath :: string where "DindSocketPath = ''/run/docker.sock''"
definition DindDockerHost :: string where "DindDockerHost = ''unix://'' @ DindSocketPath"
definition DindStateDir :: string where "DindStateDir = ''/var/lib/docker''"
definition DindTLSDisabledEnv :: string where "DindTLSDisabledEnv = ''DOCKER_TLS_CERTDIR=''"
definition DindSocketGID :: string where "DindSocketGID = ''2000''"
definition DindSocketGIDEnv :: string where "DindSocketGIDEnv = ''DOCKER_SOCK_GID''"

definition dind_command :: "string \<Rightarrow> string list \<Rightarrow> string list \<Rightarrow> string list" where
  "dind_command storage_driver mirrors insecure =
     [''dockerd'', ''--host='' @ DindDockerHost, ''--storage-driver='' @ storage_driver,
      ''--group='' @ DindSocketGID] @
     map (\<lambda>m. ''--registry-mirror='' @ m) mirrors @
     map (\<lambda>r. ''--insecure-registry='' @ r) insecure"

definition dind_shares_runner_netns :: "string \<Rightarrow> bool" where
  "dind_shares_runner_netns mode \<longleftrightarrow> mode = dind_mode_privileged_sidecar"

definition DindModeUnknown :: string where "DindModeUnknown = ''unknown''"

definition dind_mode_of :: "bool \<Rightarrow> string \<Rightarrow> string" where
  "dind_mode_of privileged runtime =
     (if runtime = dind_runtime_sysbox then dind_mode_sysbox_runc
      else if privileged then dind_mode_privileged_sidecar
      else DindModeUnknown)"

definition container_network_mode :: "string \<Rightarrow> string" where
  "container_network_mode i = ''container:'' @ i"

definition dind_runtime_selection :: "string \<Rightarrow> (bool \<times> string) res" where
  "dind_runtime_selection mode =
     (if mode = dind_mode_privileged_sidecar then Inr (True, '''')
      else if mode = dind_mode_sysbox_runc then Inr (False, dind_runtime_sysbox)
      else if mode = dind_mode_none
      then Inl (PlainErr (''dind runtime selection does not apply to dind_mode '' @ quoted dind_mode_none @
             '': no DinD sidecar exists in that mode''))
      else Inl (PlainErr (''dind runtime selection is undefined for dind_mode '' @ quoted mode @
             '' (want '' @ quoted dind_mode_privileged_sidecar @ '' or '' @ quoted dind_mode_sysbox_runc @ '')'')))"

definition socket_volume_mount :: "string \<Rightarrow> mount" where
  "socket_volume_mount name = volume_mount name DindSocketDir"

definition dind_state_mount :: "string \<Rightarrow> mount" where
  "dind_state_mount name = volume_mount name DindStateDir"

definition build_runner_container :: "runner_container_spec \<Rightarrow> container_config \<times> host_config" where
  "build_runner_container s =
     (let cfg = empty_config\<lparr>cc_image := rs_image s, cc_env := rs_env s, cc_labels := rs_labels s\<rparr>;
          workspace = (if rs_workspace_volume s \<noteq> '''' then named_workspace_mount (rs_workspace_volume s)
                       else workspace_mount);
          mounts = [workspace] @
            (if rs_socket_volume s \<noteq> '''' then [socket_volume_mount (rs_socket_volume s)] else []) @
            (if rs_toolcache_volume s \<noteq> '''' \<and> rs_toolcache_path s \<noteq> ''''
             then [cache_volume_mount (rs_toolcache_volume s) (rs_toolcache_path s)] else []) @
            (if rs_pnpm_volume s \<noteq> '''' \<and> rs_pnpm_path s \<noteq> ''''
             then [cache_volume_mount (rs_pnpm_volume s) (rs_pnpm_path s)] else []) @
            (if rs_externals_volume s \<noteq> '''' then [externals_ro_mount (rs_externals_volume s)] else []) @
            (if rs_diag_volume s \<noteq> '''' then [diag_logs_mount (rs_diag_volume s)] else [])
      in (cfg,
          empty_host
            \<lparr>hc_tmpfs := credential_tmpfs_map,
             hc_mounts := mounts,
             hc_sysctls := [(RunnerIPv6Sysctl, ''1'')],
             hc_group_add := (if rs_socket_volume s \<noteq> '''' then [DindSocketGID] else []),
             hc_network_mode := rs_network s,
             hc_memory := (if rs_memory_bytes s > 0 then rs_memory_bytes s else 0)\<rparr>))"

record dind_container_spec =
  ds_image :: string
  ds_env :: "string list"
  ds_labels :: labels
  ds_memory_bytes :: int
  ds_storage_driver :: string
  ds_registry_mirrors :: "string list"
  ds_insecure_registries :: "string list"
  ds_privileged :: bool
  ds_runtime :: string
  ds_netns_container :: string
  ds_network :: string
  ds_socket_volume :: string
  ds_dind_state_volume :: string
  ds_workspace_volume :: string
  ds_externals_volume :: string

definition build_dind_container :: "dind_container_spec \<Rightarrow> container_config \<times> host_config" where
  "build_dind_container s =
     (let cfg = empty_config
            \<lparr>cc_image := ds_image s, cc_env := DindTLSDisabledEnv # ds_env s, cc_labels := ds_labels s,
             cc_cmd := dind_command (ds_storage_driver s) (ds_registry_mirrors s) (ds_insecure_registries s)\<rparr>;
          mounts = [socket_volume_mount (ds_socket_volume s), dind_state_mount (ds_dind_state_volume s)] @
            (if ds_workspace_volume s \<noteq> '''' then [named_workspace_mount (ds_workspace_volume s)] else []) @
            (if ds_externals_volume s \<noteq> '''' then [externals_ro_mount (ds_externals_volume s)] else [])
      in (cfg,
          empty_host
            \<lparr>hc_privileged := ds_privileged s,
             hc_mounts := mounts,
             hc_runtime := ds_runtime s,
             hc_network_mode :=
               (if ds_netns_container s \<noteq> '''' then container_network_mode (ds_netns_container s)
                else ds_network s),
             hc_memory := (if ds_memory_bytes s > 0 then ds_memory_bytes s else 0)\<rparr>))"

section \<open>Helper containers\<close>

definition externals_seeded_marker_basename :: string where
  "externals_seeded_marker_basename = ''.garm-seeded''"
definition RunnerExternalsSeededMarkerPath :: string where
  "RunnerExternalsSeededMarkerPath = RunnerExternalsDir @ ''/'' @ externals_seeded_marker_basename"
definition RunnerExternalsSeededMarkerEnv :: string where
  "RunnerExternalsSeededMarkerEnv = ''GARM_EXTERNALS_SEEDED_MARKER''"
definition externals_seed_staging_dir :: string where
  "externals_seed_staging_dir = ''/garm-externals-seed''"
definition externals_seeded_marker :: string where
  "externals_seeded_marker = externals_seed_staging_dir @ ''/'' @ externals_seeded_marker_basename"
definition externals_seed_lock :: string where
  "externals_seed_lock = externals_seed_staging_dir @ ''/.garm-seed.lock''"

definition externals_seed_script :: string where
  "externals_seed_script =
     concat (map (\<lambda>l. l @ [CHR 0x0A])
       [''exec 9>'' @ quoted externals_seed_lock,
        ''flock 9'',
        ''if [ -e '' @ quoted externals_seeded_marker @ '' ]; then'',
        ''  exit 0'',
        ''fi'',
        ''if [ -d '' @ quoted RunnerExternalsDir @ '' ]; then'',
        ''  cp -a '' @ quoted (RunnerExternalsDir @ ''/.'') @ '' '' @ quoted (externals_seed_staging_dir @ ''/''),
        ''fi'',
        ''sync'',
        ''touch '' @ quoted externals_seeded_marker])"

definition build_externals_seed_container ::
  "string \<Rightarrow> string \<Rightarrow> labels \<Rightarrow> container_config \<times> host_config" where
  "build_externals_seed_container img vol l =
     (empty_config\<lparr>cc_image := img, cc_labels := l,
        cc_entrypoint := [''/bin/sh'', ''-ec'', externals_seed_script], cc_cmd := []\<rparr>,
      empty_host\<lparr>hc_network_mode := ''none'',
        hc_mounts := [volume_mount vol externals_seed_staging_dir]\<rparr>)"

definition diag_prune_mount_dir :: string where "diag_prune_mount_dir = ''/garm-diag-logs''"
definition diag_minutes_per_day :: int where "diag_minutes_per_day = 24 * 60"

definition diag_prune_script :: "int \<Rightarrow> string" where
  "diag_prune_script retention_days =
     ''find '' @ diag_prune_mount_dir @ '' -type f -mmin +'' @
     itoa (i64 (retention_days * diag_minutes_per_day)) @ '' -delete''"

definition build_diag_prune_container ::
  "string \<Rightarrow> string \<Rightarrow> int \<Rightarrow> labels \<Rightarrow> container_config \<times> host_config" where
  "build_diag_prune_container img vol retention_days l =
     (empty_config\<lparr>cc_image := img, cc_labels := l,
        cc_entrypoint := [''/bin/sh'', ''-ec'', diag_prune_script retention_days], cc_cmd := []\<rparr>,
      empty_host\<lparr>hc_network_mode := ''none'',
        hc_mounts := [volume_mount vol diag_prune_mount_dir]\<rparr>)"

definition build_stamp_container :: "string \<Rightarrow> labels \<Rightarrow> container_config \<times> host_config" where
  "build_stamp_container img l =
     (empty_config\<lparr>cc_image := img, cc_labels := l, cc_entrypoint := [''true''], cc_cmd := []\<rparr>,
      empty_host\<lparr>hc_network_mode := ''none''\<rparr>)"

section \<open>Lemmas\<close>

lemmas dind_modes = dind_mode_none_def dind_mode_privileged_sidecar_def dind_mode_sysbox_runc_def
  dind_runtime_sysbox_def

lemma dind_selection_some:
  "dind_runtime_selection mode = Inr pr \<longleftrightarrow>
     (mode = dind_mode_privileged_sidecar \<and> pr = (True, '''')) \<or>
     (mode = dind_mode_sysbox_runc \<and> pr = (False, dind_runtime_sysbox))"
  by (auto simp: dind_runtime_selection_def dind_modes)

text \<open>What the daemon reports: an empty runtime reads back as the default \<open>runc\<close>.\<close>

lemma dind_mode_round_trip:
  assumes "dind_runtime_selection mode = Inr (p, r)" "r' = r \<or> (r = '''' \<and> r' \<noteq> dind_runtime_sysbox)"
  shows "dind_mode_of p r' = mode"
  using assms by (auto simp: dind_selection_some dind_mode_of_def dind_modes)

lemma runner_mounts_writable:
  assumes "m \<in> set (hc_mounts (snd (build_runner_container s)))" "m_target m = RunnerExternalsDir"
    and "rs_toolcache_path s \<noteq> RunnerExternalsDir" "rs_pnpm_path s \<noteq> RunnerExternalsDir"
  shows "m_read_only m"
  using assms
  by (auto simp: build_runner_container_def Let_def workspace_mount_def named_workspace_mount_def
      volume_mount_def socket_volume_mount_def cache_volume_mount_def externals_ro_mount_def
      diag_logs_mount_def RunnerWorkDir_def RunnerExternalsDir_def DindSocketDir_def RunnerDiagDir_def
      split: if_splits)

end
