(* ===== verification/Topology_Report.thy ===== *)
theory Topology_Report
  imports Topology Log_Screen Dindio_Parse Spec_Build
begin

text \<open>
  The reports a delete or a sweep makes before anything stops: the exit details of a stopped runner
  (\<open>internal/topology/exitreport.go\<close>) and the block IO of a DinD sidecar (\<open>dindio.go\<close>). A report is
  the list of log lines it writes; nothing it does changes the store. The time budgets appear as
  calls that may fail.
\<close>

datatype attr_val = AStr string | AInt int | ABool bool | AWord "64 word"

type_synonym attrs = "(string \<times> attr_val) list"

datatype level = Debug | Info | Warn | Error

record log_line =
  ll_level :: level
  ll_msg :: string
  ll_attrs :: attrs

section \<open>The runner's log tail\<close>

definition exit_log_tail_lines :: nat where "exit_log_tail_lines = 20"
definition exit_log_read_limit :: nat where "exit_log_read_limit = 64 * 2 ^ 10"
definition exit_log_line_limit :: nat where "exit_log_line_limit = 240"

definition phase_before_listening :: string where "phase_before_listening = ''before_listening''"
definition phase_listening_no_job :: string where "phase_listening_no_job = ''listening_no_job''"
definition phase_job_started :: string where "phase_job_started = ''job_started''"
definition phase_job_completed :: string where "phase_job_completed = ''job_completed''"
definition phase_unknown :: string where "phase_unknown = ''unknown''"

definition delete_exit_log_msg :: string where
  "delete_exit_log_msg = ''teardown: runner was not running at delete''"

text \<open>
  \<open>runnerProgressLine\<close>: one of the three markers at the start of the line or just after a \<open>": "\<close>; the
  leftmost match counts.
\<close>

datatype progress = Listening | RunningJob | JobCompleted

definition marker_at :: "string \<Rightarrow> progress option" where
  "marker_at s =
     (if has_prefix s ''Listening for Jobs'' then Some Listening
      else if has_prefix s ''Running job: '' then Some RunningJob
      else if has_prefix s ''Job '' \<and>
              str_contains (drop 1 (takeWhile (\<lambda>c. c \<noteq> CHR 0x0A) (drop 4 s))) '' completed with result: ''
      then Some JobCompleted
      else None)"

fun marker_after_colon :: "string \<Rightarrow> progress option" where
  "marker_after_colon [] = None"
| "marker_after_colon (c # s) =
     (if has_prefix (c # s) '': '' \<and> marker_at (drop 1 s) \<noteq> None then marker_at (drop 1 s)
      else marker_after_colon s)"

definition runner_progress_line :: "string \<Rightarrow> progress option" where
  "runner_progress_line s =
     (case marker_at s of Some p \<Rightarrow> Some p | None \<Rightarrow> marker_after_colon s)"

fun last_marker :: "string list \<Rightarrow> progress option" where
  "last_marker [] = None"
| "last_marker (l # ls) = (case runner_progress_line l of Some p \<Rightarrow> Some p | None \<Rightarrow> last_marker ls)"

definition classify_runner_phase :: "string list \<Rightarrow> bool \<Rightarrow> string" where
  "classify_runner_phase raw_lines truncated =
     (case last_marker (rev raw_lines) of
        Some JobCompleted \<Rightarrow> phase_job_completed
      | Some RunningJob \<Rightarrow> if truncated then phase_unknown else phase_job_started
      | Some Listening \<Rightarrow> if truncated then phase_unknown else phase_listening_no_job
      | None \<Rightarrow>
          if truncated \<or> length raw_lines \<ge> exit_log_tail_lines then phase_unknown
          else phase_before_listening)"

record runner_tail =
  rt_lines :: "string list"
  rt_withheld :: nat
  rt_truncated :: bool
  rt_phase :: string

text \<open>Up to and including the last newline, nothing when there is none.\<close>

definition through_last_newline :: "string \<Rightarrow> string" where
  "through_last_newline s = rev (dropWhile (\<lambda>c. c \<noteq> CHR 0x0A) (rev s))"

definition last_n :: "nat \<Rightarrow> 'a list \<Rightarrow> 'a list" where
  "last_n n xs = drop (length xs - n) xs"

definition tail_lines :: "string \<Rightarrow> bool \<Rightarrow> string list" where
  "tail_lines out0 truncated =
     (let out1 = (if truncated \<and> \<not> has_suffix out0 [CHR 0x0A] then through_last_newline out0 else out0);
          out = trim_suffix out1 [CHR 0x0A];
          lines = (if out \<noteq> '''' then split_on (CHR 0x0A) out else [])
      in map (\<lambda>l. trim_suffix l [CHR 0x0D]) (last_n exit_log_tail_lines lines))"

definition runner_log_tail :: "'s manager \<Rightarrow> string \<Rightarrow> bool \<Rightarrow> ('s, runner_tail res) state" where
  "runner_log_tail m i tty = do {
     r \<leftarrow> container_logs (m_cli m) i (nat_str exit_log_tail_lines);
     case r of
       Inl e \<Rightarrow> ret (Inl (WrapErr ''failed to open the runner's logs'' e))
     | Inr raw \<Rightarrow>
         (let src = take exit_log_read_limit raw;
              truncated = (exit_log_read_limit \<le> length raw)
          in case (if tty then Inr src else m_demux m src) of
               Inl e \<Rightarrow> ret (Inl (WrapErr ''failed to read the runner's logs'' e))
             | Inr out \<Rightarrow>
                 (let lines = tail_lines out truncated;
                      (safe, withheld) = safe_log_lines lines exit_log_line_limit
                  in ret (Inr \<lparr>rt_lines = safe, rt_withheld = withheld, rt_truncated = truncated,
                               rt_phase = classify_runner_phase lines truncated\<rparr>)))
   }"

section \<open>Exit reports\<close>

definition exit_state_attrs :: "string \<Rightarrow> container_state option \<Rightarrow> attrs" where
  "exit_state_attrs prefix st =
     (case st of
        None \<Rightarrow> [(prefix @ ''state'', AStr ''unknown'')]
      | Some s \<Rightarrow>
          [(prefix @ ''state'', AStr (cs_status s)),
           (prefix @ ''exit_code'', AInt (cs_exit_code s)),
           (prefix @ ''finished_at'', AStr (cs_finished_at s)),
           (prefix @ ''oom_killed'', ABool (cs_oom_killed s))] @
          (if cs_error s \<noteq> ''''
           then [(prefix @ ''error'', AStr (hd (fst (safe_log_lines [cs_error s] exit_log_line_limit))))]
           else []))"

fun dind_exit_attrs :: "'s manager \<Rightarrow> container_summary list \<Rightarrow> ('s, attrs) state" where
  "dind_exit_attrs m [] = ret []"
| "dind_exit_attrs m (x # xs) =
     (if \<not> matches_predicate (su_labels x) (m_controller m) \<or> lget (su_labels x) LabelRole \<noteq> RoleDind
      then dind_exit_attrs m xs
      else if su_state x = ''running'' then ret [(''dind_state'', AStr (su_state x))]
      else do {
        r \<leftarrow> container_inspect (m_cli m) (su_id x);
        case r of
          Inl e \<Rightarrow> ret [(''dind_state'', AStr (su_state x)), (''dind_inspect_error'', AStr (err_text e))]
        | Inr info \<Rightarrow> ret (exit_state_attrs ''dind_'' (cj_state info))
      })"

definition exit_report_attrs ::
  "'s manager \<Rightarrow> container_summary \<Rightarrow> container_json \<Rightarrow> container_summary list \<Rightarrow>
   ('s, attrs \<times> string \<times> gerr option) state" where
  "exit_report_attrs m summary info containers = do {
     dind \<leftarrow> dind_exit_attrs m containers;
     let attrs = [(''instance'', AStr (lget (su_labels summary) LabelInstanceName)),
                  (''pool'', AStr (lget (su_labels summary) LabelPoolID))] @
                 exit_state_attrs '''' (cj_state info) @ dind;
     let tty = (case cj_config info of None \<Rightarrow> False | Some cfg \<Rightarrow> cc_tty cfg);
     r \<leftarrow> runner_log_tail m (su_id summary) tty;
     case r of
       Inl e \<Rightarrow> ret (attrs @ [(''runner_phase'', AStr phase_unknown), (''log_tail_error'', AStr (err_text e))],
                     phase_unknown, Some e)
     | Inr t \<Rightarrow>
         ret (attrs @ [(''runner_phase'', AStr (rt_phase t)),
                       (''log_tail'', AStr (join_with [CHR 0x0A] (rt_lines t))),
                       (''log_tail_withheld'', AInt (int (rt_withheld t)))] @
                (if rt_truncated t then [(''log_tail_truncated'', ABool True)] else []),
              rt_phase t, None)
   }"

definition report_exited_runner ::
  "'s manager \<Rightarrow> container_summary \<Rightarrow> container_json \<Rightarrow> container_summary list \<Rightarrow> ('s, log_line list) state" where
  "report_exited_runner m summary info containers = do {
     (attrs, phase, e) \<leftarrow> exit_report_attrs m summary info containers;
     ret (if e \<noteq> None
          then [\<lparr>ll_level = Warn, ll_msg = ''orphan sweep: runner exited on its own; its log tail is unavailable'',
                 ll_attrs = attrs\<rparr>]
          else [\<lparr>ll_level = Info, ll_msg = ''orphan sweep: runner exited on its own'', ll_attrs = attrs\<rparr>])
   }"

definition is_normal_runner_end :: "container_state option \<Rightarrow> string \<Rightarrow> bool" where
  "is_normal_runner_end st phase \<longleftrightarrow>
     (case st of None \<Rightarrow> False
      | Some s \<Rightarrow> cs_exit_code s = 0 \<and> \<not> cs_oom_killed s \<and> phase = phase_job_completed)"

definition report_stopped_runner ::
  "'s manager \<Rightarrow> container_summary \<Rightarrow> container_summary list \<Rightarrow> ('s, log_line list) state" where
  "report_stopped_runner m x xs = do {
     r \<leftarrow> container_inspect (m_cli m) (su_id x);
     case r of
       Inl e \<Rightarrow>
         if is_not_found e
         then ret [\<lparr>ll_level = Debug, ll_msg = ''teardown: runner already gone, not reported'',
                    ll_attrs = [(''instance'', AStr (lget (su_labels x) LabelInstanceName))]\<rparr>]
         else ret [\<lparr>ll_level = Warn, ll_msg = delete_exit_log_msg,
                    ll_attrs = [(''instance'', AStr (lget (su_labels x) LabelInstanceName)),
                                (''pool'', AStr (lget (su_labels x) LabelPoolID)),
                                (''state'', AStr (su_state x)),
                                (''runner_phase'', AStr phase_unknown),
                                (''inspect_error'', AStr (err_text e))]\<rparr>]
     | Inr info \<Rightarrow> do {
         (attrs, phase, e) \<leftarrow> exit_report_attrs m x info xs;
         ret [\<lparr>ll_level = (if e = None \<and> is_normal_runner_end (cj_state info) phase then Debug else Warn),
               ll_msg = delete_exit_log_msg, ll_attrs = attrs\<rparr>]
       }
   }"

definition report_stopped_step ::
  "'s manager \<Rightarrow> container_summary list \<Rightarrow> teardown_scope \<Rightarrow> container_summary \<Rightarrow> log_line list \<Rightarrow>
   ('s, log_line list) state" where
  "report_stopped_step m xs sc x logs =
     (if lget (su_labels x) LabelRole \<noteq> RoleRunner \<or> su_state x = ''running'' \<or>
         su_state x = ''removing'' \<or> su_state x = ''created''
      then ret logs
      else do {
        r \<leftarrow> may_remove m sc (su_labels x);
        if r \<noteq> Inr True then ret logs
        else do {
          ls \<leftarrow> report_stopped_runner m x xs;
          ret (logs @ ls)
        }
      })"

definition report_stopped_runners ::
  "'s manager \<Rightarrow> container_summary list \<Rightarrow> teardown_scope \<Rightarrow> ('s, log_line list) state" where
  "report_stopped_runners m xs sc =
     (if \<not> ts_report_on_delete sc then ret [] else for_each (report_stopped_step m xs sc) xs [])"

section \<open>The sidecar's IO report\<close>

definition has_role :: "container_summary list \<Rightarrow> string \<Rightarrow> bool" where
  "has_role xs role = list_ex (\<lambda>x. lget (su_labels x) LabelRole = role) xs"

fun runner_repo :: "'s manager \<Rightarrow> container_summary list \<Rightarrow> ('s, string) state" where
  "runner_repo m [] = ret ''''"
| "runner_repo m (x # xs) =
     (if lget (su_labels x) LabelRole \<noteq> RoleRunner then runner_repo m xs
      else do {
        r \<leftarrow> container_inspect (m_cli m) (su_id x);
        case r of
          Inl e \<Rightarrow> ret ''''
        | Inr info \<Rightarrow> (case cj_config info of None \<Rightarrow> ret '''' | Some cfg \<Rightarrow> ret (repo_from_env (cc_env cfg)))
      })"

text \<open>\<open>newDindIOReporter\<close>: the repository of the report, or none when no report applies.\<close>

definition new_dind_io_reporter ::
  "'s manager \<Rightarrow> container_summary list \<Rightarrow> teardown_scope \<Rightarrow> ('s, string option) state" where
  "new_dind_io_reporter m xs sc =
     (if \<not> ts_report_on_delete sc \<or> \<not> has_role xs RoleDind then ret None
      else do { repo \<leftarrow> runner_repo m xs; ret (Some repo) })"

definition whole_seconds :: "duration \<Rightarrow> int" where
  "whole_seconds d = (if d < 0 then - (- d div second) else d div second)"

definition io_identity :: "'s manager \<Rightarrow> string \<Rightarrow> container_summary \<Rightarrow> ('s, attrs res) state" where
  "io_identity m repo x = do {
     r \<leftarrow> container_inspect (m_cli m) (su_id x);
     case r of
       Inl e \<Rightarrow> ret (Inl (WrapErr ''failed to inspect sidecar'' e))
     | Inr info \<Rightarrow>
         (case (cj_state info, cj_host info) of
            (Some st, Some host) \<Rightarrow>
              if \<not> cs_running st then ret (Inl (PlainErr ''sidecar is not running''))
              else do {
                now \<leftarrow> read_state (m_now m);
                ret (Inr ([(''instance'', AStr (lget (su_labels x) LabelInstanceName)),
                           (''pool'', AStr (lget (su_labels x) LabelPoolID))] @
                          (if repo \<noteq> '''' then [(''repo'', AStr repo)] else []) @
                          [(''dind_mode'', AStr (dind_mode_of (hc_privileged host) (hc_runtime host)))] @
                          (case parse_created_at (su_labels x) of
                             None \<Rightarrow> []
                           | Some t \<Rightarrow> [(''since_create_s'', AInt (whole_seconds (time_sub now t)))])))
              }
          | _ \<Rightarrow> ret (Inl (PlainErr ''sidecar is not running'')))
   }"

definition read_io_stat :: "'s manager \<Rightarrow> string \<Rightarrow> ('s, io_stat res) state" where
  "read_io_stat m i = do {
     r \<leftarrow> exec_output (m_cli m) i [''sh'', ''-c'', io_stat_script];
     case r of
       Inl e \<Rightarrow> ret (Inl (WrapErr ''failed to read io.stat'' e))
     | Inr (out, code) \<Rightarrow> ret (parse_io_stat out)
   }"

definition stats_written_bytes :: "'s manager \<Rightarrow> string \<Rightarrow> ('s, 64 word res) state" where
  "stats_written_bytes m i = do {
     spent \<leftarrow> read_state (m_ctx_err m);
     case spent of
       Some e \<Rightarrow> ret (Inl (WrapErr ''report budget spent before the stats sample'' e))
     | None \<Rightarrow> do {
         r \<leftarrow> container_stats (m_cli m) i;
         case r of
           Inl e \<Rightarrow> ret (Inl (WrapErr ''failed to read stats'' e))
         | Inr sample \<Rightarrow> ret (parse_blkio_write_bytes sample)
       }
   }"

definition written_attrs :: "'s manager \<Rightarrow> string \<Rightarrow> ('s, attrs \<times> bool) state" where
  "written_attrs m i = do {
     r \<leftarrow> read_io_stat m i;
     case r of
       Inr st \<Rightarrow>
         ret ([(''written_bytes'', AWord (io_written st)), (''written_source'', AStr ''io.stat'')] @
              (if io_devices st \<noteq> [] then [(''written_by_device'', AStr (by_device st))] else []), True)
     | Inl io_err \<Rightarrow> do {
         r2 \<leftarrow> stats_written_bytes m i;
         case r2 of
           Inl stats_err \<Rightarrow>
             ret ([(''io_stat_error'', AStr (err_text io_err)), (''stats_error'', AStr (err_text stats_err))], False)
         | Inr written \<Rightarrow>
             ret ([(''written_bytes'', AWord written), (''written_source'', AStr ''stats''),
                   (''io_stat_error'', AStr (err_text io_err))], True)
       }
   }"

text \<open>The image probe's script, which runs inside the sidecar; its text is a constant of the report.\<close>

definition image_probe_script :: string where
  "image_probe_script =
     join_with [CHR 0x0A]
       [''export DOCKER_HOST=unix:///run/docker.sock'',
        ''info=$(docker info --format '' @ [CHR 0x27] @ ''{{.Driver}} {{.DriverStatus}}'' @ [CHR 0x27] @ '') || exit 3'',
        ''echo '' @ quoted ''driver ${info%% *}'',
        ''case '' @ quoted ''$info'' @ '' in'',
        ''*io.containerd.snapshotter*)'',
        ''  echo '' @ quoted ''store containerd'',
        ''  kib=$(du -sk /var/lib/docker/containerd/daemon/io.containerd.content.v1.content 2>/dev/null | cut -f1)'',
        ''  [ -z '' @ quoted ''$kib'' @ '' ] || echo '' @ quoted ''content_kib $kib'' @ '' ;;'',
        ''*) echo '' @ quoted ''store classic'' @ '' ;;'',
        ''esac'',
        ''ids=$(docker image ls -q --no-trunc) || exit 4'',
        ''ids=$(printf '' @ [CHR 0x27] @ ''%s'' @ [CHR 0x5C] @ ''n'' @ [CHR 0x27] @ '' '' @ quoted ''$ids'' @ '' | sort -u) || exit 5'',
        ''[ -z '' @ quoted ''$ids'' @ '' ] || docker image inspect --format '' @ [CHR 0x27] @
          ''image {{.ID}} {{.Size}}'' @ [CHR 0x27] @ '' $ids'']"

definition probe_attrs :: "'s manager \<Rightarrow> string \<Rightarrow> ('s, attrs) state" where
  "probe_attrs m i = do {
     r \<leftarrow> exec_output (m_cli m) i [''sh'', ''-c'', image_probe_script];
     let p = (case r of
                Inl e \<Rightarrow> Inl e
              | Inr (out, code) \<Rightarrow>
                  if code \<noteq> 0 then Inl (PlainErr (''probe exited with code '' @ itoa code))
                  else parse_image_probe out);
     case p of
       Inl e \<Rightarrow> ret [(''probe_error'', AStr (err_text e))]
     | Inr q \<Rightarrow>
         ret ([(''storage_driver'', AStr (ip_driver q)), (''image_store'', AStr (ip_store q)),
               (''images'', AInt (int (ip_images q))), (''image_bytes'', AWord (ip_image_bytes q))] @
              (if ip_has_content q then [(''content_bytes'', AWord (ip_content_bytes q))] else []))
   }"

definition dind_io_report ::
  "'s manager \<Rightarrow> string \<Rightarrow> container_summary \<Rightarrow> ('s, log_line list) state" where
  "dind_io_report m repo x = do {
     r \<leftarrow> io_identity m repo x;
     case r of
       Inl e \<Rightarrow>
         ret [\<lparr>ll_level = Debug, ll_msg = ''teardown: DinD sidecar IO not reported'',
               ll_attrs = [(''instance'', AStr (lget (su_labels x) LabelInstanceName)),
                           (''reason'', AStr (err_text e))]\<rparr>]
     | Inr attrs \<Rightarrow> do {
         (written, ok) \<leftarrow> written_attrs m (su_id x);
         probe \<leftarrow> probe_attrs m (su_id x);
         ret [\<lparr>ll_level = (if ok then Info else Warn),
               ll_msg = (if ok then ''teardown: DinD sidecar IO''
                         else ''teardown: DinD sidecar IO unavailable''),
               ll_attrs = attrs @ written @ probe\<rparr>]
       }
   }"

definition report_io_step ::
  "'s manager \<Rightarrow> teardown_scope \<Rightarrow> string \<Rightarrow> container_summary \<Rightarrow> log_line list \<Rightarrow> ('s, log_line list) state" where
  "report_io_step m sc repo x logs =
     (if lget (su_labels x) LabelRole \<noteq> RoleDind then ret logs
      else do {
        r \<leftarrow> may_remove m sc (su_labels x);
        if r \<noteq> Inr True then ret logs
        else do { ls \<leftarrow> dind_io_report m repo x; ret (logs @ ls) }
      })"

definition report_all ::
  "'s manager \<Rightarrow> string option \<Rightarrow> container_summary list \<Rightarrow> teardown_scope \<Rightarrow> ('s, log_line list) state" where
  "report_all m reporter xs sc =
     (case reporter of None \<Rightarrow> ret [] | Some repo \<Rightarrow> for_each (report_io_step m sc repo) xs [])"

section \<open>Lemmas\<close>

text \<open>A marker after the timestamp wins over anything in the rest of the line.\<close>

lemma marker_after_colon_skip:
  assumes "\<not> str_contains ts '': ''" "marker_at rest = Some p"
  shows "marker_after_colon (ts @ '': '' @ rest) = Some p"
  using assms(1)
proof (induction ts)
  case Nil
  then show ?case using assms(2) by (simp add: has_prefix_def)
next
  case (Cons c ts)
  have "\<not> has_prefix (c # ts @ '': '' @ rest) '': ''"
  proof
    assume "has_prefix (c # ts @ '': '' @ rest) '': ''"
    then have "has_prefix (c # ts) '': ''" by (cases ts) (auto simp: has_prefix_def)
    then show False using Cons.prems by (simp add: str_contains_def)
  qed
  moreover have "\<not> str_contains ts '': ''" using Cons.prems by (simp add: str_contains_def split: if_splits)
  ultimately show ?case using Cons.IH by simp
qed

lemma runner_progress_after_timestamp:
  assumes "\<not> str_contains ts '': ''" "marker_at rest = Some p" "marker_at (ts @ '': '' @ rest) = None"
  shows "runner_progress_line (ts @ '': '' @ rest) = Some p"
  using marker_after_colon_skip [OF assms(1,2)] assms(3) by (simp add: runner_progress_line_def)

lemma last_marker_append:
  "last_marker (xs @ ys) = (case last_marker xs of None \<Rightarrow> last_marker ys | Some p \<Rightarrow> Some p)"
  by (induction xs) (auto split: option.splits)

lemma last_marker_None: "last_marker xs = None \<longleftrightarrow> (\<forall>x\<in>set xs. runner_progress_line x = None)"
  by (induction xs) (auto split: option.splits)

text \<open>Every line of a tail has passed the screen or is the withheld marker.\<close>

lemma runner_log_tail_safe:
  assumes "run_state (runner_log_tail m i tty) s = (Inr t, s')" "x \<in> set (rt_lines t)"
  shows "x = withheld_line \<or> (\<exists>l. x = printable l exit_log_line_limit \<and> \<not> line_is_risky l (to_lower l))"
  using assms unfolding runner_log_tail_def
  by (auto simp: Let_def split_def safe_log_lines_def split: sum.splits if_splits dest!: safe_elem)

context docker_reads begin

lemma keeps_runner_log_tail: "m_cli m = c \<Longrightarrow> keeps (runner_log_tail m i tty)"
  unfolding runner_log_tail_def Let_def split_def by (simp only:, intro keeps_rules)

lemma keeps_dind_exit_attrs: "m_cli m = c \<Longrightarrow> keeps (dind_exit_attrs m xs)"
proof (induction xs)
  case (Cons x xs)
  then show ?case unfolding dind_exit_attrs.simps by (simp only:, intro keeps_rules) assumption
qed (simp add: keeps_return)

lemma keeps_exit_report_attrs: "m_cli m = c \<Longrightarrow> keeps (exit_report_attrs m x info xs)"
  unfolding exit_report_attrs_def Let_def
  by (intro keeps_rules keeps_runner_log_tail keeps_dind_exit_attrs)

lemma keeps_report_exited_runner: "m_cli m = c \<Longrightarrow> keeps (report_exited_runner m x info xs)"
  unfolding report_exited_runner_def by (intro keeps_rules keeps_exit_report_attrs)

lemma keeps_report_stopped_runner: "m_cli m = c \<Longrightarrow> keeps (report_stopped_runner m x xs)"
  unfolding report_stopped_runner_def
  by (simp only:, intro keeps_rules keeps_exit_report_attrs, simp_all)

lemma keeps_report_stopped_runners: "m_cli m = c \<Longrightarrow> keeps (report_stopped_runners m xs sc)"
  unfolding report_stopped_runners_def report_stopped_step_def
  by (intro keeps_rules keeps_report_stopped_runner keeps_may_remove)

lemma keeps_runner_repo: "m_cli m = c \<Longrightarrow> keeps (runner_repo m xs)"
proof (induction xs)
  case (Cons x xs)
  then show ?case unfolding runner_repo.simps by (simp only:, intro keeps_rules) assumption
qed (simp add: keeps_return)

lemma keeps_new_reporter: "m_cli m = c \<Longrightarrow> keeps (new_dind_io_reporter m xs sc)"
  unfolding new_dind_io_reporter_def by (intro keeps_rules keeps_runner_repo)

lemma keeps_io_identity: "m_cli m = c \<Longrightarrow> keeps (io_identity m repo x)"
  unfolding io_identity_def by (simp only: prod.case, intro keeps_rules)

lemma keeps_written_attrs: "m_cli m = c \<Longrightarrow> keeps (written_attrs m i)"
  unfolding written_attrs_def read_io_stat_def stats_written_bytes_def
  by (simp only:, intro keeps_rules)

lemma keeps_probe_attrs: "m_cli m = c \<Longrightarrow> keeps (probe_attrs m i)"
  unfolding probe_attrs_def Let_def by (simp only:, intro keeps_rules)

lemma keeps_dind_io_report: "m_cli m = c \<Longrightarrow> keeps (dind_io_report m repo x)"
  unfolding dind_io_report_def
  by (intro keeps_rules keeps_io_identity keeps_written_attrs keeps_probe_attrs)

lemma keeps_report_all: "m_cli m = c \<Longrightarrow> keeps (report_all m reporter xs sc)"
  unfolding report_all_def report_io_step_def
  by (intro keeps_rules keeps_dind_io_report keeps_may_remove)

end

end
