(* ===== verification/Topology_Teardown.thy ===== *)
theory Topology_Teardown
  imports Topology_Report
begin

text \<open>
  Teardown and rollback, from \<open>internal/topology/teardown.go\<close>: containers, then volumes, then
  networks, each removal gated by \<open>may_remove\<close>. The three loops share \<open>removal_step\<close>: gate, then
  act, collecting errors. A teardown returns whether anything was found, the joined errors and the
  report lines. The lemmas bound what a teardown removes and say what is gone when it returns no
  error; they are proved for every daemon that meets \<open>docker_store\<close>.
\<close>

section \<open>The code\<close>

definition role_rank :: "labels \<Rightarrow> nat" where
  "role_rank l =
     (if lget l LabelRole = RoleRunner then 0 else if lget l LabelRole = RoleDind then 1 else 2)"

definition removal_error :: "string \<Rightarrow> gerr option \<Rightarrow> gerr option" where
  "removal_error msg r =
     (case r of None \<Rightarrow> None | Some e \<Rightarrow> if is_not_found e then None else Some (WrapErr msg e))"

definition removal_step ::
  "'s manager \<Rightarrow> teardown_scope \<Rightarrow> ('x \<Rightarrow> labels) \<Rightarrow> ('x \<Rightarrow> ('s, gerr option) state) \<Rightarrow>
   'x \<Rightarrow> bool \<times> gerr list \<Rightarrow> ('s, bool \<times> gerr list) state" where
  "removal_step m sc labf act x acc = do {
     r \<leftarrow> may_remove m sc (labf x);
     case r of
       Inl e \<Rightarrow> ret (fst acc, snd acc @ [e])
     | Inr ok \<Rightarrow>
         if \<not> ok then ret acc
         else do {
           e \<leftarrow> act x;
           ret (True, snd acc @ opt_list e)
         }
   }"

definition stop_and_remove :: "'s manager \<Rightarrow> container_summary \<Rightarrow> ('s, gerr option) state" where
  "stop_and_remove m x = do {
     _ \<leftarrow> container_stop (m_cli m) (su_id x);
     r \<leftarrow> container_remove (m_cli m) (su_id x) True True;
     ret (removal_error (''failed to remove container '' @ su_id x) r)
   }"

definition remove_containers ::
  "'s manager \<Rightarrow> string list \<Rightarrow> teardown_scope \<Rightarrow> ('s, bool \<times> gerr option \<times> log_line list) state" where
  "remove_containers m fs sc = do {
     r \<leftarrow> container_list (m_cli m) True fs;
     case r of
       Inl e \<Rightarrow> ret (False, Some (WrapErr ''failed to list containers for teardown'' e), [])
     | Inr xs0 \<Rightarrow> do {
         let xs = sort_key (\<lambda>x. role_rank (su_labels x)) xs0;
         logs1 \<leftarrow> report_stopped_runners m xs sc;
         reporter \<leftarrow> new_dind_io_reporter m xs sc;
         logs2 \<leftarrow> report_all m reporter xs sc;
         (found, errs) \<leftarrow> for_each (removal_step m sc su_labels (stop_and_remove m)) xs (False, []);
         ret (found, join_errs errs, logs1 @ logs2)
       }
   }"

definition remove_one_network :: "'s manager \<Rightarrow> network_summary \<Rightarrow> ('s, gerr option) state" where
  "remove_one_network m n = do {
     r \<leftarrow> network_remove (m_cli m) (ns_id n);
     ret (removal_error (''failed to remove network '' @ ns_id n) r)
   }"

definition remove_networks ::
  "'s manager \<Rightarrow> string list \<Rightarrow> teardown_scope \<Rightarrow> ('s, bool \<times> gerr option) state" where
  "remove_networks m fs sc = do {
     r \<leftarrow> network_list (m_cli m) fs;
     case r of
       Inl e \<Rightarrow> ret (False, Some (WrapErr ''failed to list networks for teardown'' e))
     | Inr ns \<Rightarrow> do {
         (found, errs) \<leftarrow> for_each (removal_step m sc ns_labels (remove_one_network m)) ns (False, []);
         ret (found, join_errs errs)
       }
   }"

definition remove_one_volume :: "'s manager \<Rightarrow> volume \<Rightarrow> ('s, gerr option) state" where
  "remove_one_volume m v = do {
     r \<leftarrow> volume_remove (m_cli m) (vol_name v) True;
     ret (removal_error (''failed to remove volume '' @ vol_name v) r)
   }"

text \<open>A nil entry of the list is skipped.\<close>

definition remove_volumes ::
  "'s manager \<Rightarrow> string list \<Rightarrow> teardown_scope \<Rightarrow> ('s, bool \<times> gerr option) state" where
  "remove_volumes m fs sc = do {
     r \<leftarrow> volume_list (m_cli m) fs;
     case r of
       Inl e \<Rightarrow> ret (False, Some (WrapErr ''failed to list volumes for teardown'' e))
     | Inr vs \<Rightarrow> do {
         (found, errs) \<leftarrow> for_each (removal_step m sc vol_labels (remove_one_volume m))
                            (List.map_filter id vs) (False, []);
         ret (found, join_errs errs)
       }
   }"

definition run_teardown ::
  "'s manager \<Rightarrow> string list \<Rightarrow> teardown_scope \<Rightarrow> ('s, bool \<times> gerr option \<times> log_line list) state" where
  "run_teardown m fs sc = do {
     (c_found, c_err, logs) \<leftarrow> remove_containers m fs sc;
     (v_found, v_err) \<leftarrow> remove_volumes m fs sc;
     (n_found, n_err) \<leftarrow> remove_networks m fs sc;
     ret (c_found \<or> v_found \<or> n_found, join_errs (opt_list c_err @ opt_list v_err @ opt_list n_err), logs)
   }"

definition teardown_generation ::
  "'s manager \<Rightarrow> string list \<Rightarrow> bool \<Rightarrow> ('s, bool \<times> gerr option \<times> log_line list) state" where
  "teardown_generation m fs report_on_delete = do {
     r \<leftarrow> claim_nonces_by_instance m fs;
     case r of
       Inl e \<Rightarrow> ret (False, Some e, [])
     | Inr captured \<Rightarrow>
         run_teardown m fs
           \<lparr>ts_mode = Generation, ts_exact = '''', ts_captured = captured, ts_report_on_delete = report_on_delete\<rparr>
   }"

definition teardown_allocation ::
  "'s manager \<Rightarrow> string \<Rightarrow> ('s, bool \<times> gerr option \<times> log_line list) state" where
  "teardown_allocation m instance_name =
     teardown_generation m (instance_scoped_filter m instance_name) False"

definition teardown_allocation_reporting_io ::
  "'s manager \<Rightarrow> string \<Rightarrow> ('s, bool \<times> gerr option \<times> log_line list) state" where
  "teardown_allocation_reporting_io m instance_name =
     teardown_generation m (instance_scoped_filter m instance_name) True"

definition teardown_all :: "'s manager \<Rightarrow> ('s, gerr option) state" where
  "teardown_all m = do {
     (found, e, logs) \<leftarrow> run_teardown m (match_predicate_filters (m_controller m))
       \<lparr>ts_mode = All, ts_exact = '''', ts_captured = Map.empty, ts_report_on_delete = False\<rparr>;
     ret e
   }"

definition rollback :: "'s manager \<Rightarrow> string \<Rightarrow> string \<Rightarrow> ('s, gerr option) state" where
  "rollback m instance_name nonce = do {
     (found, e, logs) \<leftarrow> run_teardown m (instance_scoped_nonce_filter m instance_name nonce)
       \<lparr>ts_mode = Exact, ts_exact = nonce, ts_captured = Map.empty, ts_report_on_delete = False\<rparr>;
     ret e
   }"

section \<open>What the gate answers\<close>

abbreviation no_claim :: "string \<Rightarrow> string option" where
  "no_claim \<equiv> \<lambda>_. None"

definition is_claim :: "string \<Rightarrow> string \<Rightarrow> labels \<Rightarrow> bool" where
  "is_claim cid i l \<longleftrightarrow>
     matches_predicate l cid \<and> lget l LabelResource = ResourceJobNetwork \<and> lget l LabelInstanceName = i"

definition claimed :: "string \<Rightarrow> string \<Rightarrow> store \<Rightarrow> bool" where
  "claimed cid i v \<longleftrightarrow> (\<exists>k n l. v (Net k) = Some (n, l) \<and> is_claim cid i l)"

lemma claimed_removes: "removes D v w \<Longrightarrow> claimed cid i w \<Longrightarrow> claimed cid i v"
  unfolding claimed_def using removes_back by blast

definition teardown_drops :: "teardown_scope \<Rightarrow> string \<Rightarrow> string list \<Rightarrow> rid \<Rightarrow> string \<Rightarrow> labels \<Rightarrow> bool" where
  "teardown_drops sc cid fs r n l \<longleftrightarrow> scope_allows sc cid no_claim l \<and> list_all (match_term l) fs"

lemma is_claim_filter:
  assumes "is_claim (m_controller m) i l" "m_controller m \<noteq> ''''"
  shows "list_all (match_term l) (instance_scoped_filter m i @ [label_eq LabelResource ResourceJobNetwork])"
  using assms by (auto simp: instance_scoped_filter_def is_claim_def matches_predicate_iff lget_def resource_values
      split: option.splits)

context docker_store begin

lemma run_live_claim_nonce:
  assumes "inv s" "m_cli m = c" "run_state (live_claim_nonce m i) s = (r, s')" "m_controller m \<noteq> ''''"
  shows "(\<forall>k. r = Inr (Some k) \<longrightarrow> (\<exists>j n l. view s (Net j) = Some (n, l) \<and> is_claim (m_controller m) i l \<and>
            lget l LabelCreateNonce = k)) \<and>
         (r = Inr None \<longrightarrow> \<not> claimed (m_controller m) i (view s))"
proof -
  let ?fs = "instance_scoped_filter m i @ [label_eq LabelResource ResourceJobNetwork]"
  from assms(2,3) obtain rn s1 where rn: "run_state (network_list c ?fs) s = (rn, s1)"
    and r: "r = (case rn of Inl e \<Rightarrow> Inl (WrapErr (''failed to read live claim nonce for '' @ quoted i) e)
        | Inr ns \<Rightarrow> Inr (first_live_claim (m_controller m) ns))"
    unfolding live_claim_nonce_def by (auto split: prod.splits sum.splits)
  show ?thesis
  proof (cases rn)
    case (Inr ns)
    have l: "lists_matching Net ns_id ns_labels ?fs (view s) ns" using net_list [OF assms(1) rn] Inr by auto
    have inst: "lget (ns_labels n) LabelInstanceName = i" if "n \<in> set ns" for n
      using lists_matchingD [OF l that] by (auto simp: instance_scoped_filter_def lget_def)
    have name: "view s (Net (ns_id n)) = Some (ns_name n, ns_labels n)" if "n \<in> set ns" for n
      using net_list_name [OF assms(1)] rn Inr that by auto
    have "\<not> claimed (m_controller m) i (view s)" if "first_live_claim (m_controller m) ns = None"
    proof
      assume "claimed (m_controller m) i (view s)"
      then obtain j n l' where *: "view s (Net j) = Some (n, l')" "is_claim (m_controller m) i l'"
        by (auto simp: claimed_def)
      have "labels_of (view s) (Net j) = Some l'" using * by (simp add: labels_of_def)
      from lists_matchingE [OF l this is_claim_filter [OF *(2) assms(4)]]
      obtain x where "x \<in> set ns" "ns_labels x = l'" .
      with that *(2) show False by (auto simp: first_live_claim_None is_claim_def)
    qed
    then show ?thesis
      unfolding r Inr using first_live_claim_in inst name by (auto simp: is_claim_def) metis
  qed (simp add: r)
qed

text \<open>
  The gate: a yes means the scope allows the labels with no claim in view, and without a live claim
  that is exactly when it says yes.
\<close>

lemma run_may_remove:
  assumes "inv s" "m_cli m = c" "run_state (may_remove m sc l) s = (r, s')" "m_controller m \<noteq> ''''"
  shows "inv s' \<and> view s' = view s \<and>
    (\<forall>ok. r = Inr ok \<longrightarrow>
       (ok \<longrightarrow> scope_allows sc (m_controller m) no_claim l) \<and>
       (\<not> claimed (m_controller m) (lget l LabelInstanceName) (view s) \<or> ts_mode sc \<noteq> Generation \<or>
          ts_captured sc (lget l LabelInstanceName) \<noteq> None \<longrightarrow>
        ok = scope_allows sc (m_controller m) no_claim l))"
proof -
  have k: "inv s' \<and> view s' = view s"
    using keepsD [OF keeps_may_remove [OF assms(2)] assms(1,3)] .
  show ?thesis
  proof (cases "matches_predicate l (m_controller m) \<and> ts_mode sc = Generation \<and>
      ts_captured sc (lget l LabelInstanceName) = None")
    case False
    then show ?thesis using assms(3) k
      by (cases "ts_mode sc") (auto simp: may_remove_def scope_allows_def split: if_splits option.splits)
  next
    case True
    then obtain rl s1 where rl: "run_state (live_claim_nonce m (lget l LabelInstanceName)) s = (rl, s1)"
      and r: "r = (case rl of Inl e \<Rightarrow> Inl e | Inr live \<Rightarrow>
         Inr (case live of None \<Rightarrow> True | Some ln \<Rightarrow> \<not> (ln \<noteq> '''' \<and> lget l LabelCreateNonce = ln)))"
      using assms(3) by (auto simp: may_remove_def split: prod.splits sum.splits)
    have "scope_allows sc (m_controller m) no_claim l" using True by (simp add: scope_allows_def)
    moreover have "claimed (m_controller m) (lget l LabelInstanceName) (view s)" if "rl = Inr (Some n)" for n
      using run_live_claim_nonce [OF assms(1,2) rl assms(4)] that unfolding claimed_def by blast
    ultimately show ?thesis using k True r by (auto split: sum.splits option.splits)
  qed
qed

end

section \<open>One loop\<close>

text \<open>\<open>settled\<close>: no claim made under the label's instance can change the gate's answer.\<close>

definition settled :: "teardown_scope \<Rightarrow> string \<Rightarrow> store \<Rightarrow> labels \<Rightarrow> bool" where
  "settled sc cid v l \<longleftrightarrow>
     \<not> claimed cid (lget l LabelInstanceName) v \<or> ts_mode sc \<noteq> Generation \<or>
     ts_captured sc (lget l LabelInstanceName) \<noteq> None"

lemma settled_removes: "removes D v w \<Longrightarrow> settled sc cid v l \<Longrightarrow> settled sc cid w l"
  using claimed_removes unfolding settled_def by blast

text \<open>The outcome of one removal loop over the entries \<open>xs\<close> of one kind \<open>K\<close>.\<close>

definition loop_done ::
  "(string \<Rightarrow> rid) \<Rightarrow> ('x \<Rightarrow> string) \<Rightarrow> ('x \<Rightarrow> labels) \<Rightarrow> teardown_scope \<Rightarrow> string \<Rightarrow> string list \<Rightarrow> store \<Rightarrow>
   'x list \<Rightarrow> bool \<times> gerr list \<Rightarrow> store \<Rightarrow> bool" where
  "loop_done K idf labf sc cid fs v0 xs acc v \<longleftrightarrow>
     removes (teardown_drops sc cid fs) v0 v \<and>
     (\<forall>r. (\<forall>x\<in>set xs. r \<noteq> K (idf x)) \<longrightarrow> v r = v0 r) \<and>
     (snd acc = [] \<longrightarrow> (\<forall>x\<in>set xs. settled sc cid v0 (labf x) \<longrightarrow> scope_allows sc cid no_claim (labf x) \<longrightarrow>
        v (K (idf x)) = None)) \<and>
     (\<not> fst acc \<longrightarrow> v = v0) \<and>
     (fst acc \<longrightarrow> (\<exists>x\<in>set xs. scope_allows sc cid no_claim (labf x)))"

context docker_store begin

definition act_removes :: "(string \<Rightarrow> rid) \<Rightarrow> ('x \<Rightarrow> string) \<Rightarrow> ('x \<Rightarrow> ('s, gerr option) state) \<Rightarrow> bool" where
  "act_removes K idf act \<longleftrightarrow>
     (\<forall>s x r s'. inv s \<longrightarrow> view s (K (idf x)) \<noteq> None \<longrightarrow> run_state (act x) s = (r, s') \<longrightarrow>
        inv s' \<and> (view s' = view s \<or> view s' = (view s)(K (idf x) := None)) \<and>
        (r = None \<longrightarrow> view s' (K (idf x)) = None))"

lemma act_removesD:
  "act_removes K idf act \<Longrightarrow> inv s \<Longrightarrow> view s (K (idf x)) \<noteq> None \<Longrightarrow> run_state (act x) s = (r, s') \<Longrightarrow>
   inv s' \<and> (view s' = view s \<or> view s' = (view s)(K (idf x) := None)) \<and>
   (r = None \<longrightarrow> view s' (K (idf x)) = None)"
  unfolding act_removes_def by blast

lemma removal_error_None: "removal_error msg r = None \<longleftrightarrow> r = None \<or> (\<exists>e. r = Some e \<and> is_not_found e)"
  by (auto simp: removal_error_def split: option.splits)

lemma act_stop_and_remove: "m_cli m = c \<Longrightarrow> act_removes Ctr su_id (stop_and_remove m)"
  unfolding act_removes_def
proof (intro allI impI)
  fix s x r s'
  assume m: "m_cli m = c" and s: "inv s" and v: "view s (Ctr (su_id x)) \<noteq> None"
    and run: "run_state (stop_and_remove m x) s = (r, s')"
  obtain r1 s1 where r1: "run_state (container_stop c (su_id x)) s = (r1, s1)" by fastforce
  obtain r2 where r2: "run_state (container_remove c (su_id x) True True) s1 = (r2, s')"
    "r = removal_error (''failed to remove container '' @ su_id x) r2"
    using run r1 m by (auto simp: stop_and_remove_def split: prod.splits)
  have s1: "inv s1" "view s1 = view s" using rd_ctr_stop [OF s r1] by auto
  have v1: "view s1 (Ctr (su_id x)) \<noteq> None" using v s1(2) by simp
  show "inv s' \<and> (view s' = view s \<or> view s' = (view s)(Ctr (su_id x) := None)) \<and>
        (r = None \<longrightarrow> view s' (Ctr (su_id x)) = None)"
    using ctr_remove [OF s1(1) v1 r2(1)] s1(2) r2(2)
    by (auto simp: removal_def removal_error_None split: option.splits)
qed

lemma act_remove_one_network: "m_cli m = c \<Longrightarrow> act_removes Net ns_id (remove_one_network m)"
  unfolding act_removes_def
proof (intro allI impI)
  fix s n r s'
  assume m: "m_cli m = c" and s: "inv s" and v: "view s (Net (ns_id n)) \<noteq> None"
    and run: "run_state (remove_one_network m n) s = (r, s')"
  obtain r2 where r2: "run_state (network_remove c (ns_id n)) s = (r2, s')"
    "r = removal_error (''failed to remove network '' @ ns_id n) r2"
    using run m by (auto simp: remove_one_network_def split: prod.splits)
  show "inv s' \<and> (view s' = view s \<or> view s' = (view s)(Net (ns_id n) := None)) \<and>
        (r = None \<longrightarrow> view s' (Net (ns_id n)) = None)"
    using net_remove [OF s v r2(1)] r2(2)
    by (auto simp: removal_def removal_error_None split: option.splits)
qed

lemma act_remove_one_volume: "m_cli m = c \<Longrightarrow> act_removes Vol vol_name (remove_one_volume m)"
  unfolding act_removes_def
proof (intro allI impI)
  fix s n r s'
  assume m: "m_cli m = c" and s: "inv s"
    and run: "run_state (remove_one_volume m n) s = (r, s')"
  obtain r2 where r2: "run_state (volume_remove c (vol_name n) True) s = (r2, s')"
    "r = removal_error (''failed to remove volume '' @ vol_name n) r2"
    using run m by (auto simp: remove_one_volume_def split: prod.splits)
  show "inv s' \<and> (view s' = view s \<or> view s' = (view s)(Vol (vol_name n) := None)) \<and>
        (r = None \<longrightarrow> view s' (Vol (vol_name n)) = None)"
    using vol_remove [OF s r2(1)] r2(2)
    by (auto simp: removal_def removal_error_None split: option.splits)
qed

lemma removal_loop:
  assumes m: "m_cli m = c" "m_controller m \<noteq> ''''" and act: "act_removes K idf act" and K: "inj K"
    and xs: "distinct (map idf xs)"
    and lab: "\<And>x. x \<in> set xs \<Longrightarrow> labels_of v0 (K (idf x)) = Some (labf x) \<and> list_all (match_term (labf x)) fs"
  shows "valid (\<lambda>s. inv s \<and> view s = v0) (for_each (removal_step m sc labf act) xs (False, []))
    (\<lambda>acc s. inv s \<and> loop_done K idf labf sc (m_controller m) fs v0 xs acc (view s))"
proof -
  let ?cid = "m_controller m"
  let ?I = "\<lambda>ys acc s. inv s \<and> loop_done K idf labf sc ?cid fs v0 ys acc (view s)"
  have step: "valid (?I ys acc) (removal_step m sc labf act x acc) (?I (ys @ [x]))"
    if split: "xs = ys @ x # zs" for ys x zs acc
  proof
    fix s acc' s'
    assume I: "?I ys acc s" and run: "run_state (removal_step m sc labf act x acc) s = (acc', s')"
    have x: "labels_of v0 (K (idf x)) = Some (labf x)" "list_all (match_term (labf x)) fs"
      using lab [of x] split by auto
    have new: "\<forall>y\<in>set ys. K (idf x) \<noteq> K (idf y)"
      using xs K unfolding split by (auto dest: injD)
    then have vx: "view s (K (idf x)) = v0 (K (idf x))" using I unfolding loop_done_def by blast
    obtain rm s1 where rm: "run_state (may_remove m sc (labf x)) s = (rm, s1)" by fastforce
    note mr = run_may_remove [OF conjunct1 [OF I] m(1) rm m(2)]
    then have s1: "inv s1" "view s1 = view s" by auto
    have st: "settled sc ?cid v0 (labf x) \<Longrightarrow> settled sc ?cid (view s) (labf x)"
      using I settled_removes unfolding loop_done_def by blast
    consider (err) e where "rm = Inl e" "acc' = (fst acc, snd acc @ [e])" "s' = s1" |
      (no) "rm = Inr False" "acc' = acc" "s' = s1" |
      (yes) r where "rm = Inr True" "run_state (act x) s1 = (r, s')" "acc' = (True, snd acc @ opt_list r)"
      using run rm by (auto simp: removal_step_def split: sum.splits if_splits prod.splits)
    then show "?I (ys @ [x]) acc' s'"
    proof cases
      case err
      then show ?thesis using I s1 by (auto simp: loop_done_def)
    next
      case no
      have "\<not> scope_allows sc ?cid no_claim (labf x)" if "settled sc ?cid v0 (labf x)"
        using mr no(1) st [OF that] by (auto simp: settled_def)
      then show ?thesis using I s1 no by (auto simp: loop_done_def)
    next
      case yes
      have al: "scope_allows sc ?cid no_claim (labf x)" using mr yes(1) by auto
      have "view s1 (K (idf x)) \<noteq> None" using vx x s1(2) by (auto simp: labels_of_def)
      note a = act_removesD [OF act s1(1) this yes(2)]
      obtain n where n: "view s (K (idf x)) = Some (n, labf x)" using vx x by (auto simp: labels_of_def)
      have "removes (teardown_drops sc ?cid fs) (view s) (view s')"
        using a s1(2) al x(2) n by (auto simp: teardown_drops_def removes_del)
      then have "removes (teardown_drops sc ?cid fs) v0 (view s')"
        using I removes_trans unfolding loop_done_def by blast
      moreover have "view s' r = v0 r" if "\<forall>y\<in>set (ys @ [x]). r \<noteq> K (idf y)" for r
      proof -
        have "view s r = v0 r" using I that unfolding loop_done_def by auto
        then show ?thesis using a s1(2) that by auto
      qed
      moreover have "view s' (K (idf y)) = None"
        if "snd acc' = []" "y \<in> set (ys @ [x])" "settled sc ?cid v0 (labf y)" "scope_allows sc ?cid no_claim (labf y)" for y
      proof -
        have "snd acc = []" "r = None" using that(1) yes(3) by auto
        then have "y \<in> set ys \<Longrightarrow> view s (K (idf y)) = None" "view s' (K (idf x)) = None"
          using that(3,4) a I unfolding loop_done_def by auto
        then show ?thesis using that(2) a s1(2) by auto
      qed
      ultimately show ?thesis using a al yes(3) unfolding loop_done_def by auto
    qed
  qed
  have init: "loop_done K idf labf sc ?cid fs v0 [] (False, []) v0" by (simp add: loop_done_def)
  show ?thesis
    by (rule valid_pre, rule valid_for_each_prefix [where I = ?I], rule step, assumption) (use init in auto)
qed

end

section \<open>A phase and the whole teardown\<close>

definition phase_done ::
  "(string \<Rightarrow> rid) \<Rightarrow> teardown_scope \<Rightarrow> string \<Rightarrow> string list \<Rightarrow> store \<Rightarrow> bool \<Rightarrow> gerr option \<Rightarrow> store \<Rightarrow> bool" where
  "phase_done K sc cid fs v found e w \<longleftrightarrow>
     removes (teardown_drops sc cid fs) v w \<and>
     (\<forall>r. (\<forall>i. r \<noteq> K i) \<longrightarrow> w r = v r) \<and>
     (e = None \<longrightarrow> (\<forall>i n l. v (K i) = Some (n, l) \<longrightarrow> list_all (match_term l) fs \<longrightarrow> settled sc cid v l \<longrightarrow>
        scope_allows sc cid no_claim l \<longrightarrow> w (K i) = None)) \<and>
     (\<not> found \<longrightarrow> w = v) \<and>
     (found \<longrightarrow> (\<exists>r n l. v r = Some (n, l) \<and> teardown_drops sc cid fs r n l))"

text \<open>The whole teardown: the same, for every kind of resource.\<close>

definition teardown_done ::
  "teardown_scope \<Rightarrow> string \<Rightarrow> string list \<Rightarrow> store \<Rightarrow> bool \<Rightarrow> gerr option \<Rightarrow> store \<Rightarrow> bool" where
  "teardown_done sc cid fs v found e w \<longleftrightarrow>
     removes (teardown_drops sc cid fs) v w \<and>
     (e = None \<longrightarrow> (\<forall>r n l. v r = Some (n, l) \<longrightarrow> list_all (match_term l) fs \<longrightarrow> settled sc cid v l \<longrightarrow>
        scope_allows sc cid no_claim l \<longrightarrow> w r = None)) \<and>
     (\<not> found \<longrightarrow> w = v) \<and>
     (found \<longrightarrow> (\<exists>r n l. v r = Some (n, l) \<and> teardown_drops sc cid fs r n l))"

lemma phase_of_loop:
  assumes "lists_matching K idf labf fs v xs" "set ys = set xs"
    and "loop_done K idf labf sc cid fs v ys acc w"
  shows "phase_done K sc cid fs v (fst acc) (join_errs (snd acc)) w"
proof -
  have gone: "w (K i) = None"
    if "snd acc = []" "v (K i) = Some (n, l)" "list_all (match_term l) fs" "settled sc cid v l"
      "scope_allows sc cid no_claim l" for i n l
  proof -
    have "labels_of v (K i) = Some l" using that by (simp add: labels_of_def)
    from lists_matchingE [OF assms(1) this that(3)] obtain x where "x \<in> set xs" "idf x = i" "labf x = l" .
    with assms that show ?thesis unfolding loop_done_def by auto
  qed
  have some: "\<exists>r n l. v r = Some (n, l) \<and> teardown_drops sc cid fs r n l" if fa: "fst acc"
  proof -
    obtain x where x: "x \<in> set xs" "scope_allows sc cid no_claim (labf x)"
      using assms fa unfolding loop_done_def by auto
    note lx = lists_matchingD [OF assms(1) x(1)]
    then obtain n where "v (K (idf x)) = Some (n, labf x)" by (auto simp: labels_of_def)
    with lx x(2) show ?thesis unfolding teardown_drops_def by blast
  qed
  show ?thesis
    unfolding phase_done_def using assms(3) gone some unfolding loop_done_def by auto
qed

lemma phase_gone:
  "phase_done K sc cid fs v found None w \<Longrightarrow> v (K i) = Some (n, l) \<Longrightarrow> list_all (match_term l) fs \<Longrightarrow>
   settled sc cid v l \<Longrightarrow> scope_allows sc cid no_claim l \<Longrightarrow> w (K i) = None"
  unfolding phase_done_def by simp

lemma phase_other: "phase_done K sc cid fs v found e w \<Longrightarrow> (\<And>i. r \<noteq> K i) \<Longrightarrow> w r = v r"
  unfolding phase_done_def by blast

lemma phase_none: "phase_done K sc cid fs v False (Some e) v"
  by (simp add: phase_done_def)

context docker_store begin

lemma run_remove_containers:
  assumes m: "m_cli m = c" "m_controller m \<noteq> ''''" and s: "inv s"
    and run: "run_state (remove_containers m fs sc) s = ((found, e, logs), s')"
  shows "inv s' \<and> phase_done Ctr sc (m_controller m) fs (view s) found e (view s')"
proof -
  obtain rl s1 where rl: "run_state (container_list c True fs) s = (rl, s1)" by fastforce
  note l = ctr_list [OF s rl]
  show ?thesis
  proof (cases rl)
    case (Inl x)
    then show ?thesis using run rl l m by (auto simp: remove_containers_def phase_none)
  next
    case (Inr xs0)
    define xs where "xs = sort_key (\<lambda>x. role_rank (su_labels x)) xs0"
    obtain l1 s2 rep s3 l2 s4 acc where
      1: "run_state (report_stopped_runners m xs sc) s1 = (l1, s2)"
      "run_state (new_dind_io_reporter m xs sc) s2 = (rep, s3)"
      "run_state (report_all m rep xs sc) s3 = (l2, s4)" and
      2: "run_state (for_each (removal_step m sc su_labels (stop_and_remove m)) xs (False, [])) s4 = (acc, s')"
      "found = fst acc" "e = join_errs (snd acc)"
      using run rl Inr m(1) unfolding remove_containers_def
      by (auto simp: Let_def xs_def split: prod.splits)
    have "inv s4 \<and> view s4 = view s"
      using l keepsD [OF keeps_report_stopped_runners [OF m(1)] _ 1(1)]
        keepsD [OF keeps_new_reporter [OF m(1)] _ 1(2)] keepsD [OF keeps_report_all [OF m(1)] _ 1(3)]
      by metis
    moreover have lm: "lists_matching Ctr su_id su_labels fs (view s) xs0" using l Inr by auto
    moreover have "distinct (map su_id xs)"
      using lm unfolding lists_matching_def xs_def distinct_map by (simp add: inj_on_def)
    ultimately have "inv s' \<and> loop_done Ctr su_id su_labels sc (m_controller m) fs (view s) xs acc (view s')"
      using validD [OF removal_loop [OF m act_stop_and_remove [OF m(1)], of xs "view s" su_labels fs] _ 2(1)]
        lists_matchingD [OF lm] by (auto simp: xs_def inj_def)
    then show ?thesis using phase_of_loop [OF lm, of xs] 2 by (auto simp: xs_def)
  qed
qed

lemma run_remove_networks:
  assumes m: "m_cli m = c" "m_controller m \<noteq> ''''" and s: "inv s"
    and run: "run_state (remove_networks m fs sc) s = ((found, e), s')"
  shows "inv s' \<and> phase_done Net sc (m_controller m) fs (view s) found e (view s')"
proof -
  obtain rl s1 where rl: "run_state (network_list c fs) s = (rl, s1)" by fastforce
  note l = net_list [OF s rl]
  show ?thesis
  proof (cases rl)
    case (Inl x)
    then show ?thesis using run rl l m by (auto simp: remove_networks_def phase_none)
  next
    case (Inr ns)
    obtain acc where 2:
      "run_state (for_each (removal_step m sc ns_labels (remove_one_network m)) ns (False, [])) s1 = (acc, s')"
      "found = fst acc" "e = join_errs (snd acc)"
      using run rl Inr m(1) unfolding remove_networks_def by (auto split: prod.splits)
    have lm: "lists_matching Net ns_id ns_labels fs (view s) ns" using l Inr by auto
    then have "distinct (map ns_id ns)" by (simp add: lists_matching_def)
    then have "inv s' \<and> loop_done Net ns_id ns_labels sc (m_controller m) fs (view s) ns acc (view s')"
      using validD [OF removal_loop [OF m act_remove_one_network [OF m(1)], of ns "view s" ns_labels fs] _ 2(1)]
        lists_matchingD [OF lm] l by (auto simp: inj_def)
    then show ?thesis using phase_of_loop [OF lm, of ns] 2 by auto
  qed
qed

lemma run_remove_volumes:
  assumes m: "m_cli m = c" "m_controller m \<noteq> ''''" and s: "inv s"
    and run: "run_state (remove_volumes m fs sc) s = ((found, e), s')"
  shows "inv s' \<and> phase_done Vol sc (m_controller m) fs (view s) found e (view s')"
proof -
  obtain rl s1 where rl: "run_state (volume_list c fs) s = (rl, s1)" by fastforce
  note l = vol_list [OF s rl]
  show ?thesis
  proof (cases rl)
    case (Inl x)
    then show ?thesis using run rl l m by (auto simp: remove_volumes_def phase_none)
  next
    case (Inr vs0)
    define vs where "vs = List.map_filter id vs0"
    obtain acc where 2:
      "run_state (for_each (removal_step m sc vol_labels (remove_one_volume m)) vs (False, [])) s1 = (acc, s')"
      "found = fst acc" "e = join_errs (snd acc)"
      using run rl Inr m(1) unfolding remove_volumes_def by (auto simp: vs_def split: prod.splits)
    have lm: "lists_matching Vol vol_name vol_labels fs (view s) vs" using l Inr by (auto simp: vs_def)
    then have "distinct (map vol_name vs)" by (simp add: lists_matching_def)
    then have "inv s' \<and> loop_done Vol vol_name vol_labels sc (m_controller m) fs (view s) vs acc (view s')"
      using validD [OF removal_loop [OF m act_remove_one_volume [OF m(1)], of vs "view s" vol_labels fs] _ 2(1)]
        lists_matchingD [OF lm] l by (auto simp: inj_def)
    then show ?thesis using phase_of_loop [OF lm, of vs] 2 by auto
  qed
qed

text \<open>
  The containers go first and the networks last: whatever happens in between, a claim network is
  there until both other phases are over.
\<close>

theorem run_teardown_phases:
  assumes m: "m_cli m = c" "m_controller m \<noteq> ''''" and s: "inv s"
    and run: "run_state (run_teardown m fs sc) s = ((found, e, logs), s')"
  obtains f1 e1 s1 f2 e2 s2 f3 e3 where
    "phase_done Ctr sc (m_controller m) fs (view s) f1 e1 (view s1)" "inv s1"
    "phase_done Vol sc (m_controller m) fs (view s1) f2 e2 (view s2)" "inv s2"
    "phase_done Net sc (m_controller m) fs (view s2) f3 e3 (view s')" "inv s'"
    "found = (f1 \<or> f2 \<or> f3)" "e = join_errs (opt_list e1 @ opt_list e2 @ opt_list e3)"
proof -
  obtain f1 e1 l1 s1 f2 e2 s2 f3 e3 where
    r1: "run_state (remove_containers m fs sc) s = ((f1, e1, l1), s1)" and
    r2: "run_state (remove_volumes m fs sc) s1 = ((f2, e2), s2)" and
    r3: "run_state (remove_networks m fs sc) s2 = ((f3, e3), s')" and
    f: "found = (f1 \<or> f2 \<or> f3)" "e = join_errs (opt_list e1 @ opt_list e2 @ opt_list e3)"
    using run unfolding run_teardown_def by (auto split: prod.splits)
  note p1 = run_remove_containers [OF m s r1]
  note p2 = run_remove_volumes [OF m conjunct1 [OF p1] r2]
  note p3 = run_remove_networks [OF m conjunct1 [OF p2] r3]
  show thesis using that p1 p2 p3 f by blast
qed

theorem run_teardown_ok:
  assumes m: "m_cli m = c" "m_controller m \<noteq> ''''" and s: "inv s"
    and run: "run_state (run_teardown m fs sc) s = ((found, e, logs), s')"
  shows "inv s' \<and> teardown_done sc (m_controller m) fs (view s) found e (view s')"
proof -
  let ?D = "teardown_drops sc (m_controller m) fs"
  obtain f1 e1 s1 f2 e2 s2 f3 e3 where
    p1: "phase_done Ctr sc (m_controller m) fs (view s) f1 e1 (view s1)" "inv s1" and
    p2: "phase_done Vol sc (m_controller m) fs (view s1) f2 e2 (view s2)" "inv s2" and
    p3: "phase_done Net sc (m_controller m) fs (view s2) f3 e3 (view s')" "inv s'" and
    f: "found = (f1 \<or> f2 \<or> f3)" "e = join_errs (opt_list e1 @ opt_list e2 @ opt_list e3)"
    using run_teardown_phases [OF assms] by blast
  have r: "removes ?D (view s) (view s1)" "removes ?D (view s1) (view s2)" "removes ?D (view s2) (view s')"
    using p1 p2 p3 unfolding phase_done_def by auto
  have r02: "removes ?D (view s) (view s2)" using r removes_trans by blast
  have gone: "view s' q = None"
    if "e = None" "view s q = Some (n, l)" "list_all (match_term l) fs" "settled sc (m_controller m) (view s) l"
      "scope_allows sc (m_controller m) no_claim l" for q n l
  proof -
    have e: "e1 = None" "e2 = None" "e3 = None" using that(1) f(2) by auto
    have st: "settled sc (m_controller m) (view s1) l" "settled sc (m_controller m) (view s2) l"
      using settled_removes [OF r(1) that(4)] settled_removes [OF r02 that(4)] by auto
    show ?thesis
    proof (cases q)
      case (Ctr i)
      have "view s1 q = None"
        using phase_gone [OF p1(1) [unfolded e], of i n l] that(2-5) Ctr by simp
      then show ?thesis using removes_not_None r(2,3) by metis
    next
      case (Vol i)
      have "view s1 q = Some (n, l)" using phase_other [OF p1(1), of q] Vol that(2) by simp
      then have "view s2 q = None"
        using phase_gone [OF p2(1) [unfolded e], of i n l] that(3,5) st(1) Vol by simp
      then show ?thesis using removes_not_None r(3) by metis
    next
      case (Net i)
      have "view s1 q = Some (n, l)" using phase_other [OF p1(1), of q] Net that(2) by simp
      then have "view s2 q = Some (n, l)" using phase_other [OF p2(1), of q] Net by simp
      then show ?thesis using phase_gone [OF p3(1) [unfolded e], of i n l] that(3,5) st(2) Net by simp
    qed
  qed
  have "\<not> found \<longrightarrow> view s' = view s"
    using p1 p2 p3 f(1) unfolding phase_done_def by auto
  moreover have "\<exists>q n l. view s q = Some (n, l) \<and> ?D q n l" if found
    using that f(1) p1(1) p2(1) p3(1) removes_back [OF r(1)] removes_back [OF r02]
    unfolding phase_done_def by metis
  ultimately show ?thesis
    using p3(2) removes_trans [OF r02 r(3)] gone unfolding teardown_done_def by blast
qed

end

section \<open>What each entry point removes\<close>

text \<open>The abstract effect: every resource whose labels satisfy \<open>P\<close> is gone, the rest is as before.\<close>

definition drop_matching :: "(labels \<Rightarrow> bool) \<Rightarrow> store \<Rightarrow> store" where
  "drop_matching P v r =
     (case v r of None \<Rightarrow> None | Some (n, l) \<Rightarrow> if P l then None else Some (n, l))"

definition rollback_owned :: "string \<Rightarrow> string \<Rightarrow> string \<Rightarrow> labels \<Rightarrow> bool" where
  "rollback_owned cid i nonce l \<longleftrightarrow>
     matches_predicate l cid \<and> l LabelInstanceName = Some i \<and> l LabelCreateNonce = Some nonce"

text \<open>The generation an instance's claim network holds, if it has one.\<close>

definition generation_at :: "string \<Rightarrow> string \<Rightarrow> store \<Rightarrow> string option \<Rightarrow> bool" where
  "generation_at cid i v gen \<longleftrightarrow>
     (case gen of
        None \<Rightarrow> \<not> claimed cid i v
      | Some g \<Rightarrow> \<exists>k n l. v (Net k) = Some (n, l) \<and> is_claim cid i l \<and> lget l LabelCreateNonce = g)"

definition allocation_owned :: "string \<Rightarrow> string \<Rightarrow> string option \<Rightarrow> labels \<Rightarrow> bool" where
  "allocation_owned cid i gen l \<longleftrightarrow>
     matches_predicate l cid \<and> l LabelInstanceName = Some i \<and>
     (case gen of None \<Rightarrow> True | Some g \<Rightarrow> lget l LabelCreateNonce = g)"

lemma drop_matching_of_done:
  assumes "removes D v w" "\<And>r n l. v r = Some (n, l) \<Longrightarrow> P l \<Longrightarrow> w r = None"
    and "\<And>r n l. D r n l \<Longrightarrow> P l"
  shows "w = drop_matching P v"
proof
  fix r
  show "w r = drop_matching P v r"
  proof (cases "v r")
    case None
    then show ?thesis using removes_not_None [OF assms(1)] by (simp add: drop_matching_def)
  next
    case (Some e)
    obtain n l where e: "e = (n, l)" by (cases e)
    show ?thesis
      using Some e assms(2) [of r n l] removes_kept [OF assms(1), of r n l] assms(3) [of r n l]
      by (cases "P l") (auto simp: drop_matching_def)
  qed
qed

lemma predicate_not_cache: "matches_predicate l cid \<Longrightarrow> l LabelCache \<noteq> Some ''true''"
  by (simp add: matches_predicate_iff)

lemma predicate_filter:
  assumes "cid \<noteq> ''''"
  shows "matches_predicate l cid \<longleftrightarrow>
    list_all (match_term l) (match_predicate_filters cid) \<and> l LabelCache \<noteq> Some ''true''"
  using assms
  by (auto simp: matches_predicate_iff match_predicate_filters_def lget_def split: option.splits)

lemma instance_filter:
  assumes "m_controller m \<noteq> ''''"
  shows "matches_predicate l (m_controller m) \<and> l LabelInstanceName = Some i \<longleftrightarrow>
    list_all (match_term l) (instance_scoped_filter m i) \<and> l LabelCache \<noteq> Some ''true''"
  using assms
  by (auto simp: matches_predicate_iff instance_scoped_filter_def lget_def split: option.splits)

context docker_store begin

lemma run_rollback:
  assumes m: "m_cli m = c" "m_controller m \<noteq> ''''" and s: "inv s"
    and run: "run_state (rollback m i nonce) s = (e, s')"
  shows "inv s' \<and> removes (\<lambda>r n l. rollback_owned (m_controller m) i nonce l) (view s) (view s') \<and>
    (e = None \<longrightarrow> view s' = drop_matching (rollback_owned (m_controller m) i nonce) (view s))"
proof -
  let ?fs = "instance_scoped_nonce_filter m i nonce"
  let ?sc = "\<lparr>ts_mode = Exact, ts_exact = nonce, ts_captured = Map.empty, ts_report_on_delete = False\<rparr>"
  let ?P = "rollback_owned (m_controller m) i nonce"
  obtain f logs where r: "run_state (run_teardown m ?fs ?sc) s = ((f, e, logs), s')"
    using run by (auto simp: rollback_def split: prod.splits)
  note d = run_teardown_ok [OF m s r]
  have D: "teardown_drops ?sc (m_controller m) ?fs r n l \<longleftrightarrow> ?P l" for r n l
    using instance_filter [OF m(2), of l i]
    by (auto simp: teardown_drops_def scope_allows_def rollback_owned_def instance_scoped_nonce_filter_def lget_def
        matches_predicate_iff split: option.splits)
  have rem: "removes (teardown_drops ?sc (m_controller m) ?fs) (view s) (view s')"
    using d by (simp add: teardown_done_def)
  have "view s' r = None" if "e = None" "view s r = Some (n, l)" "?P l" for r n l
  proof -
    have "scope_allows ?sc (m_controller m) no_claim l" "list_all (match_term l) ?fs"
      using D [of r n l] that(3) by (auto simp: teardown_drops_def)
    moreover have "settled ?sc (m_controller m) (view s) l" by (simp add: settled_def)
    ultimately show ?thesis using d that(1,2) unfolding teardown_done_def by blast
  qed
  then have "e = None \<longrightarrow> view s' = drop_matching ?P (view s)"
    using drop_matching_of_done [OF rem, of ?P] D by simp
  moreover have "removes (\<lambda>r n l. ?P l) (view s) (view s')" by (rule removes_mono [OF rem]) (simp add: D)
  ultimately show ?thesis using d by simp
qed

lemma run_teardown_all:
  assumes m: "m_cli m = c" "m_controller m \<noteq> ''''" and s: "inv s"
    and run: "run_state (teardown_all m) s = (e, s')"
  shows "inv s' \<and> removes (\<lambda>r n l. matches_predicate l (m_controller m)) (view s) (view s') \<and>
    (e = None \<longrightarrow> view s' = drop_matching (\<lambda>l. matches_predicate l (m_controller m)) (view s))"
proof -
  let ?fs = "match_predicate_filters (m_controller m)"
  let ?sc = "\<lparr>ts_mode = All, ts_exact = '''', ts_captured = Map.empty, ts_report_on_delete = False\<rparr>"
  let ?P = "\<lambda>l. matches_predicate l (m_controller m)"
  obtain f logs where r: "run_state (run_teardown m ?fs ?sc) s = ((f, e, logs), s')"
    using run by (auto simp: teardown_all_def split: prod.splits)
  note d = run_teardown_ok [OF m s r]
  have D: "teardown_drops ?sc (m_controller m) ?fs r n l \<longleftrightarrow> ?P l" for r n l
    using predicate_filter [OF m(2), of l] by (auto simp: teardown_drops_def scope_allows_def)
  have rem: "removes (teardown_drops ?sc (m_controller m) ?fs) (view s) (view s')"
    using d by (simp add: teardown_done_def)
  have "view s' r = None" if "e = None" "view s r = Some (n, l)" "?P l" for r n l
  proof -
    have "scope_allows ?sc (m_controller m) no_claim l" "list_all (match_term l) ?fs"
      using D [of r n l] that(3) by (auto simp: teardown_drops_def)
    moreover have "settled ?sc (m_controller m) (view s) l" by (simp add: settled_def)
    ultimately show ?thesis using d that(1,2) unfolding teardown_done_def by blast
  qed
  then have "e = None \<longrightarrow> view s' = drop_matching ?P (view s)"
    using drop_matching_of_done [OF rem, of ?P] D by simp
  moreover have "removes (\<lambda>r n l. ?P l) (view s) (view s')" by (rule removes_mono [OF rem]) (simp add: D)
  ultimately show ?thesis using d by simp
qed

text \<open>What the scoping pass captures for the instance it lists.\<close>

lemma run_claim_nonces:
  assumes m: "m_cli m = c" "m_controller m \<noteq> ''''" and s: "inv s" and i: "i \<noteq> ''''"
    and run: "run_state (claim_nonces_by_instance m (instance_scoped_filter m i)) s = (r, s')"
  shows "inv s' \<and> view s' = view s \<and> (\<forall>cap. r = Inr cap \<longrightarrow> generation_at (m_controller m) i (view s) (cap i))"
proof -
  let ?fs = "instance_scoped_filter m i" and ?cid = "m_controller m"
  obtain rn s1 where rn: "run_state (network_list c ?fs) s = (rn, s1)" by fastforce
  note nl = net_list [OF s rn]
  show ?thesis
  proof (cases rn)
    case (Inl e)
    then show ?thesis using m(1) run rn nl by (auto simp: claim_nonces_by_instance_def)
  next
    case (Inr ns)
    have l: "lists_matching Net ns_id ns_labels ?fs (view s) ns" using nl Inr by auto
    have name: "view s (Net (ns_id n)) = Some (ns_name n, ns_labels n)" if "n \<in> set ns" for n
      using net_list_name [OF s] rn Inr that by auto
    have r: "r = Inr (collect_claims ?cid ns Map.empty)" "s' = s1"
      using m(1) run rn Inr by (auto simp: claim_nonces_by_instance_def)
    have "generation_at ?cid i (view s) (collect_claims ?cid ns Map.empty i)"
    proof (cases "collect_claims ?cid ns Map.empty i")
      case (Some g)
      then obtain n where "n \<in> set ns" "is_claim ?cid i (ns_labels n)" "lget (ns_labels n) LabelCreateNonce = g"
        using collect_claims_Some [OF Some] by (auto simp: is_claim_def)
      then show ?thesis using name Some by (auto simp: generation_at_def)
    next
      case None
      have "\<not> claimed ?cid i (view s)"
      proof
        assume "claimed ?cid i (view s)"
        then obtain j n l' where *: "view s (Net j) = Some (n, l')" "is_claim ?cid i l'" by (auto simp: claimed_def)
        have "list_all (match_term l') ?fs" using is_claim_filter [OF *(2) m(2)] by auto
        moreover have "labels_of (view s) (Net j) = Some l'" using *(1) by (simp add: labels_of_def)
        ultimately obtain x where x: "x \<in> set ns" "ns_labels x = l'" by (metis lists_matchingE [OF l])
        show False using collect_claims_covers [OF x(1), of ?cid i Map.empty] x(2) *(2) i None
          by (auto simp: is_claim_def)
      qed
      then show ?thesis using None by (simp add: generation_at_def)
    qed
    then show ?thesis using r nl by auto
  qed
qed

lemma run_teardown_generation:
  assumes m: "m_cli m = c" "m_controller m \<noteq> ''''" and s: "inv s" and i: "i \<noteq> ''''"
    and run: "run_state (teardown_generation m (instance_scoped_filter m i) rpt) s = ((found, e, logs), s')"
  shows "inv s' \<and> (\<exists>gen. generation_at (m_controller m) i (view s) gen \<and>
    removes (\<lambda>r n l. allocation_owned (m_controller m) i gen l) (view s) (view s') \<and>
    (e = None \<longrightarrow>
       view s' = drop_matching (allocation_owned (m_controller m) i gen) (view s) \<and>
       (found \<longleftrightarrow> (\<exists>r n l. view s r = Some (n, l) \<and> allocation_owned (m_controller m) i gen l))))"
proof -
  let ?fs = "instance_scoped_filter m i" and ?cid = "m_controller m"
  obtain rc s1 where rc: "run_state (claim_nonces_by_instance m ?fs) s = (rc, s1)" by fastforce
  note cl = run_claim_nonces [OF m s i rc]
  show ?thesis
  proof (cases rc)
    case (Inl x)
    have gen: "\<exists>gen. generation_at ?cid i (view s) gen"
    proof (cases "claimed ?cid i (view s)")
      case True
      then obtain k n l where "view s (Net k) = Some (n, l)" "is_claim ?cid i l" by (auto simp: claimed_def)
      then have "generation_at ?cid i (view s) (Some (lget l LabelCreateNonce))" by (auto simp: generation_at_def)
      then show ?thesis ..
    next
      case False
      then have "generation_at ?cid i (view s) None" by (simp add: generation_at_def)
      then show ?thesis ..
    qed
    have "e \<noteq> None" "s' = s1" using run rc Inl by (auto simp: teardown_generation_def)
    then show ?thesis using cl gen by auto
  next
    case (Inr cap)
    let ?sc = "\<lparr>ts_mode = Generation, ts_exact = '''', ts_captured = cap, ts_report_on_delete = rpt\<rparr>"
    let ?P = "allocation_owned ?cid i (cap i)"
    have g: "generation_at ?cid i (view s) (cap i)" using cl Inr by simp
    have i1: "inv s1" and v1: "view s1 = view s" using cl by auto
    have r: "run_state (run_teardown m ?fs ?sc) s1 = ((found, e, logs), s')"
      using run rc Inr by (simp add: teardown_generation_def)
    note d = run_teardown_ok [OF m i1 r, unfolded v1]
    have D: "teardown_drops ?sc ?cid ?fs r n l \<longleftrightarrow> ?P l" for r n l
      using instance_filter [OF m(2), of l i] predicate_not_cache [of l ?cid]
      by (auto simp: teardown_drops_def scope_allows_def allocation_owned_def lget_Some split: option.splits)
    have rem: "removes (teardown_drops ?sc ?cid ?fs) (view s) (view s')"
      using d by (simp add: teardown_done_def)
    have gone: "view s' r = None" if "e = None" "view s r = Some (n, l)" "?P l" for r n l
    proof -
      have "scope_allows ?sc ?cid no_claim l" "list_all (match_term l) ?fs"
        using D [of r n l] that(3) by (auto simp: teardown_drops_def)
      moreover have "lget l LabelInstanceName = i" using that(3) by (simp add: allocation_owned_def lget_Some)
      then have "settled ?sc ?cid (view s) l" using g by (cases "cap i") (auto simp: settled_def generation_at_def)
      ultimately show ?thesis using d that(1,2) unfolding teardown_done_def by blast
    qed
    then have "e = None \<longrightarrow> view s' = drop_matching ?P (view s)"
      using drop_matching_of_done [OF rem, of ?P] D by simp
    moreover have "removes (\<lambda>r n l. ?P l) (view s) (view s')" by (rule removes_mono [OF rem]) (simp add: D)
    moreover have "found \<longleftrightarrow> (\<exists>r n l. view s r = Some (n, l) \<and> ?P l)" if "e = None"
    proof
      assume found
      then show "\<exists>r n l. view s r = Some (n, l) \<and> ?P l" using d D unfolding teardown_done_def by blast
    next
      assume "\<exists>r n l. view s r = Some (n, l) \<and> ?P l"
      then obtain r n l where "view s r = Some (n, l)" "?P l" by blast
      then have "view s' \<noteq> view s" using gone [OF that] by force
      then show found using d unfolding teardown_done_def by blast
    qed
    ultimately show ?thesis using g d by blast
  qed
qed

end

end
