(* ===== verification/Topology_Create.thy ===== *)
theory Topology_Create
  imports Topology_Teardown
begin

text \<open>
  The claim network and the job volumes, from \<open>internal/topology/create.go\<close>. The claim returns the
  network ID, a duplicate error or another error; the lemmas say that exactly one is set and what
  each means for the store, and that a volume create hands back a volume with this attempt's nonce
  or an error, without touching what the allocation does not own.
\<close>

section \<open>The code\<close>

definition existing_claim_is_ours :: "'s manager \<Rightarrow> string \<Rightarrow> string \<Rightarrow> ('s, bool res) state" where
  "existing_claim_is_ours m name instance_name = do {
     r \<leftarrow> network_list (m_cli m)
            (instance_scoped_filter m instance_name @ [label_eq LabelResource ResourceJobNetwork]);
     case r of
       Inl e \<Rightarrow> ret (Inl (WrapErr (''failed to classify existing job network '' @ quoted name @ '' for '' @
                  quoted instance_name) e))
     | Inr ns \<Rightarrow> ret (Inr (list_ex (\<lambda>n. ns_name n = name \<and> matches_predicate (ns_labels n) (m_controller m)) ns))
   }"

definition remove_own_step ::
  "'s manager \<Rightarrow> string \<Rightarrow> network_summary \<Rightarrow> gerr list \<Rightarrow> ('s, gerr list) state" where
  "remove_own_step m nonce n errs =
     (if lget (ns_labels n) LabelCreateNonce \<noteq> nonce then ret errs
      else do {
        r \<leftarrow> network_remove (m_cli m) (ns_id n);
        ret (errs @ opt_list (removal_error (''failed to remove leaked network '' @ ns_id n) r))
      })"

definition best_effort_remove_own_network :: "'s manager \<Rightarrow> string \<Rightarrow> ('s, gerr option) state" where
  "best_effort_remove_own_network m nonce = do {
     r \<leftarrow> network_list (m_cli m) (filters_for_nonce (m_controller m) nonce);
     case r of
       Inl e \<Rightarrow> ret (Some (WrapErr ''failed to list nonce-scoped networks for cleanup'' e))
     | Inr ns \<Rightarrow> do {
         errs \<leftarrow> for_each (remove_own_step m nonce) ns [];
         ret (join_errs errs)
       }
   }"

definition create_claim_network ::
  "'s manager \<Rightarrow> alloc_identity \<Rightarrow> string \<Rightarrow> bool \<Rightarrow> ('s, string \<times> gerr option \<times> gerr option) state" where
  "create_claim_network m identity nonce internal = do {
     let instance_name = id_instance identity;
     let name = job_network_name instance_name;
     now \<leftarrow> read_state (m_now m);
     let labels = (network_labels identity now)(LabelCreateNonce \<mapsto> nonce);
     (i, cerr) \<leftarrow> network_create (m_cli m) name internal labels;
     case cerr of
       None \<Rightarrow> ret (i, None, None)
     | Some ce \<Rightarrow>
         if is_conflict ce then do {
           r \<leftarrow> existing_claim_is_ours m name instance_name;
           case r of
             Inl e \<Rightarrow> ret ('''', None, Some e)
           | Inr ours \<Rightarrow>
               if ours
               then ret ('''', Some (DuplicateUserErr (''instance '' @ quoted instance_name @ '' already exists'')), None)
               else ret ('''', None, Some (PlainErr (''job network '' @ quoted name @
                      '' already exists but is not a managed job network for '' @ quoted instance_name @
                      '' (foreign name collision); refusing to claim it'')))
         }
         else do {
           let err = WrapErr (''failed to create job network for '' @ quoted instance_name) ce;
           cleanup \<leftarrow> best_effort_remove_own_network m nonce;
           case cleanup of
             None \<Rightarrow> ret ('''', None, Some err)
           | Some c2 \<Rightarrow>
               ret ('''', None, Some (JoinErr [err,
                 WrapErr (''ambiguous-create network cleanup for '' @ quoted instance_name @ '' failed'') c2]))
         }
   }"

definition owns_volume_for_replacement :: "'s manager \<Rightarrow> labels \<Rightarrow> labels \<Rightarrow> bool" where
  "owns_volume_for_replacement m existing want =
     (if \<not> matches_predicate existing (m_controller m) then False
      else if lget existing LabelInstanceName \<noteq> lget want LabelInstanceName then False
      else lget existing LabelResource = lget want LabelResource)"

definition stale_volume_text :: "string \<Rightarrow> string \<Rightarrow> string" where
  "stale_volume_text kind name =
     ''stale '' @ kind @ '' volume '' @ quoted name @ '' could not be removed for replacement''"

definition create_fresh_volume ::
  "'s manager \<Rightarrow> string \<Rightarrow> string \<Rightarrow> labels \<Rightarrow> string \<Rightarrow> ('s, gerr option) state" where
  "create_fresh_volume m kind name labels0 nonce = do {
     let labels = labels0(LabelCreateNonce \<mapsto> nonce);
     r \<leftarrow> volume_create (m_cli m) name labels;
     case r of
       Inl e \<Rightarrow> ret (Some (WrapErr (''failed to create '' @ kind @ '' volume '' @ quoted name) e))
     | Inr created \<Rightarrow>
         if lget (vol_labels created) LabelCreateNonce = nonce then ret None
         else if \<not> owns_volume_for_replacement m (vol_labels created) labels
         then ret (Some (PlainErr (''refusing to replace '' @ kind @ '' volume '' @ quoted name @
                '': it already exists but does not carry this controller's full ownership tuple (managed + controller-id + instance-name + resource='' @
                lget labels LabelResource @ '') '' @ em_dash @
                '' it is a foreign or other-controller volume colliding on the name, not a stale allocation of ours'')))
         else do {
           rm \<leftarrow> volume_remove (m_cli m) name True;
           case removal_error (stale_volume_text kind name) rm of
             Some e \<Rightarrow> ret (Some e)
           | None \<Rightarrow> do {
               r2 \<leftarrow> volume_create (m_cli m) name labels;
               case r2 of
                 Inl e \<Rightarrow> ret (Some (WrapErr (''failed to recreate a fresh '' @ kind @ '' volume '' @ quoted name) e))
               | Inr recreated \<Rightarrow>
                   if lget (vol_labels recreated) LabelCreateNonce \<noteq> nonce
                   then ret (Some (PlainErr (''failed to obtain a fresh '' @ kind @ '' volume '' @ quoted name @
                          '': after replacement it still does not carry this attempt's create-nonce (a concurrent recreation of the same name?)'')))
                   else ret None
             }
         }
   }"

definition create_workspace_volume :: "'s manager \<Rightarrow> alloc_identity \<Rightarrow> string \<Rightarrow> ('s, gerr option) state" where
  "create_workspace_volume m identity nonce = do {
     now \<leftarrow> read_state (m_now m);
     create_fresh_volume m ''workspace'' (workspace_volume_name (id_instance identity) nonce)
       (workspace_volume_labels identity now) nonce
   }"

definition create_socket_volume :: "'s manager \<Rightarrow> alloc_identity \<Rightarrow> string \<Rightarrow> ('s, gerr option) state" where
  "create_socket_volume m identity nonce = do {
     now \<leftarrow> read_state (m_now m);
     create_fresh_volume m ''socket'' (socket_volume_name (id_instance identity) nonce)
       (socket_volume_labels identity now) nonce
   }"

definition create_dind_state_volume :: "'s manager \<Rightarrow> alloc_identity \<Rightarrow> string \<Rightarrow> ('s, gerr option) state" where
  "create_dind_state_volume m identity nonce = do {
     now \<leftarrow> read_state (m_now m);
     create_fresh_volume m ''dind-state'' (dind_state_volume_name (id_instance identity) nonce)
       (dind_state_volume_labels identity now) nonce
   }"

section \<open>The claim\<close>

definition claim_labels :: "alloc_identity \<Rightarrow> string \<Rightarrow> time \<Rightarrow> labels" where
  "claim_labels identity nonce t = (network_labels identity t)(LabelCreateNonce \<mapsto> nonce)"

lemma claim_labels_facts [simp]:
  "claim_labels i n t LabelManaged = Some ''true''"
  "claim_labels i n t LabelControllerID = Some (id_controller i)"
  "claim_labels i n t LabelInstanceName = Some (id_instance i)"
  "claim_labels i n t LabelResource = Some ResourceJobNetwork"
  "claim_labels i n t LabelCreateNonce = Some n"
  "claim_labels i n t LabelCache = None"
  by (simp_all add: claim_labels_def network_labels_def resource_labels_def)

lemma is_claim_claim_labels: "id_controller i = cid \<Longrightarrow> is_claim cid (id_instance i) (claim_labels i n t)"
  by (simp add: is_claim_def matches_predicate_iff lget_def)

definition own_network :: "string \<Rightarrow> string \<Rightarrow> rid \<Rightarrow> string \<Rightarrow> labels \<Rightarrow> bool" where
  "own_network cid nonce r n l \<longleftrightarrow>
     (\<exists>i. r = Net i) \<and> l LabelManaged = Some ''true'' \<and> l LabelControllerID = Some cid \<and>
     l LabelCreateNonce = Some nonce"

text \<open>No network of this nonce exists yet.\<close>

definition nonce_fresh :: "string \<Rightarrow> string \<Rightarrow> store \<Rightarrow> bool" where
  "nonce_fresh cid nonce v \<longleftrightarrow> (\<forall>r n l. v r = Some (n, l) \<longrightarrow> \<not> own_network cid nonce r n l)"

lemma nonce_fresh_removes:
  assumes "nonce_fresh cid nonce v" "removes (own_network cid nonce) v w"
  shows "w = v"
proof
  fix r
  show "w r = v r"
    using assms unfolding nonce_fresh_def removes_def by metis
qed

lemma leaked_gone:
  assumes fresh: "nonce_fresh cid nonce v" and j: "v (Net j) = None"
    and rem: "removes (own_network cid nonce) (v(Net j \<mapsto> e)) w" and gone: "w (Net j) = None"
  shows "w = v"
proof
  fix r
  show "w r = v r"
  proof (cases "r = Net j")
    case True
    then show ?thesis using j gone by simp
  next
    case False
    then show ?thesis using rem fresh unfolding removes_def nonce_fresh_def
      by (metis fun_upd_other)
  qed
qed

context docker_store begin

lemma run_existing_claim:
  assumes "inv s" "m_cli m = c" "m_controller m \<noteq> ''''"
    and "run_state (existing_claim_is_ours m name i) s = (r, s')"
  shows "inv s' \<and> view s' = view s \<and>
    (\<forall>b. r = Inr b \<longrightarrow> (b \<longleftrightarrow> (\<exists>j l. view s (Net j) = Some (name, l) \<and> is_claim (m_controller m) i l)))"
proof -
  let ?fs = "instance_scoped_filter m i @ [label_eq LabelResource ResourceJobNetwork]"
  obtain rn s1 where rn: "run_state (network_list c ?fs) s = (rn, s1)" by fastforce
  note nl = net_list [OF assms(1) rn]
  show ?thesis
  proof (cases rn)
    case (Inl e)
    then show ?thesis using assms(2,4) rn nl by (auto simp: existing_claim_is_ours_def)
  next
    case (Inr ns)
    have l: "lists_matching Net ns_id ns_labels ?fs (view s) ns" using nl Inr by auto
    have name: "view s (Net (ns_id n)) = Some (ns_name n, ns_labels n)" if "n \<in> set ns" for n
      using net_list_name [OF assms(1)] rn Inr that by auto
    have r: "r = Inr (list_ex (\<lambda>n. ns_name n = name \<and> matches_predicate (ns_labels n) (m_controller m)) ns)" "s' = s1"
      using assms(2,4) rn Inr by (auto simp: existing_claim_is_ours_def)
    have "(\<exists>n\<in>set ns. ns_name n = name \<and> matches_predicate (ns_labels n) (m_controller m)) \<longleftrightarrow>
      (\<exists>j l. view s (Net j) = Some (name, l) \<and> is_claim (m_controller m) i l)" (is "?L \<longleftrightarrow> ?R")
    proof
      assume ?L
      then obtain n where n: "n \<in> set ns" "ns_name n = name" "matches_predicate (ns_labels n) (m_controller m)"
        by blast
      then have "is_claim (m_controller m) i (ns_labels n)"
        using lists_matchingD [OF l n(1)] by (auto simp: is_claim_def instance_scoped_filter_def lget_def)
      then show ?R using name [OF n(1)] n(2) by blast
    next
      assume ?R
      then obtain j l' where *: "view s (Net j) = Some (name, l')" "is_claim (m_controller m) i l'" by blast
      then have "labels_of (view s) (Net j) = Some l'" by (simp add: labels_of_def)
      from lists_matchingE [OF l this is_claim_filter [OF *(2) assms(3)]]
      obtain x where x: "x \<in> set ns" "ns_id x = j" "ns_labels x = l'" .
      then show ?L using name [OF x(1)] *  by (auto simp: is_claim_def)
    qed
    then show ?thesis using r nl by (simp add: list_ex_iff)
  qed
qed

lemma run_best_effort_remove:
  assumes "inv s" "m_cli m = c" "run_state (best_effort_remove_own_network m nonce) s = (e, s')"
  shows "inv s' \<and> removes (own_network (m_controller m) nonce) (view s) (view s') \<and>
    (e = None \<longrightarrow> (\<forall>j n l. view s (Net j) = Some (n, l) \<longrightarrow> own_network (m_controller m) nonce (Net j) n l \<longrightarrow>
        view s' (Net j) = None))"
proof -
  let ?cid = "m_controller m" and ?fs = "filters_for_nonce (m_controller m) nonce"
  obtain rn s1 where rn: "run_state (network_list c ?fs) s = (rn, s1)" by fastforce
  note nl = net_list [OF assms(1) rn]
  show ?thesis
  proof (cases rn)
    case (Inl x)
    then show ?thesis using assms(2,3) rn nl by (auto simp: best_effort_remove_own_network_def)
  next
    case (Inr ns)
    have l: "lists_matching Net ns_id ns_labels ?fs (view s) ns" using nl Inr by auto
    obtain errs where run: "run_state (for_each (remove_own_step m nonce) ns []) s1 = (errs, s')" "e = join_errs errs"
      using assms(2,3) rn Inr unfolding best_effort_remove_own_network_def by (auto split: prod.splits)
    define I where "I = (\<lambda>(ys :: network_summary list) (errs :: gerr list) s'. inv s' \<and> removes (own_network ?cid nonce) (view s) (view s') \<and>
      (\<forall>r. (\<forall>y\<in>set ys. r \<noteq> Net (ns_id y)) \<longrightarrow> view s' r = view s r) \<and>
      (errs = [] \<longrightarrow> (\<forall>y\<in>set ys. view s' (Net (ns_id y)) = None)))"
    have step: "valid (I ys errs) (remove_own_step m nonce n errs) (I (ys @ [n]))" if sp: "ns = ys @ n # zs" for ys n zs errs
    proof
      fix t r t'
      assume I: "I ys errs t" and run: "run_state (remove_own_step m nonce n errs) t = (r, t')"
      have n: "labels_of (view s) (Net (ns_id n)) = Some (ns_labels n)" "list_all (match_term (ns_labels n)) ?fs"
        using lists_matchingD [OF l, of n] sp by auto
      then have nn: "lget (ns_labels n) LabelCreateNonce = nonce" by (simp add: filters_for_nonce_def lget_def)
      obtain nm where v: "view s (Net (ns_id n)) = Some (nm, ns_labels n)" using n(1) by (auto simp: labels_of_def)
      have own: "own_network ?cid nonce (Net (ns_id n)) nm (ns_labels n)"
        using n(2) by (simp add: own_network_def filters_for_nonce_def)
      have "\<forall>y\<in>set ys. ns_id n \<noteq> ns_id y" using l unfolding lists_matching_def sp by auto
      then have vt: "view t (Net (ns_id n)) = Some (nm, ns_labels n)" using I v unfolding I_def by auto
      obtain r2 where r2: "run_state (network_remove c (ns_id n)) t = (r2, t')"
        "r = errs @ opt_list (removal_error (''failed to remove leaked network '' @ ns_id n) r2)"
        using run nn assms(2) by (auto simp: remove_own_step_def split: prod.splits)
      have it: "inv t" using I by (simp add: I_def)
      have vn: "view t (Net (ns_id n)) \<noteq> None" using vt by simp
      note a = net_remove [OF it vn r2(1)]
      have "removes (own_network ?cid nonce) (view t) (view t')"
        using a vt own by (auto simp: removal_def removes_del)
      then have "removes (own_network ?cid nonce) (view s) (view t')"
        using I removes_trans unfolding I_def by blast
      moreover have "view t' r = view s r" if "\<forall>y\<in>set (ys @ [n]). r \<noteq> Net (ns_id y)" for r
        using a that I by (auto simp: removal_def I_def)
      moreover have "view t' (Net (ns_id y)) = None" if "r = []" "y \<in> set (ys @ [n])" for y
      proof -
        have e: "errs = []" "removal_error (''failed to remove leaked network '' @ ns_id n) r2 = None"
          using that r2(2) by auto
        then have "view t' (Net (ns_id n)) = None"
          using a by (auto simp: removal_error_None removal_def split: option.splits)
        moreover have "y \<in> set ys \<Longrightarrow> view t (Net (ns_id y)) = None" using I e(1) by (simp add: I_def)
        ultimately show ?thesis using that(2) a by (auto simp: removal_def)
      qed
      ultimately show "I (ys @ [n]) r t'" using a by (simp add: I_def)
    qed
    have v: "valid (I [] []) (for_each (remove_own_step m nonce) ns []) (I ns)"
      by (rule valid_for_each_prefix) (rule step)
    have "I [] [] s1" using nl assms(1) by (simp add: I_def)
    from validD [OF v this run(1)] have fin: "I ns errs s'" .
    have gone: "view s' (Net j) = None"
      if "errs = []" "view s (Net j) = Some (n, l')" "own_network ?cid nonce (Net j) n l'" for j n l'
    proof -
      have "labels_of (view s) (Net j) = Some l'" using that by (simp add: labels_of_def)
      moreover have "list_all (match_term l') ?fs" using that(3) by (simp add: own_network_def filters_for_nonce_def)
      ultimately obtain x where "x \<in> set ns" "ns_id x = j" by (rule lists_matchingE [OF l])
      then show ?thesis using fin that(1) by (auto simp: I_def)
    qed
    have f: "inv s'" "removes (own_network ?cid nonce) (view s) (view s')" using fin by (simp_all add: I_def)
    show ?thesis
    proof (intro conjI f allI impI)
      fix j n l'
      assume *: "e = None" "view s (Net j) = Some (n, l')" "own_network ?cid nonce (Net j) n l'"
      show "view s' (Net j) = None" by (rule gone [OF _ *(2,3)]) (use *(1) run(2) in simp)
    qed
  qed
qed

text \<open>The three outcomes of a claim.\<close>

lemma run_create_claim:
  assumes s: "inv s" and m: "m_cli m = c" "m_controller m \<noteq> ''''" and id: "id_controller identity = m_controller m"
    and run: "run_state (create_claim_network m identity nonce internal) s = ((i, dup, err), s')"
  defines "name \<equiv> job_network_name (id_instance identity)"
    and "L \<equiv> claim_labels identity nonce (m_now m s)"
  shows "inv s' \<and> \<not> (dup \<noteq> None \<and> err \<noteq> None) \<and>
    (dup = None \<and> err = None \<longrightarrow>
       view s (Net i) = None \<and> (\<forall>j l. view s (Net j) \<noteq> Some (name, l)) \<and>
       view s' = (view s)(Net i \<mapsto> (name, L))) \<and>
    (dup \<noteq> None \<longrightarrow> view s' = view s \<and>
       (\<exists>j l. view s (Net j) = Some (name, l) \<and> is_claim (m_controller m) (id_instance identity) l)) \<and>
    (err \<noteq> None \<longrightarrow>
       (\<forall>r n l. view s r = Some (n, l) \<longrightarrow> \<not> own_network (m_controller m) nonce r n l \<longrightarrow> view s' r = Some (n, l)) \<and>
       ((\<forall>es. err \<noteq> Some (JoinErr es)) \<and> nonce_fresh (m_controller m) nonce (view s) \<longrightarrow> view s' = view s))"
proof -
  let ?cid = "m_controller m" and ?inst = "id_instance identity"
  obtain i0 cerr s1 where cr: "run_state (network_create c name internal L) s = ((i0, cerr), s1)"
    by (cases "run_state (network_create c name internal L) s") auto
  note nc = net_create [OF s cr]
  have L: "(network_labels identity (m_now m s))(LabelCreateNonce \<mapsto> nonce) = L"
    by (simp add: L_def claim_labels_def)
  have ownL: "own_network ?cid nonce (Net j) name L" for j
    by (simp add: own_network_def L_def id)
  note run' = run [unfolded create_claim_network_def Let_def L name_def [symmetric] m(1)]
  show ?thesis
  proof (cases cerr)
    case None
    then have "i0 = i" "dup = None" "err = None" "s1 = s'"
      using run cr m(1) by (auto simp: create_claim_network_def Let_def L name_def [symmetric])
    then show ?thesis using nc None by simp
  next
    case (Some ce)
    show ?thesis
    proof (cases "is_conflict ce")
      case True
      obtain r where r: "run_state (existing_claim_is_ours m name ?inst) s1 = (r, s')"
        and out: "dup = None \<and> err \<noteq> None \<or> r = Inr True \<and> dup \<noteq> None \<and> err = None"
        using run cr m(1) Some True
        by (auto simp: create_claim_network_def Let_def L name_def [symmetric] split: sum.splits prod.splits if_splits)
      have v1: "inv s1" "view s1 = view s" using nc Some True by auto
      show ?thesis using run_existing_claim [OF v1(1) m r] v1 out by auto
    next
      case False
      obtain e2 where e2: "run_state (best_effort_remove_own_network m nonce) s1 = (e2, s')"
        and out: "dup = None" "err \<noteq> None" "e2 \<noteq> None \<Longrightarrow> \<exists>es. err = Some (JoinErr es)"
        using run cr m(1) Some False
        by (auto simp: create_claim_network_def Let_def L name_def [symmetric] split: prod.splits option.splits)
      have v1: "inv s1" "view s1 = view s \<or> (\<exists>j. view s (Net j) = None \<and> view s1 = (view s)(Net j \<mapsto> (name, L)))"
        using nc Some by auto
      note be = run_best_effort_remove [OF v1(1) m(1) e2]
      have kept: "view s' r = Some (n, l)"
        if "view s r = Some (n, l)" "\<not> own_network ?cid nonce r n l" for r n l
      proof -
        have "view s1 r = Some (n, l)" using v1(2) that(1) by auto
        then show ?thesis using removes_kept be that(2) by blast
      qed
      moreover have "view s' = view s"
        if "\<forall>es. err \<noteq> Some (JoinErr es)" "nonce_fresh ?cid nonce (view s)"
        using v1(2)
      proof
        assume "view s1 = view s"
        then show ?thesis using nonce_fresh_removes [OF that(2)] be by simp
      next
        assume "\<exists>j. view s (Net j) = None \<and> view s1 = (view s)(Net j \<mapsto> (name, L))"
        then obtain j where j: "view s (Net j) = None" "view s1 = (view s)(Net j \<mapsto> (name, L))" by blast
        have "e2 = None" using out(3) that(1) by blast
        then have "view s' (Net j) = None" using be ownL j(2) by auto
        then show ?thesis using leaked_gone [OF that(2) j(1)] be j(2) by auto
      qed
      ultimately show ?thesis using be out by auto
    qed
  qed
qed

section \<open>Volumes\<close>

lemma run_create_fresh_volume:
  assumes s: "inv s" and m: "m_cli m = c" and n: "name \<noteq> ''''"
    and run: "run_state (create_fresh_volume m kind name l0 nonce) s = (e, s')"
  defines "L \<equiv> l0(LabelCreateNonce \<mapsto> nonce)"
  shows "inv s' \<and>
    (\<forall>r. r \<noteq> Vol name \<longrightarrow> view s' r = view s r) \<and>
    (e = None \<longrightarrow> (\<exists>nm l. view s' (Vol name) = Some (nm, l) \<and> lget l LabelCreateNonce = nonce)) \<and>
    (\<forall>nm l. view s (Vol name) = Some (nm, l) \<longrightarrow> \<not> owns_volume_for_replacement m l L \<longrightarrow>
       view s' (Vol name) = Some (nm, l) \<and> (e = None \<longrightarrow> lget l LabelCreateNonce = nonce)) \<and>
    (e = None \<longrightarrow> view s (Vol name) = None \<longrightarrow> view s' (Vol name) = Some (name, L))"
proof -
  obtain r1 s1 where r1: "run_state (volume_create c name L) s = (r1, s1)" by fastforce
  note v1 = vol_create [OF s n r1]
  show ?thesis
  proof (cases r1)
    case (Inl x)
    then have "e \<noteq> None" "s' = s1"
      using run r1 m by (auto simp: create_fresh_volume_def Let_def L_def [symmetric])
    then show ?thesis using v1 Inl by auto
  next
    case (Inr cr)
    note w1 = conjunct1 [OF conjunct2 [OF v1], rule_format, OF Inr]
    have i1: "inv s1" using v1 by simp
    show ?thesis
    proof (cases "lget (vol_labels cr) LabelCreateNonce = nonce")
      case True
      then have "e = None" "s' = s1"
        using run r1 m Inr by (auto simp: create_fresh_volume_def Let_def L_def [symmetric])
      then show ?thesis using w1 i1 True by (auto split: option.splits prod.splits)
    next
      case no: False
      have LN: "lget L LabelCreateNonce = nonce" by (simp add: L_def)
      have ex: "\<exists>nm. view s (Vol name) = Some (nm, vol_labels cr)" and s1: "view s1 = view s"
        using w1 no LN by (auto split: option.splits)
      then obtain nm where vs: "view s (Vol name) = Some (nm, vol_labels cr)" by blast
      show ?thesis
      proof (cases "owns_volume_for_replacement m (vol_labels cr) L")
        case False
        then have "e \<noteq> None" "s' = s1"
          using run r1 m Inr no by (auto simp: create_fresh_volume_def Let_def L_def [symmetric])
        then show ?thesis using vs s1 i1 by auto
      next
        case own: True
        obtain rm s2 where rm: "run_state (volume_remove c name True) s1 = (rm, s2)" by fastforce
        note v2 = vol_remove [OF i1 rm]
        let ?e = "removal_error (stale_volume_text kind name) rm"
        show ?thesis
        proof (cases ?e)
          case (Some x)
          then have "e \<noteq> None" "s' = s2"
            using run r1 m Inr no own rm
            by (auto simp: create_fresh_volume_def Let_def L_def [symmetric] dest: sym [of "Some x"])
          then show ?thesis using v2 s1 vs own by (auto simp: removal_def)
        next
          case None
          then have gone: "view s2 (Vol name) = None"
            using v2 by (auto simp: removal_def removal_error_None split: option.splits)
          obtain r3 s3 where r3: "run_state (volume_create c name L) s2 = (r3, s3)" by fastforce
          have i2: "inv s2" using v2 by simp
          note v3 = vol_create [OF i2 n r3]
          have out: "s' = s3" "e = None \<Longrightarrow> \<exists>v. r3 = Inr v"
            using run r1 m Inr no own rm r3 None
            by (auto simp: create_fresh_volume_def Let_def L_def [symmetric] split: sum.splits if_splits)
          have other: "view s' r = view s r" if "r \<noteq> Vol name" for r
            using v3 v2 s1 that gone out(1) by (cases r3) (auto simp: removal_def)
          moreover have "view s' (Vol name) = Some (name, L)" if e: "e = None"
          proof -
            obtain v where "r3 = Inr v" using out(2) [OF e] by blast
            then have "view s3 = (view s2)(Vol name \<mapsto> (name, L))" using v3 gone by simp
            then show ?thesis using out(1) by simp
          qed
          ultimately show ?thesis using v3 out(1) vs own LN by auto
        qed
      qed
    qed
  qed
qed

end

end
