(* ===== verification/Topology_Liveness.thy ===== *)
theory Topology_Liveness
  imports Topology_Create
begin

text \<open>
  When a teardown succeeds. \<open>docker_healthy\<close> extends the daemon's contract with a daemon that is
  up and refuses to remove a network or volume only while a container uses it. On such a daemon the
  three phases of \<open>run_teardown\<close> return no error, because the containers that use an allocation's
  volumes and networks go first. The fake daemon is one, as long as no removal fault is set.
\<close>

section \<open>A healthy daemon\<close>

locale docker_healthy =
  docker_store c inv view + still: docker_reads c inv "\<lambda>s. (up s, uses s)"
  for c :: "'s client" and inv :: "'s \<Rightarrow> bool" and view :: "'s \<Rightarrow> store"
    and up :: "'s \<Rightarrow> bool" and uses :: "'s \<Rightarrow> string \<Rightarrow> rid \<Rightarrow> bool" +
  assumes uses_ctr: "inv s \<Longrightarrow> uses s i q \<Longrightarrow> view s (Ctr i) \<noteq> None"
    and uses_kind: "\<not> uses s i (Ctr j)"
    and up_ctr_list: "inv s \<Longrightarrow> up s \<Longrightarrow> run_state (container_list c True fs) s = (rcl, s') \<Longrightarrow> \<exists>xs. rcl = Inr xs"
    and up_net_list: "inv s \<Longrightarrow> up s \<Longrightarrow> run_state (network_list c fs) s = (rnl, s') \<Longrightarrow> \<exists>xs. rnl = Inr xs"
    and up_vol_list: "inv s \<Longrightarrow> up s \<Longrightarrow> run_state (volume_list c fs) s = (rvl, s') \<Longrightarrow> \<exists>xs. rvl = Inr xs"
    and up_ctr_remove: "inv s \<Longrightarrow> up s \<Longrightarrow> view s (Ctr i) \<noteq> None \<Longrightarrow>
      run_state (container_remove c i f rmv) s = (r, s') \<Longrightarrow>
      r = None \<and> up s' \<and> (\<forall>j q. uses s' j q \<longrightarrow> uses s j q)"
    and up_net_remove: "inv s \<Longrightarrow> up s \<Longrightarrow> view s (Net i) \<noteq> None \<Longrightarrow> (\<And>j. \<not> uses s j (Net i)) \<Longrightarrow>
      run_state (network_remove c i) s = (r, s') \<Longrightarrow>
      r = None \<and> up s' \<and> (\<forall>j q. uses s' j q \<longrightarrow> uses s j q)"
    and up_vol_remove: "inv s \<Longrightarrow> up s \<Longrightarrow> view s (Vol n) \<noteq> None \<Longrightarrow> (\<And>j. \<not> uses s j (Vol n)) \<Longrightarrow>
      run_state (volume_remove c n f) s = (r, s') \<Longrightarrow>
      r = None \<and> up s' \<and> (\<forall>j q. uses s' j q \<longrightarrow> uses s j q)"

text \<open>The uses of dropped resources come from dropped containers.\<close>

definition use_closed ::
  "(string \<Rightarrow> rid \<Rightarrow> bool) \<Rightarrow> teardown_scope \<Rightarrow> string \<Rightarrow> string list \<Rightarrow> store \<Rightarrow> bool" where
  "use_closed U sc cid fs v \<longleftrightarrow>
     (\<forall>j q n l. U j q \<longrightarrow> v q = Some (n, l) \<longrightarrow> teardown_drops sc cid fs q n l \<longrightarrow>
        (\<exists>n' l'. v (Ctr j) = Some (n', l') \<and> settled sc cid v l' \<and> teardown_drops sc cid fs (Ctr j) n' l'))"

context docker_healthy begin

definition calm :: "(string \<Rightarrow> rid \<Rightarrow> bool) \<Rightarrow> 's \<Rightarrow> bool" where
  "calm U s \<longleftrightarrow> inv s \<and> up s \<and> (\<forall>j q. uses s j q \<longrightarrow> U j q)"

lemma calm_keeps: "still.keeps m \<Longrightarrow> keeps m \<Longrightarrow> calm U s \<Longrightarrow> run_state m s = (r, s') \<Longrightarrow> calm U s' \<and> view s' = view s"
  using still.keepsD [of m s r s'] keepsD [of m s r s'] by (auto simp: calm_def)

lemma may_remove_up:
  assumes "m_cli m = c" "calm U s" "run_state (may_remove m sc l) s = (r, s')"
  shows "\<exists>ok. r = Inr ok"
proof -
  have "\<exists>xs. rnl = Inr xs" if "run_state (network_list c fs) s = (rnl, s1)" for rnl s1 fs
    using up_net_list that assms(2) by (auto simp: calm_def)
  then show ?thesis
    using assms(1,3) by (fastforce simp: may_remove_def live_claim_nonce_def Let_def
        split: if_splits teardown_mode.splits option.splits prod.splits sum.splits)
qed

definition act_up :: "(string \<Rightarrow> rid) \<Rightarrow> ('x \<Rightarrow> string) \<Rightarrow> ('x \<Rightarrow> ('s, gerr option) state) \<Rightarrow> bool" where
  "act_up K idf act \<longleftrightarrow>
     (\<forall>U s x r s'. calm U s \<longrightarrow> view s (K (idf x)) \<noteq> None \<longrightarrow> (\<forall>j. \<not> U j (K (idf x))) \<longrightarrow>
        run_state (act x) s = (r, s') \<longrightarrow> r = None \<and> up s' \<and> (\<forall>j q. uses s' j q \<longrightarrow> U j q))"

lemma act_upD:
  "act_up K idf act \<Longrightarrow> calm U s \<Longrightarrow> view s (K (idf x)) \<noteq> None \<Longrightarrow> (\<And>j. \<not> U j (K (idf x))) \<Longrightarrow>
   run_state (act x) s = (r, s') \<Longrightarrow> r = None \<and> up s' \<and> (\<forall>j q. uses s' j q \<longrightarrow> U j q)"
  unfolding act_up_def by blast

lemma up_stop_and_remove: "m_cli m = c \<Longrightarrow> act_up Ctr su_id (stop_and_remove m)"
  unfolding act_up_def
proof (intro allI impI)
  fix U s x r s'
  assume m: "m_cli m = c" and s: "calm U s" and v: "view s (Ctr (su_id x)) \<noteq> None"
    and run: "run_state (stop_and_remove m x) s = (r, s')"
  obtain r1 s1 where r1: "run_state (container_stop c (su_id x)) s = (r1, s1)" by fastforce
  obtain r2 where r2: "run_state (container_remove c (su_id x) True True) s1 = (r2, s')"
    "r = removal_error (''failed to remove container '' @ su_id x) r2"
    using run r1 m by (auto simp: stop_and_remove_def split: prod.splits)
  have "calm U s1 \<and> view s1 = view s" using calm_keeps [OF still.keeps_ctr_stop keeps_ctr_stop s r1] .
  then show "r = None \<and> up s' \<and> (\<forall>j q. uses s' j q \<longrightarrow> U j q)"
    using up_ctr_remove [OF _ _ _ r2(1)] v r2(2) by (auto simp: calm_def removal_error_def)
qed

lemma up_remove_one_network: "m_cli m = c \<Longrightarrow> act_up Net ns_id (remove_one_network m)"
  unfolding act_up_def calm_def using up_net_remove
  by (auto simp: remove_one_network_def removal_error_def split: prod.splits option.splits) blast+

lemma up_remove_one_volume: "m_cli m = c \<Longrightarrow> act_up Vol vol_name (remove_one_volume m)"
  unfolding act_up_def calm_def using up_vol_remove
  by (auto simp: remove_one_volume_def removal_error_def split: prod.splits option.splits) blast+

lemma removal_loop_up:
  assumes m: "m_cli m = c" "m_controller m \<noteq> ''''" and act: "act_removes K idf act" "act_up K idf act"
    and K: "inj K" and xs: "distinct (map idf xs)"
    and lab: "\<And>x. x \<in> set xs \<Longrightarrow> labels_of v0 (K (idf x)) = Some (labf x)"
    and free: "\<And>x j. x \<in> set xs \<Longrightarrow> scope_allows sc (m_controller m) no_claim (labf x) \<Longrightarrow> \<not> U j (K (idf x))"
  shows "valid (\<lambda>s. calm U s \<and> view s = v0) (for_each (removal_step m sc labf act) xs (False, []))
    (\<lambda>acc s. calm U s \<and> snd acc = [])"
proof -
  let ?I = "\<lambda>ys acc s. calm U s \<and> snd acc = [] \<and> (\<forall>r. (\<forall>y\<in>set ys. r \<noteq> K (idf y)) \<longrightarrow> view s r = v0 r)"
  have step: "valid (?I ys acc) (removal_step m sc labf act x acc) (?I (ys @ [x]))"
    if split: "xs = ys @ x # zs" for ys x zs acc
  proof
    fix s acc' s'
    assume I: "?I ys acc s" and run: "run_state (removal_step m sc labf act x acc) s = (acc', s')"
    have "\<forall>y\<in>set ys. K (idf x) \<noteq> K (idf y)" using xs K unfolding split by (auto dest: injD)
    then have vx: "view s (K (idf x)) \<noteq> None" using I lab [of x] split by (auto simp: labels_of_def)
    obtain rm s1 where rm: "run_state (may_remove m sc (labf x)) s = (rm, s1)" by fastforce
    obtain ok where ok: "rm = Inr ok" using may_remove_up [OF m(1) _ rm] I by blast
    have s1: "calm U s1" "view s1 = view s"
      using calm_keeps [OF still.keeps_may_remove [OF m(1)] keeps_may_remove [OF m(1)] _ rm] I by auto
    show "?I (ys @ [x]) acc' s'"
    proof (cases ok)
      case False
      then show ?thesis using run rm ok I s1 by (auto simp: removal_step_def)
    next
      case True
      then obtain r where r: "run_state (act x) s1 = (r, s')" "acc' = (True, snd acc @ opt_list r)"
        using run rm ok by (auto simp: removal_step_def split: prod.splits)
      have "scope_allows sc (m_controller m) no_claim (labf x)"
        using run_may_remove [OF _ m(1) rm m(2)] I ok True by (auto simp: calm_def)
      then have "\<And>j. \<not> U j (K (idf x))" using free split by auto
      note u = act_upD [OF act(2) s1(1) _ this r(1)]
      have i1: "inv s1" using s1(1) by (simp add: calm_def)
      have vx1: "view s1 (K (idf x)) \<noteq> None" using vx s1(2) by simp
      show ?thesis
        using act_removesD [OF act(1) i1 vx1 r(1)] u vx1 r(2) I s1(2) by (auto simp: calm_def)
    qed
  qed
  show ?thesis
    by (rule valid_pre, rule valid_post,
        rule valid_for_each_prefix [where I = ?I], rule step, assumption) auto
qed

lemma up_remove_containers:
  assumes m: "m_cli m = c" "m_controller m \<noteq> ''''" and s: "calm U s" and U: "\<And>j i. \<not> U j (Ctr i)"
    and run: "run_state (remove_containers m fs sc) s = ((found, e, logs), s')"
  shows "e = None \<and> calm U s'"
proof -
  obtain rl s1 where rl: "run_state (container_list c True fs) s = (rl, s1)" by fastforce
  obtain xs0 where Inr: "rl = Inr xs0" using up_ctr_list [OF _ _ rl] s by (auto simp: calm_def)
  have s1: "calm U s1 \<and> view s1 = view s" using calm_keeps [OF still.keeps_ctr_list keeps_ctr_list s rl] .
  define xs where "xs = sort_key (\<lambda>x. role_rank (su_labels x)) xs0"
  obtain l1 s2 rep s3 l2 s4 acc where
    1: "run_state (report_stopped_runners m xs sc) s1 = (l1, s2)"
    "run_state (new_dind_io_reporter m xs sc) s2 = (rep, s3)"
    "run_state (report_all m rep xs sc) s3 = (l2, s4)" and
    2: "run_state (for_each (removal_step m sc su_labels (stop_and_remove m)) xs (False, [])) s4 = (acc, s')"
    "e = join_errs (snd acc)"
    using run rl Inr m(1) unfolding remove_containers_def
    by (auto simp: Let_def xs_def split: prod.splits)
  have s4: "calm U s4 \<and> view s4 = view s"
    using s1 calm_keeps [OF still.keeps_report_stopped_runners [OF m(1)] keeps_report_stopped_runners [OF m(1)] _ 1(1)]
      calm_keeps [OF still.keeps_new_reporter [OF m(1)] keeps_new_reporter [OF m(1)] _ 1(2)]
      calm_keeps [OF still.keeps_report_all [OF m(1)] keeps_report_all [OF m(1)] _ 1(3)]
    by metis
  have lm: "lists_matching Ctr su_id su_labels fs (view s) xs0"
    using ctr_list [OF _ rl] s Inr by (auto simp: calm_def)
  then have "distinct (map su_id xs)"
    unfolding lists_matching_def xs_def distinct_map by (simp add: inj_on_def)
  then have "calm U s' \<and> snd acc = []"
    using validD [OF removal_loop_up [OF m act_stop_and_remove [OF m(1)] up_stop_and_remove [OF m(1)],
        of xs "view s" su_labels sc U] _ 2(1)] s4 lists_matchingD [OF lm] U by (auto simp: xs_def inj_def)
  then show ?thesis using 2(2) by simp
qed

lemma up_remove_volumes:
  assumes m: "m_cli m = c" "m_controller m \<noteq> ''''" and s: "calm U s"
    and U: "\<And>j i n l. view s (Vol i) = Some (n, l) \<Longrightarrow> teardown_drops sc (m_controller m) fs (Vol i) n l \<Longrightarrow> \<not> U j (Vol i)"
    and run: "run_state (remove_volumes m fs sc) s = ((found, e), s')"
  shows "e = None \<and> calm U s'"
proof -
  obtain rl s1 where rl: "run_state (volume_list c fs) s = (rl, s1)" by fastforce
  obtain vs0 where Inr: "rl = Inr vs0" using up_vol_list [OF _ _ rl] s by (auto simp: calm_def)
  have s1: "calm U s1 \<and> view s1 = view s" using calm_keeps [OF still.keeps_vol_list keeps_vol_list s rl] .
  define vs where "vs = List.map_filter id vs0"
  obtain acc where 2:
    "run_state (for_each (removal_step m sc vol_labels (remove_one_volume m)) vs (False, [])) s1 = (acc, s')"
    "e = join_errs (snd acc)"
    using run rl Inr m(1) unfolding remove_volumes_def by (auto simp: vs_def split: prod.splits)
  have lm: "lists_matching Vol vol_name vol_labels fs (view s) vs"
    using vol_list [OF _ rl] s Inr by (auto simp: calm_def vs_def)
  have free: "\<not> U j (Vol (vol_name x))" if "x \<in> set vs" "scope_allows sc (m_controller m) no_claim (vol_labels x)" for x j
    using lists_matchingD [OF lm that(1)] that(2) U by (auto simp: labels_of_def teardown_drops_def)
  have "distinct (map vol_name vs)" using lm by (simp add: lists_matching_def)
  then have "calm U s' \<and> snd acc = []"
    using validD [OF removal_loop_up [OF m act_remove_one_volume [OF m(1)] up_remove_one_volume [OF m(1)],
        of vs "view s" vol_labels sc U] _ 2(1)] s1 lists_matchingD [OF lm] free by (auto simp: inj_def)
  then show ?thesis using 2(2) by simp
qed

lemma up_remove_networks:
  assumes m: "m_cli m = c" "m_controller m \<noteq> ''''" and s: "calm U s"
    and U: "\<And>j i n l. view s (Net i) = Some (n, l) \<Longrightarrow> teardown_drops sc (m_controller m) fs (Net i) n l \<Longrightarrow> \<not> U j (Net i)"
    and run: "run_state (remove_networks m fs sc) s = ((found, e), s')"
  shows "e = None \<and> calm U s'"
proof -
  obtain rl s1 where rl: "run_state (network_list c fs) s = (rl, s1)" by fastforce
  obtain ns where Inr: "rl = Inr ns" using up_net_list [OF _ _ rl] s by (auto simp: calm_def)
  have s1: "calm U s1 \<and> view s1 = view s" using calm_keeps [OF still.keeps_net_list keeps_net_list s rl] .
  obtain acc where 2:
    "run_state (for_each (removal_step m sc ns_labels (remove_one_network m)) ns (False, [])) s1 = (acc, s')"
    "e = join_errs (snd acc)"
    using run rl Inr m(1) unfolding remove_networks_def by (auto split: prod.splits)
  have lm: "lists_matching Net ns_id ns_labels fs (view s) ns"
    using net_list [OF _ rl] s Inr by (auto simp: calm_def)
  have free: "\<not> U j (Net (ns_id x))" if "x \<in> set ns" "scope_allows sc (m_controller m) no_claim (ns_labels x)" for x j
    using lists_matchingD [OF lm that(1)] that(2) U by (auto simp: labels_of_def teardown_drops_def)
  have "distinct (map ns_id ns)" using lm by (simp add: lists_matching_def)
  then have "calm U s' \<and> snd acc = []"
    using validD [OF removal_loop_up [OF m act_remove_one_network [OF m(1)] up_remove_one_network [OF m(1)],
        of ns "view s" ns_labels sc U] _ 2(1)] s1 lists_matchingD [OF lm] free by (auto simp: inj_def)
  then show ?thesis using 2(2) by simp
qed

text \<open>Removing the containers first frees everything the allocation owns.\<close>

theorem run_teardown_up:
  assumes m: "m_cli m = c" "m_controller m \<noteq> ''''" and s: "inv s" "up s"
    and cl: "use_closed (uses s) sc (m_controller m) fs (view s)"
    and run: "run_state (run_teardown m fs sc) s = ((found, e, logs), s')"
  shows "e = None"
proof -
  obtain f1 e1 l1 s1 f2 e2 s2 f3 e3 where
    r1: "run_state (remove_containers m fs sc) s = ((f1, e1, l1), s1)" and
    r2: "run_state (remove_volumes m fs sc) s1 = ((f2, e2), s2)" and
    r3: "run_state (remove_networks m fs sc) s2 = ((f3, e3), s')" and
    f: "e = join_errs (opt_list e1 @ opt_list e2 @ opt_list e3)"
    using run unfolding run_teardown_def by (auto split: prod.splits)
  note p1 = run_remove_containers [OF m s(1) r1]
  note p2 = run_remove_volumes [OF m conjunct1 [OF p1] r2]
  have "calm (uses s) s" using s by (simp add: calm_def)
  from up_remove_containers [OF m this uses_kind r1]
  have u1: "e1 = None" "calm (uses s) s1" by auto
  define U where "U = uses s1"
  have c1: "calm U s1" using u1(2) by (simp add: calm_def U_def)
  have rem: "removes (teardown_drops sc (m_controller m) fs) (view s) (view s1)"
    "removes (teardown_drops sc (m_controller m) fs) (view s1) (view s2)"
    using p1 p2 unfolding phase_done_def by auto
  have free: "\<not> U j q" if q: "view s1 q = Some (n, l)" "teardown_drops sc (m_controller m) fs q n l" for j q n l
  proof
    assume U: "U j q"
    have "uses s j q" using U u1(2) by (simp add: calm_def U_def)
    moreover have "view s q = Some (n, l)" using removes_back [OF rem(1) q(1)] .
    ultimately obtain n' l' where "view s (Ctr j) = Some (n', l')" "settled sc (m_controller m) (view s) l'"
      "teardown_drops sc (m_controller m) fs (Ctr j) n' l'"
      using cl q(2) unfolding use_closed_def by blast
    then have "view s1 (Ctr j) = None"
      using phase_gone [OF conjunct2 [OF p1, unfolded u1(1)]] by (auto simp: teardown_drops_def)
    then show False using uses_ctr [of s1 j q] U u1(2) by (auto simp: calm_def U_def)
  qed
  have u2: "e2 = None" "calm U s2" using up_remove_volumes [OF m c1 _ r2] free by blast+
  have "e3 = None"
    using up_remove_networks [OF m u2(2) _ r3] free removes_back [OF rem(2)] by blast
  then show ?thesis using f u1 u2 by simp
qed

end

section \<open>The entry points on a healthy daemon\<close>

text \<open>What uses a resource of the allocation belongs to the allocation.\<close>

definition uses_within :: "(string \<Rightarrow> rid \<Rightarrow> bool) \<Rightarrow> (labels \<Rightarrow> bool) \<Rightarrow> store \<Rightarrow> bool" where
  "uses_within U P v \<longleftrightarrow>
     (\<forall>j q n l. U j q \<longrightarrow> v q = Some (n, l) \<longrightarrow> P l \<longrightarrow> (\<exists>n' l'. v (Ctr j) = Some (n', l') \<and> P l'))"

lemma rollback_drops:
  assumes "m_controller m \<noteq> ''''"
  shows "teardown_drops \<lparr>ts_mode = Exact, ts_exact = nonce, ts_captured = Map.empty, ts_report_on_delete = False\<rparr>
      (m_controller m) (instance_scoped_nonce_filter m i nonce) r n l \<longleftrightarrow> rollback_owned (m_controller m) i nonce l"
  using instance_filter [OF assms, of l i]
  by (auto simp: teardown_drops_def scope_allows_def rollback_owned_def instance_scoped_nonce_filter_def lget_def
      matches_predicate_iff split: option.splits)

lemma generation_drops:
  assumes "m_controller m \<noteq> ''''"
  shows "teardown_drops \<lparr>ts_mode = Generation, ts_exact = '''', ts_captured = cap, ts_report_on_delete = rpt\<rparr>
      (m_controller m) (instance_scoped_filter m i) r n l \<longleftrightarrow> allocation_owned (m_controller m) i (cap i) l"
  using instance_filter [OF assms, of l i] predicate_not_cache [of l "m_controller m"]
  by (auto simp: teardown_drops_def scope_allows_def allocation_owned_def lget_Some split: option.splits)

context docker_healthy begin

lemma run_rollback_up:
  assumes m: "m_cli m = c" "m_controller m \<noteq> ''''" and s: "inv s" "up s"
    and cl: "uses_within (uses s) (rollback_owned (m_controller m) i nonce) (view s)"
    and run: "run_state (rollback m i nonce) s = (e, s')"
  shows "e = None \<and> view s' = drop_matching (rollback_owned (m_controller m) i nonce) (view s)"
proof -
  let ?sc = "\<lparr>ts_mode = Exact, ts_exact = nonce, ts_captured = Map.empty, ts_report_on_delete = False\<rparr>"
  obtain f logs where r: "run_state (run_teardown m (instance_scoped_nonce_filter m i nonce) ?sc) s = ((f, e, logs), s')"
    using run by (auto simp: rollback_def split: prod.splits)
  have "use_closed (uses s) ?sc (m_controller m) (instance_scoped_nonce_filter m i nonce) (view s)"
    using cl unfolding use_closed_def uses_within_def rollback_drops [OF m(2)] by (auto simp: settled_def)
  from run_teardown_up [OF m s this r] have "e = None" .
  then show ?thesis using run_rollback [OF m s(1) run] by simp
qed

lemma run_generation_up:
  assumes m: "m_cli m = c" "m_controller m \<noteq> ''''" and s: "inv s" "up s" and i: "i \<noteq> ''''"
    and cl: "\<And>gen. generation_at (m_controller m) i (view s) gen \<Longrightarrow>
      uses_within (uses s) (allocation_owned (m_controller m) i gen) (view s)"
    and run: "run_state (teardown_generation m (instance_scoped_filter m i) rpt) s = ((found, e, logs), s')"
  shows "e = None"
proof -
  let ?fs = "instance_scoped_filter m i" and ?cid = "m_controller m"
  obtain rc s1 where rc: "run_state (claim_nonces_by_instance m ?fs) s = (rc, s1)" by fastforce
  have k: "still.keeps (claim_nonces_by_instance m ?fs)" "keeps (claim_nonces_by_instance m ?fs)"
    unfolding claim_nonces_by_instance_def m(1)
    by (intro still.keeps_rules, intro keeps_rules)
  have "calm (uses s) s" using s by (simp add: calm_def)
  from calm_keeps [OF k this rc] have c1: "calm (uses s) s1 \<and> view s1 = view s" .
  have us: "uses s1 j q \<Longrightarrow> uses s j q" for j q using c1 by (simp add: calm_def)
  have "\<exists>xs. rnl = Inr xs" if "run_state (network_list c ?fs) s = (rnl, s2)" for rnl s2
    using up_net_list [OF s that] .
  then obtain cap where cap: "rc = Inr cap"
    using rc m(1) by (fastforce simp: claim_nonces_by_instance_def split: prod.splits sum.splits)
  have g: "generation_at ?cid i (view s) (cap i)" using run_claim_nonces [OF m s(1) i rc] cap by simp
  let ?sc = "\<lparr>ts_mode = Generation, ts_exact = '''', ts_captured = cap, ts_report_on_delete = rpt\<rparr>"
  have "settled ?sc ?cid (view s) l" if "allocation_owned ?cid i (cap i) l" for l
    using g that by (cases "cap i") (auto simp: settled_def generation_at_def allocation_owned_def lget_Some)
  then have "use_closed (uses s1) ?sc ?cid ?fs (view s1)"
    using cl [OF g] c1 us unfolding use_closed_def uses_within_def generation_drops [OF m(2)] by metis
  moreover have "run_state (run_teardown m ?fs ?sc) s1 = ((found, e, logs), s')"
    using run rc cap by (simp add: teardown_generation_def)
  moreover have "inv s1" "up s1" using c1 by (simp_all add: calm_def)
  ultimately show ?thesis using run_teardown_up [OF m, of s1] by blast
qed

end

section \<open>The fake is one\<close>

definition fake_up :: "fake \<Rightarrow> bool" where
  "fake_up f \<longleftrightarrow> fk_remove_err f = None \<and> fk_network_remove_err f = None \<and> fk_volume_remove_err f = None"

definition container_uses :: "fake_network list \<Rightarrow> rid \<Rightarrow> fake_container \<Rightarrow> bool" where
  "container_uses ns r c =
     (case r of
        Ctr _ \<Rightarrow> False
      | Net k \<Rightarrow> list_ex (\<lambda>n. fn_id n = k \<and> (fc_network_mode c = fn_name n \<or> fc_network_mode c = fn_id n)) ns
      | Vol n \<Rightarrow> list_ex (\<lambda>m. m_type m = ''volume'' \<and> m_source m = n) (fc_mounts c))"

definition fake_uses :: "fake \<Rightarrow> string \<Rightarrow> rid \<Rightarrow> bool" where
  "fake_uses f i r = list_ex (\<lambda>c. fc_id c = i \<and> container_uses (fk_networks f) r c) (fk_containers f)"

abbreviation fake_use_obs :: "fake \<Rightarrow> bool \<times> (string \<Rightarrow> rid \<Rightarrow> bool)" where
  "fake_use_obs f \<equiv> (fake_up f, fake_uses f)"

lemma use_obs_update_container:
  assumes "find_container f i = Some d" "fake_inv f"
    and "fc_id c = fc_id d" "fc_network_mode c = fc_network_mode d" "fc_mounts c = fc_mounts d"
  shows "fake_use_obs (update_container f c) = fake_use_obs f"
proof -
  have dist: "distinct (map fc_id (fk_containers f))" using assms(2) by (simp add: fake_inv_def)
  have d: "d \<in> set (fk_containers f)"
    using assms(1) by (auto simp: find_container_def find_by_name_def split: option.splits dest: find_SomeD)
  have "fc_id x = fc_id d \<Longrightarrow> x = d" if "x \<in> set (fk_containers f)" for x
    using dist d that by (auto simp: distinct_map inj_on_def)
  then have eq: "container_uses ns r (if fc_id x = fc_id c then c else x) = container_uses ns r x"
    "fc_id (if fc_id x = fc_id c then c else x) = fc_id x" if "x \<in> set (fk_containers f)" for x ns r
    using that assms(3-5) by (auto simp: container_uses_def split: rid.split)
  have "fake_uses (update_container f c) i r = fake_uses f i r" for i r
    using eq by (simp add: fake_uses_def update_container_def list_ex_iff del: if_image_distrib cong: bex_cong)
  then show ?thesis by (auto simp: fake_up_def update_container_def)
qed

lemma use_obs_cong:
  "fk_containers g = fk_containers f \<Longrightarrow> fk_networks g = fk_networks f \<Longrightarrow> fake_up g = fake_up f \<Longrightarrow>
   fake_use_obs g = fake_use_obs f"
  by (auto simp: fake_uses_def fun_eq_iff)

lemma use_obs_exec_stream:
  assumes "fake_inv f" "fake_exec_stream i cmd a f = (r, g)"
  shows "fake_use_obs g = fake_use_obs f"
proof -
  have upd: "fake_inv (h\<lparr>fk_execs := x\<rparr>)" "find_container (h\<lparr>fk_execs := x\<rparr>) j = find_container h j"
    "fake_use_obs (h\<lparr>fk_execs := x\<rparr>) = fake_use_obs h" if "fake_inv h" for h x j
    using that by (auto simp: fake_inv_def fake_faults_ok_def find_container_def find_by_name_def fake_up_def
        intro!: use_obs_cong cong: option.case_cong) (auto simp: fake_uses_def fun_eq_iff)
  have "fc_id c' = fc_id c \<and> fc_network_mode c' = fc_network_mode c \<and> fc_mounts c' = fc_mounts c"
    if "extract_tar_into_tmpfs c a = (None, c')" for c c'
    using that by (cases a) auto
  then show ?thesis
    using assms use_obs_update_container [of "f\<lparr>fk_execs := x\<rparr>" i for x] upd [OF assms(1)]
    by (auto simp: fake_exec_stream_def Let_def split: option.splits if_splits prod.splits)
qed

lemma use_obs_keep:
  assumes "fake_inv f"
  shows "fake_image_pull x f = (r1, g) \<Longrightarrow> fake_use_obs g = fake_use_obs f"
    and "fake_image_inspect x f = (r2, g) \<Longrightarrow> fake_use_obs g = fake_use_obs f"
    and "fake_exec_output i cmd f = (r3, g) \<Longrightarrow> fake_use_obs g = fake_use_obs f"
    and "fake_container_stats i f = (r4, g) \<Longrightarrow> fake_use_obs g = fake_use_obs f"
    and "fake_container_logs k i t f = (r5, g) \<Longrightarrow> fake_use_obs g = fake_use_obs f"
    and "fake_container_start i f = (r6, g) \<Longrightarrow> fake_use_obs g = fake_use_obs f"
    and "fake_container_stop i f = (r7, g) \<Longrightarrow> fake_use_obs g = fake_use_obs f"
    and "fake_container_wait i f = (r8, g) \<Longrightarrow> fake_use_obs g = fake_use_obs f"
    and "fake_container_inspect i f = (r9, g) \<Longrightarrow> fake_use_obs g = fake_use_obs f"
proof -
  note upd = use_obs_update_container [OF _ assms]
  show "fake_image_pull x f = (r1, g) \<Longrightarrow> fake_use_obs g = fake_use_obs f"
    by (auto simp: fake_image_pull_def Let_def fake_up_def fake_uses_def fun_eq_iff split: option.splits)
  show "fake_image_inspect x f = (r2, g) \<Longrightarrow> fake_use_obs g = fake_use_obs f"
    by (auto simp: fake_image_inspect_def split: if_splits)
  show "fake_exec_output i cmd f = (r3, g) \<Longrightarrow> fake_use_obs g = fake_use_obs f"
    by (auto simp: fake_exec_output_def fake_up_def fake_uses_def fun_eq_iff split: option.splits if_splits)
  show "fake_container_stats i f = (r4, g) \<Longrightarrow> fake_use_obs g = fake_use_obs f"
    by (auto simp: fake_container_stats_def split: option.splits if_splits)
  show "fake_container_logs k i t f = (r5, g) \<Longrightarrow> fake_use_obs g = fake_use_obs f"
    by (auto simp: fake_container_logs_def Let_def split: sum.splits prod.splits option.splits if_splits)
  show "fake_container_start i f = (r6, g) \<Longrightarrow> fake_use_obs g = fake_use_obs f"
    using upd by (auto simp: fake_container_start_def Let_def split: option.splits if_splits)
  show "fake_container_stop i f = (r7, g) \<Longrightarrow> fake_use_obs g = fake_use_obs f"
    using upd by (auto simp: fake_container_stop_def split: option.splits)
  show "fake_container_wait i f = (r8, g) \<Longrightarrow> fake_use_obs g = fake_use_obs f"
    using upd by (auto simp: fake_container_wait_def split: option.splits if_splits)
  show "fake_container_inspect i f = (r9, g) \<Longrightarrow> fake_use_obs g = fake_use_obs f"
    by (auto simp: fake_container_inspect_def split: option.splits)
qed

lemma fake_reads_use: "docker_reads (fake_client k) fake_inv fake_use_obs"
proof -
  note k = use_obs_keep use_obs_exec_stream
  show ?thesis
    by unfold_locales (simp_all add: fake_client_def, (blast dest: fake_keep k)+)
qed

lemma fake_container_remove_up:
  assumes "fake_inv f" "fake_up f" "fake_view f (Ctr i) \<noteq> None" "fake_container_remove i f = (r, g)"
  shows "r = None \<and> fake_up g \<and> (\<forall>j q. fake_uses g j q \<longrightarrow> fake_uses f j q)"
  using assms
  by (auto simp: fake_container_remove_def fake_view_def find_container_def fake_up_def fake_uses_def list_ex_iff
      split: option.splits)

lemma fake_network_remove_up:
  assumes inv: "fake_inv f" and up: "fake_up f" and v: "fake_view f (Net i) \<noteq> None"
    and free: "\<And>j. \<not> fake_uses f j (Net i)" and run: "fake_network_remove i f = (r, g)"
  shows "r = None \<and> fake_up g \<and> (\<forall>j q. fake_uses g j q \<longrightarrow> fake_uses f j q)"
proof -
  obtain n where n: "find (\<lambda>n. fn_id n = i) (fk_networks f) = Some n" "fn_id n = i" "n \<in> set (fk_networks f)"
    using v by (auto simp: fake_view_def dest: find_SomeD)
  have "\<not> list_ex (\<lambda>c. fc_network_mode c = fn_name n \<or> fc_network_mode c = fn_id n) (fk_containers f)"
  proof
    assume "list_ex (\<lambda>c. fc_network_mode c = fn_name n \<or> fc_network_mode c = fn_id n) (fk_containers f)"
    then obtain c where "c \<in> set (fk_containers f)" "fc_network_mode c = fn_name n \<or> fc_network_mode c = fn_id n"
      by (auto simp: list_ex_iff)
    then have "fake_uses f (fc_id c) (Net i)" using n by (auto simp: fake_uses_def container_uses_def list_ex_iff)
    then show False using free by blast
  qed
  then have g: "r = None" "fk_containers g = fk_containers f" "fake_up g"
      "\<exists>P. fk_networks g = filter P (fk_networks f)"
    using run up n
    by (auto simp: fake_network_remove_def find_network_def find_network_by_id_def fake_up_def)
  obtain P where P: "fk_networks g = filter P (fk_networks f)" using g(4) by blast
  have mono: "container_uses (filter P ns) q c \<Longrightarrow> container_uses ns q c" for ns q c
    by (auto simp: container_uses_def list_ex_iff split: rid.splits)
  have "fake_uses f j q" if u: "fake_uses g j q" for j q
  proof -
    obtain c where "c \<in> set (fk_containers f)" "fc_id c = j" "container_uses (filter P (fk_networks f)) q c"
      using u unfolding fake_uses_def list_ex_iff g(2) P by blast
    with mono show ?thesis unfolding fake_uses_def list_ex_iff by blast
  qed
  then show ?thesis using g by blast
qed

lemma fake_volume_remove_up:
  assumes up: "fake_up f" and v: "fake_view f (Vol n) \<noteq> None"
    and free: "\<And>j. \<not> fake_uses f j (Vol n)" and run: "fake_volume_remove n f = (r, g)"
  shows "r = None \<and> fake_up g \<and> (\<forall>j q. fake_uses g j q \<longrightarrow> fake_uses f j q)"
proof -
  have "volume_user f n = None"
    using free by (fastforce simp: volume_user_def find_None_iff fake_uses_def container_uses_def list_ex_iff)
  then show ?thesis
    using run up v
    by (auto simp: fake_volume_remove_def find_volume_def fake_view_def fake_up_def fake_uses_def
        split: option.splits)
qed

theorem fake_docker_healthy:
  assumes m: "match_kv_ok (sdk_match k)"
  shows "docker_healthy (fake_client k) fake_inv fake_view fake_up fake_uses"
proof (rule docker_healthy.intro [OF fake_docker_store [OF m] fake_reads_use], unfold_locales, goal_cases)
  case (1 s i q)
  then show ?case by (auto simp: fake_uses_def list_ex_iff fake_view_def find_key_None)
next
  case (2 s i j)
  then show ?case by (simp add: fake_uses_def container_uses_def list_ex_iff)
next
  case (3 s fs rcl s')
  then show ?case by (auto simp: fake_client_def fake_container_list_def)
next
  case (4 s fs rnl s')
  then show ?case by (auto simp: fake_client_def fake_network_list_def)
next
  case (5 s fs rvl s')
  then show ?case by (auto simp: fake_client_def fake_volume_list_def)
next
  case (6 s i f rmv r s')
  then show ?case using fake_container_remove_up by (auto simp: fake_client_def)
next
  case (7 s i r s')
  then show ?case using fake_network_remove_up [of s i r s'] by (simp add: fake_client_def)
next
  case (8 s n f r s')
  then show ?case using fake_volume_remove_up [of s n r s'] by (simp add: fake_client_def)
qed

interpretation fake_live: docker_healthy "fake_client fake_sdk" fake_inv fake_view fake_up fake_uses
  by (rule fake_docker_healthy) simp

end
