(* ===== verification/Topology_Order.thy ===== *)
theory Topology_Order
  imports Topology_Liveness
begin

text \<open>
  The order of removals. The fake daemon records every removal in \<open>RemoveOrder\<close>; a teardown appends
  containers, then volumes, then networks, whatever fails in between.
\<close>

text \<open>\<open>appended p f g\<close>: since \<open>f\<close>, only removals of kind \<open>p\<close> were recorded.\<close>

definition appended :: "string \<Rightarrow> fake \<Rightarrow> fake \<Rightarrow> bool" where
  "appended p f g \<longleftrightarrow> (\<exists>zs. fk_remove_order g = fk_remove_order f @ zs \<and> list_all (\<lambda>z. has_prefix z p) zs)"

lemma appended_same: "fk_remove_order g = fk_remove_order f \<Longrightarrow> appended p f g"
  by (simp add: appended_def exI [of _ "[]"])

lemma appended_trans: "appended p f g \<Longrightarrow> appended p g h \<Longrightarrow> appended p f h"
  unfolding appended_def by (metis append.assoc list_all_append)

text \<open>\<open>orders p m\<close>: the computation records removals of kind \<open>p\<close> only.\<close>

definition orders :: "string \<Rightarrow> (fake, 'a) state \<Rightarrow> bool" where
  "orders p m \<longleftrightarrow> (\<forall>f r g. fake_inv f \<longrightarrow> run_state m f = (r, g) \<longrightarrow> fake_inv g \<and> appended p f g)"

lemma ordersD: "orders p m \<Longrightarrow> fake_inv f \<Longrightarrow> run_state m f = (r, g) \<Longrightarrow> fake_inv g \<and> appended p f g"
  by (simp add: orders_def)

lemma orders_keeps: "fake_order.keeps m \<Longrightarrow> orders p m"
  unfolding orders_def by (metis fake_order.keepsD appended_same)

lemma orders_return: "orders p (ret a)"
  by (rule orders_keeps) (rule fake_order.keeps_return)

lemma orders_bind:
  assumes m: "orders p m" and k: "\<And>a. orders p (k a)"
  shows "orders p (m \<bind> k)"
  unfolding orders_def
proof (intro allI impI)
  fix f r g
  assume f: "fake_inv f" and run: "run_state (m \<bind> k) f = (r, g)"
  obtain a h where 1: "run_state m f = (a, h)" and 2: "run_state (k a) h = (r, g)" using run by (rule run_bindE)
  note o1 = ordersD [OF m f 1]
  note o2 = ordersD [OF k conjunct1 [OF o1] 2]
  show "fake_inv g \<and> appended p f g" using o1 o2 appended_trans by blast
qed

lemma orders_for_each: "(\<And>x a. orders p (h x a)) \<Longrightarrow> orders p (for_each h xs a)"
  by (induction xs arbitrary: a) (simp_all add: orders_return orders_bind)

lemma orders_sum: "(\<And>e. orders p (h e)) \<Longrightarrow> (\<And>a. orders p (k a)) \<Longrightarrow> orders p (case x of Inl e \<Rightarrow> h e | Inr a \<Rightarrow> k a)"
  by (cases x) auto

lemma orders_prod: "(\<And>a b. orders p (h a b)) \<Longrightarrow> orders p (case x of (a, b) \<Rightarrow> h a b)"
  by (cases x) auto

lemma orders_if: "orders p m \<Longrightarrow> orders p k \<Longrightarrow> orders p (if b then m else k)"
  by simp

lemmas orders_rules = orders_return orders_bind orders_for_each orders_sum orders_prod orders_if

lemma orders_container_remove: "orders ''container:'' (container_remove (fake_client k) i f rmv)"
  by (auto simp: orders_def fake_client_def fake_container_remove_def appended_def has_prefix_def fake_inv_def
      fake_faults_ok_def distinct_map inj_on_def list_all_iff split: option.splits)

lemma orders_volume_remove: "orders ''volume:'' (volume_remove (fake_client k) n f)"
  by (auto simp: orders_def fake_client_def fake_volume_remove_def appended_def has_prefix_def fake_inv_def
      fake_faults_ok_def distinct_map inj_on_def list_all_iff split: option.splits)

lemma orders_network_remove: "orders ''network:'' (network_remove (fake_client k) i)"
  by (auto simp: orders_def fake_client_def fake_network_remove_def appended_def has_prefix_def fake_inv_def
      fake_faults_ok_def distinct_map inj_on_def list_all_iff split: option.splits if_splits)

lemma orders_removal_step:
  "m_cli m = fake_client fake_sdk \<Longrightarrow> (\<And>x. orders p (act x)) \<Longrightarrow> orders p (removal_step m sc labf act x acc)"
  unfolding removal_step_def by (intro orders_rules orders_keeps [OF fake_order.keeps_may_remove])

lemma orders_remove_containers:
  assumes "m_cli m = fake_client fake_sdk"
  shows "orders ''container:'' (remove_containers m fs sc)"
proof -
  have "orders ''container:'' (stop_and_remove m x)" for x
    unfolding stop_and_remove_def assms
    by (intro orders_rules orders_container_remove orders_keeps [OF fake_order.keeps_ctr_stop])
  then show ?thesis
    unfolding remove_containers_def Let_def
    by (intro orders_rules orders_removal_step [OF assms]
        orders_keeps [OF fake_order.keeps_ctr_list, folded assms]
        orders_keeps [OF fake_order.keeps_report_stopped_runners [OF assms]]
        orders_keeps [OF fake_order.keeps_new_reporter [OF assms]]
        orders_keeps [OF fake_order.keeps_report_all [OF assms]])
qed

lemma orders_remove_volumes:
  assumes "m_cli m = fake_client fake_sdk"
  shows "orders ''volume:'' (remove_volumes m fs sc)"
proof -
  have "orders ''volume:'' (remove_one_volume m x)" for x
    unfolding remove_one_volume_def assms by (intro orders_rules orders_volume_remove)
  then show ?thesis
    unfolding remove_volumes_def
    by (intro orders_rules orders_removal_step [OF assms] orders_keeps [OF fake_order.keeps_vol_list, folded assms])
qed

lemma orders_remove_networks:
  assumes "m_cli m = fake_client fake_sdk"
  shows "orders ''network:'' (remove_networks m fs sc)"
proof -
  have "orders ''network:'' (remove_one_network m x)" for x
    unfolding remove_one_network_def assms by (intro orders_rules orders_network_remove)
  then show ?thesis
    unfolding remove_networks_def
    by (intro orders_rules orders_removal_step [OF assms] orders_keeps [OF fake_order.keeps_net_list, folded assms])
qed

lemma run_teardown_order:
  assumes m: "m_cli m = fake_client fake_sdk" and f: "fake_inv f"
    and run: "run_state (run_teardown m fs sc) f = (r, g)"
  shows "\<exists>cs vs ns. fk_remove_order g = fk_remove_order f @ cs @ vs @ ns \<and>
    list_all (\<lambda>z. has_prefix z ''container:'') cs \<and> list_all (\<lambda>z. has_prefix z ''volume:'') vs \<and>
    list_all (\<lambda>z. has_prefix z ''network:'') ns"
proof -
  obtain r1 h1 r2 h2 r3 where
    1: "run_state (remove_containers m fs sc) f = (r1, h1)" and
    2: "run_state (remove_volumes m fs sc) h1 = (r2, h2)" and
    3: "run_state (remove_networks m fs sc) h2 = (r3, g)"
    using run unfolding run_teardown_def by (auto split: prod.splits)
  note o1 = ordersD [OF orders_remove_containers [OF m] f 1]
  note o2 = ordersD [OF orders_remove_volumes [OF m] conjunct1 [OF o1] 2]
  note o3 = ordersD [OF orders_remove_networks [OF m] conjunct1 [OF o2] 3]
  show ?thesis using o1 o2 o3 unfolding appended_def by (metis append.assoc)
qed

end
