(* ===== verification/Fixtures.thy ===== *)
theory Fixtures
  imports Topology_Order
begin

text \<open>
  Concrete daemons and managers on which the witnesses of the later theories run: a fake daemon
  holding one allocation's claim, an older generation's volume and a neighbour. The collection
  \<open>run_eval\<close> unfolds the operations so that \<open>simp\<close> runs them.
\<close>

named_theorems run_eval

lemmas [run_eval] =
  rollback_def teardown_all_def teardown_allocation_def teardown_allocation_reporting_io_def
  teardown_generation_def run_teardown_def remove_containers_def remove_networks_def remove_volumes_def
  removal_step_def may_remove_def stop_and_remove_def remove_one_volume_def remove_one_network_def
  removal_error_def report_all_def report_stopped_runners_def new_dind_io_reporter_def has_role_def
  live_claim_nonce_def claim_nonces_by_instance_def instance_scoped_nonce_filter_def
  instance_scoped_filter_def filters_for_nonce_def match_predicate_filters_def matches_predicate_iff
  create_claim_network_def existing_claim_is_ours_def best_effort_remove_own_network_def
  remove_own_step_def create_fresh_volume_def owns_volume_for_replacement_def label_terms_match_def Let_def

lemmas fake_eval =
  fake_client_def fake_sdk_def fake_container_list_def fake_volume_list_def fake_network_list_def
  fake_container_stop_def fake_container_remove_def fake_network_remove_def fake_volume_remove_def
  fake_network_create_def fake_volume_create_def fake_volume_inspect_def
  find_container_def find_by_name_def find_network_def find_network_by_id_def find_network_by_name_def
  find_volume_def update_container_def wake_log_followers_def volume_user_def to_container_summary_def

lemmas [run_eval] = fake_eval

lemma new_fake_simps [simp]:
  "fk_next_id new_fake = 0" "fk_containers new_fake = []" "fk_networks new_fake = []"
  "fk_volumes new_fake = []" "fk_present new_fake = []" "fk_image_labels new_fake = []"
  "fk_pulled new_fake = []" "fk_pull_err new_fake = None" "fk_default_log_driver new_fake = ''''"
  "fk_logs_err new_fake = None" "fk_exec_err new_fake = None" "fk_create_err new_fake = None"
  "fk_create_err_leaks new_fake = False" "fk_create_err_name new_fake = ''''"
  "fk_exec_exit_code new_fake = 0" "fk_start_err new_fake = None" "fk_start_err_name new_fake = ''''"
  "fk_host_lacks_ipv6 new_fake = False" "fk_ipv6_fails_at_create new_fake = False"
  "fk_ipv6_denied new_fake = False" "fk_inspect_err new_fake = None" "fk_remove_err new_fake = None"
  "fk_network_create_err new_fake = None" "fk_network_create_err_leaks new_fake = False"
  "fk_network_remove_err new_fake = None" "fk_volume_create_err new_fake = None"
  "fk_volume_remove_err new_fake = None" "fk_execs new_fake = []" "fk_output_execs new_fake = []"
  "fk_exec_output_text new_fake = ''''" "fk_exec_output_exit new_fake = 0"
  "fk_exec_output_err new_fake = None" "fk_stats_err new_fake = None" "fk_created new_fake = []"
  "fk_batch_exit_code new_fake = 0" "fk_batch_wait_err new_fake = None"
  "fk_remove_order new_fake = []" "fk_now new_fake = 0"
  by (simp_all add: new_fake_def)

section \<open>One allocation\<close>

definition demo_identity :: "string \<Rightarrow> alloc_identity" where
  "demo_identity i = \<lparr>id_controller = ''ctl'', id_pool = ''pool'', id_instance = i\<rparr>"

definition demo_manager :: "fake manager" where
  "demo_manager = new_manager (fake_client fake_sdk) ''ctl'' fk_now (\<lambda>s. None) Inr"

lemma demo_manager_simps [simp]:
  "m_cli demo_manager = fake_client fake_sdk" "m_controller demo_manager = ''ctl''" "m_now demo_manager = fk_now"
  "m_inflight_grace demo_manager = inflight_create_grace" "m_exited_grace demo_manager = exited_runner_grace"
  by (simp_all add: demo_manager_def new_manager_def)

definition demo_labels :: "string \<Rightarrow> string \<Rightarrow> labels" where
  "demo_labels i nonce = claim_labels (demo_identity i) nonce 0"

lemma demo_labels_simps [simp]:
  "demo_labels i n LabelManaged = Some ''true''"
  "demo_labels i n LabelControllerID = Some ''ctl''"
  "demo_labels i n LabelInstanceName = Some i"
  "demo_labels i n LabelResource = Some ResourceJobNetwork"
  "demo_labels i n LabelCreateNonce = Some n"
  "demo_labels i n LabelCache = None"
  "demo_labels i n LabelRole = None"
  by (simp_all add: demo_labels_def demo_identity_def claim_labels_def network_labels_def resource_labels_def
      base_labels_def)

definition demo_fake :: fake where
  "demo_fake = new_fake
     \<lparr>fk_networks := [\<lparr>fn_id = ''fake-net-0'', fn_name = ''garm-r1'', fn_labels = demo_labels ''r1'' ''n1''\<rparr>],
      fk_volumes := [\<lparr>fv_name = ''v1'', fv_labels = demo_labels ''r1'' ''n1''\<rparr>,
                     \<lparr>fv_name = ''v2'', fv_labels = demo_labels ''r1'' ''n2''\<rparr>,
                     \<lparr>fv_name = ''v3'', fv_labels = demo_labels ''r2'' ''n3''\<rparr>]\<rparr>"

lemma nat_str_0 [simp]: "nat_str 0 = ''0''"
  by code_simp

lemma demo_fake_inv [simp]: "fake_inv demo_fake"
  by (simp add: demo_fake_def fake_inv_def fake_faults_ok_def)

lemma demo_order [simp]: "fk_remove_order demo_fake = []"
  by (simp add: demo_fake_def)

lemma demo_now [simp]: "fk_now demo_fake = 0"
  by (simp add: demo_fake_def)

lemma demo_rollback [simp]:
  "run_state (rollback demo_manager ''r1'' ''n1'') demo_fake =
     (None, demo_fake
        \<lparr>fk_networks := [],
         fk_volumes := [\<lparr>fv_name = ''v2'', fv_labels = demo_labels ''r1'' ''n2''\<rparr>,
                        \<lparr>fv_name = ''v3'', fv_labels = demo_labels ''r2'' ''n3''\<rparr>],
         fk_remove_order := [''volume:v1'', ''network:fake-net-0'']\<rparr>)"
  by (simp add: run_eval lget_def demo_fake_def)

end
