(* ===== verification/Topology_Props.thy ===== *)
theory Topology_Props
  imports Fixtures
begin

text \<open>
  The properties of the topology Manager, stated for every daemon that meets the contract
  \<open>docker_store\<close> (or \<open>docker_healthy\<close>), each with a run on the fake daemon.
\<close>

lemmas demo_store = fake.docker_store_axioms
lemmas demo_healthy = fake_live.docker_healthy_axioms

lemma demo_up [simp]: "fake_up demo_fake"
  by (simp add: demo_fake_def fake_up_def)

lemma demo_uses [simp]: "fake_uses demo_fake j q = False"
  by (simp add: demo_fake_def fake_uses_def)

lemma demo_unused [simp]: "uses_within (fake_uses demo_fake) P v"
  by (simp add: uses_within_def)

lemma ex_run: "\<exists>e s'. run_state m s = (e, s')"
  by (meson surj_pair)

lemma ex_run3: "\<exists>x y z s'. run_state m s = ((x, y, z), s')"
  by (metis surj_pair)

section \<open>Rollback and teardown\<close>

text \<open>
  C9: A rollback of one create attempt removes nothing but resources with this controller's labels,
  this instance and this attempt's nonce, and when it returns no error the daemon holds exactly what
  it held before less all of those.
\<close>

theorem rollback_exact:
  assumes "docker_store c Inv view" "m_cli m = c" "m_controller m \<noteq> ''''" "Inv s"
    and "run_state (rollback m i nonce) s = (e, s')"
  shows "Inv s' \<and> removes (\<lambda>r n l. rollback_owned (m_controller m) i nonce l) (view s) (view s') \<and>
    (e = None \<longrightarrow> view s' = drop_matching (rollback_owned (m_controller m) i nonce) (view s))"
  using docker_store.run_rollback [OF assms] .

theorem rollback_exact_witness:
  "fst (run_state (rollback demo_manager ''r1'' ''n1'') demo_fake) = None \<and>
   fake_view (snd (run_state (rollback demo_manager ''r1'' ''n1'') demo_fake)) =
     drop_matching (rollback_owned ''ctl'' ''r1'' ''n1'') (fake_view demo_fake)"
  using rollback_exact [OF demo_store, of demo_manager demo_fake "''r1''" "''n1''" None
      "snd (run_state (rollback demo_manager ''r1'' ''n1'') demo_fake)"]
  by simp

text \<open>
  C10: On a healthy daemon, which refuses to remove a network or volume only while a container uses
  it, a rollback succeeds whenever what uses the attempt's resources belongs to the attempt: the
  containers are removed before what they use. It leaves the store without the attempt's resources.
\<close>

theorem rollback_succeeds:
  assumes "docker_healthy c Inv view up uses" "m_cli m = c" "m_controller m \<noteq> ''''" "Inv s" "up s"
    and "uses_within (uses s) (rollback_owned (m_controller m) i nonce) (view s)"
    and "run_state (rollback m i nonce) s = (e, s')"
  shows "e = None \<and> view s' = drop_matching (rollback_owned (m_controller m) i nonce) (view s)"
  using docker_healthy.run_rollback_up [OF assms] .

theorem rollback_succeeds_witness:
  "fake_view (snd (run_state (rollback demo_manager ''r1'' ''n2'') demo_fake)) =
     drop_matching (rollback_owned ''ctl'' ''r1'' ''n2'') (fake_view demo_fake)"
  using rollback_succeeds [OF demo_healthy, of demo_manager demo_fake "''r1''" "''n2''"
      "fst (run_state (rollback demo_manager ''r1'' ''n2'') demo_fake)"
      "snd (run_state (rollback demo_manager ''r1'' ''n2'') demo_fake)"]
  by simp

text \<open>
  C11: A delete or stop tears down one generation of an instance: the one its claim network holds, or
  every generation when there is no claim network. It removes nothing else, and when it returns no
  error exactly that is gone, and it reports that it found something exactly when there was
  something.
\<close>

theorem teardown_allocation_exact:
  assumes "docker_store c Inv view" "m_cli m = c" "m_controller m \<noteq> ''''" "Inv s" "i \<noteq> ''''"
    and "td = teardown_allocation \<or> td = teardown_allocation_reporting_io"
    and "run_state (td m i) s = ((found, e, logs), s')"
  shows "Inv s' \<and> (\<exists>gen. generation_at (m_controller m) i (view s) gen \<and>
    removes (\<lambda>r n l. allocation_owned (m_controller m) i gen l) (view s) (view s') \<and>
    (e = None \<longrightarrow>
       view s' = drop_matching (allocation_owned (m_controller m) i gen) (view s) \<and>
       (found \<longleftrightarrow> (\<exists>r n l. view s r = Some (n, l) \<and> allocation_owned (m_controller m) i gen l))))"
  using docker_store.run_teardown_generation [OF assms(1-5), of _ found e logs s'] assms(6,7)
  by (auto simp: teardown_allocation_def teardown_allocation_reporting_io_def)

theorem teardown_allocation_exact_witness:
  "\<exists>logs s'. run_state (teardown_allocation demo_manager ''r1'') demo_fake = ((True, None, logs), s') \<and>
     fake_view s' = drop_matching (allocation_owned ''ctl'' ''r1'' (Some ''n1'')) (fake_view demo_fake)"
proof -
  have run: "run_state (teardown_allocation demo_manager ''r1'') demo_fake = ((True, None, []), demo_fake
        \<lparr>fk_networks := [],
         fk_volumes := [\<lparr>fv_name = ''v2'', fv_labels = demo_labels ''r1'' ''n2''\<rparr>,
                        \<lparr>fv_name = ''v3'', fv_labels = demo_labels ''r2'' ''n3''\<rparr>],
         fk_remove_order := [''volume:v1'', ''network:fake-net-0'']\<rparr>)"
    by (simp add: run_eval lget_def demo_fake_def)
  have "generation_at ''ctl'' ''r1'' (fake_view demo_fake) gen \<Longrightarrow> gen = Some ''n1''" for gen
    by (cases gen) (auto simp: generation_at_def claimed_def is_claim_def matches_predicate_iff lget_def
        demo_fake_def fake_view_def split: if_splits)
  then show ?thesis
    using teardown_allocation_exact [OF demo_store _ _ _ _ disjI1 [OF refl] run] run by auto
qed

text \<open>
  C12: On a healthy daemon a delete or stop succeeds whenever what uses the generation's resources
  belongs to the generation.
\<close>

theorem teardown_allocation_succeeds:
  assumes "docker_healthy c Inv view up uses" "m_cli m = c" "m_controller m \<noteq> ''''" "Inv s" "up s" "i \<noteq> ''''"
    and "\<And>gen. generation_at (m_controller m) i (view s) gen \<Longrightarrow>
      uses_within (uses s) (allocation_owned (m_controller m) i gen) (view s)"
    and "td = teardown_allocation \<or> td = teardown_allocation_reporting_io"
    and "run_state (td m i) s = ((found, e, logs), s')"
  shows "e = None"
  using docker_healthy.run_generation_up [OF assms(1-7), of _ found e logs s'] assms(8,9)
  by (auto simp: teardown_allocation_def teardown_allocation_reporting_io_def)

theorem teardown_allocation_succeeds_witness:
  "fst (snd (fst (run_state (teardown_allocation_reporting_io demo_manager ''r1'') demo_fake))) = None"
proof -
  obtain found e logs s' where
    run: "run_state (teardown_allocation_reporting_io demo_manager ''r1'') demo_fake = ((found, e, logs), s')"
    using ex_run3 [of "teardown_allocation_reporting_io demo_manager ''r1''" demo_fake] by blast
  show ?thesis
    using teardown_allocation_succeeds [OF demo_healthy _ _ _ _ _ _ disjI2 [OF refl] run] run by simp
qed

text \<open>
  C13: Removing everything of a controller removes nothing else, and without an error leaves exactly
  the resources that are not managed by it: other controllers' allocations and the caches stay.
\<close>

theorem teardown_all_exact:
  assumes "docker_store c Inv view" "m_cli m = c" "m_controller m \<noteq> ''''" "Inv s"
    and "run_state (teardown_all m) s = (e, s')"
  shows "Inv s' \<and> removes (\<lambda>r n l. matches_predicate l (m_controller m)) (view s) (view s') \<and>
    (e = None \<longrightarrow> view s' = drop_matching (\<lambda>l. matches_predicate l (m_controller m)) (view s))"
  using docker_store.run_teardown_all [OF assms] .

theorem teardown_all_exact_witness:
  "fst (run_state (teardown_all demo_manager) demo_fake) = None \<and>
   fake_view (snd (run_state (teardown_all demo_manager) demo_fake)) =
     drop_matching (\<lambda>l. matches_predicate l ''ctl'') (fake_view demo_fake)"
proof -
  obtain e s' where run: "run_state (teardown_all demo_manager) demo_fake = (e, s')" using ex_run [of "teardown_all demo_manager" demo_fake] by blast
  have "fst (run_state (teardown_all demo_manager) demo_fake) = None"
    by (simp add: run_eval lget_def demo_fake_def)
  then show ?thesis
    using teardown_all_exact [OF demo_store _ _ _ run] run by simp
qed

section \<open>Races with a new generation\<close>

context docker_store begin

lemma run_may_remove_live:
  assumes s: "inv s" and m: "m_cli m = c" "m_controller m \<noteq> ''''"
    and mode: "ts_mode sc = Generation" "ts_captured sc (lget l LabelInstanceName) = None"
    and live: "claimed (m_controller m) (lget l LabelInstanceName) (view s)"
    and same: "\<And>k n l'. view s (Net k) = Some (n, l') \<Longrightarrow> is_claim (m_controller m) (lget l LabelInstanceName) l' \<Longrightarrow>
      lget l' LabelCreateNonce = lget l LabelCreateNonce"
    and ne: "lget l LabelCreateNonce \<noteq> ''''"
    and run: "run_state (may_remove m sc l) s = (r, s')"
  shows "r \<noteq> Inr True"
proof (cases "matches_predicate l (m_controller m)")
  case False
  then show ?thesis using run by (auto simp: may_remove_def)
next
  case True
  obtain rl s1 where rl: "run_state (live_claim_nonce m (lget l LabelInstanceName)) s = (rl, s1)" by fastforce
  note lc = run_live_claim_nonce [OF s m(1) rl m(2)]
  have r: "r = (case rl of Inl e \<Rightarrow> Inl e | Inr live \<Rightarrow>
         Inr (case live of None \<Rightarrow> True | Some ln \<Rightarrow> \<not> (ln \<noteq> '''' \<and> lget l LabelCreateNonce = ln)))"
    using run rl True mode by (auto simp: may_remove_def Let_def split: prod.splits sum.splits)
  show ?thesis
  proof (cases rl)
    case (Inr live')
    then obtain k where "live' = Some k" using lc live by (cases live') auto
    with Inr lc obtain j n l' where "view s (Net j) = Some (n, l')" "is_claim (m_controller m) (lget l LabelInstanceName) l'"
      "lget l' LabelCreateNonce = k" by blast
    then have "k = lget l LabelCreateNonce" using same by blast
    then show ?thesis using r Inr \<open>live' = Some k\<close> ne by simp
  qed (simp add: r)
qed

end

text \<open>
  C14: A delete that found no generation when it began does not remove a resource of a generation
  that was claimed in the meantime: while a claim network of the instance stands with the resource's
  nonce, the removal gate does not answer yes.
\<close>

theorem gate_spares_live_claim:
  assumes "docker_store c Inv view" "Inv s" "m_cli m = c" "m_controller m \<noteq> ''''"
    and "ts_mode sc = Generation" "ts_captured sc (lget l LabelInstanceName) = None"
    and "claimed (m_controller m) (lget l LabelInstanceName) (view s)"
    and "\<And>k n l'. view s (Net k) = Some (n, l') \<Longrightarrow> is_claim (m_controller m) (lget l LabelInstanceName) l' \<Longrightarrow>
      lget l' LabelCreateNonce = lget l LabelCreateNonce"
    and "lget l LabelCreateNonce \<noteq> ''''"
    and "run_state (may_remove m sc l) s = (r, s')"
  shows "r \<noteq> Inr True"
  using docker_store.run_may_remove_live [OF assms] .

theorem gate_spares_live_claim_witness:
  "fst (run_state (may_remove demo_manager
     \<lparr>ts_mode = Generation, ts_exact = '''', ts_captured = Map.empty, ts_report_on_delete = True\<rparr>
     (demo_labels ''r1'' ''n1'')) demo_fake) \<noteq> Inr True"
proof -
  let ?sc = "\<lparr>ts_mode = Generation, ts_exact = '''', ts_captured = Map.empty :: string \<rightharpoonup> string, ts_report_on_delete = True\<rparr>"
  obtain r s' where run: "run_state (may_remove demo_manager ?sc (demo_labels ''r1'' ''n1'')) demo_fake = (r, s')"
    using ex_run [of "may_remove demo_manager ?sc (demo_labels ''r1'' ''n1'')" demo_fake] by blast
  have "claimed ''ctl'' ''r1'' (fake_view demo_fake)"
    unfolding claimed_def
    by (rule exI [of _ "''fake-net-0''"])
      (simp add: is_claim_def matches_predicate_iff lget_def demo_fake_def fake_view_def)
  moreover have "fake_view demo_fake (Net k) = Some (n, l') \<Longrightarrow> l' = demo_labels ''r1'' ''n1''" for k n l'
    by (auto simp: demo_fake_def fake_view_def split: if_splits)
  ultimately show ?thesis
    using gate_spares_live_claim [OF demo_store _ _ _ _ _ _ _ _ run] run by (simp add: lget_def)
qed

text \<open>
  C15: On the fake daemon, every teardown records its removals in order: containers, then volumes,
  then networks, so the claim network outlives everything it protects, whatever fails on the way.
\<close>

theorem teardown_removal_order:
  assumes "m_cli m = fake_client fake_sdk" "fake_inv f"
    and "run_state (run_teardown m fs sc) f = (r, g)"
  shows "\<exists>cs vs ns. fk_remove_order g = fk_remove_order f @ cs @ vs @ ns \<and>
    list_all (\<lambda>z. has_prefix z ''container:'') cs \<and> list_all (\<lambda>z. has_prefix z ''volume:'') vs \<and>
    list_all (\<lambda>z. has_prefix z ''network:'') ns"
  using run_teardown_order [OF assms] .

theorem teardown_removal_order_witness:
  "\<exists>cs vs ns. fk_remove_order (snd (run_state (run_teardown demo_manager (match_predicate_filters ''ctl'')
      \<lparr>ts_mode = All, ts_exact = '''', ts_captured = Map.empty, ts_report_on_delete = False\<rparr>) demo_fake))
      = cs @ vs @ ns \<and> list_all (\<lambda>z. has_prefix z ''container:'') cs \<and>
    list_all (\<lambda>z. has_prefix z ''volume:'') vs \<and> list_all (\<lambda>z. has_prefix z ''network:'') ns"
  using teardown_removal_order [of demo_manager demo_fake "match_predicate_filters ''ctl''"
      "\<lparr>ts_mode = All, ts_exact = '''', ts_captured = Map.empty, ts_report_on_delete = False\<rparr>"
      "fst (run_state (run_teardown demo_manager (match_predicate_filters ''ctl'')
      \<lparr>ts_mode = All, ts_exact = '''', ts_captured = Map.empty, ts_report_on_delete = False\<rparr>) demo_fake)"
      "snd (run_state (run_teardown demo_manager (match_predicate_filters ''ctl'')
      \<lparr>ts_mode = All, ts_exact = '''', ts_captured = Map.empty, ts_report_on_delete = False\<rparr>) demo_fake)"]
  by (simp add: demo_order)

section \<open>Claims and volumes\<close>

text \<open>
  C16: Claiming an instance either succeeds, leaving one new network with the instance's derived name
  and this attempt's nonce where no network of that name was; or reports a duplicate, changing
  nothing, exactly because this controller's claim for the instance stands; or fails, removing at most networks of this
  attempt's own nonce, and restoring the store when its clean-up worked and the nonce was fresh.
\<close>

theorem claim_outcomes:
  assumes "docker_store c Inv view" "Inv s" "m_cli m = c" "m_controller m \<noteq> ''''"
    and "id_controller identity = m_controller m"
    and "run_state (create_claim_network m identity nonce internal) s = ((i, dup, err), s')"
  shows "Inv s' \<and> \<not> (dup \<noteq> None \<and> err \<noteq> None) \<and>
    (dup = None \<and> err = None \<longrightarrow>
       view s (Net i) = None \<and> (\<forall>j l. view s (Net j) \<noteq> Some (job_network_name (id_instance identity), l)) \<and>
       view s' = (view s)(Net i \<mapsto> (job_network_name (id_instance identity), claim_labels identity nonce (m_now m s)))) \<and>
    (dup \<noteq> None \<longrightarrow> view s' = view s \<and>
       (\<exists>j l. view s (Net j) = Some (job_network_name (id_instance identity), l) \<and>
          is_claim (m_controller m) (id_instance identity) l)) \<and>
    (err \<noteq> None \<longrightarrow>
       (\<forall>r n l. view s r = Some (n, l) \<longrightarrow> \<not> own_network (m_controller m) nonce r n l \<longrightarrow> view s' r = Some (n, l)) \<and>
       ((\<forall>es. err \<noteq> Some (JoinErr es)) \<and> nonce_fresh (m_controller m) nonce (view s) \<longrightarrow> view s' = view s))"
  using docker_store.run_create_claim [OF assms] .

theorem claim_outcomes_witness:
  "\<exists>i. run_state (create_claim_network demo_manager (demo_identity ''r9'') ''n9'' False) demo_fake =
     ((i, None, None), snd (run_state (create_claim_network demo_manager (demo_identity ''r9'') ''n9'' False) demo_fake)) \<and>
   fake_view (snd (run_state (create_claim_network demo_manager (demo_identity ''r9'') ''n9'' False) demo_fake)) =
     (fake_view demo_fake)(Net i \<mapsto> (job_network_name ''r9'', claim_labels (demo_identity ''r9'') ''n9'' 0))"
proof -
  let ?m = "create_claim_network demo_manager (demo_identity ''r9'') ''n9'' False"
  obtain i dup err s' where run: "run_state ?m demo_fake = ((i, dup, err), s')"
    using ex_run3 [of ?m demo_fake] by blast
  have "snd (fst (run_state ?m demo_fake)) = (None, None)"
    by (simp add: run_eval lget_def demo_fake_def job_network_name_def)
  then show ?thesis
    using claim_outcomes [OF demo_store _ _ _ _ run] run by (simp add: demo_identity_def)
qed

text \<open>
  C17: Creating a job volume touches no other resource. Without an error the volume of that name
  carries this attempt's nonce, freshly made when none was there, and a volume that is not a stale
  one of this very instance and kind is never replaced.
\<close>

theorem fresh_volume_outcomes:
  assumes "docker_store c Inv view" "Inv s" "m_cli m = c" "name \<noteq> ''''"
    and "run_state (create_fresh_volume m kind name l0 nonce) s = (e, s')"
  shows "Inv s' \<and> (\<forall>r. r \<noteq> Vol name \<longrightarrow> view s' r = view s r) \<and>
    (e = None \<longrightarrow> (\<exists>nm l. view s' (Vol name) = Some (nm, l) \<and> lget l LabelCreateNonce = nonce)) \<and>
    (\<forall>nm l. view s (Vol name) = Some (nm, l) \<longrightarrow>
       \<not> owns_volume_for_replacement m l (l0(LabelCreateNonce \<mapsto> nonce)) \<longrightarrow>
       view s' (Vol name) = Some (nm, l) \<and> (e = None \<longrightarrow> lget l LabelCreateNonce = nonce)) \<and>
    (e = None \<longrightarrow> view s (Vol name) = None \<longrightarrow>
       view s' (Vol name) = Some (name, l0(LabelCreateNonce \<mapsto> nonce)))"
  using docker_store.run_create_fresh_volume [OF assms] .

theorem fresh_volume_outcomes_witness:
  "fst (run_state (create_fresh_volume demo_manager ''workspace'' ''w'' (demo_labels ''r1'' ''x'') ''n1'') demo_fake) = None \<and>
   fake_view (snd (run_state (create_fresh_volume demo_manager ''workspace'' ''w'' (demo_labels ''r1'' ''x'') ''n1'') demo_fake))
     (Vol ''w'') = Some (''w'', (demo_labels ''r1'' ''x'')(LabelCreateNonce \<mapsto> ''n1''))"
proof -
  let ?m = "create_fresh_volume demo_manager ''workspace'' ''w'' (demo_labels ''r1'' ''x'') ''n1''"
  obtain e s' where run: "run_state ?m demo_fake = (e, s')" using ex_run [of ?m demo_fake] by blast
  have "fst (run_state ?m demo_fake) = None" by (simp add: run_eval lget_def demo_fake_def)
  moreover have "fake_view demo_fake (Vol ''w'') = None" by (simp add: demo_fake_def fake_view_def)
  ultimately show ?thesis using fresh_volume_outcomes [OF demo_store _ _ _ run] run by simp
qed

end
