(* ===== verification/Topology_Sweep.thy ===== *)
theory Topology_Sweep
  imports Topology_Create
begin

text \<open>
  The orphan sweep, from \<open>internal/topology/sweep.go\<close>. It lists the controller's instances, ages
  each from its runner's exit or its youngest \<open>created-at\<close>, and tears down the abandoned ones. The
  instance names are a Go map, whose iteration order is not fixed: the sweep takes the order as an
  argument.
\<close>

section \<open>The code\<close>

definition is_active_runner_state :: "string \<Rightarrow> bool" where
  "is_active_runner_state st \<longleftrightarrow> st = ''running'' \<or> st = ''paused'' \<or> st = ''restarting''"

definition runner_finished_at :: "'s manager \<Rightarrow> string \<Rightarrow> ('s, (container_json \<times> time) option res) state" where
  "runner_finished_at m i = do {
     r \<leftarrow> container_inspect (m_cli m) i;
     ret (case r of
            Inl e \<Rightarrow> if is_not_found e then Inr None else Inl e
          | Inr info \<Rightarrow>
              (case cj_state info of
                 None \<Rightarrow> Inr None
               | Some st \<Rightarrow>
                   if cs_finished_at st = '''' then Inr None
                   else (case parse_rfc3339 (cs_finished_at st) of
                           None \<Rightarrow> Inr None
                         | Some t \<Rightarrow>
                             if fst t = zero_time \<or> time_year t \<le> 1 then Inr None
                             else Inr (Some (info, fst t)))))
   }"

record sweep_view =
  sv_has_resource :: bool
  sv_active :: bool
  sv_exited :: "(time \<times> container_summary \<times> container_json) option"
  sv_youngest :: "time option"

definition sweep_note :: "string \<Rightarrow> labels \<Rightarrow> sweep_view \<Rightarrow> sweep_view" where
  "sweep_note cid l a =
     (if \<not> matches_predicate l cid then a
      else a\<lparr>sv_has_resource := True,
             sv_youngest :=
               (case parse_created_at l of
                  None \<Rightarrow> sv_youngest a
                | Some t \<Rightarrow>
                    (case sv_youngest a of
                       None \<Rightarrow> Some t
                     | Some y \<Rightarrow> if t > y then Some t else Some y))\<rparr>)"

fun sweep_containers ::
  "'s manager \<Rightarrow> string \<Rightarrow> container_summary list \<Rightarrow> sweep_view \<Rightarrow> ('s, sweep_view res) state" where
  "sweep_containers m instance_name [] a = ret (Inr a)"
| "sweep_containers m instance_name (x # xs) a0 =
     (let a = sweep_note (m_controller m) (su_labels x) a0
      in if \<not> matches_predicate (su_labels x) (m_controller m) \<or> lget (su_labels x) LabelRole \<noteq> RoleRunner
         then sweep_containers m instance_name xs a
         else if is_active_runner_state (su_state x)
         then sweep_containers m instance_name xs (a\<lparr>sv_active := True\<rparr>)
         else do {
           r \<leftarrow> runner_finished_at m (su_id x);
           case r of
             Inl e \<Rightarrow> ret (Inl (WrapErr (''sweep: failed to inspect runner '' @ su_id x @ '' of '' @
                        quoted instance_name) e))
           | Inr f \<Rightarrow>
               sweep_containers m instance_name xs
                 (case f of
                    None \<Rightarrow> a
                  | Some (info, t) \<Rightarrow>
                      (case sv_exited a of
                         None \<Rightarrow> a\<lparr>sv_exited := Some (t, x, info)\<rparr>
                       | Some (u, old) \<Rightarrow> if t > u then a\<lparr>sv_exited := Some (t, x, info)\<rparr> else a))
         })"

definition empty_sweep :: sweep_view where
  "empty_sweep = \<lparr>sv_has_resource = False, sv_active = False, sv_exited = None, sv_youngest = None\<rparr>"

text \<open>What is decided once everything is read: whether to tear down, and what to report first.\<close>

definition sweep_decide ::
  "'s manager \<Rightarrow> string \<Rightarrow> container_summary list \<Rightarrow> sweep_view \<Rightarrow> ('s, bool \<times> gerr option \<times> log_line list) state" where
  "sweep_decide m instance_name containers a =
     (if \<not> sv_has_resource a then ret (False, None, [])
      else if sv_active a then ret (False, None, [])
      else
        (case sv_exited a of
           Some (t, x, info) \<Rightarrow> do {
             now \<leftarrow> read_state (m_now m);
             if time_sub now t < m_exited_grace m then ret (False, None, [])
             else do {
               logs \<leftarrow> report_exited_runner m x info containers;
               (swept, e, logs2) \<leftarrow> teardown_allocation m instance_name;
               ret (swept, e, logs @ logs2)
             }
           }
         | None \<Rightarrow>
             (case sv_youngest a of
                None \<Rightarrow> ret (False, None, [])
              | Some y \<Rightarrow> do {
                  now \<leftarrow> read_state (m_now m);
                  if time_sub now y < m_inflight_grace m then ret (False, None, [])
                  else teardown_allocation m instance_name
                })))"

definition sweep_instance ::
  "'s manager \<Rightarrow> string \<Rightarrow> ('s, bool \<times> gerr option \<times> log_line list) state" where
  "sweep_instance m instance_name = do {
     let fs = instance_scoped_filter m instance_name;
     rc \<leftarrow> container_list (m_cli m) True fs;
     case rc of
       Inl e \<Rightarrow> ret (False, Some (WrapErr (''sweep: failed to list containers for '' @ quoted instance_name) e), [])
     | Inr containers \<Rightarrow> do {
         rn \<leftarrow> network_list (m_cli m) fs;
         case rn of
           Inl e \<Rightarrow> ret (False, Some (WrapErr (''sweep: failed to list networks for '' @ quoted instance_name) e), [])
         | Inr networks \<Rightarrow> do {
             rv \<leftarrow> volume_list (m_cli m) fs;
             case rv of
               Inl e \<Rightarrow> ret (False, Some (WrapErr (''sweep: failed to list volumes for '' @ quoted instance_name) e), [])
             | Inr vols \<Rightarrow> do {
                 r \<leftarrow> sweep_containers m instance_name containers empty_sweep;
                 case r of
                   Inl e \<Rightarrow> ret (False, Some e, [])
                 | Inr a \<Rightarrow>
                     (let note = sweep_note (m_controller m);
                          a1 = foldl (\<lambda>a n. note (ns_labels n) a) a networks;
                          a2 = foldl (\<lambda>a v. note (vol_labels v) a) a1 (List.map_filter id vols)
                      in sweep_decide m instance_name containers a2)
               }
           }
       }
   }"

definition add_name :: "string \<Rightarrow> labels \<Rightarrow> string list \<Rightarrow> string list" where
  "add_name cid l names =
     (if \<not> matches_predicate l cid then names
      else if lget l LabelInstanceName \<noteq> '''' then List.insert (lget l LabelInstanceName) names
      else names)"

definition enumerate_instance_names :: "'s manager \<Rightarrow> ('s, string list res) state" where
  "enumerate_instance_names m = do {
     let fs = match_predicate_filters (m_controller m);
     let add = add_name (m_controller m);
     rc \<leftarrow> container_list (m_cli m) True fs;
     case rc of
       Inl e \<Rightarrow> ret (Inl (WrapErr ''sweep: failed to list containers'' e))
     | Inr containers \<Rightarrow> do {
         let n1 = foldl (\<lambda>a x. add (su_labels x) a) [] containers;
         rn \<leftarrow> network_list (m_cli m) fs;
         case rn of
           Inl e \<Rightarrow> ret (Inl (WrapErr ''sweep: failed to list networks'' e))
         | Inr networks \<Rightarrow> do {
             let n2 = foldl (\<lambda>a x. add (ns_labels x) a) n1 networks;
             rv \<leftarrow> volume_list (m_cli m) fs;
             case rv of
               Inl e \<Rightarrow> ret (Inl (WrapErr ''sweep: failed to list volumes'' e))
             | Inr vols \<Rightarrow>
                 ret (Inr (foldl (\<lambda>a x. add (vol_labels x) a) n2 (List.map_filter id vols)))
           }
       }
   }"

definition sweep_step ::
  "'s manager \<Rightarrow> string \<Rightarrow> gerr list \<times> log_line list \<Rightarrow> ('s, gerr list \<times> log_line list) state" where
  "sweep_step m name acc = do {
     (swept, e, logs) \<leftarrow> sweep_instance m name;
     ret (case e of
            Some err \<Rightarrow>
              (fst acc @ [err],
               snd acc @ logs @ [\<lparr>ll_level = Warn, ll_msg = ''orphan sweep of instance failed'',
                 ll_attrs = [(''instance'', AStr name), (''error'', AStr (err_text err))]\<rparr>])
          | None \<Rightarrow>
              (fst acc,
               snd acc @ logs @
                 (if swept
                  then [\<lparr>ll_level = Info, ll_msg = ''orphan sweep tore down abandoned allocation'',
                         ll_attrs = [(''instance'', AStr name)]\<rparr>]
                  else [])))
   }"

text \<open>\<open>order\<close> is the order in which Go iterates the set of names.\<close>

definition sweep_orphans ::
  "'s manager \<Rightarrow> (string list \<Rightarrow> string list) \<Rightarrow> ('s, gerr option \<times> log_line list) state" where
  "sweep_orphans m order = do {
     r \<leftarrow> enumerate_instance_names m;
     case r of
       Inl e \<Rightarrow> ret (Some e, [])
     | Inr names \<Rightarrow> do {
         (errs, logs) \<leftarrow> for_each (sweep_step m) (order names) ([], []);
         ret (join_errs errs, logs)
       }
   }"

section \<open>What a sweep reads\<close>

text \<open>\<open>seen cid L a\<close>: \<open>a\<close> is what has been noted of the label sets \<open>L\<close>.\<close>

definition youngest_ge :: "sweep_view \<Rightarrow> time \<Rightarrow> bool" where
  "youngest_ge a t \<longleftrightarrow> (\<exists>y. sv_youngest a = Some y \<and> t \<le> y)"

definition seen :: "string \<Rightarrow> labels set \<Rightarrow> sweep_view \<Rightarrow> bool" where
  "seen cid L a \<longleftrightarrow>
     (sv_has_resource a \<longleftrightarrow> (\<exists>l\<in>L. matches_predicate l cid)) \<and>
     (\<forall>l\<in>L. \<forall>t. matches_predicate l cid \<longrightarrow> parse_created_at l = Some t \<longrightarrow> youngest_ge a t) \<and>
     (\<forall>y. sv_youngest a = Some y \<longrightarrow> (\<exists>l\<in>L. matches_predicate l cid \<and> parse_created_at l = Some y))"

lemma seen_empty: "seen cid {} empty_sweep"
  by (simp add: seen_def empty_sweep_def)

lemma seen_update [simp]:
  "seen cid L (a\<lparr>sv_active := b\<rparr>) = seen cid L a" "seen cid L (a\<lparr>sv_exited := x\<rparr>) = seen cid L a"
  by (simp_all add: seen_def youngest_ge_def)

lemma seen_note: "seen cid L a \<Longrightarrow> seen cid (insert l L) (sweep_note cid l a)"
  by (auto simp: seen_def sweep_note_def youngest_ge_def split: option.splits)

lemma seen_notes:
  "seen cid L a \<Longrightarrow> seen cid (L \<union> labf ` set xs) (foldl (\<lambda>a x. sweep_note cid (labf x) a) a xs)"
proof (induction xs arbitrary: L a)
  case (Cons x xs)
  from Cons.IH [OF seen_note [OF Cons.prems, of "labf x"]] show ?case by simp
qed simp

lemma sweep_note_other [simp]: "sv_active (sweep_note cid l a) = sv_active a" "sv_exited (sweep_note cid l a) = sv_exited a"
  by (simp_all add: sweep_note_def)

lemma sweep_notes_other [simp]:
  "sv_active (foldl (\<lambda>a x. sweep_note cid (labf x) a) a xs) = sv_active a"
  "sv_exited (foldl (\<lambda>a x. sweep_note cid (labf x) a) a xs) = sv_exited a"
  by (induction xs arbitrary: a) simp_all

definition runner_summary :: "string \<Rightarrow> container_summary \<Rightarrow> bool" where
  "runner_summary cid x \<longleftrightarrow> matches_predicate (su_labels x) cid \<and> lget (su_labels x) LabelRole = RoleRunner"

lemma run_sweep_containers:
  assumes "run_state (sweep_containers m i xs a) s = (Inr b, s')"
  shows "(seen (m_controller m) L a \<longrightarrow> seen (m_controller m) (L \<union> su_labels ` set xs) b) \<and>
    (sv_active b \<longleftrightarrow> sv_active a \<or> (\<exists>x\<in>set xs. runner_summary (m_controller m) x \<and> is_active_runner_state (su_state x))) \<and>
    (sv_exited b \<noteq> None \<longrightarrow> sv_exited a \<noteq> None \<or>
       (\<exists>x\<in>set xs. runner_summary (m_controller m) x \<and> \<not> is_active_runner_state (su_state x)))"
  using assms
proof (induction xs arbitrary: a s L)
  case (Cons x xs)
  let ?cid = "m_controller m"
  define a1 where "a1 = sweep_note ?cid (su_labels x) a"
  have n: "seen ?cid L a \<Longrightarrow> seen ?cid (insert (su_labels x) L) a1" "sv_active a1 = sv_active a" "sv_exited a1 = sv_exited a"
    by (simp_all add: a1_def seen_note)
  consider
    (other) "\<not> runner_summary ?cid x" "run_state (sweep_containers m i xs a1) s = (Inr b, s')" |
    (active) "runner_summary ?cid x" "is_active_runner_state (su_state x)"
      "run_state (sweep_containers m i xs (a1\<lparr>sv_active := True\<rparr>)) s = (Inr b, s')" |
    (stopped) a2 s1 where "runner_summary ?cid x" "\<not> is_active_runner_state (su_state x)"
      "run_state (sweep_containers m i xs a2) s1 = (Inr b, s')" "a2 = a1 \<or> (\<exists>z. a2 = a1\<lparr>sv_exited := z\<rparr>)"
    using Cons.prems unfolding sweep_containers.simps Let_def a1_def [symmetric] runner_summary_def
    by (auto split: if_splits prod.splits sum.splits option.splits)
  then show ?case
  proof cases
    case other
    from Cons.IH [OF this(2), of "insert (su_labels x) L"] show ?thesis using n other(1) by auto
  next
    case active
    from Cons.IH [OF this(3), of "insert (su_labels x) L"] show ?thesis using n active(1,2) by auto
  next
    case stopped
    have "seen ?cid L' a2 = seen ?cid L' a1" "sv_active a2 = sv_active a1" for L' using stopped(4) by auto
    with Cons.IH [OF stopped(3), of "insert (su_labels x) L"] show ?thesis using n stopped(1,2) by auto
  qed
qed simp

context docker_reads begin

lemma keeps_runner_finished_at: "m_cli m = c \<Longrightarrow> keeps (runner_finished_at m i)"
  unfolding runner_finished_at_def by (simp only:, intro keeps_rules)

lemma keeps_sweep_containers: "m_cli m = c \<Longrightarrow> keeps (sweep_containers m i xs a)"
proof (induction xs arbitrary: a)
  case (Cons x xs)
  show ?case
    unfolding sweep_containers.simps Let_def by (intro keeps_rules keeps_runner_finished_at Cons)
qed (simp add: keeps_return)

lemma keeps_enumerate: "m_cli m = c \<Longrightarrow> keeps (enumerate_instance_names m)"
  unfolding enumerate_instance_names_def Let_def by (simp only:, intro keeps_rules)

end

section \<open>What a sweep removes\<close>

text \<open>The labels an instance's resources carry.\<close>

definition instance_labels :: "string \<Rightarrow> string \<Rightarrow> store \<Rightarrow> labels set" where
  "instance_labels cid i v = {l. \<exists>r n. v r = Some (n, l) \<and> matches_predicate l cid \<and> l LabelInstanceName = Some i}"

definition has_runner :: "string \<Rightarrow> string \<Rightarrow> store \<Rightarrow> bool" where
  "has_runner cid i v \<longleftrightarrow>
     (\<exists>k n l. v (Ctr k) = Some (n, l) \<and> matches_predicate l cid \<and> l LabelInstanceName = Some i \<and>
        lget l LabelRole = RoleRunner)"

lemma lists_labels:
  assumes "lists_matching K idf labf (instance_scoped_filter m i) v xs" "m_controller m \<noteq> ''''"
  shows "{l \<in> labf ` set xs. matches_predicate l (m_controller m)} =
    {l. \<exists>k n. v (K k) = Some (n, l) \<and> matches_predicate l (m_controller m) \<and> l LabelInstanceName = Some i}"
proof (intro set_eqI iffI)
  fix l
  assume "l \<in> {l \<in> labf ` set xs. matches_predicate l (m_controller m)}"
  then obtain x where x: "x \<in> set xs" "labf x = l" "matches_predicate l (m_controller m)" by blast
  have "labels_of v (K (idf x)) = Some l" "list_all (match_term l) (instance_scoped_filter m i)"
    using lists_matchingD [OF assms(1) x(1)] x(2) by auto
  then show "l \<in> {l. \<exists>k n. v (K k) = Some (n, l) \<and> matches_predicate l (m_controller m) \<and> l LabelInstanceName = Some i}"
    using x(3) by (auto simp: labels_of_def instance_scoped_filter_def)
next
  fix l
  assume "l \<in> {l. \<exists>k n. v (K k) = Some (n, l) \<and> matches_predicate l (m_controller m) \<and> l LabelInstanceName = Some i}"
  then obtain k n where k: "v (K k) = Some (n, l)" "matches_predicate l (m_controller m)" "l LabelInstanceName = Some i"
    by blast
  then have "labels_of v (K k) = Some l" "list_all (match_term l) (instance_scoped_filter m i)"
    using instance_filter [OF assms(2), of l i] by (auto simp: labels_of_def)
  from lists_matchingE [OF assms(1) this] obtain x where "x \<in> set xs" "labf x = l" .
  then show "l \<in> {l \<in> labf ` set xs. matches_predicate l (m_controller m)}" using k(2) by blast
qed

lemma seen_instance:
  assumes "lists_matching Ctr su_id su_labels (instance_scoped_filter m i) v xs"
    and "lists_matching Net ns_id ns_labels (instance_scoped_filter m i) v ns"
    and "lists_matching Vol vol_name vol_labels (instance_scoped_filter m i) v vs"
    and "m_controller m \<noteq> ''''"
    and "seen (m_controller m) (su_labels ` set xs \<union> ns_labels ` set ns \<union> vol_labels ` set vs) a"
  shows "(sv_has_resource a \<longleftrightarrow> instance_labels (m_controller m) i v \<noteq> {}) \<and>
    (\<forall>l\<in>instance_labels (m_controller m) i v. \<forall>t. parse_created_at l = Some t \<longrightarrow> youngest_ge a t) \<and>
    (\<forall>y. sv_youngest a = Some y \<longrightarrow> (\<exists>l\<in>instance_labels (m_controller m) i v. parse_created_at l = Some y))"
proof -
  let ?L = "su_labels ` set xs \<union> ns_labels ` set ns \<union> vol_labels ` set vs"
  have ex: "(\<exists>r. P r) \<longleftrightarrow> (\<exists>k. P (Ctr k)) \<or> (\<exists>k. P (Net k)) \<or> (\<exists>k. P (Vol k))" for P :: "rid \<Rightarrow> bool"
    by (metis rid.exhaust)
  have "instance_labels (m_controller m) i v =
      {l. \<exists>k n. v (Ctr k) = Some (n, l) \<and> matches_predicate l (m_controller m) \<and> l LabelInstanceName = Some i} \<union>
      {l. \<exists>k n. v (Net k) = Some (n, l) \<and> matches_predicate l (m_controller m) \<and> l LabelInstanceName = Some i} \<union>
      {l. \<exists>k n. v (Vol k) = Some (n, l) \<and> matches_predicate l (m_controller m) \<and> l LabelInstanceName = Some i}"
    unfolding instance_labels_def ex by (simp only: Collect_disj_eq Un_assoc)
  also have "\<dots> = {l \<in> su_labels ` set xs. matches_predicate l (m_controller m)} \<union>
      {l \<in> ns_labels ` set ns. matches_predicate l (m_controller m)} \<union>
      {l \<in> vol_labels ` set vs. matches_predicate l (m_controller m)}"
    by (simp only: lists_labels [OF assms(1,4)] lists_labels [OF assms(2,4)] lists_labels [OF assms(3,4)])
  also have "\<dots> = {l \<in> ?L. matches_predicate l (m_controller m)}" by blast
  finally have L: "instance_labels (m_controller m) i v = {l \<in> ?L. matches_predicate l (m_controller m)}" .
  have *: ?thesis if "seen (m_controller m) S a" "instance_labels (m_controller m) i v = {l \<in> S. matches_predicate l (m_controller m)}" for S
    using that unfolding seen_def by auto
  show ?thesis by (rule * [OF assms(5) L])
qed

text \<open>What the decision is taken from: facts about the store and the runners listed.\<close>

definition gathered :: "'s manager \<Rightarrow> string \<Rightarrow> store \<Rightarrow> container_summary list \<Rightarrow> sweep_view \<Rightarrow> bool" where
  "gathered m i v xs b \<longleftrightarrow>
     (sv_has_resource b \<longleftrightarrow> instance_labels (m_controller m) i v \<noteq> {}) \<and>
     (\<forall>l\<in>instance_labels (m_controller m) i v. \<forall>t. parse_created_at l = Some t \<longrightarrow> youngest_ge b t) \<and>
     (\<forall>y. sv_youngest b = Some y \<longrightarrow> (\<exists>l\<in>instance_labels (m_controller m) i v. parse_created_at l = Some y)) \<and>
     (sv_active b \<longleftrightarrow> (\<exists>x\<in>set xs. runner_summary (m_controller m) x \<and> is_active_runner_state (su_state x))) \<and>
     (sv_active b \<or> sv_exited b \<noteq> None \<longrightarrow> has_runner (m_controller m) i v)"

lemma gatheredI:
  assumes lists: "lists_matching Ctr su_id su_labels (instance_scoped_filter m i) v xs"
      "lists_matching Net ns_id ns_labels (instance_scoped_filter m i) v ns"
      "lists_matching Vol vol_name vol_labels (instance_scoped_filter m i) v vs"
    and m: "m_controller m \<noteq> ''''"
    and run: "run_state (sweep_containers m i xs empty_sweep) s = (Inr a, s')"
  shows "gathered m i v xs (foldl (\<lambda>a v. sweep_note (m_controller m) (vol_labels v) a)
    (foldl (\<lambda>a n. sweep_note (m_controller m) (ns_labels n) a) a ns) vs)" (is "gathered m i v xs ?b")
proof -
  let ?cid = "m_controller m"
  note sc = run_sweep_containers [OF run, of "{}"]
  have "seen ?cid (su_labels ` set xs) a" using sc seen_empty by simp
  from seen_notes [OF seen_notes [OF this, of ns_labels ns], of vol_labels vs]
  have "seen ?cid (su_labels ` set xs \<union> ns_labels ` set ns \<union> vol_labels ` set vs) ?b" by simp
  note b = seen_instance [OF lists m this]
  have act: "sv_active ?b \<longleftrightarrow> (\<exists>x\<in>set xs. runner_summary ?cid x \<and> is_active_runner_state (su_state x))"
    using sc by (simp add: empty_sweep_def)
  have hr: "has_runner ?cid i v" if "x \<in> set xs" "runner_summary ?cid x" for x
  proof -
    have "labels_of v (Ctr (su_id x)) = Some (su_labels x)" "su_labels x LabelInstanceName = Some i"
      using lists_matchingD [OF lists(1) that(1)] by (auto simp: instance_scoped_filter_def)
    then show ?thesis using that(2) by (auto simp: has_runner_def runner_summary_def labels_of_def)
  qed
  have "sv_active ?b \<or> sv_exited ?b \<noteq> None \<longrightarrow> has_runner ?cid i v"
    using sc act hr by (auto simp: empty_sweep_def)
  then show ?thesis using b act unfolding gathered_def by blast
qed

context docker_store begin

definition untouched :: "'s \<Rightarrow> 's \<Rightarrow> bool" where
  "untouched s s' \<longleftrightarrow> inv s' \<and> view s' = view s"

lemma run_sweep_gather:
  assumes m: "m_cli m = c" "m_controller m \<noteq> ''''" and s: "inv s"
    and run: "run_state (sweep_instance m i) s = ((swept, e, logs), s')"
  shows "(untouched s s' \<and> e \<noteq> None) \<or>
    (\<exists>xs b s1 s4. run_state (container_list c True (instance_scoped_filter m i)) s = (Inr xs, s1) \<and>
       untouched s s4 \<and> gathered m i (view s) xs b \<and>
       run_state (sweep_decide m i xs b) s4 = ((swept, e, logs), s'))"
proof -
  let ?fs = "instance_scoped_filter m i"
  note run' = run [unfolded sweep_instance_def Let_def m(1)]
  obtain rc s1 where rc: "run_state (container_list c True ?fs) s = (rc, s1)" by fastforce
  obtain rn s2 where rn: "run_state (network_list c ?fs) s1 = (rn, s2)" by fastforce
  obtain rv s3 where rv: "run_state (volume_list c ?fs) s2 = (rv, s3)" by fastforce
  have k1: "untouched s s1" "rc = Inr xs \<Longrightarrow> lists_matching Ctr su_id su_labels ?fs (view s) xs" for xs
    using ctr_list [OF s rc] by (auto simp: untouched_def)
  have k2: "untouched s s2" "rn = Inr ns \<Longrightarrow> lists_matching Net ns_id ns_labels ?fs (view s) ns" for ns
    using net_list [OF _ rn] k1(1) by (auto simp: untouched_def)
  have k3: "untouched s s3"
    "rv = Inr vs \<Longrightarrow> lists_matching Vol vol_name vol_labels ?fs (view s) (List.map_filter id vs)" for vs
    using vol_list [OF _ rv] k2(1) by (auto simp: untouched_def)
  have err: ?thesis if "s' = t" "untouched s t" "e \<noteq> None" for t
    using that by blast
  show ?thesis
  proof (cases rc)
    case (Inl x)
    then show ?thesis using err [OF _ k1(1)] run' rc by auto
  next
    case xs: (Inr xs)
    show ?thesis
    proof (cases rn)
      case (Inl x)
      then show ?thesis using err [OF _ k2(1)] run' rc rn xs by auto
    next
      case ns: (Inr ns)
      show ?thesis
      proof (cases rv)
        case (Inl x)
        then show ?thesis using err [OF _ k3(1)] run' rc rn rv xs ns by auto
      next
        case vs: (Inr vs)
        obtain rw s4 where rw: "run_state (sweep_containers m i xs empty_sweep) s3 = (rw, s4)" by fastforce
        have k4: "untouched s s4"
          using keepsD [OF keeps_sweep_containers [OF m(1)] _ rw] k3(1) by (auto simp: untouched_def)
        show ?thesis
        proof (cases rw)
          case (Inl x)
          then show ?thesis using err [OF _ k4] run' rc rn rv xs ns vs rw by auto
        next
          case (Inr a)
          note g = gatheredI [OF k1(2) [OF xs] k2(2) [OF ns] k3(2) [OF vs] m(2) rw [unfolded Inr]]
          let ?b = "foldl (\<lambda>a v. sweep_note (m_controller m) (vol_labels v) a)
            (foldl (\<lambda>a n. sweep_note (m_controller m) (ns_labels n) a) a ns) (List.map_filter id vs)"
          have "run_state (sweep_decide m i xs ?b) s4 = ((swept, e, logs), s')"
            using run' rc rn rv xs ns vs rw Inr by simp
          then show ?thesis using rc xs k4 g by blast
        qed
      qed
    qed
  qed
qed

end

text \<open>
  Either the sweep of an instance changes nothing, or it is a teardown, and then every runner listed
  had stopped and, with no runner at all, every age was past the grace.
\<close>

definition past_grace :: "'s manager \<Rightarrow> string \<Rightarrow> store \<Rightarrow> bool" where
  "past_grace m i v \<longleftrightarrow>
     (\<exists>l\<in>instance_labels (m_controller m) i v. parse_created_at l \<noteq> None) \<and>
     (\<exists>s1. \<forall>l\<in>instance_labels (m_controller m) i v. \<forall>t. parse_created_at l = Some t \<longrightarrow>
        \<not> time_sub (m_now m s1) t < m_inflight_grace m)"

definition too_young :: "'s manager \<Rightarrow> string \<Rightarrow> store \<Rightarrow> bool" where
  "too_young m i v \<longleftrightarrow>
     (\<forall>l\<in>instance_labels (m_controller m) i v. parse_created_at l = None) \<or>
     (\<exists>l\<in>instance_labels (m_controller m) i v. \<exists>t s1. parse_created_at l = Some t \<and>
        time_sub (m_now m s1) t < m_inflight_grace m)"

lemma gathered_young:
  assumes "gathered m i v xs b" "sv_youngest b = Some y" "\<not> time_sub (m_now m s1) y < m_inflight_grace m"
  shows "past_grace m i v"
proof -
  have "\<not> time_sub (m_now m s1) t < m_inflight_grace m"
    if "l \<in> instance_labels (m_controller m) i v" "parse_created_at l = Some t" for l t
  proof -
    have "t \<le> y" using assms(1,2) that by (auto simp: gathered_def youngest_ge_def)
    then have "time_sub (m_now m s1) y \<le> time_sub (m_now m s1) t" by (auto simp: time_sub_def)
    then show ?thesis using assms(3) by linarith
  qed
  moreover have "\<exists>l\<in>instance_labels (m_controller m) i v. parse_created_at l \<noteq> None"
    using assms(1,2) by (force simp: gathered_def)
  ultimately show ?thesis unfolding past_grace_def by blast
qed

context docker_store begin

lemma run_sweep_decide:
  assumes m: "m_cli m = c" and s: "inv s" and g: "gathered m i v xs b"
    and run: "run_state (sweep_decide m i xs b) s = ((swept, e, logs), s')"
  shows "(untouched s s' \<and> \<not> swept \<and> e = None \<and> (has_runner (m_controller m) i v \<or> too_young m i v)) \<or>
    (\<exists>s1 logs2. untouched s s1 \<and> run_state (teardown_allocation m i) s1 = ((swept, e, logs2), s') \<and>
       \<not> sv_active b \<and> (has_runner (m_controller m) i v \<or> past_grace m i v))"
proof (cases "\<not> sv_has_resource b \<or> sv_active b")
  case True
  then have "swept = False" "e = None" "s' = s" using run by (auto simp: sweep_decide_def split: if_splits)
  moreover have "has_runner (m_controller m) i v \<or> too_young m i v"
    using True g by (auto simp: gathered_def too_young_def)
  ultimately show ?thesis using s by (auto simp: untouched_def)
next
  case False
  show ?thesis
  proof (cases "sv_exited b")
    case (Some txi)
    obtain t x info where txi: "txi = (t, x, info)" by (cases txi)
    have hr: "has_runner (m_controller m) i v" using g Some by (auto simp: gathered_def)
    show ?thesis
    proof (cases "time_sub (m_now m s) t < m_exited_grace m")
      case True
      then have "swept = False" "e = None" "s' = s" using run False Some txi by (auto simp: sweep_decide_def)
      then show ?thesis using hr s by (auto simp: untouched_def)
    next
      case old: False
      obtain l1 s1 where r1: "run_state (report_exited_runner m x info xs) s = (l1, s1)" by fastforce
      obtain l2 where "run_state (teardown_allocation m i) s1 = ((swept, e, l2), s')"
        using run False Some txi old r1 by (auto simp: sweep_decide_def split: prod.splits)
      moreover have "untouched s s1"
        using keepsD [OF keeps_report_exited_runner [OF m] s r1] by (simp add: untouched_def)
      ultimately show ?thesis using hr False by blast
    qed
  next
    case None
    show ?thesis
    proof (cases "sv_youngest b")
      case no: None
      then have "swept = False" "e = None" "s' = s" using run False None by (auto simp: sweep_decide_def)
      moreover have "too_young m i v" using g no by (auto simp: gathered_def too_young_def youngest_ge_def)
      ultimately show ?thesis using s by (auto simp: untouched_def)
    next
      case (Some y)
      show ?thesis
      proof (cases "time_sub (m_now m s) y < m_inflight_grace m")
        case True
        then have "swept = False" "e = None" "s' = s" using run False None Some by (auto simp: sweep_decide_def)
        moreover have "too_young m i v" using g True Some unfolding gathered_def too_young_def by blast
        ultimately show ?thesis using s by (auto simp: untouched_def)
      next
        case old: False
        then have "run_state (teardown_allocation m i) s = ((swept, e, logs), s')"
          using run False None Some by (simp add: sweep_decide_def)
        moreover have "past_grace m i v" using gathered_young [OF g Some old] .
        ultimately show ?thesis using s False by (auto simp: untouched_def)
      qed
    qed
  qed
qed

lemma run_sweep_instance:
  assumes m: "m_cli m = c" "m_controller m \<noteq> ''''" and s: "inv s"
    and run: "run_state (sweep_instance m i) s = ((swept, e, logs), s')"
  shows "(untouched s s' \<and> (e = None \<longrightarrow> has_runner (m_controller m) i (view s) \<or> too_young m i (view s))) \<or>
    (\<exists>xs s0 s1 logs2. run_state (container_list c True (instance_scoped_filter m i)) s = (Inr xs, s0) \<and>
       (\<forall>x\<in>set xs. runner_summary (m_controller m) x \<longrightarrow> \<not> is_active_runner_state (su_state x)) \<and>
       untouched s s1 \<and> run_state (teardown_allocation m i) s1 = ((swept, e, logs2), s') \<and>
       (has_runner (m_controller m) i (view s) \<or> past_grace m i (view s)))"
  using run_sweep_gather [OF m s run]
proof
  assume "\<exists>xs b s1 s4. run_state (container_list c True (instance_scoped_filter m i)) s = (Inr xs, s1) \<and>
       untouched s s4 \<and> gathered m i (view s) xs b \<and>
       run_state (sweep_decide m i xs b) s4 = ((swept, e, logs), s')"
  then obtain xs b s1 s4 where l: "run_state (container_list c True (instance_scoped_filter m i)) s = (Inr xs, s1)"
    and u: "untouched s s4" and g: "gathered m i (view s) xs b"
    and d: "run_state (sweep_decide m i xs b) s4 = ((swept, e, logs), s')" by blast
  have "inv s4" using u by (simp add: untouched_def)
  from run_sweep_decide [OF m(1) this g d] u l g show ?thesis
    unfolding untouched_def gathered_def by auto
qed blast

end

section \<open>The whole sweep\<close>

lemma lists_predicate:
  assumes "lists_matching K idf labf (match_predicate_filters cid) v xs" "cid \<noteq> ''''"
  shows "{l \<in> labf ` set xs. matches_predicate l cid} = {l. \<exists>k n. v (K k) = Some (n, l) \<and> matches_predicate l cid}"
proof (intro set_eqI iffI)
  fix l
  assume "l \<in> {l \<in> labf ` set xs. matches_predicate l cid}"
  then obtain x where x: "x \<in> set xs" "labf x = l" "matches_predicate l cid" by blast
  then show "l \<in> {l. \<exists>k n. v (K k) = Some (n, l) \<and> matches_predicate l cid}"
    using lists_matchingD [OF assms(1) x(1)] by (auto simp: labels_of_def)
next
  fix l
  assume "l \<in> {l. \<exists>k n. v (K k) = Some (n, l) \<and> matches_predicate l cid}"
  then obtain k n where k: "v (K k) = Some (n, l)" "matches_predicate l cid" by blast
  then have "labels_of v (K k) = Some l" "list_all (match_term l) (match_predicate_filters cid)"
    using predicate_filter [OF assms(2)] by (auto simp: labels_of_def)
  from lists_matchingE [OF assms(1) this] obtain x where "x \<in> set xs" "labf x = l" .
  then show "l \<in> {l \<in> labf ` set xs. matches_predicate l cid}" using k(2) by blast
qed

definition names_in :: "string \<Rightarrow> labels set \<Rightarrow> string set" where
  "names_in cid L = {i. i \<noteq> '''' \<and> (\<exists>l\<in>L. matches_predicate l cid \<and> lget l LabelInstanceName = i)}"

lemma set_add_names:
  "set (foldl (\<lambda>a x. add_name cid (labf x) a) a xs) = set a \<union> names_in cid (labf ` set xs)"
  by (induction xs arbitrary: a) (auto simp: add_name_def names_in_def)

lemma names_in_un: "names_in cid (A \<union> B) = names_in cid A \<union> names_in cid B"
  by (auto simp: names_in_def)

lemma names_in_eq: "{l \<in> L. matches_predicate l cid} = M \<Longrightarrow> names_in cid L = names_in cid M"
  by (auto simp: names_in_def)

lemma instance_labels_lget:
  "i \<noteq> '''' \<Longrightarrow> instance_labels cid i v = {l. \<exists>r n. v r = Some (n, l) \<and> matches_predicate l cid \<and> lget l LabelInstanceName = i}"
  by (auto simp: instance_labels_def lget_def split: option.splits)

lemma names_in_labels:
  "names_in cid {l. \<exists>r n. v r = Some (n, l) \<and> matches_predicate l cid} = {i. i \<noteq> '''' \<and> instance_labels cid i v \<noteq> {}}"
proof (rule set_eqI)
  fix i
  show "(i \<in> names_in cid {l. \<exists>r n. v r = Some (n, l) \<and> matches_predicate l cid}) \<longleftrightarrow>
      (i \<in> {i. i \<noteq> '''' \<and> instance_labels cid i v \<noteq> {}})"
  proof (cases "i = ''''")
    case False
    have "i \<in> names_in cid L \<longleftrightarrow> {l \<in> L. matches_predicate l cid \<and> lget l LabelInstanceName = i} \<noteq> {}" for L
      using False by (auto simp: names_in_def)
    then show ?thesis using False by (simp only: instance_labels_lget [OF False] mem_Collect_eq ex_simps conj_assoc simp_thms)
  qed (simp add: names_in_def)
qed

text \<open>
  One sweep step, relative to the store \<open>v0\<close> the sweep began on: an instance keeps the fate it had
  (as it was, or gone) unless it is the one swept.
\<close>

definition of_instance :: "string \<Rightarrow> string \<Rightarrow> labels \<Rightarrow> bool" where
  "of_instance cid i l \<longleftrightarrow> matches_predicate l cid \<and> l LabelInstanceName = Some i"

definition same_instance :: "string \<Rightarrow> string \<Rightarrow> store \<Rightarrow> store \<Rightarrow> bool" where
  "same_instance cid i v w \<longleftrightarrow> (\<forall>r n l. of_instance cid i l \<longrightarrow> v r = Some (n, l) \<longleftrightarrow> w r = Some (n, l))"

definition generation_gone :: "string \<Rightarrow> string \<Rightarrow> store \<Rightarrow> store \<Rightarrow> bool" where
  "generation_gone cid i v w \<longleftrightarrow>
     (\<exists>gen. generation_at cid i v gen \<and> (\<forall>r n l. w r = Some (n, l) \<longrightarrow> \<not> allocation_owned cid i gen l))"

lemma same_instance_refl [simp]: "same_instance cid i v v"
  by (simp add: same_instance_def)

lemma same_instance_trans: "same_instance cid i u v \<Longrightarrow> same_instance cid i v w \<Longrightarrow> same_instance cid i u w"
  by (simp add: same_instance_def)

lemma removes_same_instance:
  assumes "removes (\<lambda>r n l. of_instance cid j l) v w" "i \<noteq> j"
  shows "same_instance cid i v w"
  unfolding same_instance_def
proof (intro allI impI iffI)
  fix r n l
  assume l: "of_instance cid i l" "v r = Some (n, l)"
  then have "\<not> of_instance cid j l" using assms(2) by (auto simp: of_instance_def)
  then show "w r = Some (n, l)" using removes_kept [OF assms(1) l(2)] by blast
next
  fix r n l
  assume "w r = Some (n, l)"
  then show "v r = Some (n, l)" using removes_back [OF assms(1)] by blast
qed

lemma same_instance_eqs:
  assumes "same_instance cid i v w"
  shows "instance_labels cid i v = instance_labels cid i w" "has_runner cid i v = has_runner cid i w"
proof -
  have eq: "of_instance cid i l \<Longrightarrow> v r = Some (n, l) \<longleftrightarrow> w r = Some (n, l)" for r n l
    using assms by (simp add: same_instance_def)
  show "instance_labels cid i v = instance_labels cid i w"
    unfolding instance_labels_def using eq [unfolded of_instance_def] by blast
  show "has_runner cid i v = has_runner cid i w"
    unfolding has_runner_def using eq [unfolded of_instance_def] by blast
qed

lemma same_instance_ages:
  assumes "same_instance (m_controller m) i v w"
  shows "past_grace m i v = past_grace m i w" "too_young m i v = too_young m i w"
  by (simp_all add: past_grace_def too_young_def same_instance_eqs [OF assms])

lemma claim_of_instance: "is_claim cid i l \<Longrightarrow> i \<noteq> '''' \<Longrightarrow> of_instance cid i l"
  by (auto simp: is_claim_def of_instance_def lget_def split: option.splits)

lemma same_instance_generation:
  assumes "same_instance cid i v w" "i \<noteq> ''''"
  shows "generation_at cid i v gen = generation_at cid i w gen"
proof -
  have eq: "is_claim cid i l \<Longrightarrow> v r = Some (n, l) \<longleftrightarrow> w r = Some (n, l)" for r n l
    using assms by (auto simp: same_instance_def claim_of_instance)
  show ?thesis unfolding generation_at_def claimed_def using eq by (cases gen) (simp_all, blast+)
qed

lemma generation_gone_mono:
  assumes "generation_gone cid i v u" "removes D u w"
  shows "generation_gone cid i v w"
proof -
  obtain gen where "generation_at cid i v gen" "\<And>r n l. u r = Some (n, l) \<Longrightarrow> \<not> allocation_owned cid i gen l"
    using assms(1) unfolding generation_gone_def by blast
  then show ?thesis unfolding generation_gone_def using removes_back [OF assms(2)] by blast
qed

text \<open>The fates after the instances \<open>ys\<close> have been swept.\<close>

definition fates :: "'s manager \<Rightarrow> store \<Rightarrow> string list \<Rightarrow> gerr list \<Rightarrow> store \<Rightarrow> bool" where
  "fates m v0 ys errs w \<longleftrightarrow>
     removes (\<lambda>r n l. \<exists>i\<in>set ys. of_instance (m_controller m) i l) v0 w \<and>
     (\<forall>i. i \<notin> set ys \<or> \<not> has_runner (m_controller m) i v0 \<and> \<not> past_grace m i v0 \<longrightarrow>
        same_instance (m_controller m) i v0 w) \<and>
     (\<forall>i\<in>set ys. errs = [] \<and> \<not> has_runner (m_controller m) i v0 \<and> \<not> too_young m i v0 \<longrightarrow>
        generation_gone (m_controller m) i v0 w)"

context docker_store begin

lemma run_enumerate:
  assumes m: "m_cli m = c" "m_controller m \<noteq> ''''" and s: "inv s"
    and run: "run_state (enumerate_instance_names m) s = (r, s')"
  shows "untouched s s' \<and>
    (\<forall>names. r = Inr names \<longrightarrow> set names = {i. i \<noteq> '''' \<and> instance_labels (m_controller m) i (view s) \<noteq> {}})"
proof -
  let ?cid = "m_controller m" and ?fs = "match_predicate_filters (m_controller m)"
  have u: "untouched s s'" using keepsD [OF keeps_enumerate [OF m(1)] s run] by (simp add: untouched_def)
  have "set names = {i. i \<noteq> '''' \<and> instance_labels ?cid i (view s) \<noteq> {}}" if r: "r = Inr names" for names
  proof -
    note run' = run [unfolded enumerate_instance_names_def Let_def m(1)]
    obtain rc s1 where rc: "run_state (container_list c True ?fs) s = (rc, s1)" by fastforce
    obtain xs where xs: "rc = Inr xs" using run' rc r by (cases rc) auto
    obtain rn s2 where rn: "run_state (network_list c ?fs) s1 = (rn, s2)" by fastforce
    obtain ns where ns: "rn = Inr ns" using run' rc xs rn r by (cases rn) auto
    obtain rv s3 where rv: "run_state (volume_list c ?fs) s2 = (rv, s3)" by fastforce
    obtain vs where vs: "rv = Inr vs" using run' rc xs rn ns rv r by (cases rv) auto
    have k1: "inv s1" "view s1 = view s" "lists_matching Ctr su_id su_labels ?fs (view s) xs"
      using ctr_list [OF s rc] xs by auto
    have k2: "inv s2" "view s2 = view s" "lists_matching Net ns_id ns_labels ?fs (view s) ns"
      using net_list [OF k1(1) rn] k1(2) ns by auto
    have k3: "lists_matching Vol vol_name vol_labels ?fs (view s) (List.map_filter id vs)"
      using vol_list [OF k2(1) rv] k2(2) vs by auto
    have "set names = names_in ?cid (su_labels ` set xs) \<union> names_in ?cid (ns_labels ` set ns) \<union>
        names_in ?cid (vol_labels ` set (List.map_filter id vs))"
      using run' rc xs rn ns rv vs r by (auto simp: set_add_names)
    also have "\<dots> = names_in ?cid {l. \<exists>r n. view s r = Some (n, l) \<and> matches_predicate l ?cid}"
    proof -
      have ex: "(\<exists>r. P r) \<longleftrightarrow> (\<exists>k. P (Ctr k)) \<or> (\<exists>k. P (Net k)) \<or> (\<exists>k. P (Vol k))" for P :: "rid \<Rightarrow> bool"
        by (metis rid.exhaust)
      show ?thesis
        unfolding names_in_eq [OF lists_predicate [OF k1(3) m(2)]] names_in_eq [OF lists_predicate [OF k2(3) m(2)]]
          names_in_eq [OF lists_predicate [OF k3 m(2)]] names_in_un [symmetric] ex
        by (simp only: Collect_disj_eq Un_assoc)
    qed
    also have "\<dots> = {i. i \<noteq> '''' \<and> instance_labels ?cid i (view s) \<noteq> {}}"
      by (rule names_in_labels)
    finally show ?thesis .
  qed
  then show ?thesis using u by blast
qed

lemma sweep_instance_removes:
  assumes m: "m_cli m = c" "m_controller m \<noteq> ''''" and s: "inv s" and i: "i \<noteq> ''''"
    and run: "run_state (sweep_instance m i) s = ((swept, e, logs), s')"
  shows "inv s' \<and> removes (\<lambda>r n l. matches_predicate l (m_controller m) \<and> l LabelInstanceName = Some i) (view s) (view s')"
  using run_sweep_instance [OF m s run]
proof
  assume "\<exists>xs s0 s1 logs2. run_state (container_list c True (instance_scoped_filter m i)) s = (Inr xs, s0) \<and>
       (\<forall>x\<in>set xs. runner_summary (m_controller m) x \<longrightarrow> \<not> is_active_runner_state (su_state x)) \<and>
       untouched s s1 \<and> run_state (teardown_allocation m i) s1 = ((swept, e, logs2), s') \<and>
       (has_runner (m_controller m) i (view s) \<or> past_grace m i (view s))"
  then obtain s1 logs2 where u: "untouched s s1"
    and t: "run_state (teardown_allocation m i) s1 = ((swept, e, logs2), s')" by blast
  from u have "inv s1" by (simp add: untouched_def)
  from run_teardown_generation [OF m this i t [unfolded teardown_allocation_def]]
  obtain gen where g: "inv s'" "removes (\<lambda>r n l. allocation_owned (m_controller m) i gen l) (view s1) (view s')" by blast
  show ?thesis using g u
    by (auto simp: untouched_def allocation_owned_def elim!: removes_mono)
qed (auto simp: untouched_def)

lemma sweep_step_fate:
  assumes m: "m_cli m = c" "m_controller m \<noteq> ''''" and s: "inv s" and i: "i \<noteq> ''''"
    and run: "run_state (sweep_instance m i) s = ((swept, e, logs), s')"
  shows "(\<not> has_runner (m_controller m) i (view s) \<and> \<not> past_grace m i (view s) \<longrightarrow>
      same_instance (m_controller m) i (view s) (view s')) \<and>
    (\<not> has_runner (m_controller m) i (view s) \<and> \<not> too_young m i (view s) \<and> e = None \<longrightarrow>
      generation_gone (m_controller m) i (view s) (view s'))"
  using run_sweep_instance [OF m s run]
proof
  assume "\<exists>xs s0 s1 logs2. run_state (container_list c True (instance_scoped_filter m i)) s = (Inr xs, s0) \<and>
       (\<forall>x\<in>set xs. runner_summary (m_controller m) x \<longrightarrow> \<not> is_active_runner_state (su_state x)) \<and>
       untouched s s1 \<and> run_state (teardown_allocation m i) s1 = ((swept, e, logs2), s') \<and>
       (has_runner (m_controller m) i (view s) \<or> past_grace m i (view s))"
  then obtain s1 logs2 where u: "untouched s s1" and old: "has_runner (m_controller m) i (view s) \<or> past_grace m i (view s)"
    and t: "run_state (teardown_allocation m i) s1 = ((swept, e, logs2), s')" by blast
  from u have "inv s1" by (simp add: untouched_def)
  from run_teardown_generation [OF m this i t [unfolded teardown_allocation_def]] u
  obtain gen where g: "generation_at (m_controller m) i (view s) gen"
    "e = None \<longrightarrow> view s' = drop_matching (allocation_owned (m_controller m) i gen) (view s)"
    by (auto simp: untouched_def)
  have "generation_gone (m_controller m) i (view s) (view s')" if "e = None"
    unfolding generation_gone_def
    using g that by (auto simp: drop_matching_def split: option.splits if_splits)
  then show ?thesis using old by blast
qed (auto simp: untouched_def)

lemma run_sweep_step:
  "run_state (sweep_step m i acc) s = (acc', s') \<Longrightarrow>
    \<exists>swept e logs. run_state (sweep_instance m i) s = ((swept, e, logs), s') \<and>
      fst acc' = fst acc @ opt_list e"
  by (auto simp: sweep_step_def split: prod.splits option.splits)

lemma fates_step:
  assumes m: "m_cli m = c" "m_controller m \<noteq> ''''" and s: "inv s" and i: "i \<noteq> ''''" "i \<notin> set ys"
    and f: "fates m v0 ys (fst acc) (view s)" and run: "run_state (sweep_step m i acc) s = (acc', s')"
  shows "inv s' \<and> fates m v0 (ys @ [i]) (fst acc') (view s')"
proof -
  let ?cid = "m_controller m"
  obtain swept e logs where r: "run_state (sweep_instance m i) s = ((swept, e, logs), s')"
    and acc': "fst acc' = fst acc @ opt_list e" using run_sweep_step [OF run] by blast
  have d: "inv s'" "removes (\<lambda>r n l. of_instance ?cid i l) (view s) (view s')"
    using sweep_instance_removes [OF m s i(1) r] by (simp_all add: of_instance_def)
  have i0: "same_instance ?cid i v0 (view s)" using f i(2) by (simp add: fates_def)
  note eqs = same_instance_eqs [OF i0] same_instance_ages [OF i0] same_instance_generation [OF i0 i(1)]
  have step: "\<not> has_runner ?cid i v0 \<and> \<not> past_grace m i v0 \<longrightarrow> same_instance ?cid i (view s) (view s')"
    "\<not> has_runner ?cid i v0 \<and> \<not> too_young m i v0 \<and> e = None \<longrightarrow> generation_gone ?cid i v0 (view s')"
    using sweep_step_fate [OF m s i(1) r] unfolding generation_gone_def by (simp_all add: eqs)
  have rem: "removes (\<lambda>r n l. \<exists>j\<in>set (ys @ [i]). of_instance ?cid j l) v0 (view s')"
  proof (rule removes_trans)
    show "removes (\<lambda>r n l. \<exists>j\<in>set (ys @ [i]). of_instance ?cid j l) v0 (view s)"
      by (rule removes_mono [where D = "\<lambda>r n l. \<exists>j\<in>set ys. of_instance ?cid j l"])
        (use f in \<open>auto simp: fates_def\<close>)
    show "removes (\<lambda>r n l. \<exists>j\<in>set (ys @ [i]). of_instance ?cid j l) (view s) (view s')"
      by (rule removes_mono [OF d(2)]) simp
  qed
  have same: "same_instance ?cid j v0 (view s')"
    if "j \<notin> set (ys @ [i]) \<or> \<not> has_runner ?cid j v0 \<and> \<not> past_grace m j v0" for j
  proof -
    have "same_instance ?cid j v0 (view s)" using f that by (auto simp: fates_def)
    moreover have "same_instance ?cid j (view s) (view s')"
    proof (cases "j = i")
      case True
      then show ?thesis using that step(1) by auto
    next
      case False
      show ?thesis by (rule removes_same_instance [OF d(2) False])
    qed
    ultimately show ?thesis by (rule same_instance_trans)
  qed
  have gone: "generation_gone ?cid j v0 (view s')"
    if "j \<in> set (ys @ [i])" "fst acc' = []" "\<not> has_runner ?cid j v0" "\<not> too_young m j v0" for j
  proof (cases "j = i")
    case True
    then show ?thesis using that step(2) acc' by (cases e) auto
  next
    case False
    then have "generation_gone ?cid j v0 (view s)" using f that acc' unfolding fates_def by auto
    then show ?thesis by (rule generation_gone_mono [OF _ d(2)])
  qed
  show ?thesis unfolding fates_def using d(1) rem same gone by blast
qed

lemma run_sweep_orphans:
  assumes m: "m_cli m = c" "m_controller m \<noteq> ''''" and s: "inv s"
    and o: "\<And>xs. set (order xs) = set xs \<and> distinct (order xs)"
    and run: "run_state (sweep_orphans m order) s = ((e, logs), s')"
  shows "inv s' \<and> ((view s' = view s \<and> e \<noteq> None) \<or>
    (\<exists>ys errs. set ys = {i. i \<noteq> '''' \<and> instance_labels (m_controller m) i (view s) \<noteq> {}} \<and>
       e = join_errs errs \<and> fates m (view s) ys errs (view s')))"
proof -
  obtain r s1 where en: "run_state (enumerate_instance_names m) s = (r, s1)" by fastforce
  note enum = run_enumerate [OF m s en]
  show ?thesis
  proof (cases r)
    case (Inl err)
    then show ?thesis using run en enum by (auto simp: sweep_orphans_def untouched_def)
  next
    case (Inr names)
    obtain errs logs' where loop: "run_state (for_each (sweep_step m) (order names) ([], [])) s1 = ((errs, logs'), s')"
      and e: "e = join_errs errs" using run en Inr by (auto simp: sweep_orphans_def split: prod.splits)
    let ?I = "\<lambda>ys (acc :: gerr list \<times> log_line list) s2. inv s2 \<and> fates m (view s) ys (fst acc) (view s2)"
    have "valid (?I [] ([], [])) (for_each (sweep_step m) (order names) ([], [])) (?I (order names))"
    proof (rule valid_for_each_prefix [where I = ?I])
      fix ys x zs acc
      assume split: "order names = ys @ x # zs"
      have "set (order names) = set names" "distinct (order names)" using o by simp_all
      then have "x \<in> set names" "x \<notin> set ys" unfolding split by auto
      then have x: "x \<noteq> ''''" "x \<notin> set ys" using enum Inr by auto
      show "valid (?I ys acc) (sweep_step m x acc) (?I (ys @ [x]))"
        unfolding valid_def using fates_step [OF m _ x] by blast
    qed
    moreover have "?I [] ([], []) s1" using enum by (simp add: untouched_def fates_def)
    ultimately have "?I (order names) (errs, logs') s'" using loop unfolding valid_def by blast
    then have "inv s'" "fates m (view s) (order names) errs (view s')" by simp_all
    moreover have "set (order names) = {i. i \<noteq> '''' \<and> instance_labels (m_controller m) i (view s) \<noteq> {}}"
      using enum Inr o [of names] by simp
    ultimately show ?thesis using e by blast
  qed
qed

end

end
