(* ===== verification/Sweep_Props.thy ===== *)
theory Sweep_Props
  imports Topology_Props Topology_Sweep
begin

text \<open>
  The properties of the orphan sweep, for every daemon that meets \<open>docker_store\<close>, each with a run
  on the fake daemon under a fixed clock.
\<close>

definition demo_at :: "time \<Rightarrow> fake manager" where
  "demo_at t = demo_manager\<lparr>m_now := \<lambda>s. t\<rparr>"

lemma demo_at_simps [simp]:
  "m_cli (demo_at t) = fake_client fake_sdk" "m_controller (demo_at t) = ''ctl''" "m_now (demo_at t) = (\<lambda>s. t)"
  "m_inflight_grace (demo_at t) = inflight_create_grace"
  by (simp_all add: demo_at_def)







section \<open>The orphan sweep\<close>





text \<open>
  C35: The sweep of one instance changes nothing while the daemon lists a running, paused or restarting
  runner of it, whatever its age.
\<close>

theorem sweep_spares_live_runner:
  assumes "docker_store c Inv view" "m_cli m = c" "m_controller m \<noteq> ''''" "Inv s"
    and "run_state (container_list c True (instance_scoped_filter m i)) s = (Inr xs, s0)" "x \<in> set xs"
    and "matches_predicate (su_labels x) (m_controller m)" "lget (su_labels x) LabelRole = RoleRunner"
    and "su_state x \<in> {''running'', ''paused'', ''restarting''}"
    and "run_state (sweep_instance m i) s = ((swept, e, logs), s')"
  shows "Inv s' \<and> view s' = view s"
proof -
  have "runner_summary (m_controller m) x" "is_active_runner_state (su_state x)"
    using assms(7-9) by (auto simp: runner_summary_def is_active_runner_state_def)
  then show ?thesis
    using docker_store.run_sweep_instance [OF assms(1-4,10)] assms(5,6) docker_store.untouched_def [OF assms(1)]
    by auto
qed

definition demo_runner :: fake_container where
  "demo_runner = \<lparr>fc_id = ''fake-1'', fc_name = ''r2'', fc_image = ''img'',
     fc_labels = (demo_labels ''r2'' ''n3'')(LabelRole \<mapsto> RoleRunner), fc_env = [], fc_tmpfs = [], fc_tmpfs_mounts = [],
     fc_sysctls = [], fc_network_mode = '''', fc_mounts = [], fc_cmd = [], fc_privileged = False,
     fc_runtime = '''', fc_group_add = [], fc_raw_runtime = '''', fc_state = ''paused'', fc_oom_killed = False,
     fc_exit_code = 0, fc_finished_at = None, fc_tty = False, fc_logs = [], fc_log_notify = 0, fc_log_driver = '''',
     fc_processes = [], fc_stats = []\<rparr>"

definition live_fake :: fake where
  "live_fake = demo_fake\<lparr>fk_containers := [demo_runner], fk_next_id := 1\<rparr>"

lemma nat_str_1 [simp]: "nat_str (Suc 0) = ''1''"
  by code_simp

lemma live_fake_inv: "fake_inv live_fake"
  by (simp add: le_Suc_eq conj_disj_distribR ex_disj_distrib live_fake_def demo_fake_def fake_inv_def fake_faults_ok_def demo_runner_def)

theorem sweep_spares_live_runner_witness:
  "\<forall>t. fake_view (snd (run_state (sweep_instance (demo_at t) ''r2'') live_fake)) = fake_view live_fake"
proof
  fix t
  obtain x0 x1 x2 s' where run: "run_state (sweep_instance (demo_at t) ''r2'') live_fake = ((x0, x1, x2), s')"
    using ex_run3 by metis
  have l: "run_state (container_list (fake_client fake_sdk) True (instance_scoped_filter (demo_at t) ''r2'')) live_fake =
      (Inr [to_container_summary demo_runner], live_fake)"
    by (simp add: run_eval live_fake_def demo_fake_def demo_runner_def lget_def)
  show "fake_view (snd (run_state (sweep_instance (demo_at t) ''r2'') live_fake)) = fake_view live_fake"
    using sweep_spares_live_runner [OF demo_store _ _ live_fake_inv l _ _ _ _ run] run
    by (simp add: to_container_summary_def demo_runner_def matches_predicate_iff lget_def)
qed

end
