(* ===== verification/Time_Codec.thy ===== *)
theory Time_Codec
  imports Go_Time
begin

text \<open>
  The calendar is a bijection between days and dates, and an instant written as RFC 3339 reads back
  as itself, less its fraction of a second.
\<close>

lemma doy_month:
  fixes doy :: int
  assumes "0 \<le> doy" "doy \<le> 365"
  defines "mp \<equiv> (5 * doy + 2) div 153"
  shows "0 \<le> mp" "mp \<le> 11" "1 \<le> doy - (153 * mp + 2) div 5 + 1"
    "doy - (153 * mp + 2) div 5 + 1 \<le> (if mp = 11 then 29 else if mp \<in> {1, 3, 6, 8} then 30 else 31)"
    "mp = 11 \<Longrightarrow> doy \<noteq> 365 \<Longrightarrow> doy - (153 * mp + 2) div 5 + 1 \<le> 28"
proof -
  show b: "0 \<le> mp" "mp \<le> 11" using assms by (auto simp: mp_def)
  have c: "mp = 0 \<or> mp = 1 \<or> mp = 2 \<or> mp = 3 \<or> mp = 4 \<or> mp = 5 \<or> mp = 6 \<or> mp = 7 \<or> mp = 8 \<or> mp = 9 \<or> mp = 10 \<or> mp = 11"
    using b by presburger
  have d: "153 * mp \<le> 5 * doy + 2" "5 * doy + 2 < 153 * mp + 153" unfolding mp_def by linarith+
  show "1 \<le> doy - (153 * mp + 2) div 5 + 1" using c d by auto
  show "doy - (153 * mp + 2) div 5 + 1 \<le> (if mp = 11 then 29 else if mp \<in> {1, 3, 6, 8} then 30 else 31)"
    using c d assms(2) by auto
  show "mp = 11 \<Longrightarrow> doy \<noteq> 365 \<Longrightarrow> doy - (153 * mp + 2) div 5 + 1 \<le> 28"
    using d assms(2) by auto
qed

lemma civil_parts:
  fixes z :: int
  obtains n400 n100 n4 n1 doy where
    "z = 146097 * n400 + 36524 * n100 + 1461 * n4 + 365 * n1 + doy"
    "0 \<le> n100" "n100 \<le> 3" "0 \<le> n4" "n4 \<le> 24" "0 \<le> n1" "n1 \<le> 3" "0 \<le> doy" "doy \<le> 365"
    "doy = 365 \<longrightarrow> n1 = 3 \<and> (n4 < 24 \<or> n100 = 3)"
    "n400 = z div 146097" "n100 = min 3 (z mod 146097 div 36524)"
    "n4 = (z mod 146097 - 36524 * n100) div 1461"
    "n1 = min 3 ((z mod 146097 - 36524 * n100) mod 1461 div 365)"
    "doy = (z mod 146097 - 36524 * n100) mod 1461 - 365 * n1"
proof -
  define r where "r = z mod 146097"
  define n100 where "n100 = min 3 (r div 36524)"
  define r1 where "r1 = r - 36524 * n100"
  define n4 where "n4 = r1 div 1461"
  define r2 where "r2 = r1 mod 1461"
  define n1 where "n1 = min 3 (r2 div 365)"
  define doy where "doy = r2 - 365 * n1"
  have r: "0 \<le> r" "r < 146097" by (simp_all add: r_def)
  have n100: "0 \<le> n100" "n100 \<le> 3" "0 \<le> r1" "r1 \<le> 36524" "n100 < 3 \<Longrightarrow> r1 < 36524"
    using r by (auto simp: n100_def r1_def min_def)
  have n4: "0 \<le> n4" "n4 \<le> 24" using n100 by (auto simp: n4_def)
  have r2: "0 \<le> r2" "r2 < 1461" by (simp_all add: r2_def)
  have n1: "0 \<le> n1" "n1 \<le> 3" "0 \<le> doy" "doy \<le> 365" "doy = 365 \<Longrightarrow> n1 = 3 \<and> r2 = 1460"
  proof -
    have q: "365 * (r2 div 365) \<le> r2" "r2 < 365 * (r2 div 365) + 365" "0 \<le> r2 div 365" using r2(1) by linarith+
    show "0 \<le> n1" "n1 \<le> 3" "0 \<le> doy" "doy \<le> 365" "doy = 365 \<Longrightarrow> n1 = 3 \<and> r2 = 1460"
      using q r2 unfolding n1_def doy_def min_def by (auto split: if_splits)
  qed
  have rr: "r1 = 1461 * n4 + r2" by (simp add: n4_def r2_def)
  have "doy = 365 \<Longrightarrow> n1 = 3 \<and> (n4 < 24 \<or> n100 = 3)" using n1(5) rr n100 by linarith
  moreover have "z = 146097 * (z div 146097) + 36524 * n100 + 1461 * n4 + 365 * n1 + doy"
  proof -
    have "z = 146097 * (z div 146097) + r" by (simp add: r_def)
    then show ?thesis using rr unfolding doy_def r1_def by linarith
  qed
  moreover have "n100 = min 3 (z mod 146097 div 36524)" "n4 = (z mod 146097 - 36524 * n100) div 1461"
    "n1 = min 3 ((z mod 146097 - 36524 * n100) mod 1461 div 365)"
    "doy = (z mod 146097 - 36524 * n100) mod 1461 - 365 * n1"
    by (simp_all only: n100_def n4_def n1_def doy_def r2_def r1_def r_def)
  ultimately show thesis
    using n100(1,2) n4 n1(1-4) by (intro that [of "z div 146097" n100 n4 n1 doy]) (assumption | rule refl impI)+
qed

lemma civil_from_days:
  assumes "civil_from_days z0 = (y, m, d)"
  shows "days_from_civil y m d = z0" "1 \<le> m" "m \<le> 12" "1 \<le> d" "d \<le> days_in y m"
proof -
  obtain n400 n100 n4 n1 doy where p:
    "z0 + 719468 = 146097 * n400 + 36524 * n100 + 1461 * n4 + 365 * n1 + doy"
    "0 \<le> n100" "n100 \<le> 3" "0 \<le> n4" "n4 \<le> 24" "0 \<le> n1" "n1 \<le> 3" "0 \<le> doy" "doy \<le> 365"
    "doy = 365 \<longrightarrow> n1 = 3 \<and> (n4 < 24 \<or> n100 = 3)"
    and q: "n400 = (z0 + 719468) div 146097" "n100 = min 3 ((z0 + 719468) mod 146097 div 36524)"
    "n4 = ((z0 + 719468) mod 146097 - 36524 * n100) div 1461"
    "n1 = min 3 (((z0 + 719468) mod 146097 - 36524 * n100) mod 1461 div 365)"
    "doy = ((z0 + 719468) mod 146097 - 36524 * n100) mod 1461 - 365 * n1"
    by (rule civil_parts [of "z0 + 719468"])
  define mp where "mp = (5 * doy + 2) div 153"
  define Y where "Y = 400 * n400 + 100 * n100 + 4 * n4 + n1"
  note dm = doy_month [OF p(8,9), folded mp_def]
  have md: "m = (if mp < 10 then mp + 3 else mp - 9)" "d = doy - (153 * mp + 2) div 5 + 1"
    "y = (if m \<le> 2 then Y + 1 else Y)"
    using assms unfolding civil_from_days_def Let_def q [symmetric] mp_def [symmetric] Y_def [symmetric]
    by auto
  show "1 \<le> m" "m \<le> 12" "1 \<le> d" using dm md by auto
  have yoe: "Y div 400 = n400" "Y mod 400 = 100 * n100 + 4 * n4 + n1"
    "(100 * n100 + 4 * n4 + n1) div 4 = 25 * n100 + n4" "(100 * n100 + 4 * n4 + n1) div 100 = n100"
  proof -
    define k where "k = 100 * n100 + 4 * n4 + n1"
    have k: "0 \<le> k" "k < 400" "Y = k + 400 * n400" using p unfolding k_def Y_def by auto
    show "Y div 400 = n400" "Y mod 400 = 100 * n100 + 4 * n4 + n1"
      unfolding k(3) k_def [symmetric] using k(1,2) by simp_all
    show "(100 * n100 + 4 * n4 + n1) div 4 = 25 * n100 + n4" "(100 * n100 + 4 * n4 + n1) div 100 = n100"
      using p(2-7) by linarith+
  qed
  have mm: "(if m > 2 then m - 3 else m + 9) = mp" "(if m \<le> 2 then y - 1 else y) = Y"
    using md dm by auto
  show "days_from_civil y m d = z0"
    unfolding days_from_civil_def Let_def mm yoe using md(2) p(1) by simp
  show "d \<le> days_in y m"
  proof (cases "mp = 11")
    case True
    then have m2: "m = 2" "y = Y + 1" using md by auto
    have "is_leap y" if "doy = 365"
    proof -
      have n: "n1 = 3" "n4 < 24 \<or> n100 = 3" using p(10) that by auto
      have "y = 400 * n400 + 100 * n100 + 4 * (n4 + 1)" using m2 n by (simp add: Y_def)
      then have y: "y = 4 * (100 * n400 + 25 * n100 + n4 + 1)" "y = 4 * (n4 + 1) + 100 * (4 * n400 + n100)"
        "y = (100 * n100 + 4 * (n4 + 1)) + 400 * n400" by simp_all
      have "y mod 4 = 0" unfolding y(1) by simp
      moreover have "y mod 100 \<noteq> 0" if "n4 < 24"
      proof -
        have "y mod 100 = 4 * (n4 + 1)" unfolding y(2) mod_mult_self2 by (rule mod_pos_pos_trivial) (use p(4) that in auto)
        then show ?thesis using p(4) by simp
      qed
      moreover have "y mod 400 = 0" if "\<not> n4 < 24"
      proof -
        have "n4 = 24" "n100 = 3" using n p(5) that by auto
        then show ?thesis unfolding y(3) by simp
      qed
      ultimately show ?thesis unfolding is_leap_def by (cases "n4 < 24") simp_all
    qed
    then show ?thesis using dm(4,5) True m2 md(2) by (cases "doy = 365") (auto simp: days_in_def)
  next
    case False
    then show ?thesis using dm md by (auto simp: days_in_def split: if_splits)
  qed
qed

lemma get_num_two:
  assumes "0 \<le> n" "n \<le> 99"
  shows "get_num2 (two n @ s) = Some (n, s)" "get_num12 (two n @ s) = Some (n, s)"
proof -
  have "nat (n div 10) < 10" "nat (n mod 10) < 10" using assms by linarith+
  moreover have "0 \<le> n div 10" using assms by (simp add: pos_imp_zdiv_nonneg_iff)
  then have "int (10 * nat (n div 10) + nat (n mod 10)) = n" by simp
  ultimately show "get_num2 (two n @ s) = Some (n, s)" "get_num12 (two n @ s) = Some (n, s)"
    by (simp_all add: two_def)
qed

lemma get_year_pad4:
  assumes "0 \<le> y" "y \<le> 9999"
  shows "get_year (pad4 y @ s) = Some (y, s)"
proof -
  define A B where "A = y div 100" and "B = y mod 100"
  define a b c d where "a = A div 10" and "b = A mod 10" and "c = B div 10" and "d = B mod 10"
  have y: "A * 100 + B = y" and AB: "a * 10 + b = A" "c * 10 + d = B"
    by (simp_all add: A_def B_def a_def b_def c_def d_def)
  have rB: "0 \<le> B" "B < 100" "0 \<le> b" "b < 10" "0 \<le> d" "d < 10" by (simp_all add: B_def b_def d_def)
  have r: "0 \<le> a" "a < 10" "0 \<le> c" "c < 10" using y AB rB assms by linarith+
  have p: "pad4 y = [digit_char (nat a), digit_char (nat b), digit_char (nat c), digit_char (nat d)]"
    using assms by (simp add: pad4_def two_def a_def b_def c_def d_def A_def B_def)
  have "get_year (pad4 y @ s) = Some (1000 * a + 100 * b + 10 * c + d, s)"
    unfolding p get_year_def using r rB by (simp add: dec_val_def)
  also have "1000 * a + 100 * b + 10 * c + d = y" using y AB by simp
  finally show ?thesis .
qed

text \<open>Formatting keeps whole seconds, and parsing reads them back.\<close>

lemma rfc3339_round_trip:
  assumes "civil_from_days (t div second div 86400) = (y, m, d)" "0 \<le> y" "y \<le> 9999"
  shows "parse_rfc3339 (format_rfc3339 t) = Some (t div second * second, 0)"
proof -
  define s where "s = t div second"
  define r where "r = s mod 86400"
  note c = civil_from_days [OF assms(1) [folded s_def]]
  have d31: "d \<le> 31" using c(5) by (auto simp: days_in_def split: if_splits)
  define H u where "H = r div 3600" and "u = r mod 3600"
  define M S where "M = u div 60" and "S = u mod 60"
  have "0 \<le> r" "r < 86400" by (simp_all add: r_def)
  moreover have e: "H * 3600 + u = r" "M * 60 + S = u" "0 \<le> u" "u < 3600" "0 \<le> S" "S < 60"
    by (simp_all add: H_def u_def M_def S_def)
  ultimately have b: "0 \<le> H" "H \<le> 23" "0 \<le> M" "M \<le> 59" "S \<le> 59" by linarith+
  have "r mod 60 = S" unfolding S_def u_def by (rule mod_mod_cancel [symmetric]) simp
  then have f: "format_rfc3339 t = pad4 y @ CHR ''-'' # two m @ CHR ''-'' # two d @ CHR ''T'' #
      two H @ CHR '':'' # two M @ CHR '':'' # two S @ ''Z''"
    using assms(1) by (simp add: format_rfc3339_def format_seconds_def Let_def s_def [symmetric] r_def [symmetric]
        H_def M_def u_def)
  have "s div 86400 * 86400 + r = s" by (simp add: r_def)
  then have v: "days_from_civil y m d * 86400 + H * 3600 + M * 60 + S = s" using c(1) e by linarith
  have p: "parse_rfc3339 (format_rfc3339 t) =
      Some ((days_from_civil y m d * 86400 + H * 3600 + M * 60 + S) * second, 0)"
    unfolding f parse_rfc3339_def using c(2-5) b e(5) d31 assms(2,3)
    by (simp add: get_year_pad4 get_num_two get_zone_def)
  show ?thesis unfolding p v s_def ..
qed

end
