(* ===== verification/Cache_Spec.thy ===== *)
theory Cache_Spec
  imports Labels Names Sha256 Docker_API Time_Codec
begin

text \<open>
  Cache volumes, from \<open>internal/spec/cache.go\<close>, \<open>gc.go\<close>, \<open>osrelease.go\<close>, \<open>externals.go\<close> and
  \<open>diag.go\<close>: repository keys, the identity labels that tell one cache from another, the checks made
  before a volume is adopted, reported or pruned, and the eviction rule. The scope of a repository
  URL is in \<open>Runner_Env\<close>.
\<close>

section \<open>Repository keys\<close>

definition repo_key_hash_len :: nat where "repo_key_hash_len = 32"
definition repo_slug_max_len :: nat where "repo_slug_max_len = 40"

definition normalize_repo_url :: "string \<Rightarrow> string" where
  "normalize_repo_url repo_url =
     (let s0 = to_lower (trim_space repo_url);
          s1 = (case str_index s0 ''://'' of None \<Rightarrow> s0 | Some i \<Rightarrow> drop (i + 3) s0);
          s2 = trim_right_by (\<lambda>c. c = CHR ''/'') s1;
          s3 = trim_suffix s2 ''.git''
      in trim_right_by (\<lambda>c. c = CHR ''/'') s3)"

definition slug_char :: "char \<Rightarrow> bool" where
  "slug_char c \<longleftrightarrow> is_lower_ascii c \<or> is_digit c"

fun slug_runs :: "bool \<Rightarrow> string \<Rightarrow> string" where
  "slug_runs prev_dash [] = []"
| "slug_runs prev_dash (r # s) =
     (if slug_char r then r # slug_runs False s
      else if \<not> prev_dash then CHR ''-'' # slug_runs True s
      else slug_runs prev_dash s)"

definition slugify :: "string \<Rightarrow> string" where
  "slugify s =
     (let out = trim_by (\<lambda>c. c = CHR ''-'') (slug_runs False s)
      in if length out > repo_slug_max_len
         then trim_by (\<lambda>c. c = CHR ''-'') (take repo_slug_max_len out) else out)"

definition repo_slug :: "string \<Rightarrow> string" where
  "repo_slug norm =
     slugify (case str_index norm ''/'' of None \<Rightarrow> norm | Some i \<Rightarrow> drop (i + 1) norm)"

definition repo_key :: "string \<Rightarrow> string" where
  "repo_key repo_url =
     (let norm = normalize_repo_url repo_url;
          hash = take repo_key_hash_len (sha256_hex norm);
          slug = repo_slug norm
      in if slug = '''' then hash else slug @ ''-'' @ hash)"

definition repo_url_digest :: "string \<Rightarrow> string" where
  "repo_url_digest repo_url = sha256_hex (normalize_repo_url repo_url)"

section \<open>Kinds and names\<close>

definition CacheKindToolcache :: string where "CacheKindToolcache = ''toolcache''"
definition CacheKindPnpm :: string where "CacheKindPnpm = ''pnpm''"
definition CacheKindExternals :: string where "CacheKindExternals = ''externals''"
definition CacheKindDiagLogs :: string where "CacheKindDiagLogs = ''diag-logs''"

lemmas cache_kinds = CacheKindToolcache_def CacheKindPnpm_def CacheKindExternals_def CacheKindDiagLogs_def

definition cache_volume_name_prefix :: string where "cache_volume_name_prefix = ''garm-cache-''"

definition has_cache_volume_name_prefix :: "string \<Rightarrow> bool" where
  "has_cache_volume_name_prefix name \<longleftrightarrow> has_prefix name cache_volume_name_prefix"

definition toolcache_volume_name :: "string \<Rightarrow> string \<Rightarrow> string \<Rightarrow> string" where
  "toolcache_volume_name key os_key generation =
     cache_volume_name_prefix @ CacheKindToolcache @ ''-'' @ key @ ''-'' @ os_key @ ''-'' @ generation"

definition pnpm_volume_name :: "string \<Rightarrow> string \<Rightarrow> string \<Rightarrow> string" where
  "pnpm_volume_name key os_key pnpm_major =
     cache_volume_name_prefix @ CacheKindPnpm @ ''-'' @ key @ ''-'' @ os_key @ ''-'' @ pnpm_major"

definition externals_volume_name :: "string \<Rightarrow> string" where
  "externals_volume_name image_digest = cache_volume_name_prefix @ CacheKindExternals @ ''-'' @ image_digest"

definition diag_volume_name :: "string \<Rightarrow> string" where
  "diag_volume_name key = cache_volume_name_prefix @ CacheKindDiagLogs @ ''-'' @ key"

definition cache_reconcile_suffix_len :: nat where "cache_reconcile_suffix_len = 8"

definition alternate_cache_volume_name :: "string \<Rightarrow> nat \<Rightarrow> string" where
  "alternate_cache_volume_name preferred attempt =
     preferred @ ''-x'' @ take cache_reconcile_suffix_len (sha256_hex (preferred @ '':'' @ nat_str attempt))"

section \<open>Labels\<close>

record cache_identity =
  ci_controller :: string
  ci_repo_key :: string
  ci_repo_url_digest :: string
  ci_os_key :: string

definition base_cache_labels :: "cache_identity \<Rightarrow> string \<Rightarrow> time \<Rightarrow> labels" where
  "base_cache_labels c kind last_used =
     (let l = [LabelManaged \<mapsto> ''true'', LabelControllerID \<mapsto> ci_controller c, LabelCache \<mapsto> ''true'',
               LabelCacheKind \<mapsto> kind, LabelRepo \<mapsto> ci_repo_key c,
               LabelLastUsed \<mapsto> format_rfc3339 last_used]
      in if ci_repo_url_digest c \<noteq> '''' then l(LabelRepoURLDigest \<mapsto> ci_repo_url_digest c) else l)"

definition add_os_key :: "cache_identity \<Rightarrow> labels \<Rightarrow> labels" where
  "add_os_key c l = (if ci_os_key c \<noteq> '''' then l(LabelOSRelease \<mapsto> ci_os_key c) else l)"

definition toolcache_labels :: "cache_identity \<Rightarrow> string \<Rightarrow> time \<Rightarrow> labels" where
  "toolcache_labels c generation last_used =
     add_os_key c ((base_cache_labels c CacheKindToolcache last_used)(LabelGeneration \<mapsto> generation))"

definition pnpm_labels :: "cache_identity \<Rightarrow> string \<Rightarrow> time \<Rightarrow> labels" where
  "pnpm_labels c pnpm_major last_used =
     add_os_key c ((base_cache_labels c CacheKindPnpm last_used)(LabelPnpmMajor \<mapsto> pnpm_major))"

definition diag_labels :: "cache_identity \<Rightarrow> time \<Rightarrow> labels" where
  "diag_labels c last_used = base_cache_labels c CacheKindDiagLogs last_used"

definition externals_labels :: "string \<Rightarrow> string \<Rightarrow> time \<Rightarrow> labels" where
  "externals_labels controller image_digest last_used =
     [LabelManaged \<mapsto> ''true'', LabelControllerID \<mapsto> controller, LabelCache \<mapsto> ''true'',
      LabelCacheKind \<mapsto> CacheKindExternals, LabelImageDigest \<mapsto> image_digest,
      LabelLastUsed \<mapsto> format_rfc3339 last_used]"

section \<open>Identity checks\<close>

definition cache_identity_label_keys :: "string list" where
  "cache_identity_label_keys =
     [LabelCacheKind, LabelRepo, LabelRepoURLDigest, LabelImageDigest, LabelGeneration, LabelPnpmMajor, LabelOSRelease]"

fun adopted_mismatch :: "string \<Rightarrow> labels \<Rightarrow> labels \<Rightarrow> string list \<Rightarrow> gerr option" where
  "adopted_mismatch name got want [] = None"
| "adopted_mismatch name got want (k # ks) =
     (if lget want k = '''' then adopted_mismatch name got want ks
      else if lget got k \<noteq> lget want k
      then Some (PlainErr (''cache volume '' @ quoted name @ '' already exists but its '' @ k @ ''='' @
             quoted (lget got k) @ '' does not match the expected '' @ quoted (lget want k) @
             ''; refusing to adopt a different cache under a colliding name''))
      else adopted_mismatch name got want ks)"

definition validate_adopted_cache_volume :: "string \<Rightarrow> labels \<Rightarrow> labels \<Rightarrow> gerr option" where
  "validate_adopted_cache_volume name got want =
     (if lget got LabelManaged \<noteq> ''true'' \<or> lget got LabelCache \<noteq> ''true''
      then Some (PlainErr (''cache volume '' @ quoted name @ '' already exists but is not a managed cache volume (managed='' @
             quoted (lget got LabelManaged) @ '' cache='' @ quoted (lget got LabelCache) @
             ''); refusing to adopt a foreign volume as a cache''))
      else adopted_mismatch name got want cache_identity_label_keys)"

definition required_cache_identity_keys :: "string \<Rightarrow> string list option" where
  "required_cache_identity_keys kind =
     (if kind = CacheKindToolcache then Some [LabelRepo, LabelRepoURLDigest, LabelGeneration]
      else if kind = CacheKindPnpm then Some [LabelRepo, LabelRepoURLDigest, LabelPnpmMajor]
      else if kind = CacheKindDiagLogs then Some [LabelRepo, LabelRepoURLDigest]
      else if kind = CacheKindExternals then Some [LabelImageDigest]
      else None)"

definition validate_cache_volume_kind :: "labels \<Rightarrow> gerr option" where
  "validate_cache_volume_kind l =
     (if lget l LabelManaged \<noteq> ''true'' \<or> lget l LabelCache \<noteq> ''true''
      then Some (PlainErr (''volume is not a managed cache volume (managed='' @ quoted (lget l LabelManaged) @
             '' cache='' @ quoted (lget l LabelCache) @ '')''))
      else (case required_cache_identity_keys (lget l LabelCacheKind) of
              None \<Rightarrow> Some (PlainErr (''cache volume has unknown or missing cache-kind '' @ quoted (lget l LabelCacheKind)))
            | Some required \<Rightarrow>
                map_option (\<lambda>k. PlainErr (''cache volume of kind '' @ quoted (lget l LabelCacheKind) @
                    '' is missing required identity label '' @ quoted k))
                  (find (\<lambda>k. lget l k = '''') required)))"

definition validate_diag_prune_target :: "labels \<Rightarrow> labels \<Rightarrow> string \<Rightarrow> gerr option" where
  "validate_diag_prune_target got snapshot controller =
     (case validate_cache_volume_kind got of
        Some e \<Rightarrow> Some (WrapErr ''diag prune target failed strict identity validation'' e)
      | None \<Rightarrow>
          if lget got LabelCacheKind \<noteq> CacheKindDiagLogs
          then Some (PlainErr (''diag prune target is cache-kind '' @ quoted (lget got LabelCacheKind) @ '', not '' @
                 quoted CacheKindDiagLogs))
          else if lget got LabelControllerID \<noteq> controller
          then Some (PlainErr (''diag prune target controller-id '' @ quoted (lget got LabelControllerID) @
                 '' is not this controller '' @ quoted controller))
          else
            map_option (\<lambda>k. PlainErr (''diag prune target '' @ k @ ''='' @ quoted (lget got k) @
                '' does not match the enumerated snapshot '' @ quoted (lget snapshot k) @
                '' (a same-name replacement since the snapshot)''))
              (find (\<lambda>k. lget got k \<noteq> lget snapshot k) [LabelRepo, LabelRepoURLDigest]))"

definition cache_identity_filter :: "labels \<Rightarrow> string list" where
  "cache_identity_filter want =
     [label_eq LabelManaged ''true'', label_eq LabelCache ''true''] @
     map (\<lambda>k. label_eq k (lget want k)) (filter (\<lambda>k. lget want k \<noteq> '''') cache_identity_label_keys)"

section \<open>Eviction\<close>

record cache_gc_config =
  gc_generation :: string
  gc_pnpm_major :: string
  gc_image_digest :: string
  gc_stale_days :: int
  gc_grace :: duration

definition pre_os_key_reason :: string where
  "pre_os_key_reason =
     ''superseded: created before toolcache/pnpm volumes were keyed on the OS release, no longer mounted''"

definition parse_last_used :: "labels \<Rightarrow> time option" where
  "parse_last_used l =
     (if lget l LabelLastUsed = '''' then None else map_option fst (parse_rfc3339 (lget l LabelLastUsed)))"

definition short_digest :: "string \<Rightarrow> string" where
  "short_digest d = (if length d > 12 then take 12 d else d)"

text \<open>The reason a volume is superseded, if it is. \<open>stale_after\<close> is the wrapped product of the code.\<close>

definition superseded :: "labels \<Rightarrow> cache_gc_config \<Rightarrow> string option" where
  "superseded l cfg =
     (if lget l LabelCacheKind = CacheKindToolcache then
        (if lget l LabelGeneration \<noteq> '''' \<and> lget l LabelGeneration \<noteq> gc_generation cfg
         then Some (''superseded toolcache generation '' @ lget l LabelGeneration @ '' (current '' @ gc_generation cfg @ '')'')
         else if lget l LabelOSRelease = '''' then Some pre_os_key_reason else None)
      else if lget l LabelCacheKind = CacheKindPnpm then
        (if lget l LabelPnpmMajor \<noteq> '''' \<and> lget l LabelPnpmMajor \<noteq> gc_pnpm_major cfg
         then Some (''superseded pnpm-major '' @ lget l LabelPnpmMajor @ '' (current '' @ gc_pnpm_major cfg @ '')'')
         else if lget l LabelOSRelease = '''' then Some pre_os_key_reason else None)
      else if lget l LabelCacheKind = CacheKindExternals then
        (if gc_image_digest cfg \<noteq> '''' \<and> lget l LabelImageDigest \<noteq> '''' \<and> lget l LabelImageDigest \<noteq> gc_image_digest cfg
         then Some (''superseded externals image-digest '' @ short_digest (lget l LabelImageDigest) @ '' (current '' @
                short_digest (gc_image_digest cfg) @ '')'')
         else None)
      else None)"

definition stale_after :: "int \<Rightarrow> duration" where
  "stale_after days = i64 (i64 (days * 24) * hour)"

definition evaluate_cache_eviction :: "labels \<Rightarrow> cache_gc_config \<Rightarrow> time \<Rightarrow> bool \<times> string" where
  "evaluate_cache_eviction l cfg now =
     (if lget l LabelCache \<noteq> ''true'' then (False, '''')
      else (case parse_last_used l of
              None \<Rightarrow> (False, '''')
            | Some created \<Rightarrow>
                (let age = time_sub now created
                 in case (if age \<ge> gc_grace cfg then superseded l cfg else None) of
                      Some reason \<Rightarrow> (True, reason)
                    | None \<Rightarrow>
                        if gc_stale_days cfg > 0 \<and> age \<ge> stale_after (gc_stale_days cfg)
                        then (True, ''aged out (created '' @ format_rfc3339 created @ '', stale after '' @
                               itoa (gc_stale_days cfg) @ ''d)'')
                        else (False, ''''))))"

section \<open>The OS key\<close>

text \<open>\<open>^[a-z0-9][a-z0-9._-]{0,63}$\<close>, the end being the end of the text.\<close>

definition os_release_pattern :: "string \<Rightarrow> bool" where
  "os_release_pattern s \<longleftrightarrow>
     s \<noteq> [] \<and> length s \<le> 64 \<and> slug_char (hd s) \<and>
     list_all (\<lambda>c. slug_char c \<or> c \<in> {CHR ''.'', CHR ''_'', CHR ''-''}) (tl s)"

definition image_os_key_prefix :: string where "image_os_key_prefix = ''image-''"
definition image_os_key_hash_len :: nat where "image_os_key_hash_len = 32"

definition is_lower_hex :: "string \<Rightarrow> bool" where
  "is_lower_hex s = list_all is_hex_char s"

definition runner_os_key :: "labels \<Rightarrow> string \<Rightarrow> string res" where
  "runner_os_key image_labels image_id =
     (case image_labels LabelOSRelease of
        Some v \<Rightarrow>
          if \<not> os_release_pattern v \<or> has_prefix v image_os_key_prefix
          then Inl (PlainErr (''runner image label '' @ LabelOSRelease @ ''='' @ quoted v @
                 '' is invalid: it must match ^[a-z0-9][a-z0-9._-]{0,63}$ and must not start with '' @
                 quoted image_os_key_prefix))
          else Inr v
      | None \<Rightarrow>
          (let hex_id = (case str_index image_id '':'' of None \<Rightarrow> image_id | Some i \<Rightarrow> drop (i + 1) image_id)
           in if length hex_id < image_os_key_hash_len \<or> \<not> is_lower_hex hex_id
              then Inl (PlainErr (''runner image has no '' @ LabelOSRelease @ '' label and its content ID '' @
                     quoted image_id @ '' is not a sha256 digest to derive an OS key from''))
              else Inr (image_os_key_prefix @ take image_os_key_hash_len hex_id)))"

section \<open>Stamps\<close>

definition stamp_hash_len :: nat where "stamp_hash_len = 16"
definition diag_prune_stamp_prefix :: string where "diag_prune_stamp_prefix = ''garm-diagprune-stamp-''"

definition diag_prune_stamp_name :: "string \<Rightarrow> string" where
  "diag_prune_stamp_name controller = diag_prune_stamp_prefix @ take stamp_hash_len (sha256_hex controller)"

definition StampOrphanSweep :: string where "StampOrphanSweep = ''sweep''"
definition StampCacheGC :: string where "StampCacheGC = ''cachegc''"

definition throttle_stamp_name :: "string \<Rightarrow> string \<Rightarrow> string" where
  "throttle_stamp_name controller pass =
     ''garm-'' @ pass @ ''-stamp-'' @ take stamp_hash_len (sha256_hex controller)"

section \<open>What the checks decide\<close>

lemma cache_keys_known: "k \<in> set cache_identity_label_keys \<Longrightarrow> k \<in> set all_label_keys"
  by (auto simp: cache_identity_label_keys_def)

definition same_identity :: "labels \<Rightarrow> labels \<Rightarrow> bool" where
  "same_identity got want \<longleftrightarrow> (\<forall>k\<in>set cache_identity_label_keys. lget want k \<noteq> '''' \<longrightarrow> lget got k = lget want k)"

definition managed_cache :: "labels \<Rightarrow> bool" where
  "managed_cache l \<longleftrightarrow> lget l LabelManaged = ''true'' \<and> lget l LabelCache = ''true''"

lemma adopted_mismatch_None:
  "adopted_mismatch name got want ks = None \<longleftrightarrow> (\<forall>k\<in>set ks. lget want k \<noteq> '''' \<longrightarrow> lget got k = lget want k)"
  by (induction ks) auto

lemma adopted_None:
  "validate_adopted_cache_volume name got want = None \<longleftrightarrow> managed_cache got \<and> same_identity got want"
  by (auto simp: validate_adopted_cache_volume_def adopted_mismatch_None managed_cache_def same_identity_def)

lemma lget_eq_Some: "v \<noteq> '''' \<Longrightarrow> lget l k = v \<longleftrightarrow> l k = Some v"
  by (auto simp: lget_def split: option.splits)

text \<open>The discovery filter selects exactly the volumes that may be adopted.\<close>

lemma identity_filter_iff:
  "list_all (match_term l) (cache_identity_filter want) \<longleftrightarrow> managed_cache l \<and> same_identity l want"
proof -
  have "list_all (match_term l) (map (\<lambda>k. label_eq k (lget want k)) (filter (\<lambda>k. lget want k \<noteq> '''') ks)) \<longleftrightarrow>
      (\<forall>k\<in>set ks. lget want k \<noteq> '''' \<longrightarrow> lget l k = lget want k)" if "set ks \<subseteq> set all_label_keys" for ks
    using that by (induction ks) (auto simp: lget_eq_Some)
  moreover have "set cache_identity_label_keys \<subseteq> set all_label_keys" using cache_keys_known by blast
  ultimately show ?thesis
    by (auto simp: cache_identity_filter_def managed_cache_def same_identity_def lget_eq_Some)
qed

lemma filter_adopts:
  "list_all (match_term l) (cache_identity_filter want) \<longleftrightarrow> validate_adopted_cache_volume name l want = None"
  by (simp only: identity_filter_iff adopted_None)

lemma same_identity_refl [simp]: "same_identity l l"
  by (simp add: same_identity_def)

lemma kind_None:
  "validate_cache_volume_kind l = None \<longleftrightarrow>
     managed_cache l \<and> (\<exists>ks. required_cache_identity_keys (lget l LabelCacheKind) = Some ks \<and> (\<forall>k\<in>set ks. lget l k \<noteq> ''''))"
  by (auto simp: validate_cache_volume_kind_def managed_cache_def find_None_iff split: option.splits)

lemma diag_target_None:
  "validate_diag_prune_target got snapshot cid = None \<longleftrightarrow>
     validate_cache_volume_kind got = None \<and> lget got LabelCacheKind = CacheKindDiagLogs \<and>
     lget got LabelControllerID = cid \<and> lget got LabelRepo = lget snapshot LabelRepo \<and>
     lget got LabelRepoURLDigest = lget snapshot LabelRepoURLDigest"
  by (auto simp: validate_diag_prune_target_def find_None_iff split: option.splits)

section \<open>The labels the provider writes\<close>

lemmas cache_label_defs = base_cache_labels_def add_os_key_def toolcache_labels_def pnpm_labels_def
  diag_labels_def externals_labels_def Let_def

lemma lget_add_os_key: "lget (add_os_key c l) k = (if k = LabelOSRelease \<and> ci_os_key c \<noteq> '''' then ci_os_key c else lget l k)"
  by (simp add: add_os_key_def)

lemma lget_base_cache [simp]:
  "lget (base_cache_labels c kind t) LabelManaged = ''true''" "lget (base_cache_labels c kind t) LabelCache = ''true''"
  "lget (base_cache_labels c kind t) LabelCacheKind = kind" "lget (base_cache_labels c kind t) LabelRepo = ci_repo_key c"
  "lget (base_cache_labels c kind t) LabelRepoURLDigest = ci_repo_url_digest c"
  "lget (base_cache_labels c kind t) LabelControllerID = ci_controller c"
  "lget (base_cache_labels c kind t) LabelLastUsed = format_rfc3339 t"
  "lget (base_cache_labels c kind t) LabelOSRelease = ''''"
  by (simp_all add: base_cache_labels_def Let_def)

lemma lget_built [simp]:
  "lget (toolcache_labels c g t) LabelCacheKind = CacheKindToolcache" "lget (toolcache_labels c g t) LabelGeneration = g"
  "lget (toolcache_labels c g t) LabelOSRelease = ci_os_key c" "lget (toolcache_labels c g t) LabelCache = ''true''"
  "lget (toolcache_labels c g t) LabelLastUsed = format_rfc3339 t"
  "lget (pnpm_labels c g t) LabelCacheKind = CacheKindPnpm" "lget (pnpm_labels c g t) LabelPnpmMajor = g"
  "lget (pnpm_labels c g t) LabelOSRelease = ci_os_key c" "lget (pnpm_labels c g t) LabelCache = ''true''"
  "lget (pnpm_labels c g t) LabelLastUsed = format_rfc3339 t"
  "lget (diag_labels c t) LabelCacheKind = CacheKindDiagLogs" "lget (diag_labels c t) LabelCache = ''true''"
  "lget (diag_labels c t) LabelLastUsed = format_rfc3339 t"
  "lget (externals_labels i d t) LabelCacheKind = CacheKindExternals" "lget (externals_labels i d t) LabelImageDigest = d"
  "lget (externals_labels i d t) LabelCache = ''true''" "lget (externals_labels i d t) LabelLastUsed = format_rfc3339 t"
  by (auto simp: toolcache_labels_def pnpm_labels_def diag_labels_def externals_labels_def lget_add_os_key)

definition provider_cache_labels :: "labels \<Rightarrow> bool" where
  "provider_cache_labels l \<longleftrightarrow>
     (\<exists>c g t. l = toolcache_labels c g t) \<or> (\<exists>c m t. l = pnpm_labels c m t) \<or>
     (\<exists>c t. l = diag_labels c t) \<or> (\<exists>cid d t. l = externals_labels cid d t)"

lemma provider_cache_labelsI [simp]:
  "provider_cache_labels (toolcache_labels c g t)" "provider_cache_labels (pnpm_labels c g t)"
  "provider_cache_labels (diag_labels c t)" "provider_cache_labels (externals_labels i d t)"
  unfolding provider_cache_labels_def by blast+

lemma provider_cache_labels_managed: "provider_cache_labels l \<Longrightarrow> managed_cache l \<and> l LabelInstanceName = None"
  by (auto simp: provider_cache_labels_def cache_label_defs managed_cache_def lget_def)

lemma provider_cache_labels_kept: "provider_cache_labels l \<Longrightarrow> \<not> matches_predicate l cid"
  using provider_cache_labels_managed by (auto simp: matches_predicate_iff managed_cache_def lget_def)

text \<open>A writable cache is adopted only by the allocations with the same identity.\<close>

lemma toolcache_adopts:
  assumes "validate_adopted_cache_volume n (toolcache_labels c g t) (toolcache_labels d h u) = None"
  shows "(ci_repo_key d \<noteq> '''' \<longrightarrow> ci_repo_key c = ci_repo_key d) \<and>
    (ci_repo_url_digest d \<noteq> '''' \<longrightarrow> ci_repo_url_digest c = ci_repo_url_digest d) \<and>
    (h \<noteq> '''' \<longrightarrow> g = h) \<and> (ci_os_key d \<noteq> '''' \<longrightarrow> ci_os_key c = ci_os_key d)"
  using assms unfolding adopted_None same_identity_def
  by (auto simp: cache_identity_label_keys_def cache_label_defs split: if_splits)

section \<open>Keys and names\<close>

lemma slug_runs_chars: "list_all (\<lambda>c. slug_char c \<or> c = CHR ''-'') (slug_runs b s)"
  by (induction b s rule: slug_runs.induct) auto

lemma set_trim_by: "set (trim_by P s) \<subseteq> set s"
  by (auto simp: trim_by_def trim_left_by_def trim_right_by_def dest!: set_dropWhileD)

lemma slugify_chars: "list_all (\<lambda>c. slug_char c \<or> c = CHR ''-'') (slugify s)"
proof -
  have "set (slugify s) \<subseteq> set (slug_runs False s)"
    unfolding slugify_def Let_def using set_trim_by set_take_subset by (smt (verit) subset_trans)
  then show ?thesis using slug_runs_chars [of False s] by (auto simp: list_all_iff)
qed

lemma length_trim_by: "length (trim_by P s) \<le> length s"
  unfolding trim_by_def trim_left_by_def trim_right_by_def
  by (metis length_dropWhile_le length_rev order_trans)

lemma length_slugify: "length (slugify s) \<le> repo_slug_max_len"
  unfolding slugify_def Let_def using length_trim_by [of _ "take repo_slug_max_len (trim_by (\<lambda>c. c = CHR ''-'') (slug_runs False s))"]
  by (auto intro: order_trans)

lemma hex_name_char: "is_hex_char c \<Longrightarrow> docker_name_char c"
  by (auto simp: is_hex_char_def docker_name_char_def is_alnum_def is_lower_ascii_def)

lemma slug_name_char: "slug_char c \<or> c = CHR ''-'' \<Longrightarrow> docker_name_char c"
  by (auto simp: slug_char_def docker_name_char_def is_alnum_def)

lemma take_sha_name_chars: "list_all docker_name_char (take n (sha256_hex s))"
  using sha256_hex_chars [of s] by (auto simp: list_all_iff intro: hex_name_char dest: in_set_takeD)

lemma repo_key_chars: "list_all docker_name_char (repo_key u)"
  unfolding repo_key_def Let_def repo_slug_def
  using slugify_chars take_sha_name_chars slug_name_char
  by (auto simp: list_all_iff docker_name_char_def [of "CHR ''-''"])

lemma length_repo_key: "32 \<le> length (repo_key u)" "length (repo_key u) \<le> 73"
  unfolding repo_key_def Let_def repo_slug_def repo_key_hash_len_def
  using length_slugify by (auto simp: repo_slug_max_len_def)

lemma os_release_chars: "os_release_pattern v \<Longrightarrow> list_all docker_name_char v"
  by (cases v) (auto simp: os_release_pattern_def list_all_iff docker_name_char_def slug_char_def is_alnum_def)

text \<open>An OS key is short and name-safe, and a key read off a label is never a key derived from an image.\<close>

lemma runner_os_key_ok:
  assumes "runner_os_key l i = Inr k"
  shows "list_all docker_name_char k" "k \<noteq> ''''" "length k \<le> 64" "has_prefix k image_os_key_prefix \<longleftrightarrow> l LabelOSRelease = None"
proof -
  have "list_all docker_name_char image_os_key_prefix" by code_simp
  then have hex: "list_all is_hex_char s \<Longrightarrow> list_all docker_name_char (image_os_key_prefix @ take n s)" for n s
    by (auto simp: list_all_iff intro: hex_name_char dest: in_set_takeD)
  have len: "length image_os_key_prefix = 6" by (simp add: image_os_key_prefix_def)
  have "list_all docker_name_char k \<and> k \<noteq> '''' \<and> length k \<le> 64 \<and>
      (has_prefix k image_os_key_prefix \<longleftrightarrow> l LabelOSRelease = None)"
  proof (cases "l LabelOSRelease")
    case (Some v)
    then have "k = v" "os_release_pattern v" "\<not> has_prefix v image_os_key_prefix"
      using assms by (simp_all add: runner_os_key_def split: if_splits)
    then show ?thesis
      using Some os_release_chars by (simp add: os_release_pattern_def)
  next
    case None
    define h where "h = (case str_index i '':'' of None \<Rightarrow> i | Some n \<Rightarrow> drop (n + 1) i)"
    have "k = image_os_key_prefix @ take 32 h" "list_all is_hex_char h"
      using assms None unfolding runner_os_key_def h_def [symmetric]
      by (simp_all add: Let_def image_os_key_hash_len_def is_lower_hex_def split: if_splits)
    then show ?thesis
      using None hex [of h 32] len by auto
  qed
  then show "list_all docker_name_char k" "k \<noteq> ''''" "length k \<le> 64" "has_prefix k image_os_key_prefix \<longleftrightarrow> l LabelOSRelease = None"
    by blast+
qed

lemma has_prefix_single: "has_prefix (x # s) [c] \<longleftrightarrow> x = c"
  by (simp add: has_prefix_def)

lemma runner_os_key_total:
  assumes "l LabelOSRelease = None" "list_all is_hex_char h" "32 \<le> length h"
  shows "runner_os_key l (''sha256:'' @ h) = Inr (''image-'' @ take 32 h)"
  using assms by (simp add: runner_os_key_def is_lower_hex_def has_prefix_single image_os_key_prefix_def image_os_key_hash_len_def)

section \<open>When a volume is reported stale\<close>

lemma stale_after_exact: "0 \<le> days \<Longrightarrow> days \<le> 106751 \<Longrightarrow> stale_after days = days * 24 * hour"
  by (simp add: stale_after_def i64_id hour_def minute_def second_def)

lemma parse_last_used_label:
  assumes "lget l LabelLastUsed = format_rfc3339 t" "civil_from_days (t div second div 86400) = (y, m, d)" "0 \<le> y" "y \<le> 9999"
  shows "parse_last_used l = Some (t div second * second)"
proof -
  have p: "parse_rfc3339 (format_rfc3339 t) = Some (t div second * second, 0)" by (rule rfc3339_round_trip [OF assms(2-4)])
  then have "format_rfc3339 t \<noteq> ''''" by (auto simp: parse_rfc3339_def get_year_def)
  then show ?thesis using p assms(1) by (simp add: parse_last_used_def)
qed

text \<open>A volume labelled as the present configuration labels it is reported for its age only.\<close>

definition current_labels :: "cache_gc_config \<Rightarrow> labels \<Rightarrow> time \<Rightarrow> bool" where
  "current_labels cfg l t \<longleftrightarrow>
     (\<exists>c. l = toolcache_labels c (gc_generation cfg) t \<and> ci_os_key c \<noteq> '''') \<or>
     (\<exists>c. l = pnpm_labels c (gc_pnpm_major cfg) t \<and> ci_os_key c \<noteq> '''') \<or>
     (\<exists>c. l = diag_labels c t) \<or> (\<exists>cid. l = externals_labels cid (gc_image_digest cfg) t)"

lemma current_not_superseded: "current_labels cfg l t \<Longrightarrow> superseded l cfg = None"
  unfolding current_labels_def superseded_def by (elim disjE exE conjE) (simp_all add: cache_kinds)

lemma current_last_used: "current_labels cfg l t \<Longrightarrow> lget l LabelLastUsed = format_rfc3339 t \<and> lget l LabelCache = ''true''"
  unfolding current_labels_def by (elim disjE exE conjE) simp_all

lemma current_eviction:
  assumes "current_labels cfg l t" "civil_from_days (t div second div 86400) = (y, m, d)" "0 \<le> y" "y \<le> 9999"
    and "gc_stale_days cfg \<le> 106751"
  shows "fst (evaluate_cache_eviction l cfg now) \<longleftrightarrow>
    0 < gc_stale_days cfg \<and> gc_stale_days cfg * 24 * hour \<le> time_sub now (t div second * second)"
proof -
  have p: "parse_last_used l = Some (t div second * second)" "lget l LabelCache = ''true''"
    using parse_last_used_label [OF _ assms(2-4)] current_last_used [OF assms(1)] by simp_all
  show ?thesis
  proof (cases "0 < gc_stale_days cfg")
    case True
    then show ?thesis
      using p stale_after_exact [of "gc_stale_days cfg"] assms(5)
      by (simp add: evaluate_cache_eviction_def Let_def current_not_superseded [OF assms(1)])
  next
    case False
    then show ?thesis
      using p by (simp add: evaluate_cache_eviction_def Let_def current_not_superseded [OF assms(1)])
  qed
qed

text \<open>Past 106751 days the product wraps, and a volume created this instant counts as aged out.\<close>

lemma stale_after_wraps: "stale_after 106752 < - hour"
  by (simp add: stale_after_def i64_def hour_def minute_def second_def)

end
