(* ===== verification/Topology_Cache.thy ===== *)
theory Topology_Cache
  imports Topology_Teardown Cache_Spec "HOL-Library.Char_ord" "HOL-Library.List_Lexorder"
begin

text \<open>
  Cache volumes on the daemon, from \<open>internal/topology/cache.go\<close> and \<open>gc.go\<close>: discovery by
  identity, the reconcile loop over at most eight slots, and the three listings of the garbage
  collector. Strings are ordered bytewise, as Go orders them.
\<close>

section \<open>The code\<close>

record cache_volume_result =
  cv_name :: string
  cv_hit :: bool

definition max_cache_reconcile_attempts :: nat where "max_cache_reconcile_attempts = 8"

fun best_adoptable :: "labels \<Rightarrow> volume list \<Rightarrow> string \<Rightarrow> string" where
  "best_adoptable want [] best = best"
| "best_adoptable want (v # vs) best =
     (if validate_adopted_cache_volume (vol_name v) (vol_labels v) want \<noteq> None then best_adoptable want vs best
      else if best = '''' \<or> vol_name v < best then best_adoptable want vs (vol_name v)
      else best_adoptable want vs best)"

definition discover_cache_by_identity :: "'s manager \<Rightarrow> labels \<Rightarrow> ('s, (string \<times> bool) res) state" where
  "discover_cache_by_identity m want = do {
     r \<leftarrow> volume_list (m_cli m) (cache_identity_filter want);
     ret (case r of
            Inl e \<Rightarrow> Inl (WrapErr ''failed to discover cache volume by identity'' e)
          | Inr vols \<Rightarrow>
              (let best = best_adoptable want (List.map_filter id vols) '''' in Inr (best, best \<noteq> '''')))
   }"

definition slot_occupied_log :: "string \<Rightarrow> gerr \<Rightarrow> log_line" where
  "slot_occupied_log candidate verr =
     \<lparr>ll_level = Warn,
      ll_msg = ''cache slot occupied by a volume that is not our validated cache; reconciling to an alternate name'',
      ll_attrs = [(''resource'', AStr ''cache-volume''), (''volume'', AStr candidate), (''error'', AStr (err_text verr))]\<rparr>"

function reconcile_cache_slot ::
  "'s manager \<Rightarrow> string \<Rightarrow> labels \<Rightarrow> string \<Rightarrow> nat \<Rightarrow> ('s, cache_volume_result res \<times> log_line list) state" where
  "reconcile_cache_slot m preferred l candidate attempt = do {
     r \<leftarrow> volume_create (m_cli m) candidate l;
     case r of
       Inl e \<Rightarrow> ret (Inl (WrapErr (''failed to ensure cache volume '' @ quoted candidate) e), [])
     | Inr created \<Rightarrow>
         (case validate_adopted_cache_volume candidate (vol_labels created) l of
            None \<Rightarrow> ret (Inr \<lparr>cv_name = candidate, cv_hit = False\<rparr>, [])
          | Some verr \<Rightarrow>
              if attempt \<ge> max_cache_reconcile_attempts
              then ret (Inl (WrapErr (''cache slot '' @ quoted preferred @ '' and '' @ nat_str (attempt - 1) @
                     '' deterministic alternates are each occupied by a volume that is not our validated cache; refusing to delete any of them (ADR-003: a volume that cannot be proved ours is never deleted) and failing this allocation so GARM retries'') verr), [])
              else
                (let next_name = alternate_cache_volume_name preferred attempt
                 in case validate_derived_name ''reconciled cache volume'' next_name of
                      Some e \<Rightarrow> ret (Inl (WrapErr (''cache reconcile for '' @ quoted preferred @
                          '' could not derive a valid alternate name'') e), [slot_occupied_log candidate verr])
                    | None \<Rightarrow> do {
                        (res, logs) \<leftarrow> reconcile_cache_slot m preferred l next_name (attempt + 1);
                        ret (res, slot_occupied_log candidate verr # logs)
                      }))
   }"
  by pat_completeness auto
termination
  by (relation "measure (\<lambda>(m, preferred, l, candidate, attempt). max_cache_reconcile_attempts - attempt)") auto

declare reconcile_cache_slot.simps [simp del]

definition ensure_cache_volume ::
  "'s manager \<Rightarrow> string \<Rightarrow> labels \<Rightarrow> ('s, cache_volume_result res \<times> log_line list) state" where
  "ensure_cache_volume m preferred l = do {
     r \<leftarrow> discover_cache_by_identity m l;
     case r of
       Inl e \<Rightarrow> ret (Inl e, [])
     | Inr (name, found) \<Rightarrow>
         if found then ret (Inr \<lparr>cv_name = name, cv_hit = True\<rparr>, [])
         else reconcile_cache_slot m preferred l preferred 1
   }"

definition cache_volume_filter :: "'s manager \<Rightarrow> string list" where
  "cache_volume_filter m =
     [label_eq LabelManaged ''true'', label_eq LabelControllerID (m_controller m), label_eq LabelCache ''true'']"

definition stale_entry ::
  "'s manager \<Rightarrow> (labels \<Rightarrow> bool \<times> string) \<Rightarrow> volume \<Rightarrow> (string \<times> string) option" where
  "stale_entry m decide v =
     (if lget (vol_labels v) LabelControllerID \<noteq> m_controller m then None
      else if validate_cache_volume_kind (vol_labels v) \<noteq> None then None
      else (case decide (vol_labels v) of (evict, reason) \<Rightarrow> if \<not> evict then None else Some (vol_name v, reason)))"

definition list_stale_caches ::
  "'s manager \<Rightarrow> (labels \<Rightarrow> bool \<times> string) \<Rightarrow> ('s, (string \<times> string) list res) state" where
  "list_stale_caches m decide = do {
     r \<leftarrow> volume_list (m_cli m) (cache_volume_filter m);
     ret (case r of
            Inl e \<Rightarrow> Inl (WrapErr ''cache GC: failed to list cache volumes'' e)
          | Inr vols \<Rightarrow>
              Inr (List.map_filter
                (stale_entry m decide)
                (List.map_filter id vols)))
   }"

record diag_volume_ref =
  dv_name :: string
  dv_labels :: labels

definition list_diag_volumes :: "'s manager \<Rightarrow> ('s, diag_volume_ref list res) state" where
  "list_diag_volumes m = do {
     r \<leftarrow> volume_list (m_cli m) (cache_volume_filter m @ [label_eq LabelCacheKind CacheKindDiagLogs]);
     ret (case r of
            Inl e \<Rightarrow> Inl (WrapErr ''cache GC: failed to list diag volumes'' e)
          | Inr vols \<Rightarrow>
              Inr (List.map_filter
                (\<lambda>v. if lget (vol_labels v) LabelCacheKind \<noteq> CacheKindDiagLogs \<or>
                        lget (vol_labels v) LabelControllerID \<noteq> m_controller m then None
                     else if validate_cache_volume_kind (vol_labels v) \<noteq> None then None
                     else Some \<lparr>dv_name = vol_name v, dv_labels = vol_labels v\<rparr>)
                (List.map_filter id vols)))
   }"

definition list_unprovable_cache_cruft :: "'s manager \<Rightarrow> ('s, string list res) state" where
  "list_unprovable_cache_cruft m = do {
     r \<leftarrow> volume_list (m_cli m) [];
     ret (case r of
            Inl e \<Rightarrow> Inl (WrapErr ''cache GC: failed to list volumes for cruft visibility'' e)
          | Inr vols \<Rightarrow>
              Inr (map vol_name (filter (\<lambda>v. has_cache_volume_name_prefix (vol_name v) \<and>
                     lget (vol_labels v) LabelCache \<noteq> ''true'') (List.map_filter id vols))))
   }"

section \<open>Discovery\<close>

definition adoptable_names :: "labels \<Rightarrow> volume list \<Rightarrow> string set" where
  "adoptable_names want vs =
     vol_name ` {v \<in> set vs. validate_adopted_cache_volume (vol_name v) (vol_labels v) want = None}"

lemma best_adoptable_Min:
  assumes "\<forall>v\<in>set vs. vol_name v \<noteq> ''''" "best \<noteq> ''''"
  shows "best_adoptable want vs best = Min (insert best (adoptable_names want vs))"
  using assms
proof (induction vs arbitrary: best)
  case Nil
  then show ?case by (simp add: adoptable_names_def)
next
  case (Cons v vs)
  let ?A = "adoptable_names want vs"
  have fin: "finite ?A" by (simp add: adoptable_names_def)
  show ?case
  proof (cases "validate_adopted_cache_volume (vol_name v) (vol_labels v) want = None")
    case False
    then have "adoptable_names want (v # vs) = ?A" by (auto simp: adoptable_names_def)
    then show ?thesis using Cons False by simp
  next
    case True
    have A: "adoptable_names want (v # vs) = insert (vol_name v) ?A" using True by (auto simp: adoptable_names_def)
    have sw: "insert best (insert (vol_name v) ?A) = insert (min best (vol_name v)) (insert (max best (vol_name v)) ?A)"
      by (auto simp: min_def max_def)
    have "best_adoptable want (v # vs) best = Min (insert (min best (vol_name v)) ?A)"
      using True Cons.IH [of best] Cons.IH [of "vol_name v"] Cons.prems by (auto simp: min_def)
    also have "\<dots> = Min (insert best (insert (vol_name v) ?A))"
    proof (cases "?A = {}")
      case False
      then show ?thesis using fin by (simp add: min.assoc)
    qed simp
    finally show ?thesis by (simp only: A)
  qed
qed

lemma best_adoptable_first:
  "best_adoptable want vs '''' =
     (case filter (\<lambda>v. validate_adopted_cache_volume (vol_name v) (vol_labels v) want = None) vs of
        [] \<Rightarrow> '''' | v # ws \<Rightarrow> best_adoptable want ws (vol_name v))"
  if "\<forall>v\<in>set vs. vol_name v \<noteq> ''''"
proof -
  have skip: "best_adoptable want vs b = best_adoptable want (filter (\<lambda>v. validate_adopted_cache_volume (vol_name v) (vol_labels v) want = None) vs) b" for b vs
    by (induction vs arbitrary: b) auto
  show ?thesis
    by (subst skip) (cases "filter (\<lambda>v. validate_adopted_cache_volume (vol_name v) (vol_labels v) want = None) vs";
        use filter_eq_ConsD in fastforce)
qed

lemma best_adoptable_none:
  "best_adoptable want vs '''' = (if adoptable_names want vs = {} then '''' else Min (adoptable_names want vs))"
  if ne: "\<forall>v\<in>set vs. vol_name v \<noteq> ''''"
proof (cases "filter (\<lambda>v. validate_adopted_cache_volume (vol_name v) (vol_labels v) want = None) vs")
  case Nil
  then have "adoptable_names want vs = {}" by (auto simp: adoptable_names_def filter_empty_conv)
  then show ?thesis using best_adoptable_first [OF ne] Nil by simp
next
  case (Cons v ws)
  have sub: "set (v # ws) = {v \<in> set vs. validate_adopted_cache_volume (vol_name v) (vol_labels v) want = None}"
    using arg_cong [OF Cons, of set] by auto
  have "\<forall>w\<in>set ws. vol_name w \<noteq> ''''" "vol_name v \<noteq> ''''" using sub ne by auto
  moreover have "insert (vol_name v) (adoptable_names want ws) = adoptable_names want vs"
    using sub by (auto simp: adoptable_names_def)
  ultimately show ?thesis using best_adoptable_first [OF ne] Cons by (auto simp: best_adoptable_Min)
qed

lemma best_adoptable_in:
  "best_adoptable want vs best = best \<or> best_adoptable want vs best \<in> adoptable_names want vs"
  by (induction vs arbitrary: best) (fastforce simp: adoptable_names_def)+

text \<open>The volumes of a store that carry an identity, by name.\<close>

definition identity_volumes :: "labels \<Rightarrow> store \<Rightarrow> string set" where
  "identity_volumes want v = {n. \<exists>m l. v (Vol n) = Some (m, l) \<and> managed_cache l \<and> same_identity l want}"

lemma listed_identity_volumes:
  assumes "lists_matching Vol vol_name vol_labels (cache_identity_filter want) v vs"
  shows "adoptable_names want vs = identity_volumes want v"
proof (intro set_eqI iffI)
  fix n
  assume "n \<in> adoptable_names want vs"
  then obtain x where "x \<in> set vs" "vol_name x = n" "validate_adopted_cache_volume n (vol_labels x) want = None"
    by (auto simp: adoptable_names_def)
  then show "n \<in> identity_volumes want v"
    using lists_matchingD [OF assms, of x] by (auto simp: identity_volumes_def labels_of_def adopted_None)
next
  fix n
  assume "n \<in> identity_volumes want v"
  then obtain m l where l: "v (Vol n) = Some (m, l)" "managed_cache l" "same_identity l want"
    by (auto simp: identity_volumes_def)
  then have "labels_of v (Vol n) = Some l" "list_all (match_term l) (cache_identity_filter want)"
    by (simp_all add: labels_of_def identity_filter_iff)
  from lists_matchingE [OF assms this] obtain x where "x \<in> set vs" "vol_name x = n" "vol_labels x = l" .
  then show "n \<in> adoptable_names want vs" using l by (auto simp: adoptable_names_def adopted_None)
qed

section \<open>The reconcile loop\<close>

text \<open>What ensuring a cache may do to a store: add one volume with exactly the labels asked for.\<close>

definition adds_volume :: "labels \<Rightarrow> store \<Rightarrow> store \<Rightarrow> bool" where
  "adds_volume l v w \<longleftrightarrow> w = v \<or> (\<exists>n. v (Vol n) = None \<and> w = v(Vol n \<mapsto> (n, l)))"

lemma adds_volume_refl [simp]: "adds_volume l v v"
  by (simp add: adds_volume_def)

lemma adds_volume_upd: "v (Vol n) = None \<Longrightarrow> adds_volume l v (v(Vol n \<mapsto> (n, l)))"
  by (auto simp: adds_volume_def)

lemma adds_volume_kept: "adds_volume l v w \<Longrightarrow> v r = Some x \<Longrightarrow> w r = Some x"
  by (auto simp: adds_volume_def)

lemma alternate_nonempty [simp]: "alternate_cache_volume_name p a \<noteq> ''''"
  by (simp add: alternate_cache_volume_name_def)

context docker_store begin

lemma run_reconcile:
  assumes m: "m_cli m = c" and l: "managed_cache l"
  shows "inv s \<Longrightarrow> candidate \<noteq> '''' \<Longrightarrow>
    run_state (reconcile_cache_slot m preferred l candidate attempt) s = ((res, logs), s') \<Longrightarrow>
    inv s' \<and> adds_volume l (view s) (view s') \<and> length logs \<le> max_cache_reconcile_attempts - attempt \<and>
    (\<forall>cv. res = Inr cv \<longrightarrow> cv_name cv \<in> identity_volumes l (view s') \<and> \<not> cv_hit cv)"
  using m l
proof (induction m preferred l candidate attempt arbitrary: s res logs s' rule: reconcile_cache_slot.induct)
  case (1 m preferred l candidate attempt)
  obtain r s1 where r: "run_state (volume_create c candidate l) s = (r, s1)" by fastforce
  note v1 = vol_create [OF "1.prems"(1,2) r]
  have add1: "adds_volume l (view s) (view s1)"
    using v1 by (cases r) (auto simp: adds_volume_upd split: option.splits prod.splits)
  note run = subst [OF reconcile_cache_slot.simps, where P = "\<lambda>x. run_state x s = ((res, logs), s')", OF "1.prems"(3)]
  show ?case
  proof (cases r)
    case (Inl e)
    then show ?thesis using run r v1 add1 "1.prems"(4) by auto
  next
    case (Inr created)
    have lab: "\<exists>n. view s1 (Vol candidate) = Some (n, vol_labels created)"
      using v1 Inr by (auto split: option.splits)
    show ?thesis
    proof (cases "validate_adopted_cache_volume candidate (vol_labels created) l")
      case None
      then have "candidate \<in> identity_volumes l (view s1)"
        using lab by (auto simp: identity_volumes_def adopted_None)
      then show ?thesis using run r v1 add1 Inr None "1.prems"(4) by auto
    next
      case (Some verr)
      have same: "view s1 = view s"
        using v1 Inr Some "1.prems"(5) adopted_None [of candidate l l] by (auto split: option.splits)
      let ?next = "alternate_cache_volume_name preferred attempt"
      show ?thesis
      proof (cases "attempt \<ge> max_cache_reconcile_attempts \<or> validate_derived_name ''reconciled cache volume'' ?next \<noteq> None")
        case True
        then show ?thesis using run r v1 add1 Inr Some "1.prems"(4) by (auto split: if_splits)
      next
        case False
        then obtain res' logs' where r2: "run_state (reconcile_cache_slot m preferred l ?next (attempt + 1)) s1 = ((res', logs'), s')"
          and out: "res = res'" "logs = slot_occupied_log candidate verr # logs'"
          using run r Inr Some "1.prems"(4) by (auto split: prod.splits)
        from "1.IH" [OF Some _ refl _ v1 [THEN conjunct1] alternate_nonempty r2 "1.prems"(4,5)] False
        show ?thesis using same out by auto
      qed
    qed
  qed
qed

lemma run_ensure_cache_volume:
  assumes m: "m_cli m = c" and l: "managed_cache l" and s: "inv s" and p: "preferred \<noteq> ''''"
    and run: "run_state (ensure_cache_volume m preferred l) s = ((res, logs), s')"
  shows "inv s' \<and> adds_volume l (view s) (view s') \<and> length logs < max_cache_reconcile_attempts \<and>
    (\<forall>cv. res = Inr cv \<longrightarrow> cv_name cv \<in> identity_volumes l (view s') \<and> (cv_hit cv \<longrightarrow> view s' = view s))"
proof -
  obtain rl s1 where rl: "run_state (volume_list c (cache_identity_filter l)) s = (rl, s1)" by fastforce
  note v1 = vol_list [OF s rl]
  show ?thesis
  proof (cases rl)
    case (Inl e)
    then show ?thesis using run rl v1 m
      by (auto simp: ensure_cache_volume_def discover_cache_by_identity_def max_cache_reconcile_attempts_def)
  next
    case (Inr vols)
    define best where "best = best_adoptable l (List.map_filter id vols) ''''"
    have names: "adoptable_names l (List.map_filter id vols) = identity_volumes l (view s)"
      using v1 Inr by (simp add: listed_identity_volumes)
    show ?thesis
    proof (cases "best = ''''")
      case True
      then have "run_state (reconcile_cache_slot m preferred l preferred 1) s1 = ((res, logs), s')"
        using run rl m Inr by (simp add: ensure_cache_volume_def discover_cache_by_identity_def best_def)
      from run_reconcile [OF m l _ p this] v1 show ?thesis by (auto simp: max_cache_reconcile_attempts_def)
    next
      case False
      then have "res = Inr \<lparr>cv_name = best, cv_hit = True\<rparr>" "logs = []" "s' = s1"
        using run rl m Inr by (simp_all add: ensure_cache_volume_def discover_cache_by_identity_def best_def)
      moreover have "best \<in> adoptable_names l (List.map_filter id vols)"
        using best_adoptable_in False unfolding best_def by blast
      ultimately show ?thesis using v1 names by (auto simp: max_cache_reconcile_attempts_def)
    qed
  qed
qed

text \<open>Every allocation that discovers a cache picks the same volume, whatever order the daemon lists.\<close>

lemma run_discover:
  assumes m: "m_cli m = c" and s: "inv s"
    and named: "\<And>n l. view s (Vol '''') \<noteq> Some (n, l)"
    and run: "run_state (discover_cache_by_identity m want) s = (Inr r, s')"
  shows "r = (if identity_volumes want (view s) = {} then ('''', False) else (Min (identity_volumes want (view s)), True))"
proof -
  obtain rl s1 where rl: "run_state (volume_list c (cache_identity_filter want)) s = (rl, s1)" by fastforce
  note v1 = vol_list [OF s rl]
  obtain vols where vols: "rl = Inr vols" "r = (let b = best_adoptable want (List.map_filter id vols) '''' in (b, b \<noteq> ''''))"
    using run rl m by (cases rl) (auto simp: discover_cache_by_identity_def Let_def)
  let ?vs = "List.map_filter id vols"
  have lm: "lists_matching Vol vol_name vol_labels (cache_identity_filter want) (view s) ?vs" using v1 vols by simp
  have A: "adoptable_names want ?vs = identity_volumes want (view s)" by (rule listed_identity_volumes [OF lm])
  have "\<forall>v\<in>set ?vs. vol_name v \<noteq> ''''"
  proof
    fix v
    assume "v \<in> set ?vs"
    then have "labels_of (view s) (Vol (vol_name v)) = Some (vol_labels v)" using lists_matchingD [OF lm] by blast
    moreover have "labels_of (view s) (Vol '''') = None"
      using named by (cases "view s (Vol '''')") (auto simp: labels_of_def)
    ultimately show "vol_name v \<noteq> ''''" by (metis option.distinct(1))
  qed
  from best_adoptable_none [OF this] have b: "best_adoptable want ?vs '''' =
      (if identity_volumes want (view s) = {} then '''' else Min (identity_volumes want (view s)))" by (simp add: A)
  have ne: "'''' \<notin> identity_volumes want (view s)" using named by (auto simp: identity_volumes_def)
  have "Min (identity_volumes want (view s)) \<noteq> ''''" if "identity_volumes want (view s) \<noteq> {}"
  proof -
    have "finite (identity_volumes want (view s))" unfolding A [symmetric] by (simp add: adoptable_names_def)
    from Min_in [OF this that] show ?thesis using ne by metis
  qed
  then show ?thesis using b vols(2) by (auto simp: Let_def)
qed

end

section \<open>The listings\<close>

lemma in_map_filter: "y \<in> set (List.map_filter f xs) \<longleftrightarrow> (\<exists>x\<in>set xs. f x = Some y)"
  by (force simp: List.map_filter_def)

lemma stale_entry_Some:
  "stale_entry m decide v = Some (n, reason) \<longleftrightarrow>
     vol_name v = n \<and> lget (vol_labels v) LabelControllerID = m_controller m \<and>
     validate_cache_volume_kind (vol_labels v) = None \<and> decide (vol_labels v) = (True, reason)"
  by (cases "decide (vol_labels v)") (auto simp: stale_entry_def)

context docker_store begin

text \<open>What is listed is there, and carries this controller's ID and its kind's whole identity.\<close>

lemma run_list_stale:
  assumes m: "m_cli m = c" and cid: "m_controller m \<noteq> ''''" and s: "inv s" and run: "run_state (list_stale_caches m decide) s = (Inr xs, s')"
  shows "inv s' \<and> view s' = view s \<and>
    (\<forall>n reason. (n, reason) \<in> set xs \<longleftrightarrow>
       (\<exists>nm l. view s (Vol n) = Some (nm, l) \<and> l LabelControllerID = Some (m_controller m) \<and>
          validate_cache_volume_kind l = None \<and> decide l = (True, reason)))"
proof -
  obtain rl s1 where rl: "run_state (volume_list c (cache_volume_filter m)) s = (rl, s1)" by fastforce
  note v1 = vol_list [OF s rl]
  obtain vols where vols: "rl = Inr vols" "s' = s1"
    and xs: "xs = List.map_filter (stale_entry m decide)
                (List.map_filter id vols)"
    using run rl m by (cases rl) (auto simp: list_stale_caches_def)
  let ?vs = "List.map_filter id vols"
  have lm: "lists_matching Vol vol_name vol_labels (cache_volume_filter m) (view s) ?vs" using v1 vols by simp
  have "(n, reason) \<in> set xs \<longleftrightarrow>
       (\<exists>nm l. view s (Vol n) = Some (nm, l) \<and> l LabelControllerID = Some (m_controller m) \<and>
          validate_cache_volume_kind l = None \<and> decide l = (True, reason))" for n reason
  proof
    assume "(n, reason) \<in> set xs"
    then obtain v where v: "v \<in> set ?vs" "vol_name v = n" "lget (vol_labels v) LabelControllerID = m_controller m"
      "validate_cache_volume_kind (vol_labels v) = None" "decide (vol_labels v) = (True, reason)"
      unfolding xs in_map_filter [of _ "stale_entry m decide"] stale_entry_Some by blast
    then show "\<exists>nm l. view s (Vol n) = Some (nm, l) \<and> l LabelControllerID = Some (m_controller m) \<and>
        validate_cache_volume_kind l = None \<and> decide l = (True, reason)"
      using lists_matchingD [OF lm v(1)] cid by (auto simp: labels_of_def lget_eq_Some)
  next
    assume "\<exists>nm l. view s (Vol n) = Some (nm, l) \<and> l LabelControllerID = Some (m_controller m) \<and>
        validate_cache_volume_kind l = None \<and> decide l = (True, reason)"
    then obtain nm l where l: "view s (Vol n) = Some (nm, l)" "l LabelControllerID = Some (m_controller m)"
      "validate_cache_volume_kind l = None" "decide l = (True, reason)" by blast
    then have "labels_of (view s) (Vol n) = Some l" "list_all (match_term l) (cache_volume_filter m)"
      by (auto simp: labels_of_def cache_volume_filter_def kind_None managed_cache_def lget_eq_Some)
    from lists_matchingE [OF lm this] obtain v where "v \<in> set ?vs" "vol_name v = n" "vol_labels v = l" .
    then show "(n, reason) \<in> set xs" unfolding xs in_map_filter [of _ "stale_entry m decide"] stale_entry_Some
      using l by (auto simp: lget_Some intro!: bexI [of _ v])
  qed
  then show ?thesis using v1 vols by simp
qed

lemma run_list_diag:
  assumes m: "m_cli m = c" and s: "inv s" and run: "run_state (list_diag_volumes m) s = (Inr refs, s')"
    and r: "x \<in> set refs"
  shows "validate_diag_prune_target (dv_labels x) (dv_labels x) (m_controller m) = None \<and>
    (\<exists>nm. view s (Vol (dv_name x)) = Some (nm, dv_labels x))"
proof -
  obtain rl s1 where rl: "run_state (volume_list c (cache_volume_filter m @ [label_eq LabelCacheKind CacheKindDiagLogs])) s = (rl, s1)"
    by fastforce
  note v1 = vol_list [OF s rl]
  obtain vols where vols: "rl = Inr vols" using run rl m by (cases rl) (auto simp: list_diag_volumes_def)
  then obtain v where v: "v \<in> set (List.map_filter id vols)" "x = \<lparr>dv_name = vol_name v, dv_labels = vol_labels v\<rparr>"
    "lget (vol_labels v) LabelCacheKind = CacheKindDiagLogs" "lget (vol_labels v) LabelControllerID = m_controller m"
    "validate_cache_volume_kind (vol_labels v) = None"
    using run rl m r by (auto simp: list_diag_volumes_def in_map_filter split: if_splits)
  have "labels_of (view s) (Vol (vol_name v)) = Some (vol_labels v)"
    using v1 vols lists_matchingD [OF _ v(1)] by blast
  then show ?thesis using v by (auto simp: diag_target_None labels_of_def)
qed

end

end
