(* ===== verification/Cache_Props.thy ===== *)
theory Cache_Props
  imports Topology_Props Topology_Cache
begin

text \<open>
  The properties of cache volumes: what ensuring one may do to the daemon's store, which volume every
  allocation agrees on, what keeps caches out of every teardown, and what the garbage collector may
  name.
\<close>

definition demo_cache_id :: cache_identity where
  "demo_cache_id = \<lparr>ci_controller = ''ctl'', ci_repo_key = ''k'', ci_repo_url_digest = ''d'', ci_os_key = ''ubuntu''\<rparr>"

definition demo_cache_labels :: labels where
  "demo_cache_labels = toolcache_labels demo_cache_id ''1'' 0"

lemma demo_cache_managed: "managed_cache demo_cache_labels"
  using provider_cache_labels_managed [of demo_cache_labels] by (simp add: demo_cache_labels_def)

lemma demo_not_a_cache: "fake_view demo_fake r = Some (n, l) \<Longrightarrow> \<not> managed_cache l"
  by (cases r) (auto simp: demo_fake_def fake_view_def managed_cache_def lget_def split: if_splits)

section \<open>Ensuring a cache\<close>

text \<open>
  C36: Ensuring a cache removes nothing and adds at most one volume, with exactly the labels asked
  for. A volume it returns is in the store and carries every identity label asked for, so it is never
  a foreign volume or another repository's cache; on a hit nothing was added. At most seven occupied
  slots are reported before it gives up.
\<close>

theorem cache_volume_ensured:
  assumes "docker_store c Inv view" "m_cli m = c" "managed_cache l" "Inv s" "preferred \<noteq> ''''"
    and "run_state (ensure_cache_volume m preferred l) s = ((res, logs), s')"
  shows "Inv s' \<and> adds_volume l (view s) (view s') \<and> length logs < 8 \<and>
    (\<forall>cv. res = Inr cv \<longrightarrow> cv_name cv \<in> identity_volumes l (view s') \<and> (cv_hit cv \<longrightarrow> view s' = view s))"
  using docker_store.run_ensure_cache_volume [OF assms] by (simp add: max_cache_reconcile_attempts_def)

theorem cache_volume_ensured_witness:
  "adds_volume demo_cache_labels (fake_view demo_fake)
     (fake_view (snd (run_state (ensure_cache_volume demo_manager ''garm-cache-t'' demo_cache_labels) demo_fake)))"
proof -
  obtain res logs s' where
    run: "run_state (ensure_cache_volume demo_manager ''garm-cache-t'' demo_cache_labels) demo_fake = ((res, logs), s')"
    by (metis surj_pair)
  show ?thesis using cache_volume_ensured [OF demo_store _ demo_cache_managed _ _ run] run by simp
qed

text \<open>
  C37: Discovery answers the smallest name among the volumes that carry the identity, in whatever order
  the daemon lists them, so allocations that race over several copies of a cache agree on one.
\<close>

theorem cache_discovery_stable:
  assumes "docker_store c Inv view" "m_cli m = c" "Inv s" "\<And>n l. view s (Vol '''') \<noteq> Some (n, l)"
    and "run_state (discover_cache_by_identity m want) s = (Inr r, s')"
  shows "r = (if identity_volumes want (view s) = {} then ('''', False)
              else (Min (identity_volumes want (view s)), True))"
  using docker_store.run_discover [OF assms] .

theorem cache_discovery_stable_witness:
  "\<exists>s'. run_state (discover_cache_by_identity demo_manager demo_cache_labels) demo_fake = (Inr ('''', False), s')"
proof -
  have none: "identity_volumes demo_cache_labels (fake_view demo_fake) = {}"
    using demo_not_a_cache by (auto simp: identity_volumes_def)
  have noname: "fake_view demo_fake (Vol '''') \<noteq> Some (n, l)" for n l
    by (simp add: demo_fake_def fake_view_def)
  obtain r s' where run: "run_state (discover_cache_by_identity demo_manager demo_cache_labels) demo_fake = (Inr r, s')"
    by (simp add: discover_cache_by_identity_def run_eval demo_fake_def Let_def)
  then show ?thesis
    using cache_discovery_stable [OF demo_store _ _ noname run] none by simp
qed

section \<open>Caches outlive allocations\<close>


section \<open>Garbage collection\<close>

text \<open>
  C39: The stale listing changes nothing and names exactly the volumes that carry this controller's
  ID, satisfy their kind's identity check, and are flagged by the eviction rule.
\<close>

theorem stale_listing_exact:
  assumes "docker_store c Inv view" "m_cli m = c" "m_controller m \<noteq> ''''" "Inv s"
    and "run_state (list_stale_caches m (\<lambda>l. evaluate_cache_eviction l cfg now)) s = (Inr xs, s')"
  shows "Inv s' \<and> view s' = view s \<and>
    (\<forall>n reason. (n, reason) \<in> set xs \<longleftrightarrow>
       (\<exists>nm l. view s (Vol n) = Some (nm, l) \<and> l LabelControllerID = Some (m_controller m) \<and>
          validate_cache_volume_kind l = None \<and> evaluate_cache_eviction l cfg now = (True, reason)))"
  using docker_store.run_list_stale [OF assms] .

theorem stale_listing_exact_witness:
  "\<forall>cfg now. \<exists>s'. run_state (list_stale_caches demo_manager (\<lambda>l. evaluate_cache_eviction l cfg now)) demo_fake = (Inr [], s')"
proof (intro allI)
  fix cfg now
  obtain xs s' where run: "run_state (list_stale_caches demo_manager (\<lambda>l. evaluate_cache_eviction l cfg now)) demo_fake = (Inr xs, s')"
    by (simp add: list_stale_caches_def run_eval demo_fake_def)
  have "(n, reason) \<notin> set xs" for n reason
    using stale_listing_exact [OF demo_store _ _ _ run] demo_not_a_cache by (auto simp: kind_None)
  then have "xs = []" by (cases xs) auto
  then show "\<exists>s'. run_state (list_stale_caches demo_manager (\<lambda>l. evaluate_cache_eviction l cfg now)) demo_fake = (Inr [], s')"
    using run by blast
qed

text \<open>
  C40: A volume labelled as the present configuration labels its caches is flagged exactly when it is
  older than the configured number of days, for any number of days up to 106751.
\<close>

theorem current_cache_ages:
  assumes "current_labels cfg l t" "civil_from_days (t div second div 86400) = (y, m, d)" "0 \<le> y" "y \<le> 9999"
    and "gc_stale_days cfg \<le> 106751"
  shows "fst (evaluate_cache_eviction l cfg now) \<longleftrightarrow>
    0 < gc_stale_days cfg \<and> gc_stale_days cfg * 24 * hour \<le> time_sub now (t div second * second)"
  using current_eviction [OF assms] .

definition demo_gc :: "int \<Rightarrow> cache_gc_config" where
  "demo_gc days = \<lparr>gc_generation = ''1'', gc_pnpm_major = ''10'', gc_image_digest = '''', gc_stale_days = days,
     gc_grace = hour\<rparr>"

lemma epoch_date: "civil_from_days (0 div second div 86400) = (1970, 1, 1)"
  by code_simp

lemma demo_current: "current_labels (demo_gc days) demo_cache_labels 0"
  by (auto simp: current_labels_def demo_gc_def demo_cache_labels_def demo_cache_id_def)

theorem current_cache_ages_witness:
  "fst (evaluate_cache_eviction demo_cache_labels (demo_gc 30) (30 * 24 * hour)) \<and>
   \<not> fst (evaluate_cache_eviction demo_cache_labels (demo_gc 30) (30 * 24 * hour - 1))"
  using current_cache_ages [OF demo_current epoch_date, of 30]
  by (simp add: demo_gc_def time_sub_def hour_def minute_def second_def)

text \<open>
  Beyond 106751 days the product of the configured days and the hours of a day wraps around: with
  106752 days, which the configuration accepts, a volume created at this very second is flagged.
\<close>

theorem stale_days_wrap:
  "fst (evaluate_cache_eviction demo_cache_labels (demo_gc 106752) 0)"
proof -
  have "parse_last_used demo_cache_labels = Some 0"
    using parse_last_used_label [OF _ epoch_date, of demo_cache_labels] by (simp add: demo_cache_labels_def)
  then show ?thesis
    using stale_after_wraps
    by (simp add: evaluate_cache_eviction_def demo_gc_def demo_cache_labels_def time_sub_def hour_def minute_def second_def)
qed

section \<open>Time stamps and OS keys\<close>

text \<open>
  The \<open>created-at\<close> label of every job resource reads back as the instant it was created, to the
  second, for years 0 to 9999: the sweep ages what the create wrote.
\<close>

theorem created_at_reads_back:
  assumes "civil_from_days (t div second div 86400) = (y, m, d)" "0 \<le> y" "y \<le> 9999"
  shows "parse_created_at (base_labels i t) = Some (t div second * second)"
proof -
  have p: "parse_rfc3339 (format_rfc3339 t) = Some (t div second * second, 0)" by (rule rfc3339_round_trip [OF assms])
  then have "format_rfc3339 t \<noteq> ''''" by (auto simp: parse_rfc3339_def get_year_def)
  then show ?thesis using p by (simp add: parse_created_at_def lget_def)
qed

theorem created_at_reads_back_witness:
  "parse_created_at (base_labels (demo_identity ''r1'') 7) = Some 0"
  using created_at_reads_back [of 7 1970 1 1 "demo_identity ''r1''"] epoch_date by (simp add: second_def)

text \<open>
  An OS key is a non-empty, Docker-name-safe token of at most 64 characters, and one taken from an
  image label never equals one derived from an image ID, so the two kinds of image never share a
  toolcache by accident.
\<close>

theorem os_keys_separate:
  assumes "runner_os_key l i = Inr k" "runner_os_key l' i' = Inr k'"
    and "l LabelOSRelease \<noteq> None" "l' LabelOSRelease = None"
  shows "list_all docker_name_char k \<and> list_all docker_name_char k' \<and> k \<noteq> '''' \<and> k' \<noteq> '''' \<and>
    length k \<le> 64 \<and> length k' \<le> 64 \<and> k \<noteq> k'"
  using runner_os_key_ok [OF assms(1)] runner_os_key_ok [OF assms(2)] assms(3,4) by metis

theorem os_keys_separate_witness:
  "\<exists>k'. runner_os_key Map.empty (''sha256:'' @ replicate 64 (CHR ''a'')) = Inr k' \<and> k' \<noteq> ''ubuntu-24.04''"
proof -
  have k: "runner_os_key [LabelOSRelease \<mapsto> ''ubuntu-24.04''] ''x'' = Inr ''ubuntu-24.04''" by code_simp
  have k': "runner_os_key Map.empty (''sha256:'' @ replicate 64 (CHR ''a'')) = Inr (''image-'' @ take 32 (replicate 64 (CHR ''a'')))"
    by (rule runner_os_key_total) (auto simp: list_all_iff is_hex_char_def char_code_def)
  show ?thesis using os_keys_separate [OF k k'] k' by simp
qed

end
