(* ===== verification/Component_Props.thy ===== *)
theory Component_Props
  imports Topology_Report
begin

text \<open>
  The properties of the pure components: resource names, the log screen, the runner's phase, the
  parsers of the IO report and the container builders.
\<close>

section \<open>Names\<close>

lemma docker_name_ok_lower:
  assumes "list_all docker_name_char sfx" "i \<noteq> []"
  shows "docker_name_ok (to_lower i @ sfx) \<longleftrightarrow>
    2 \<le> length i + length sfx \<and> length i + length sfx \<le> 255 \<and> is_alnum (hd i) \<and> list_all docker_name_char i"
proof -
  have "to_lower i \<noteq> []" using assms(2) by (simp add: to_lower_def)
  moreover have "length (to_lower i) = length i" by (simp add: to_lower_def)
  ultimately show ?thesis using assms by (auto simp: docker_name_ok_def hd_append hd_to_lower)
qed

lemma docker_name_ok_empty: "\<not> docker_name_ok (to_lower [])"
  by (simp add: docker_name_ok_def to_lower_def)

text \<open>
  C31: The name check before a create accepts an instance exactly when its name has at least two
  characters, starts with a letter or digit and uses only letters, digits and "_.-", the nonce uses
  only those too, and the longest derived name, the dind-state volume's, has at most 255 characters.
\<close>

theorem allocation_names_valid:
  "validate_allocation_names i n = None \<longleftrightarrow>
     2 \<le> length i \<and> is_alnum (hd i) \<and> list_all docker_name_char i \<and> list_all docker_name_char n \<and>
     length i + length n + 12 \<le> 255"
proof (cases "i = []")
  case True
  then show ?thesis
    by (simp add: validate_allocation_names_None allocation_names_def runner_container_name_def docker_name_ok_empty)
next
  case False
  have sfx: "list_all docker_name_char ''workspace''" "list_all docker_name_char ''socket''"
    "list_all docker_name_char ''dind-state''" "list_all docker_name_char ''-dind''" "list_all docker_name_char ''-net''"
    by code_simp+
  note ok = docker_name_ok_lower [OF sfx(4) False] docker_name_ok_lower [OF sfx(5) False]
    docker_name_ok_lower [of "[]", OF _ False, simplified] docker_name_ok_volume [OF sfx(1)] docker_name_ok_volume [OF sfx(2)]
    docker_name_ok_volume [OF sfx(3)]
  show ?thesis
    using False
    by (simp add: validate_allocation_names_None allocation_names_def workspace_volume_name_def socket_volume_name_def
        dind_state_volume_name_def dind_container_name_def job_network_name_def runner_container_name_def ok) linarith
qed

text \<open>
  Two attempts never share a job volume: with nonces of one length, equal volume names mean
  the same instance up to case, the same nonce and the same kind of volume.
\<close>

theorem volume_names_unique:
  assumes "length n = length m"
    and "f \<in> {workspace_volume_name, socket_volume_name, dind_state_volume_name}"
    and "g \<in> {workspace_volume_name, socket_volume_name, dind_state_volume_name}"
    and "f i n = g j m"
  shows "to_lower i = to_lower j \<and> n = m \<and> f = g"
proof -
  have "f = g" using assms(2-4) volume_kinds_distinct by (metis insertE singletonD)
  then have "\<exists>s. f = (\<lambda>i n. volume_name i n s) \<and> g = f"
    using assms(2) by (auto simp: workspace_volume_name_def [abs_def] socket_volume_name_def [abs_def]
        dind_state_volume_name_def [abs_def])
  then show ?thesis using volume_name_eq [OF assms(1)] assms(4) by auto
qed

theorem volume_names_unique_witness:
  "workspace_volume_name ''r1'' ''abcd'' \<noteq> workspace_volume_name ''r1'' ''abce''"
  using volume_names_unique [of "''abcd''" "''abce''" workspace_volume_name workspace_volume_name "''r1''" "''r1''"]
  by auto

section \<open>The log screen\<close>





section \<open>The runner's phase\<close>

lemma last_marker_Some:
  "last_marker ls = Some p \<longleftrightarrow>
     (\<exists>xs l ys. ls = xs @ l # ys \<and> runner_progress_line l = Some p \<and> (\<forall>x\<in>set xs. runner_progress_line x = None))"
proof (induction ls)
  case (Cons l ls)
  show ?case
  proof (cases "runner_progress_line l")
    case None
    have "(\<exists>xs l' ys. l # ls = xs @ l' # ys \<and> runner_progress_line l' = Some p \<and> (\<forall>x\<in>set xs. runner_progress_line x = None))
      \<longleftrightarrow> (\<exists>xs l' ys. ls = xs @ l' # ys \<and> runner_progress_line l' = Some p \<and> (\<forall>x\<in>set xs. runner_progress_line x = None))"
      (is "?L \<longleftrightarrow> ?R")
    proof
      assume ?L
      then obtain xs l' ys where *: "l # ls = xs @ l' # ys" "runner_progress_line l' = Some p"
        "\<forall>x\<in>set xs. runner_progress_line x = None" by blast
      with None obtain x xs' where "xs = x # xs'" by (cases xs) auto
      with * show ?R by (intro exI [of _ xs'] exI [of _ l'] exI [of _ ys]) simp
    next
      assume ?R
      then obtain xs l' ys where "ls = xs @ l' # ys" "runner_progress_line l' = Some p"
        "\<forall>x\<in>set xs. runner_progress_line x = None" by blast
      then show ?L using None by (intro exI [of _ "l # xs"] exI [of _ l'] exI [of _ ys]) simp
    qed
    then show ?thesis using Cons None by simp
  next
    case (Some q)
    then show ?thesis by (auto simp: Cons_eq_append_conv intro: exI [of _ "[]"])
  qed
qed simp

text \<open>
  C30: A runner counts as having completed a job exactly when the last of its log lines that carries
  a progress marker is a completion, truncated or not.
\<close>

theorem completed_phase:
  "classify_runner_phase ls tr = phase_job_completed \<longleftrightarrow>
     (\<exists>xs l ys. ls = xs @ l # ys \<and> runner_progress_line l = Some JobCompleted \<and>
        (\<forall>y\<in>set ys. runner_progress_line y = None))"
proof -
  have "classify_runner_phase ls tr = phase_job_completed \<longleftrightarrow> last_marker (rev ls) = Some JobCompleted"
    by (auto simp: classify_runner_phase_def phase_job_completed_def phase_job_started_def phase_unknown_def
        phase_listening_no_job_def phase_before_listening_def split: option.splits progress.splits)
  also have "\<dots> \<longleftrightarrow> (\<exists>xs l ys. ls = rev ys @ l # rev xs \<and> runner_progress_line l = Some JobCompleted \<and>
        (\<forall>x\<in>set xs. runner_progress_line x = None))"
    by (simp add: last_marker_Some rev_eq_append_conv)
  also have "\<dots> \<longleftrightarrow> (\<exists>xs l ys. ls = xs @ l # ys \<and> runner_progress_line l = Some JobCompleted \<and>
        (\<forall>y\<in>set ys. runner_progress_line y = None))"
    by (metis rev_rev_ident set_rev)
  finally show ?thesis .
qed

theorem completed_phase_witness:
  "classify_runner_phase [''2026-01-02 03:04:05Z: Job build completed with result: Succeeded'', ''bye''] True =
     phase_job_completed"
proof -
  have "runner_progress_line ''2026-01-02 03:04:05Z: Job build completed with result: Succeeded'' = Some JobCompleted"
    "runner_progress_line ''bye'' = None"
    by code_simp+
  then have "\<exists>xs l ys. [''2026-01-02 03:04:05Z: Job build completed with result: Succeeded'', ''bye''] = xs @ l # ys \<and>
      runner_progress_line l = Some JobCompleted \<and> (\<forall>y\<in>set ys. runner_progress_line y = None)"
    by (intro exI [of _ "[]"] exI [of _ "''2026-01-02 03:04:05Z: Job build completed with result: Succeeded''"]
        exI [of _ "[''bye'']"]) simp
  then show ?thesis using completed_phase by blast
qed

section \<open>The IO report\<close>

text \<open>The parsers run on concrete text by simplification.\<close>

lemmas parse_eval = parse_io_stat_def parse_io_stat_line_def parse_image_probe_def apply_record_def
  parse_uint_field_def empty_probe_def split_on_def str_fields_def str_cut_def has_prefix_def is_space_def
  is_decimal_def is_digit_def char_code_def parse_uint_def dec_val_def digit_val_def

definition device_name_ok :: "device_writes \<Rightarrow> bool" where
  "device_name_ok d \<longleftrightarrow> (\<exists>a b. dw_device d = a @ '':'' @ b \<and> is_decimal a \<and> is_decimal b)"

lemma parse_io_lines_devices:
  "parse_io_lines ls st p = Inr (st', p') \<Longrightarrow> list_all device_name_ok (io_devices st) \<Longrightarrow>
   list_all device_name_ok (io_devices st')"
proof (induction ls arbitrary: st p)
  case (Cons l ls)
  show ?case
  proof (cases "str_fields l")
    case (Cons f fs)
    show ?thesis
    proof (cases "f = ''io''")
      case True
      then obtain d where d: "parse_io_stat_line fs = Inr d" using Cons.prems Cons by (auto split: sum.splits)
      have "device_name_ok d" using parse_io_stat_line_device [OF d] by (auto simp: device_name_ok_def)
      then show ?thesis
        using True d Cons.prems Cons
          Cons.IH [of "st\<lparr>io_devices := io_devices st @ [d], io_written := io_written st + dw_bytes d\<rparr>" p] by simp
    next
      case False
      with Cons.prems Cons show ?thesis by (auto intro: Cons.IH split: if_splits)
    qed
  next
    case Nil
    with Cons.prems show ?thesis by (auto intro: Cons.IH)
  qed
qed simp

lemma parse_io_lines_present:
  "parse_io_lines ls st p = Inr (st', p') \<Longrightarrow> p' \<Longrightarrow>
   p \<or> (\<exists>l\<in>set ls. \<exists>fs. str_fields l = ''io_stat'' # fs)"
proof (induction ls arbitrary: st p)
  case (Cons l ls)
  show ?case
  proof (cases "str_fields l")
    case (Cons f fs)
    show ?thesis
    proof (cases "f = ''io_stat''")
      case True
      then show ?thesis using Cons by auto
    next
      case False
      then obtain st1 where "parse_io_lines ls st1 p = Inr (st', p')"
        using Cons.prems(1) Cons by (auto split: if_splits sum.splits)
      from Cons.IH [OF this Cons.prems(2)] show ?thesis by auto
    qed
  next
    case Nil
    then have "parse_io_lines ls st p = Inr (st', p')" using Cons.prems(1) by simp
    from Cons.IH [OF this Cons.prems(2)] show ?thesis by auto
  qed
qed simp

text \<open>
  When the cgroup records of a sidecar parse, the container reported that the file exists, the
  total is the wrapped sum of the per-device counters listed, and every device is a MAJ:MIN pair of
  decimal numbers.
\<close>

theorem io_stat_total:
  assumes "parse_io_stat out = Inr st"
  shows "io_written st = sum_list (map dw_bytes (io_devices st)) \<and> list_all device_name_ok (io_devices st) \<and>
    (\<exists>l\<in>set (split_on (CHR 0x0A) out). \<exists>fs. str_fields l = ''io_stat'' # fs)"
proof -
  obtain p where p: "parse_io_lines (split_on (CHR 0x0A) out) \<lparr>io_written = 0, io_devices = []\<rparr> False = Inr (st, p)" "p"
    using assms by (auto simp: parse_io_stat_def split: sum.splits if_splits)
  show ?thesis
    using parse_io_lines_sum [OF p(1)] parse_io_lines_devices [OF p(1)] parse_io_lines_present [OF p(1)] p(2) by simp
qed

theorem io_stat_total_witness:
  "io_written \<lparr>io_written = 12, io_devices = [\<lparr>dw_device = ''8:0'', dw_bytes = 5\<rparr>, \<lparr>dw_device = ''8:16'', dw_bytes = 7\<rparr>]\<rparr>
     = sum_list (map dw_bytes [\<lparr>dw_device = ''8:0'', dw_bytes = 5\<rparr>, \<lparr>dw_device = ''8:16'', dw_bytes = 7\<rparr>])"
proof -
  have "parse_io_stat (''io_stat'' @ [CHR 0x0A] @ ''io 8:0 rbytes=1 wbytes=5'' @ [CHR 0x0A] @ ''io 8:16 wbytes=7'')
     = Inr \<lparr>io_written = 12, io_devices = [\<lparr>dw_device = ''8:0'', dw_bytes = 5\<rparr>, \<lparr>dw_device = ''8:16'', dw_bytes = 7\<rparr>]\<rparr>"
    by (simp add: parse_eval)
  from io_stat_total [OF this] show ?thesis by simp
qed

fun image_ids :: "string list \<Rightarrow> string list" where
  "image_ids [] = []"
| "image_ids (l # ls) =
     (case str_fields l of
        f # x # fs \<Rightarrow> if f = ''image'' then x # image_ids ls else image_ids ls
      | _ \<Rightarrow> image_ids ls)"

lemma apply_record_seen:
  assumes "apply_record fs (p, seen) = Inr (p', seen')" "fs \<noteq> []"
  shows "set seen' = set seen \<union> set (case fs of f # x # _ \<Rightarrow> if f = ''image'' then [x] else [] | _ \<Rightarrow> [])"
proof (cases "hd fs = ''image''")
  case True
  then have "length fs = 3" using assms(1) by (auto simp: apply_record_def parse_uint_field_def split: if_splits)
  then obtain f x y where "fs = [f, x, y]" by (auto simp: numeral_3_eq_3 length_Suc_conv)
  then show ?thesis using assms(1) True by (auto simp: apply_record_def split: if_splits sum.splits)
next
  case False
  then have "seen' = seen" using assms(1) by (auto simp: apply_record_def split: if_splits sum.splits)
  then show ?thesis using False by (auto split: list.splits)
qed

lemma apply_records_seen:
  "apply_records ls (p, seen) = Inr (p', seen') \<Longrightarrow> set seen' = set seen \<union> set (image_ids ls)"
proof (induction ls arbitrary: p seen)
  case (Cons l ls)
  show ?case
  proof (cases "str_fields l")
    case (Cons f fs)
    then obtain q s where q: "apply_record (f # fs) (p, seen) = Inr (q, s)"
      using Cons.prems(1) by (auto split: sum.splits)
    then have "apply_records ls (q, s) = Inr (p', seen')" using Cons Cons.prems(1) by simp
    from Cons.IH [OF this] apply_record_seen [OF q] show ?thesis using Cons by (auto split: list.splits)
  qed (use Cons in auto)
qed simp

text \<open>
  The probe's image count is the number of distinct image IDs among its records, however often
  an ID is repeated.
\<close>

theorem probe_image_count:
  assumes "parse_image_probe out = Inr p"
  shows "ip_images p = card (set (image_ids (split_on (CHR 0x0A) out)))"
proof -
  obtain seen where seen: "apply_records (split_on (CHR 0x0A) out) (empty_probe, []) = Inr (p, seen)"
    using assms by (auto simp: parse_image_probe_def split: sum.splits if_splits)
  have "ip_images p = length seen \<and> distinct seen"
    by (rule apply_records_images [OF seen]) (simp_all add: empty_probe_def)
  then show ?thesis using apply_records_seen [OF seen] by (simp add: distinct_card [symmetric])
qed

theorem probe_image_count_witness:
  "ip_images (empty_probe\<lparr>ip_driver := ''overlay2'', ip_images := 2, ip_image_bytes := 12\<rparr>) =
     card (set (image_ids (split_on (CHR 0x0A) (''driver overlay2'' @ [CHR 0x0A] @ ''image a 5'' @ [CHR 0x0A] @
       ''image b 7'' @ [CHR 0x0A] @ ''image a 5''))))"
  by (rule probe_image_count) (simp add: parse_eval)

section \<open>Containers\<close>

lemma record_container_find:
  assumes inv: "fake_inv f" and run: "record_container cfg host n f = (i, g)"
  shows "\<exists>c. find_container g i = Some c \<and> fc_privileged c = hc_privileged host \<and> fc_runtime c = hc_runtime host"
proof -
  define f1 where "f1 = f\<lparr>fk_next_id := Suc (fk_next_id f)\<rparr>"
  have i: "i = ''fake-'' @ nat_str (Suc (fk_next_id f))"
    using run by (auto simp: record_container_def Let_def)
  have fr: "i \<notin> set (map fc_id (fk_containers f))"
    using inv fresh_id [of "fk_next_id f" "''fake-''" "map fc_id (fk_containers f)"] unfolding i fake_inv_def by auto
  have f1: "fake_inv f1"
    using inv fresh_id(2) [of "fk_next_id f" "''fake-''" "map fc_id (fk_containers f)"]
      fresh_id(2) [of "fk_next_id f" "''fake-net-''" "map fn_id (fk_networks f)"]
    by (auto simp: f1_def fake_inv_def fake_faults_ok_def)
  have cs: "fk_containers (create_missing_volumes (hc_mounts host) f1) = fk_containers f"
    using create_missing_volumes_ok [OF f1] by (simp add: f1_def)
  obtain c where "fk_containers g = fk_containers f @ [c]" "fc_id c = i" "fc_privileged c = hc_privileged host"
    "fc_runtime c = hc_runtime host"
    using run cs unfolding record_container_def Let_def f1_def by force
  then show ?thesis using fr by (auto simp: find_container_def find_key_snoc split: option.splits)
qed

text \<open>
  C32: The DinD mode read back from an inspected sidecar is the mode it was created for: both modes
  with a sidecar survive the trip through the builder, the fake daemon and \<open>DindModeOf\<close>.
\<close>

theorem dind_mode_reads_back:
  assumes "dind_runtime_selection mode = Inr (ds_privileged s, ds_runtime s)"
    and "fake_container_create (fst (build_dind_container s)) (snd (build_dind_container s)) nm f = ((i, None), g)"
    and "fake_inv f"
  shows "\<exists>c h. find_container g i = Some c \<and> cj_host (to_container_json c) = Some h \<and>
    dind_mode_of (hc_privileged h) (hc_runtime h) = mode"
proof -
  have "record_container (fst (build_dind_container s)) (snd (build_dind_container s)) nm f = (i, g)"
    using assms(2) by (auto simp: fake_container_create_def Let_def split: option.splits if_splits prod.splits)
  from record_container_find [OF assms(3) this] obtain c where c: "find_container g i = Some c"
    "fc_privileged c = ds_privileged s" "fc_runtime c = ds_runtime s" by (auto simp: build_dind_container_def Let_def)
  have "dind_mode_of (ds_privileged s) (normalize_runtime (ds_runtime s)) = mode"
    by (rule dind_mode_round_trip [OF assms(1)])
      (use assms(1) in \<open>auto simp: normalize_runtime_def dind_selection_some dind_modes\<close>)
  then show ?thesis using c by (auto simp: to_container_json_def)
qed

definition demo_sidecar :: dind_container_spec where
  "demo_sidecar = \<lparr>ds_image = ''dind'', ds_env = [], ds_labels = Map.empty, ds_memory_bytes = 0,
     ds_storage_driver = ''overlay2'', ds_registry_mirrors = [], ds_insecure_registries = [], ds_privileged = True,
     ds_runtime = '''', ds_netns_container = '''', ds_network = ''net'', ds_socket_volume = ''s'',
     ds_dind_state_volume = ''d'', ds_workspace_volume = '''', ds_externals_volume = ''''\<rparr>"

theorem dind_mode_reads_back_witness:
  "\<exists>c h. find_container (snd (fake_container_create (fst (build_dind_container demo_sidecar))
       (snd (build_dind_container demo_sidecar)) ''r1-dind'' new_fake)) ''fake-1'' = Some c \<and>
     cj_host (to_container_json c) = Some h \<and>
     dind_mode_of (hc_privileged h) (hc_runtime h) = dind_mode_privileged_sidecar"
proof -
  let ?r = "fake_container_create (fst (build_dind_container demo_sidecar))
       (snd (build_dind_container demo_sidecar)) ''r1-dind'' new_fake"
  have "fst ?r = (''fake-1'', None)" by code_simp
  then have "?r = ((''fake-1'', None), snd ?r)" by (simp add: prod_eq_iff)
  moreover have "dind_runtime_selection dind_mode_privileged_sidecar = Inr (ds_privileged demo_sidecar, ds_runtime demo_sidecar)"
    by (simp add: dind_runtime_selection_def demo_sidecar_def)
  ultimately show ?thesis using dind_mode_reads_back fake_inv_new by blast
qed

text \<open>
  The runner sees the shared runner binaries read-only: every mount on the externals directory
  is, as long as no cache is configured to mount there.
\<close>

theorem runner_externals_read_only:
  assumes "m \<in> set (hc_mounts (snd (build_runner_container s)))" "m_target m = RunnerExternalsDir"
    and "rs_toolcache_path s \<noteq> RunnerExternalsDir" "rs_pnpm_path s \<noteq> RunnerExternalsDir"
  shows "m_read_only m"
  using runner_mounts_writable [OF assms] .

theorem runner_externals_read_only_witness:
  "m_read_only (externals_ro_mount ''ext'')"
  by (rule runner_externals_read_only [of _ "\<lparr>rs_image = '''', rs_env = [], rs_labels = Map.empty, rs_memory_bytes = 0,
      rs_workspace_volume = ''w'', rs_network = ''n'', rs_socket_volume = '''', rs_toolcache_volume = '''',
      rs_toolcache_path = ''/opt/hostedtoolcache'', rs_pnpm_volume = '''', rs_pnpm_path = '''',
      rs_externals_volume = ''ext'', rs_diag_volume = ''''\<rparr>"])
    (simp_all add: build_runner_container_def Let_def externals_ro_mount_def volume_mount_def RunnerExternalsDir_def)

end
