(* ===== verification/Docker_Named.thy ===== *)
theory Docker_Named
  imports Fixtures
begin

text \<open>
  What the provider relies on beyond \<open>docker_store\<close>: an inspection describes a container that is there,
  and a container create with a name succeeds only when no container has it. Programs are framed by
  what they leave alone and what they add: \<open>framed I V P Q m\<close> says that \<open>m\<close> keeps every resource that
  satisfies \<open>P\<close> and that whatever is new or changed after it satisfies \<open>Q\<close>.
\<close>

section \<open>Frames\<close>

definition changes :: "(rid \<Rightarrow> labels \<Rightarrow> bool) \<Rightarrow> (rid \<Rightarrow> labels \<Rightarrow> bool) \<Rightarrow> store \<Rightarrow> store \<Rightarrow> bool" where
  "changes P Q v w \<longleftrightarrow>
     (\<forall>r n l. v r = Some (n, l) \<longrightarrow> P r l \<longrightarrow> w r = Some (n, l)) \<and>
     (\<forall>r n l. w r = Some (n, l) \<longrightarrow> v r = Some (n, l) \<or> Q r l)"

abbreviation anything :: "rid \<Rightarrow> labels \<Rightarrow> bool" where
  "anything \<equiv> \<lambda>_ _. True"

lemma changes_refl [simp]: "changes P Q v v"
  by (simp add: changes_def)

lemma changes_trans: "changes P Q u v \<Longrightarrow> changes P Q v w \<Longrightarrow> changes P Q u w"
  unfolding changes_def by meson

lemma changes_mono:
  "changes P' Q' v w \<Longrightarrow> (\<And>r l. P r l \<Longrightarrow> P' r l) \<Longrightarrow> (\<And>r l. Q' r l \<Longrightarrow> Q r l) \<Longrightarrow> changes P Q v w"
  unfolding changes_def by meson

lemma changesI:
  assumes "\<And>r n l. v r = Some (n, l) \<Longrightarrow> P r l \<Longrightarrow> w r = Some (n, l)"
    and "\<And>r n l. w r = Some (n, l) \<Longrightarrow> v r = Some (n, l) \<or> Q r l"
  shows "changes P Q v w"
  unfolding changes_def using assms by blast

lemma changes_kept: "changes P Q v w \<Longrightarrow> v r = Some (n, l) \<Longrightarrow> P r l \<Longrightarrow> w r = Some (n, l)"
  by (simp add: changes_def)

lemma changes_new: "changes P Q v w \<Longrightarrow> w r = Some (n, l) \<Longrightarrow> v r = Some (n, l) \<or> Q r l"
  by (simp add: changes_def)

lemma changes_labels: "changes anything Q v w \<Longrightarrow> labels_of v r = Some l \<Longrightarrow> labels_of w r = Some l"
  by (auto simp: changes_def labels_of_def)

lemma changes_removes: "removes D v w \<Longrightarrow> (\<And>r n l. D r n l \<Longrightarrow> \<not> P r l) \<Longrightarrow> changes P Q v w"
  unfolding changes_def removes_def by (metis option.inject option.distinct(1) prod.inject)

lemma changes_creates:
  "container_creates cfg host n v rc w \<Longrightarrow> (\<And>i. Q (Ctr i) (cc_labels cfg)) \<Longrightarrow> (\<And>i. Q (Vol i) Map.empty) \<Longrightarrow>
   changes P Q v w"
  unfolding container_creates_def changes_def by (metis option.exhaust option.inject prod.exhaust prod.inject)

lemma changes_removal: "removal r v e w \<Longrightarrow> (\<And>n l. v r = Some (n, l) \<Longrightarrow> \<not> P r l) \<Longrightarrow> changes P Q v w"
  by (auto simp: removal_def changes_def split: if_splits)

text \<open>A container that was not there before may go again.\<close>

lemma changes_undo:
  assumes "changes P Q u v" "u (Ctr i) = None" "removal (Ctr i) v e w"
  shows "changes P Q u w"
proof -
  have "w r = v r \<or> r = Ctr i \<and> w r = None" for r using assms(3) by (auto simp: removal_def split: if_splits)
  then show ?thesis using assms(1,2) unfolding changes_def by (metis option.distinct(1))
qed

definition framed ::
  "('s \<Rightarrow> bool) \<Rightarrow> ('s \<Rightarrow> store) \<Rightarrow> (rid \<Rightarrow> labels \<Rightarrow> bool) \<Rightarrow> (rid \<Rightarrow> labels \<Rightarrow> bool) \<Rightarrow> ('s, 'a) state \<Rightarrow> bool" where
  "framed I V P Q m \<longleftrightarrow>
     (\<forall>s r s'. I s \<longrightarrow> run_state m s = (r, s') \<longrightarrow> I s' \<and> changes P Q (V s) (V s'))"

text \<open>A program that leaves the store as it is.\<close>

definition quiet :: "('s \<Rightarrow> bool) \<Rightarrow> ('s \<Rightarrow> store) \<Rightarrow> ('s, 'a) state \<Rightarrow> bool" where
  "quiet I V m \<longleftrightarrow> (\<forall>s r s'. I s \<longrightarrow> run_state m s = (r, s') \<longrightarrow> I s' \<and> V s' = V s)"

named_theorems frame

lemma framedI: "(\<And>s r s'. I s \<Longrightarrow> run_state m s = (r, s') \<Longrightarrow> I s' \<and> changes P Q (V s) (V s')) \<Longrightarrow> framed I V P Q m"
  by (simp add: framed_def)

lemma framedD: "framed I V P Q m \<Longrightarrow> I s \<Longrightarrow> run_state m s = (r, s') \<Longrightarrow> I s' \<and> changes P Q (V s) (V s')"
  by (simp add: framed_def)

lemma quietD: "quiet I V m \<Longrightarrow> I s \<Longrightarrow> run_state m s = (r, s') \<Longrightarrow> I s' \<and> V s' = V s"
  by (simp add: quiet_def)

lemma quiet_framed: "quiet I V m \<Longrightarrow> framed I V P Q m"
  by (simp add: quiet_def framed_def)

lemma framed_mono:
  "framed I V P' Q' m \<Longrightarrow> (\<And>r l. P r l \<Longrightarrow> P' r l) \<Longrightarrow> (\<And>r l. Q' r l \<Longrightarrow> Q r l) \<Longrightarrow> framed I V P Q m"
  unfolding framed_def by (blast intro: changes_mono)

lemma framed_return [frame]: "framed I V P Q (ret a)"
  by (simp add: framed_def)

lemma framed_read [frame]: "framed I V P Q (read_state g)"
  by (simp add: framed_def)

lemma framed_bind [frame]:
  assumes "framed I V P Q m" "\<And>a. framed I V P Q (f a)"
  shows "framed I V P Q (m \<bind> f)"
proof (rule framedI)
  fix s r s'
  assume s: "I s" and run: "run_state (m \<bind> f) s = (r, s')"
  from run obtain a s1 where a: "run_state m s = (a, s1)" "run_state (f a) s1 = (r, s')" by (rule run_bindE)
  show "I s' \<and> changes P Q (V s) (V s')"
    using framedD [OF assms(1) s a(1)] framedD [OF assms(2) _ a(2)] changes_trans by blast
qed

lemma framed_if [frame]:
  "(b \<Longrightarrow> framed I V P Q m) \<Longrightarrow> (\<not> b \<Longrightarrow> framed I V P Q m') \<Longrightarrow> framed I V P Q (if b then m else m')"
  by simp

lemma framed_sum [frame]:
  "(\<And>e. framed I V P Q (f e)) \<Longrightarrow> (\<And>a. framed I V P Q (g a)) \<Longrightarrow>
   framed I V P Q (case x of Inl e \<Rightarrow> f e | Inr a \<Rightarrow> g a)"
  by (cases x) simp_all

lemma framed_option [frame]:
  "framed I V P Q m \<Longrightarrow> (\<And>a. framed I V P Q (g a)) \<Longrightarrow> framed I V P Q (case x of None \<Rightarrow> m | Some a \<Rightarrow> g a)"
  by (cases x) simp_all

lemma framed_prod [frame]: "(\<And>a b. framed I V P Q (f a b)) \<Longrightarrow> framed I V P Q (case x of (a, b) \<Rightarrow> f a b)"
  by (cases x) simp

lemma framed_let [frame]: "(\<And>x. framed I V P Q (f x)) \<Longrightarrow> framed I V P Q (Let a f)"
  by (simp add: Let_def)

lemma framed_for_each [frame]:
  "(\<And>x a. x \<in> set xs \<Longrightarrow> framed I V P Q (f x a)) \<Longrightarrow> framed I V P Q (for_each f xs a)"
proof (induction xs arbitrary: a)
  case (Cons x xs)
  then show ?case by (auto intro!: framed_bind)
qed (simp add: framed_return)

lemma quiet_return: "quiet I V (ret a)"
  by (simp add: quiet_def)

lemma quiet_read: "quiet I V (read_state g)"
  by (simp add: quiet_def)

lemma quiet_bind: "quiet I V m \<Longrightarrow> (\<And>a. quiet I V (f a)) \<Longrightarrow> quiet I V (m \<bind> f)"
  unfolding quiet_def by (metis run_bindE)

lemma quiet_if: "(b \<Longrightarrow> quiet I V m) \<Longrightarrow> (\<not> b \<Longrightarrow> quiet I V m') \<Longrightarrow> quiet I V (if b then m else m')"
  by simp

lemma quiet_sum:
  "(\<And>e. quiet I V (f e)) \<Longrightarrow> (\<And>a. quiet I V (g a)) \<Longrightarrow> quiet I V (case x of Inl e \<Rightarrow> f e | Inr a \<Rightarrow> g a)"
  by (cases x) simp_all

lemma quiet_option:
  "quiet I V m \<Longrightarrow> (\<And>a. quiet I V (g a)) \<Longrightarrow> quiet I V (case x of None \<Rightarrow> m | Some a \<Rightarrow> g a)"
  by (cases x) simp_all

lemma quiet_prod: "(\<And>a b. quiet I V (f a b)) \<Longrightarrow> quiet I V (case x of (a, b) \<Rightarrow> f a b)"
  by (cases x) simp

lemmas quiet_rules = quiet_return quiet_read quiet_bind quiet_if quiet_sum quiet_option quiet_prod

section \<open>The contract\<close>

definition json_labels :: "container_json \<Rightarrow> labels" where
  "json_labels j = (case cj_config j of None \<Rightarrow> Map.empty | Some cfg \<Rightarrow> cc_labels cfg)"

locale docker_named = docker_store c inv view
  for c :: "'s client" and inv :: "'s \<Rightarrow> bool" and view :: "'s \<Rightarrow> store" +
  assumes inspect_some: "inv s \<Longrightarrow> run_state (container_inspect c q) s = (Inr j, s') \<Longrightarrow>
      labels_of (view s) (Ctr (cj_id j)) = Some (json_labels j)"
    and inspect_id: "inv s \<Longrightarrow> view s (Ctr q) \<noteq> None \<Longrightarrow>
      run_state (container_inspect c q) s = (Inr j, s') \<Longrightarrow> cj_id j = q"
    and create_named: "inv s \<Longrightarrow> n \<noteq> '''' \<Longrightarrow> run_state (container_create c cfg host n) s = ((i, None), s') \<Longrightarrow>
      (\<forall>j l. view s (Ctr j) \<noteq> Some (n, l)) \<and> view s' (Ctr i) = Some (n, cc_labels cfg)"

context docker_named begin

lemma quiet_keeps: "keeps m \<longleftrightarrow> quiet inv view m"
  unfolding keeps_def quiet_def valid_def by blast

lemma quiet_calls:
  "quiet inv view (container_list c True fs)" "quiet inv view (network_list c fs)" "quiet inv view (volume_list c fs)"
  "quiet inv view (container_stop c i)" "quiet inv view (container_inspect c i)" "quiet inv view (container_start c i)"
  "quiet inv view (exec_stream c i cmd a)" "quiet inv view (container_wait c i)" "quiet inv view (image_pull c ref)"
  "quiet inv view (image_inspect c ref)" "quiet inv view (volume_inspect c n)" "quiet inv view (container_top c i)"
  using keeps_calls [unfolded quiet_keeps] by blast+

lemma framed_create [frame]:
  "(\<And>i. Q (Ctr i) (cc_labels cfg)) \<Longrightarrow> (\<And>i. Q (Vol i) Map.empty) \<Longrightarrow>
   framed inv view P Q (container_create c cfg host n)"
  using ctr_create changes_creates unfolding framed_def by blast

text \<open>A container created, used by a program that leaves the store alone, and removed.\<close>

lemma run_created_removed:
  assumes s: "inv s" and cr: "run_state (container_create c cfg host n) s = ((i, None), s1)"
    and m: "quiet inv view m" "run_state m s1 = (a, s2)"
    and rm: "run_state (container_remove c i f v) s2 = (e, s3)"
    and Q: "\<And>i. Q (Ctr i) (cc_labels cfg)" "\<And>i. Q (Vol i) Map.empty"
  shows "inv s3 \<and> changes P Q (view s) (view s3)"
proof -
  note c1 = ctr_create [OF s cr]
  have i: "view s (Ctr i) = None" "view s1 (Ctr i) \<noteq> None"
    using c1 by (auto simp: container_creates_def labels_of_def)
  have m1: "inv s2" "view s2 = view s1" using quietD [OF m(1) _ m(2)] c1 by auto
  have v2: "view s2 (Ctr i) \<noteq> None" using m1 i by simp
  note r = ctr_remove [OF m1(1) v2 rm]
  show ?thesis
    using r changes_undo [OF changes_creates [OF conjunct2 [OF c1] Q] i(1)] m1(2) by auto
qed

end

section \<open>The fake daemon\<close>

lemma fake_container_inspect_Inr:
  "fake_container_inspect q f = (Inr j, g) \<Longrightarrow> \<exists>co. find_container f q = Some co \<and> j = to_container_json co"
  by (auto simp: fake_container_inspect_def split: option.splits)

lemma find_key_member: "distinct (map k xs) \<Longrightarrow> x \<in> set xs \<Longrightarrow> find (\<lambda>y. k y = k x) xs = Some x"
  by (induction xs) force+

lemma fake_member_view:
  "fake_inv f \<Longrightarrow> co \<in> set (fk_containers f) \<Longrightarrow> fake_view f (Ctr (fc_id co)) = Some (fc_name co, fc_labels co)"
  using find_key_member [of fc_id "fk_containers f" co] by (simp add: fake_view_def fake_inv_def)

lemma fake_view_name:
  "fake_view f (Ctr j) = Some (n, l) \<Longrightarrow> find_by_name f n \<noteq> None"
  by (auto simp: fake_view_def find_by_name_def find_None_iff dest!: find_SomeD)

lemma record_container_named:
  assumes inv: "fake_inv f" and run: "record_container cfg host n f = (i, g)" and n: "n \<noteq> ''''"
  shows "fake_view g (Ctr i) = Some (n, cc_labels cfg)" "i = ''fake-'' @ nat_str (Suc (fk_next_id f))"
    "fk_next_id g = Suc (fk_next_id f)"
proof -
  have "\<exists>co \<in> set (fk_containers g). fc_id co = i \<and> fc_name co = n \<and> fc_labels co = cc_labels cfg"
    using run n by (auto simp: record_container_def Let_def)
  moreover have "fake_inv g" using record_container_ok [OF inv run] by simp
  ultimately show "fake_view g (Ctr i) = Some (n, cc_labels cfg)" using fake_member_view by fastforce
  have "fk_next_id (create_missing_volumes ms h) = fk_next_id h" for ms h
    by (induction ms arbitrary: h) auto
  then show "i = ''fake-'' @ nat_str (Suc (fk_next_id f))" "fk_next_id g = Suc (fk_next_id f)"
    using run by (auto simp: record_container_def Let_def)
qed

lemma fake_create_success:
  assumes "fake_container_create cfg host n f = ((i, None), g)" "n \<noteq> ''''"
  shows "find_by_name f n = None" "record_container cfg host n f = (i, g)"
  using assms unfolding fake_container_create_def Let_def
  by (auto split: option.splits if_splits prod.splits)

lemma fake_docker_named: "docker_named (fake_client fake_sdk) fake_inv fake_view"
proof (rule docker_named.intro [OF fake.docker_store_axioms], unfold_locales, goal_cases)
  case (1 s q j s')
  then obtain co where co: "find_container s q = Some co" "j = to_container_json co"
    by (auto simp: fake_client_def dest: fake_container_inspect_Inr)
  then show ?case
    using fake_member_view [OF 1(1) find_containerD [OF co(1)]]
    by (simp add: labels_of_def json_labels_def to_container_json_def)
next
  case (2 s q j s')
  then obtain co where co: "find_container s q = Some co" "j = to_container_json co"
    by (auto simp: fake_client_def dest: fake_container_inspect_Inr)
  then show ?case
    using find_container_by_id [OF 2(2)] by (auto simp: to_container_json_def dest: find_SomeD)
next
  case (3 s n cfg host i s')
  then have run: "fake_container_create cfg host n s = ((i, None), s')" by (simp add: fake_client_def)
  show ?case
    using fake_create_success [OF run 3(2)] record_container_named(1) [OF 3(1) _ 3(2)] fake_view_name by blast
qed

interpretation fake_named: docker_named "fake_client fake_sdk" fake_inv fake_view
  by (rule fake_docker_named)

end
