(* ===== verification/Go_Url.thy ===== *)
theory Go_Url
  imports Go_Strings
begin

text \<open>
  \<open>url.Parse\<close> of Go's \<open>net/url\<close>, as far as the program reads its result: the scheme, the
  userinfo, the host (with port), and the decoded path. Query and fragment are checked and
  dropped. \<open>hostname\<close> and \<open>url_port\<close> are the methods of the same names.
\<close>

record url =
  u_scheme :: string
  u_user :: "(string \<times> string option) option"
  u_host :: string
  u_path :: string

datatype url_mode = ModePath | ModeHost | ModeZone | ModeUserinfo | ModeFragment

definition is_hex :: "char \<Rightarrow> bool" where
  "is_hex c \<longleftrightarrow> is_digit c \<or> (97 \<le> char_code c \<and> char_code c \<le> 102) \<or> (65 \<le> char_code c \<and> char_code c \<le> 70)"

definition unhex :: "char \<Rightarrow> nat" where
  "unhex c =
     (if is_digit c then char_code c - 48
      else if 97 \<le> char_code c \<and> char_code c \<le> 102 then char_code c - 87
      else if 65 \<le> char_code c \<and> char_code c \<le> 70 then char_code c - 55
      else 0)"

text \<open>A host byte that may stand unescaped.\<close>

definition host_char_ok :: "char \<Rightarrow> bool" where
  "host_char_ok c \<longleftrightarrow>
     is_lower_ascii c \<or> is_upper_ascii c \<or> is_digit c \<or> char_code c \<ge> 128 \<or>
     c \<in> set ''-_.~!$&()*+,;=:[]<>'' \<or> c = CHR 0x27 \<or> c = CHR 0x22"

fun unescape :: "url_mode \<Rightarrow> string \<Rightarrow> string res" where
  "unescape mode [] = Inr []"
| "unescape mode (c # s) =
     (if c = CHR ''%'' then
        (case s of
           a # b # s' \<Rightarrow>
             if \<not> is_hex a \<or> \<not> is_hex b then Inl (PlainErr ''invalid URL escape'')
             else if mode = ModeHost \<and> unhex a < 8 \<and> \<not> (a = CHR ''2'' \<and> b = CHR ''5'')
             then Inl (PlainErr ''invalid URL escape'')
             else if mode = ModeZone \<and> \<not> (a = CHR ''2'' \<and> b = CHR ''5'') \<and>
                16 * unhex a + unhex b \<noteq> 32 \<and> \<not> host_char_ok (char_of (16 * unhex a + unhex b))
             then Inl (PlainErr ''invalid URL escape'')
             else map_sum id (\<lambda>r. char_of (16 * unhex a + unhex b) # r) (unescape mode s')
         | _ \<Rightarrow> Inl (PlainErr ''invalid URL escape''))
      else if (mode = ModeHost \<or> mode = ModeZone) \<and> \<not> host_char_ok c
      then Inl (PlainErr ''invalid character in host name'')
      else map_sum id (\<lambda>r. c # r) (unescape mode s))"

fun get_scheme :: "string \<Rightarrow> string \<Rightarrow> (string \<times> string) res" where
  "get_scheme raw [] = Inr ('''', raw)"
| "get_scheme raw (c # s) =
     (let i = length raw - length (c # s)
      in if is_lower_ascii c \<or> is_upper_ascii c then get_scheme raw s
         else if is_digit c \<or> c \<in> {CHR ''+'', CHR ''-'', CHR ''.''} then
           (if i = 0 then Inr ('''', raw) else get_scheme raw s)
         else if c = CHR '':'' then
           (if i = 0 then Inl (PlainErr ''missing protocol scheme'') else Inr (take i raw, s))
         else Inr ('''', raw))"

definition valid_optional_port :: "string \<Rightarrow> bool" where
  "valid_optional_port p \<longleftrightarrow> p = '''' \<or> (hd p = CHR '':'' \<and> list_all is_digit (tl p))"

fun last_index :: "string \<Rightarrow> char \<Rightarrow> nat option" where
  "last_index [] c = None"
| "last_index (x # s) c =
     (case last_index s c of Some i \<Rightarrow> Some (Suc i) | None \<Rightarrow> if x = c then Some 0 else None)"

definition parse_host :: "string \<Rightarrow> string res" where
  "parse_host host =
     (if has_prefix host ''['' then
        (case last_index host (CHR '']'') of
           None \<Rightarrow> Inl (PlainErr ''missing ']' in host'')
         | Some i \<Rightarrow>
             if \<not> valid_optional_port (drop (i + 1) host) then Inl (PlainErr ''invalid port after host'')
             else
               (case str_index (take i host) ''%25'' of
                  Some z \<Rightarrow>
                    (case unescape ModeHost (take z host) of
                       Inl e \<Rightarrow> Inl e
                     | Inr h1 \<Rightarrow>
                         (case unescape ModeZone (drop z (take i host)) of
                            Inl e \<Rightarrow> Inl e
                          | Inr h2 \<Rightarrow> map_sum id (\<lambda>h3. h1 @ h2 @ h3) (unescape ModeHost (drop i host))))
                | None \<Rightarrow> unescape ModeHost host))
      else
        (case last_index host (CHR '':'') of
           Some i \<Rightarrow>
             if \<not> valid_optional_port (drop i host) then Inl (PlainErr ''invalid port after host'')
             else unescape ModeHost host
         | None \<Rightarrow> unescape ModeHost host))"

definition valid_userinfo :: "string \<Rightarrow> bool" where
  "valid_userinfo s \<longleftrightarrow>
     list_all (\<lambda>c. is_lower_ascii c \<or> is_upper_ascii c \<or> is_digit c \<or> c \<in> set ''-._:~!$&()*+,;=%@'' \<or> c = CHR 0x27) s"

text \<open>The userinfo: a user name, and a password when there is a colon.\<close>

definition parse_userinfo :: "string \<Rightarrow> (string \<times> string option) res" where
  "parse_userinfo userinfo =
     (case str_cut userinfo '':'' of (name, pw, has) \<Rightarrow>
        (case unescape ModeUserinfo name of
           Inl e \<Rightarrow> Inl e
         | Inr u \<Rightarrow>
             if has then map_sum id (\<lambda>q. (u, Some q)) (unescape ModeUserinfo pw) else Inr (u, None)))"

definition parse_authority :: "string \<Rightarrow> ((string \<times> string option) option \<times> string) res" where
  "parse_authority authority =
     (case last_index authority (CHR ''@'') of
        None \<Rightarrow> map_sum id (\<lambda>h. (None, h)) (parse_host authority)
      | Some i \<Rightarrow>
          (case parse_host (drop (i + 1) authority) of
             Inl e \<Rightarrow> Inl e
           | Inr h \<Rightarrow>
               if \<not> valid_userinfo (take i authority) then Inl (PlainErr ''net/url: invalid userinfo'')
               else map_sum id (\<lambda>u. (Some u, h)) (parse_userinfo (take i authority))))"

definition ctl_byte :: "char \<Rightarrow> bool" where
  "ctl_byte c \<longleftrightarrow> char_code c < 32 \<or> char_code c = 127"

definition parse_rest :: "string \<Rightarrow> string \<Rightarrow> url res" where
  "parse_rest scheme rest0 =
     (let rest = fst (str_cut rest0 ''?'')
      in if \<not> has_prefix rest ''/'' \<and> scheme \<noteq> ''''
         then Inr \<lparr>u_scheme = scheme, u_user = None, u_host = '''', u_path = ''''\<rparr>
         else if \<not> has_prefix rest ''/'' \<and> str_contains (fst (str_cut rest ''/'')) '':''
         then Inl (PlainErr ''first path segment in URL cannot contain colon'')
         else if (scheme \<noteq> '''' \<or> \<not> has_prefix rest ''///'') \<and> has_prefix rest ''//'' then
           (let a = drop 2 rest;
                (authority, tail) = (takeWhile (\<lambda>c. c \<noteq> CHR ''/'') a, dropWhile (\<lambda>c. c \<noteq> CHR ''/'') a)
            in case parse_authority authority of
                 Inl e \<Rightarrow> Inl e
               | Inr (user, host) \<Rightarrow>
                   map_sum id (\<lambda>p. \<lparr>u_scheme = scheme, u_user = user, u_host = host, u_path = p\<rparr>)
                     (unescape ModePath tail))
         else map_sum id (\<lambda>p. \<lparr>u_scheme = scheme, u_user = None, u_host = '''', u_path = p\<rparr>)
                (unescape ModePath rest))"

definition url_parse :: "string \<Rightarrow> url res" where
  "url_parse raw_url =
     (let (u, frag, has) = str_cut raw_url ''#'';
          parsed =
            (if list_ex ctl_byte u then Inl (PlainErr ''net/url: invalid control character in URL'')
             else if u = ''*'' then Inr \<lparr>u_scheme = '''', u_user = None, u_host = '''', u_path = ''*''\<rparr>
             else (case get_scheme u u of
                     Inl e \<Rightarrow> Inl e
                   | Inr (scheme, rest) \<Rightarrow> parse_rest (to_lower scheme) rest))
      in case parsed of
           Inl e \<Rightarrow> Inl (WrapErr (''parse '' @ quoted u) e)
         | Inr url \<Rightarrow>
             (case unescape ModeFragment frag of
                Inl e \<Rightarrow> Inl (WrapErr (''parse '' @ quoted raw_url) e)
              | Inr f \<Rightarrow> Inr url))"

text \<open>\<open>Hostname\<close> and \<open>Port\<close> split the host, dropping the brackets of an IPv6 literal.\<close>

definition split_host_port :: "string \<Rightarrow> string \<times> string" where
  "split_host_port hp =
     (let (host, port) =
        (case last_index hp (CHR '':'') of
           Some i \<Rightarrow> if valid_optional_port (drop i hp) then (take i hp, drop (i + 1) hp) else (hp, '''')
         | None \<Rightarrow> (hp, ''''))
      in (if has_prefix host ''['' \<and> has_suffix host '']'' then butlast (tl host) else host, port))"

definition hostname :: "url \<Rightarrow> string" where
  "hostname u = fst (split_host_port (u_host u))"

definition url_port :: "url \<Rightarrow> string" where
  "url_port u = snd (split_host_port (u_host u))"

text \<open>\<open>QueryEscape\<close>, and the encoding \<open>Userinfo.String\<close> uses.\<close>

definition unreserved :: "char \<Rightarrow> bool" where
  "unreserved c \<longleftrightarrow> is_lower_ascii c \<or> is_upper_ascii c \<or> is_digit c \<or> c \<in> set ''-_.~''"

definition percent :: "char \<Rightarrow> string" where
  "percent c = CHR ''%'' # to_upper (hex_byte (char_code c))"

definition query_escape :: "string \<Rightarrow> string" where
  "query_escape s = concat (map (\<lambda>c. if unreserved c then [c] else if c = CHR '' '' then ''+'' else percent c) s)"

definition user_escape :: "string \<Rightarrow> string" where
  "user_escape s = concat (map (\<lambda>c. if unreserved c \<or> c \<in> set ''$&+,;='' then [c] else percent c) s)"

definition userinfo_string :: "string \<times> string option \<Rightarrow> string" where
  "userinfo_string u =
     user_escape (fst u) @ (case snd u of None \<Rightarrow> '''' | Some p \<Rightarrow> CHR '':'' # user_escape p)"

end
