(* ===== verification/Config.thy ===== *)
theory Config
  imports Go_Time Spec_Build
begin

text \<open>
  The provider's configuration, from \<open>internal/config\<close>: byte sizes, the cache table and its mount
  paths, the DinD ceiling, flavors and memory ceilings, the image pinning rule, the environment
  allowlist and the status-report wait. The image reference parser is third-party code: it is the
  argument \<open>parse_ref\<close>, which answers an error, or the algorithm and encoding of the digest when the
  reference has one. The flavor table is a list in the order Go iterates its map.
\<close>

section \<open>Byte sizes\<close>

definition max_int64 :: int where "max_int64 = 2 ^ 63 - 1"

definition byte_size_units :: "(string \<times> int) list" where
  "byte_size_units =
     [('''', 1), (''b'', 1), (''kb'', 1000), (''mb'', 1000000), (''gb'', 1000000000),
      (''kib'', 2 ^ 10), (''mib'', 2 ^ 20), (''gib'', 2 ^ 30)]"

definition parse_byte_size :: "string \<Rightarrow> int res" where
  "parse_byte_size s =
     (let trimmed = trim_space s;
          num_part = takeWhile is_digit trimmed;
          unit_part = to_lower (trim_space (dropWhile is_digit trimmed))
      in if trimmed = '''' then Inl (PlainErr ''byte size is empty'')
         else if num_part = '''' then Inl (PlainErr (''byte size '' @ quoted s @ '' must start with a digit''))
         else (case parse_int_digits 64 num_part of
                 Inl e \<Rightarrow> Inl (WrapErr (''byte size '' @ quoted s @ '' has an invalid numeric part'') e)
               | Inr n \<Rightarrow>
                   (case map_of byte_size_units unit_part of
                      None \<Rightarrow> Inl (PlainErr (''byte size '' @ quoted s @ '' has an unrecognized unit '' @ quoted unit_part @
                          '' (want one of: B, KB, MB, GB, KiB, MiB, GiB, or no unit)''))
                    | Some mult \<Rightarrow>
                        if n \<noteq> 0 \<and> mult \<noteq> 0 \<and> n > max_int64 div mult
                        then Inl (PlainErr (''byte size '' @ quoted s @ '' overflows int64''))
                        else Inr (i64 (n * mult)))))"

definition parse_positive_byte_size :: "string \<Rightarrow> int res" where
  "parse_positive_byte_size s =
     (case parse_byte_size s of
        Inl e \<Rightarrow> Inl e
      | Inr n \<Rightarrow>
          if n \<le> 0 then Inl (PlainErr (''byte size '' @ quoted s @ '' must be a positive value (0 is not a valid limit '' @ em_dash @
                 '' Docker treats a 0 memory limit as unset/unlimited, which would remove the operator's ceiling)''))
          else Inr n)"

section \<open>Paths\<close>

text \<open>\<open>path.Clean\<close> and \<open>path.Join\<close> of the standard library.\<close>

fun clean_parts :: "bool \<Rightarrow> string list \<Rightarrow> string list \<Rightarrow> string list" where
  "clean_parts rooted stack [] = rev stack"
| "clean_parts rooted stack (p # ps) =
     (if p = '''' \<or> p = ''.'' then clean_parts rooted stack ps
      else if p = ''..'' then
        (case stack of
           [] \<Rightarrow> if rooted then clean_parts rooted [] ps else clean_parts rooted [''..''] ps
         | q # qs \<Rightarrow> if q = ''..'' then clean_parts rooted (''..'' # stack) ps else clean_parts rooted qs ps)
      else clean_parts rooted (p # stack) ps)"

definition path_clean :: "string \<Rightarrow> string" where
  "path_clean p =
     (let rooted = has_prefix p ''/'';
          out = join_with ''/'' (clean_parts rooted [] (split_on (CHR ''/'') p))
      in if rooted then CHR ''/'' # out else if out = '''' then ''.'' else out)"

definition path_join :: "string \<Rightarrow> string \<Rightarrow> string" where
  "path_join a b =
     (if a = '''' \<and> b = '''' then ''''
      else path_clean (if a = '''' then b else if b = '''' then a else a @ ''/'' @ b))"

section \<open>The cache table\<close>

record cache_config =
  cch_enabled :: bool
  cch_generation :: string
  cch_pnpm_major :: string
  cch_toolcache_path :: string
  cch_pnpm_store_path :: string
  cch_allow_org_shared :: bool
  cch_stale_days :: int
  cch_diag_days :: int

definition default_cache :: cache_config where
  "default_cache =
     \<lparr>cch_enabled = True, cch_generation = ''1'', cch_pnpm_major = ''9'',
      cch_toolcache_path = ''/opt/hostedtoolcache'', cch_pnpm_store_path = ''/opt/pnpm-store'',
      cch_allow_org_shared = False, cch_stale_days = 30, cch_diag_days = 7\<rparr>"

definition reserved_mount_paths :: "string list" where
  "reserved_mount_paths =
     [''/run/garm'', ''/run'', ''/actions-runner'', ''/actions-runner/_work'', ''/actions-runner/externals'',
      ''/actions-runner/_diag'', ''/var/lib/docker'']"

text \<open>\<open>^[a-zA-Z0-9][a-zA-Z0-9._-]*$\<close>\<close>

definition cache_segment_pattern :: "string \<Rightarrow> bool" where
  "cache_segment_pattern s \<longleftrightarrow> s \<noteq> [] \<and> is_alnum (hd s) \<and> list_all docker_name_char (tl s)"

definition canonicalize_var_run :: "string \<Rightarrow> string" where
  "canonicalize_var_run p =
     (if p = ''/var/run'' then ''/run''
      else if has_prefix p ''/var/run/'' then ''/run'' @ trim_prefix p ''/var/run''
      else p)"

definition path_is_at_or_under :: "string \<Rightarrow> string \<Rightarrow> bool" where
  "path_is_at_or_under a b \<longleftrightarrow> a = b \<or> has_prefix a (b @ ''/'')"

definition validate_cache_mount_path :: "string \<Rightarrow> string \<Rightarrow> gerr option" where
  "validate_cache_mount_path field raw =
     (if raw = '''' then Some (PlainErr (field @ '' is required when the cache is enabled''))
      else if \<not> has_prefix raw ''/'' then Some (PlainErr (field @ '' '' @ quoted raw @ '' must be an absolute path''))
      else
        (let cleaned = path_clean raw
         in if cleaned \<noteq> raw
            then Some (PlainErr (field @ '' '' @ quoted raw @ '' is not canonical (it resolves to '' @ quoted cleaned @
                   ''); configure the canonical path so it can be checked against the reserved in-runner mounts''))
            else if cleaned = ''/'' then Some (PlainErr (field @ '' must not be the filesystem root''))
            else
              (let canon = canonicalize_var_run cleaned
               in map_option (\<lambda>r. PlainErr (field @ '' '' @ quoted raw @ '' resolves to '' @ quoted canon @
                      '', which collides with the reserved in-runner mount '' @ quoted r @
                      '' (runner install dir / credential tmpfs / DinD socket / workspace / read-only externals / diag-logs / daemon data root)''))
                    (find (\<lambda>r. path_is_at_or_under canon r \<or> path_is_at_or_under r canon) reserved_mount_paths))))"

definition validate_cache :: "cache_config \<Rightarrow> gerr option" where
  "validate_cache c =
     (if cch_stale_days c < 0
      then Some (PlainErr (''stale_cache_eviction_days must be >= 0, got '' @ itoa (cch_stale_days c)))
      else if cch_diag_days c < 0
      then Some (PlainErr (''diagnostic_log_retention_days must be >= 0, got '' @ itoa (cch_diag_days c)))
      else if \<not> cch_enabled c then None
      else if \<not> cache_segment_pattern (cch_generation c)
      then Some (PlainErr (''generation '' @ quoted (cch_generation c) @ '' is invalid: it is embedded in a Docker volume name and must match ^[a-zA-Z0-9][a-zA-Z0-9._-]*$''))
      else if \<not> cache_segment_pattern (cch_pnpm_major c)
      then Some (PlainErr (''pnpm_major '' @ quoted (cch_pnpm_major c) @ '' is invalid: it is embedded in a Docker volume name and must match ^[a-zA-Z0-9][a-zA-Z0-9._-]*$''))
      else (case validate_cache_mount_path ''toolcache_path'' (cch_toolcache_path c) of
              Some e \<Rightarrow> Some e
            | None \<Rightarrow>
                (case validate_cache_mount_path ''pnpm_store_path'' (cch_pnpm_store_path c) of
                   Some e \<Rightarrow> Some e
                 | None \<Rightarrow>
                     if cch_toolcache_path c = cch_pnpm_store_path c
                     then Some (PlainErr (''toolcache_path and pnpm_store_path must differ (both are '' @
                            quoted (cch_toolcache_path c) @ '')''))
                     else None)))"

section \<open>The configuration\<close>

record flavor =
  fl_runner_memory :: string
  fl_dind_memory :: string
  fl_runner_image :: string

record resources =
  rs_runner_memory :: string
  rs_dind_memory :: string

record config =
  cf_docker_host :: string
  cf_runner_image :: string
  cf_allow_unpinned_runner_image :: bool
  cf_dind_mode :: string
  cf_allowed_dind_modes :: "string list"
  cf_dind_image :: string
  cf_allow_unpinned_dind_image :: bool
  cf_storage_driver :: string
  cf_registry_mirrors :: "string list"
  cf_insecure_registries :: "string list"
  cf_resources :: resources
  cf_enable_job_network :: bool
  cf_internal :: bool
  cf_flavors :: "(string \<times> flavor) list"
  cf_cache :: cache_config
  cf_allowed_env :: "string list"
  cf_status_timeout :: "int option"
  cf_log_file :: string

definition validate_digest_pinned_image ::
  "(string \<Rightarrow> (string \<times> string) option res) \<Rightarrow> string \<Rightarrow> string \<Rightarrow> bool \<Rightarrow> gerr option" where
  "validate_digest_pinned_image parse_ref field_name ref allow_unpinned =
     (case parse_ref ref of
        Inl e \<Rightarrow> Some (WrapErr (field_name @ '' '' @ quoted ref @ '' is not a valid image reference'') e)
      | Inr None \<Rightarrow>
          if allow_unpinned then None
          else Some (PlainErr (field_name @ '' '' @ quoted ref @
                 '' must be pinned by digest (name@sha256:<64-hex>); set the corresponding allow_unpinned_*_image flag to override in development''))
      | Inr (Some (algorithm, encoded)) \<Rightarrow>
          if algorithm \<noteq> ''sha256'' \<or> length encoded \<noteq> 64
          then Some (PlainErr (field_name @ '' '' @ quoted ref @ '' must be pinned by a sha256 digest''))
          else None)"

section \<open>The DinD ceiling\<close>

definition all_dind_modes :: "string list" where
  "all_dind_modes = [dind_mode_none, dind_mode_privileged_sidecar, dind_mode_sysbox_runc]"

definition default_allowed_dind_modes :: "string list" where
  "default_allowed_dind_modes = [dind_mode_none]"

definition valid_allowed_modes :: "string list \<Rightarrow> gerr option" where
  "valid_allowed_modes modes =
     map_option (\<lambda>m. PlainErr (''allowed_dind_modes contains invalid mode '' @ quoted m @ '': must be one of '' @
         show_strings all_dind_modes))
       (find (\<lambda>m. m \<notin> set all_dind_modes) modes)"

definition validate_dind_mode :: "(string \<Rightarrow> (string \<times> string) option res) \<Rightarrow> config \<Rightarrow> gerr option" where
  "validate_dind_mode parse_ref c =
     (if cf_dind_mode c \<notin> set all_dind_modes
      then Some (PlainErr (''dind_mode '' @ quoted (cf_dind_mode c) @ '' is invalid: must be one of '' @ show_strings all_dind_modes))
      else (case valid_allowed_modes (cf_allowed_dind_modes c) of
              Some e \<Rightarrow> Some e
            | None \<Rightarrow>
                if cf_dind_mode c \<notin> set (cf_allowed_dind_modes c)
                then Some (PlainErr (''dind_mode '' @ quoted (cf_dind_mode c) @ '' is not in allowed_dind_modes '' @
                       show_strings (cf_allowed_dind_modes c)))
                else if cf_dind_mode c \<noteq> dind_mode_none \<and> cf_dind_image c = ''''
                then Some (PlainErr (''dind_image is required when dind_mode is '' @ quoted (cf_dind_mode c)))
                else if cf_dind_image c \<noteq> ''''
                then validate_digest_pinned_image parse_ref ''dind_image'' (cf_dind_image c) (cf_allow_unpinned_dind_image c)
                else None))"

definition effective_dind_mode :: "config \<Rightarrow> string \<Rightarrow> string res" where
  "effective_dind_mode c pool_mode =
     (let mode = (if pool_mode \<noteq> '''' then pool_mode else cf_dind_mode c)
      in if cf_allowed_dind_modes c = []
         then Inl (PlainErr (''dind_mode '' @ quoted mode @ '' is denied: allowed_dind_modes is empty (an empty ceiling denies every mode; a loaded config always has at least the '' @
                show_strings default_allowed_dind_modes @ '' default)''))
         else if mode \<notin> set (cf_allowed_dind_modes c)
         then Inl (PlainErr (''dind_mode '' @ quoted mode @ '' is not within allowed_dind_modes '' @
                show_strings (cf_allowed_dind_modes c)))
         else Inr mode)"

definition validate_allowed_dind_modes :: "config \<Rightarrow> gerr option" where
  "validate_allowed_dind_modes c =
     (if cf_allowed_dind_modes c = []
      then Some (PlainErr (''allowed_dind_modes must not be empty (an empty ceiling denies every mode; set it to a non-empty subset of '' @
             show_strings all_dind_modes @ '')''))
      else valid_allowed_modes (cf_allowed_dind_modes c))"

definition validate_storage_driver :: "config \<Rightarrow> gerr option" where
  "validate_storage_driver c =
     (if cf_storage_driver c = ''overlay2'' \<or> cf_storage_driver c = ''vfs'' then None
      else Some (PlainErr (''storage_driver '' @ quoted (cf_storage_driver c) @ '' is invalid: must be '' @
             quoted ''overlay2'' @ '' or '' @ quoted ''vfs'')))"

section \<open>Memory and flavors\<close>

definition check_size :: "string \<Rightarrow> string \<Rightarrow> gerr option" where
  "check_size field v =
     (if v = '''' then None
      else (case parse_byte_size v of Inl e \<Rightarrow> Some (WrapErr (field @ '' '' @ quoted v) e) | Inr n \<Rightarrow> None))"

definition validate_resources :: "resources \<Rightarrow> gerr option" where
  "validate_resources r =
     (case check_size ''runner_memory'' (rs_runner_memory r) of
        Some e \<Rightarrow> Some e | None \<Rightarrow> check_size ''dind_memory'' (rs_dind_memory r))"

definition validate_flavor :: "(string \<Rightarrow> (string \<times> string) option res) \<Rightarrow> bool \<Rightarrow> flavor \<Rightarrow> gerr option" where
  "validate_flavor parse_ref allow_unpinned f =
     (case check_size ''runner_memory'' (fl_runner_memory f) of
        Some e \<Rightarrow> Some e
      | None \<Rightarrow>
          (case check_size ''dind_memory'' (fl_dind_memory f) of
             Some e \<Rightarrow> Some e
           | None \<Rightarrow>
               if fl_runner_image f \<noteq> ''''
               then validate_digest_pinned_image parse_ref ''runner_image'' (fl_runner_image f) allow_unpinned
               else None))"

definition effective_runner_image :: "config \<Rightarrow> string \<Rightarrow> string" where
  "effective_runner_image c flavor_name =
     (case map_of (cf_flavors c) flavor_name of
        Some fl \<Rightarrow> if fl_runner_image fl \<noteq> '''' then fl_runner_image fl else cf_runner_image c
      | None \<Rightarrow> cf_runner_image c)"

definition runner_memory_bytes :: "resources \<Rightarrow> int res" where
  "runner_memory_bytes r = (if rs_runner_memory r = '''' then Inr 0 else parse_byte_size (rs_runner_memory r))"

definition dind_memory_bytes :: "resources \<Rightarrow> int res" where
  "dind_memory_bytes r = (if rs_dind_memory r = '''' then Inr 0 else parse_byte_size (rs_dind_memory r))"

definition effective_runner_memory_bytes :: "config \<Rightarrow> string \<Rightarrow> int res" where
  "effective_runner_memory_bytes c flavor_name =
     (case map_of (cf_flavors c) flavor_name of
        Some fl \<Rightarrow> if fl_runner_memory fl \<noteq> '''' then parse_byte_size (fl_runner_memory fl)
                   else runner_memory_bytes (cf_resources c)
      | None \<Rightarrow> runner_memory_bytes (cf_resources c))"

definition effective_dind_memory_bytes :: "config \<Rightarrow> string \<Rightarrow> int res" where
  "effective_dind_memory_bytes c flavor_name =
     (case map_of (cf_flavors c) flavor_name of
        Some fl \<Rightarrow> if fl_dind_memory fl \<noteq> '''' then parse_byte_size (fl_dind_memory fl)
                   else dind_memory_bytes (cf_resources c)
      | None \<Rightarrow> dind_memory_bytes (cf_resources c))"

definition env_allowed :: "config \<Rightarrow> string \<Rightarrow> bool" where
  "env_allowed c name \<longleftrightarrow> name \<in> set (cf_allowed_env c)"

section \<open>Status reports\<close>

definition default_status_report_timeout_seconds :: int where "default_status_report_timeout_seconds = 90"
definition max_status_report_timeout_seconds :: int where "max_status_report_timeout_seconds = 600"

definition status_report_enabled :: "config \<Rightarrow> bool" where
  "status_report_enabled c = (case cf_status_timeout c of None \<Rightarrow> True | Some t \<Rightarrow> t > 0)"

definition status_report_timeout :: "config \<Rightarrow> duration" where
  "status_report_timeout c =
     (case cf_status_timeout c of
        None \<Rightarrow> default_status_report_timeout_seconds * second
      | Some t \<Rightarrow> i64 (t * second))"

definition validate_status_report :: "config \<Rightarrow> gerr option" where
  "validate_status_report c =
     (case cf_status_timeout c of
        None \<Rightarrow> None
      | Some v \<Rightarrow>
          if v < 0 \<or> v > max_status_report_timeout_seconds
          then Some (PlainErr (''timeout_seconds = '' @ itoa v @ '' is out of range: must be 0 (disabled) to '' @
                 itoa max_status_report_timeout_seconds))
          else None)"

end
