(* ===== verification/Runner_Env.thy ===== *)
theory Runner_Env
  imports Go_Url Config Cache_Spec "HOL-Library.List_Lexorder" "HOL-Library.Char_ord"
begin

text \<open>
  The runner's environment, from \<open>internal/spec/env.go\<close> and the environment part of
  \<open>internal/provider/create.go\<close>: the entity a repository URL names, the cache scope it implies, the
  variables the provider sets, and the merge of a pool's extra variables, which never override them.
\<close>

section \<open>Entities\<close>

datatype entity_scope = NoScope | EntityRepo | EntityOrg | EntityEnterprise

record entity =
  en_scope :: entity_scope
  en_org :: string
  en_repo :: string
  en_enterprise :: string

definition no_entity :: entity where
  "no_entity = \<lparr>en_scope = NoScope, en_org = '''', en_repo = '''', en_enterprise = ''''\<rparr>"

definition parse_entity :: "string \<Rightarrow> entity res" where
  "parse_entity repo_url =
     (case url_parse (trim_space repo_url) of
        Inl e \<Rightarrow> Inl (WrapErr (''failed to parse repo_url '' @ quoted repo_url) e)
      | Inr u \<Rightarrow>
          if to_lower (u_scheme u) \<notin> {''http'', ''https''}
          then Inl (PlainErr (''repo_url '' @ quoted repo_url @ '' is not an absolute http(s) URL (scheme '' @
                 quoted (u_scheme u) @ ''); refusing to classify its entity scope''))
          else if u_host u = ''''
          then Inl (PlainErr (''repo_url '' @ quoted repo_url @ '' has no host; refusing to classify its entity scope''))
          else
            (let path = trim_suffix (trim_by (\<lambda>c. c = CHR ''/'') (u_path u)) ''.git''
             in if path = '''' then Inl (PlainErr (''repo_url '' @ quoted repo_url @ '' has no path''))
                else
                  (let segments = split_on (CHR ''/'') path
                   in if hd segments = ''enterprises'' then
                        (if length segments \<noteq> 2 \<or> segments ! 1 = ''''
                         then Inl (PlainErr (''repo_url '' @ quoted repo_url @ '' is not a valid enterprise URL''))
                         else Inr (no_entity\<lparr>en_scope := EntityEnterprise, en_enterprise := segments ! 1\<rparr>))
                      else
                        (case segments of
                           [a] \<Rightarrow> Inr (no_entity\<lparr>en_scope := EntityOrg, en_org := a\<rparr>)
                         | [a, b] \<Rightarrow> Inr (no_entity\<lparr>en_scope := EntityRepo, en_org := a, en_repo := b\<rparr>)
                         | _ \<Rightarrow> Inl (PlainErr (''repo_url '' @ quoted repo_url @ '' has an unrecognized path depth''))))))"

datatype cache_scope = CacheScopeRepo | CacheScopeOrg | CacheScopeEnterprise | CacheScopeUnknown

fun cache_scope_name :: "cache_scope \<Rightarrow> string" where
  "cache_scope_name CacheScopeRepo = ''repo''"
| "cache_scope_name CacheScopeOrg = ''org''"
| "cache_scope_name CacheScopeEnterprise = ''enterprise''"
| "cache_scope_name CacheScopeUnknown = ''unknown''"

definition detect_cache_entity_scope :: "string \<Rightarrow> cache_scope" where
  "detect_cache_entity_scope repo_url =
     (case parse_entity repo_url of
        Inl e \<Rightarrow> CacheScopeUnknown
      | Inr ent \<Rightarrow>
          (case en_scope ent of
             EntityRepo \<Rightarrow> CacheScopeRepo | EntityOrg \<Rightarrow> CacheScopeOrg
           | EntityEnterprise \<Rightarrow> CacheScopeEnterprise | NoScope \<Rightarrow> CacheScopeUnknown))"

fun cache_scope_allowed :: "cache_scope \<Rightarrow> bool \<Rightarrow> bool" where
  "cache_scope_allowed CacheScopeRepo allow_org_shared = True"
| "cache_scope_allowed CacheScopeOrg allow_org_shared = allow_org_shared"
| "cache_scope_allowed CacheScopeEnterprise allow_org_shared = allow_org_shared"
| "cache_scope_allowed CacheScopeUnknown allow_org_shared = False"

section \<open>The provider's variables\<close>

definition env_pair :: "string \<Rightarrow> string \<Rightarrow> string" where
  "env_pair k v = k @ CHR ''='' # v"

definition PnpmStoreDirEnvNpm :: string where "PnpmStoreDirEnvNpm = ''npm_config_store_dir''"
definition PnpmStoreDirEnvPnpm :: string where "PnpmStoreDirEnvPnpm = ''pnpm_config_store_dir''"
definition PnpmCacheDirEnvNpm :: string where "PnpmCacheDirEnvNpm = ''npm_config_cache_dir''"
definition PnpmCacheDirEnvPnpm :: string where "PnpmCacheDirEnvPnpm = ''pnpm_config_cache_dir''"
definition PnpmMetadataCacheSubdir :: string where "PnpmMetadataCacheSubdir = ''metadata-cache''"

definition pnpm_metadata_cache_dir :: "string \<Rightarrow> string" where
  "pnpm_metadata_cache_dir store_dir =
     (if store_dir = '''' then '''' else path_join store_dir PnpmMetadataCacheSubdir)"

record runner_env_options =
  eo_jit :: bool
  eo_github_url :: string
  eo_work_dir :: string
  eo_docker_host :: string
  eo_tool_cache_dir :: string
  eo_pnpm_store_dir :: string
  eo_entity :: entity
  eo_runner_name :: string
  eo_runner_group :: string
  eo_labels :: "string list"

definition scope_env :: "entity \<Rightarrow> string list" where
  "scope_env ent =
     (case en_scope ent of
        EntityEnterprise \<Rightarrow> [env_pair ''RUNNER_ENTERPRISE'' (en_enterprise ent)]
      | EntityOrg \<Rightarrow> [env_pair ''RUNNER_ORG'' (en_org ent)]
      | EntityRepo \<Rightarrow> [env_pair ''RUNNER_ORG'' (en_org ent), env_pair ''RUNNER_REPO'' (en_repo ent)]
      | NoScope \<Rightarrow> [])"

definition build_runner_env_spec :: "runner_env_options \<Rightarrow> string list" where
  "build_runner_env_spec o' =
     (let env0 = [env_pair ''JIT_CONFIG_ENABLED'' (if eo_jit o' then ''true'' else ''false''),
                  env_pair ''RUNNER_WORKDIR'' (eo_work_dir o'),
                  env_pair ''GITHUB_URL'' (eo_github_url o'),
                  ''DISABLE_RUNNER_UPDATE=true''];
          env1 = (if eo_docker_host o' \<noteq> ''''
                  then env0 @ [env_pair ''DOCKER_HOST'' (eo_docker_host o'), env_pair DindSocketGIDEnv DindSocketGID]
                  else env0);
          env2 = (if eo_tool_cache_dir o' \<noteq> ''''
                  then env1 @ [env_pair ''RUNNER_TOOL_CACHE'' (eo_tool_cache_dir o')] else env1);
          env3 = (if eo_pnpm_store_dir o' \<noteq> ''''
                  then env2 @ [env_pair PnpmStoreDirEnvNpm (eo_pnpm_store_dir o'),
                               env_pair PnpmStoreDirEnvPnpm (eo_pnpm_store_dir o'),
                               env_pair PnpmCacheDirEnvNpm (pnpm_metadata_cache_dir (eo_pnpm_store_dir o')),
                               env_pair PnpmCacheDirEnvPnpm (pnpm_metadata_cache_dir (eo_pnpm_store_dir o'))]
                  else env2)
      in if eo_jit o' then env3
         else env3 @ scope_env (eo_entity o') @
              (if eo_runner_group o' \<noteq> '''' then [env_pair ''RUNNER_GROUP'' (eo_runner_group o')] else []) @
              [env_pair ''RUNNER_NAME'' (eo_runner_name o')] @
              (if eo_labels o' \<noteq> [] then [env_pair ''RUNNER_LABELS'' (join_with '','' (eo_labels o'))] else []) @
              [''RUNNER_NO_DEFAULT_LABELS=true'', ''RUNNER_EPHEMERAL=true''])"

section \<open>The bootstrap payload and the merge\<close>

text \<open>GARM's \<open>BootstrapInstance\<close>, as far as the provider reads it.\<close>

record bootstrap =
  bs_name :: string
  bs_repo_url :: string
  bs_callback_url :: string
  bs_metadata_url :: string
  bs_instance_token :: string
  bs_ca_cert_bundle :: string
  bs_os_type :: string
  bs_os_arch :: string
  bs_labels :: "string list"
  bs_pool_id :: string
  bs_jit :: bool
  bs_runner_group :: string

definition github_base_url :: "string \<Rightarrow> string" where
  "github_base_url repo_url =
     (case url_parse repo_url of
        Inl e \<Rightarrow> ''''
      | Inr u \<Rightarrow> if u_host u = '''' then '''' else u_scheme u @ ''://'' @ u_host u)"

definition env_key :: "string \<Rightarrow> string" where
  "env_key e = takeWhile (\<lambda>c. c \<noteq> CHR ''='') e"

text \<open>
  The keys an environment sets. \<open>extra\<close> lists the pool's variables, each name once. Go collects its
  keys and sorts them.
\<close>

definition present_keys :: "string list \<Rightarrow> string list" where
  "present_keys env = map env_key (filter (\<lambda>e. CHR ''='' \<in> set e) env)"

definition merge_extra_env :: "string list \<Rightarrow> (string \<times> string) list \<Rightarrow> string list" where
  "merge_extra_env env extra =
     (let present = present_keys env
      in env @ map (\<lambda>k. env_pair k (the (map_of extra k)))
           (filter (\<lambda>k. k \<notin> set present) (sort (map fst extra))))"

text \<open>The names it drops, which are logged.\<close>

definition env_collisions :: "string list \<Rightarrow> (string \<times> string) list \<Rightarrow> string list" where
  "env_collisions env extra = filter (\<lambda>k. k \<in> set (present_keys env)) (sort (map fst extra))"

definition build_runner_env ::
  "bootstrap \<Rightarrow> string \<Rightarrow> string \<Rightarrow> string \<Rightarrow> string \<Rightarrow> string \<Rightarrow> string list \<Rightarrow> (string \<times> string) list \<Rightarrow>
   (string list \<times> string list) res" where
  "build_runner_env b docker_host tool_cache_dir pnpm_store_dir diag_dir seeded_marker extra_labels extra_env =
     (let opts = \<lparr>eo_jit = bs_jit b, eo_github_url = github_base_url (bs_repo_url b), eo_work_dir = RunnerWorkDir,
                  eo_docker_host = docker_host, eo_tool_cache_dir = tool_cache_dir,
                  eo_pnpm_store_dir = pnpm_store_dir, eo_entity = no_entity, eo_runner_name = bs_name b,
                  eo_runner_group = bs_runner_group b, eo_labels = bs_labels b @ extra_labels\<rparr>;
          finish = (\<lambda>opts.
            (let env0 = build_runner_env_spec opts;
                 env1 = (if diag_dir \<noteq> '''' then env0 @ [env_pair RunnerDiagDirEnv diag_dir] else env0);
                 env2 = (if seeded_marker \<noteq> '''' then env1 @ [env_pair RunnerExternalsSeededMarkerEnv seeded_marker] else env1)
             in (merge_extra_env env2 extra_env, env_collisions env2 extra_env)))
      in if bs_jit b then Inr (finish opts)
         else (case parse_entity (bs_repo_url b) of
                 Inl e \<Rightarrow> Inl (WrapErr ''failed to parse repo_url for non-JIT runner env'' e)
               | Inr ent \<Rightarrow> Inr (finish (opts\<lparr>eo_entity := ent\<rparr>))))"

definition supported_os_arches :: "string list" where
  "supported_os_arches = [''amd64'', ''arm64'']"

definition validate_platform :: "bootstrap \<Rightarrow> gerr option" where
  "validate_platform b =
     (if bs_os_type b \<noteq> ''linux''
      then Some (PlainErr (''unsupported OS type '' @ quoted (bs_os_type b) @ '' for instance '' @ quoted (bs_name b) @
             '': only '' @ quoted ''linux'' @ '' is supported''))
      else if bs_os_arch b \<notin> set supported_os_arches
      then Some (PlainErr (''unsupported architecture '' @ quoted (bs_os_arch b) @ '' for instance '' @ quoted (bs_name b) @
             '': only '' @ show_strings supported_os_arches @ '' are supported''))
      else None)"

end
