(* ===== verification/Extra_Specs.thy ===== *)
theory Extra_Specs
  imports Runner_Env "HOL-Library.AList"
begin

text \<open>
  A pool's \<open>extra_specs\<close>, from \<open>internal/extraspecs\<close>: the keys stripped for GARM, the decoding and
  the checks of environment names, and the resolution against the operator's ceilings. The payload
  is a decoded JSON value; the schema validator is third-party code, the argument \<open>schema_errors\<close>,
  which answers the errors of the embedded schema.
\<close>

datatype json = JNull | JBool bool | JNum string | JStr string | JArr "json list" | JObj "(string \<times> json) list"

record extra_specs =
  es_flavor :: string
  es_dind_mode :: string
  es_runner_memory :: string
  es_dind_memory :: string
  es_storage_driver :: string
  es_runner_labels :: "string list"
  es_extra_env :: "(string \<times> string) list"

definition no_extra_specs :: extra_specs where
  "no_extra_specs = \<lparr>es_flavor = '''', es_dind_mode = '''', es_runner_memory = '''', es_dind_memory = '''',
     es_storage_driver = '''', es_runner_labels = [], es_extra_env = []\<rparr>"

section \<open>Environment names\<close>

text \<open>\<open>^[A-Za-z_][A-Za-z0-9_]*$\<close>\<close>

definition env_name_start :: "char \<Rightarrow> bool" where
  "env_name_start c \<longleftrightarrow> is_upper_ascii c \<or> is_lower_ascii c \<or> c = CHR ''_''"

definition valid_env_name :: "string \<Rightarrow> bool" where
  "valid_env_name name \<longleftrightarrow>
     name \<noteq> [] \<and> env_name_start (hd name) \<and> list_all (\<lambda>c. env_name_start c \<or> is_digit c) (tl name)"

definition reserved_env_prefixes :: "string list" where
  "reserved_env_prefixes = [''RUNNER_'', ''DOCKER_'', ''ACTIONS_RUNNER_INPUT_'', ''GARM_'', ''LD_'']"

definition reserved_env_exact :: "string list" where
  "reserved_env_exact =
     [''JIT_CONFIG_ENABLED'', ''GITHUB_URL'', ''RUN_AS_ROOT'', ''WAIT_FOR_DOCKER_SECONDS'', ''BASH_ENV'', ''ENV'',
      ''IFS'', ''PATH'', ''NODE_OPTIONS'']"

definition reserved_env_name :: "string \<Rightarrow> bool" where
  "reserved_env_name name =
     (let upper = to_upper (trim_space name)
      in list_ex (\<lambda>p. has_prefix upper p) reserved_env_prefixes \<or> upper \<in> set reserved_env_exact)"

section \<open>Parsing\<close>

definition garm_reserved_keys :: "string list" where
  "garm_reserved_keys = [''runner_install_template'']"

definition is_garm_reserved_key :: "string \<Rightarrow> bool" where
  "is_garm_reserved_key name \<longleftrightarrow> name \<in> set garm_reserved_keys"

text \<open>A JSON object decoded into a map: the last of several equal keys wins; encoding it again sorts
  the keys.\<close>

definition object_map :: "(string \<times> json) list \<Rightarrow> (string \<times> json) list" where
  "object_map kvs = map (\<lambda>k. (k, the (map_of (rev kvs) k))) (sort (remdups (map fst kvs)))"

definition strip_garm_reserved_keys :: "json \<Rightarrow> json res" where
  "strip_garm_reserved_keys raw =
     (case raw of
        JObj kvs \<Rightarrow>
          (let fm = object_map kvs
           in case find (\<lambda>(name, value). is_garm_reserved_key name \<and>
                       (case value of JStr s \<Rightarrow> False | JNull \<Rightarrow> False | _ \<Rightarrow> True)) fm of
                Some (name, value) \<Rightarrow> Inl (PlainErr (''extra_specs.'' @ name @
                    '' is reserved for GARM and must be a JSON string (GARM encodes it as base64)''))
              | None \<Rightarrow>
                  if list_ex (\<lambda>(name, value). is_garm_reserved_key name) fm
                  then Inr (JObj (filter (\<lambda>(name, value). \<not> is_garm_reserved_key name) fm))
                  else Inr raw)
      | _ \<Rightarrow> Inr raw)"

fun decode_strings :: "json list \<Rightarrow> string list option" where
  "decode_strings [] = Some []"
| "decode_strings (JStr s # js) = map_option (\<lambda>ss. s # ss) (decode_strings js)"
| "decode_strings (JNull # js) = map_option (\<lambda>ss. '''' # ss) (decode_strings js)"
| "decode_strings (_ # js) = None"

fun decode_env :: "(string \<times> json) list \<Rightarrow> (string \<times> string) list \<Rightarrow> (string \<times> string) list option" where
  "decode_env [] env = Some env"
| "decode_env ((k, JStr s) # js) env = decode_env js (AList.update k s env)"
| "decode_env ((k, JNull) # js) env = decode_env js (AList.update k '''' env)"
| "decode_env ((k, _) # js) env = None"

text \<open>One field of the object, into the struct decoded so far. Go matches field names without case.\<close>

definition decode_field :: "string \<Rightarrow> json \<Rightarrow> extra_specs \<Rightarrow> extra_specs option" where
  "decode_field name value s =
     (let str = (\<lambda>f. case value of JStr v \<Rightarrow> Some (f v) | JNull \<Rightarrow> Some s | _ \<Rightarrow> None)
      in if equal_fold name ''flavor'' then str (\<lambda>v. s\<lparr>es_flavor := v\<rparr>)
         else if equal_fold name ''dind_mode'' then str (\<lambda>v. s\<lparr>es_dind_mode := v\<rparr>)
         else if equal_fold name ''runner_memory'' then str (\<lambda>v. s\<lparr>es_runner_memory := v\<rparr>)
         else if equal_fold name ''dind_memory'' then str (\<lambda>v. s\<lparr>es_dind_memory := v\<rparr>)
         else if equal_fold name ''storage_driver'' then str (\<lambda>v. s\<lparr>es_storage_driver := v\<rparr>)
         else if equal_fold name ''runner_labels'' then
           (case value of
              JArr js \<Rightarrow> map_option (\<lambda>ss. s\<lparr>es_runner_labels := ss\<rparr>) (decode_strings js)
            | JNull \<Rightarrow> Some (s\<lparr>es_runner_labels := []\<rparr>)
            | _ \<Rightarrow> None)
         else if equal_fold name ''extra_env'' then
           (case value of
              JObj js \<Rightarrow> map_option (\<lambda>env. s\<lparr>es_extra_env := env\<rparr>) (decode_env js (es_extra_env s))
            | JNull \<Rightarrow> Some (s\<lparr>es_extra_env := []\<rparr>)
            | _ \<Rightarrow> None)
         else None)"

fun decode_fields :: "(string \<times> json) list \<Rightarrow> extra_specs \<Rightarrow> extra_specs option" where
  "decode_fields [] s = Some s"
| "decode_fields ((name, value) # kvs) s =
     (case decode_field name value s of None \<Rightarrow> None | Some s' \<Rightarrow> decode_fields kvs s')"

definition decode_extra_specs :: "json \<Rightarrow> extra_specs option" where
  "decode_extra_specs raw =
     (case raw of JObj kvs \<Rightarrow> decode_fields kvs no_extra_specs | JNull \<Rightarrow> Some no_extra_specs | _ \<Rightarrow> None)"

definition check_env_name :: "string \<Rightarrow> gerr option" where
  "check_env_name name =
     (if \<not> valid_env_name name
      then Some (PlainErr (''extra_specs.extra_env key '' @ quoted name @ '' is not a valid environment variable name: names must match ^[A-Za-z_][A-Za-z0-9_]*$ (no '=', whitespace, unicode, or leading digit)''))
      else if reserved_env_name name
      then Some (PlainErr (''extra_specs.extra_env may not set the hard-reserved variable '' @ quoted name @
             '': the provider hard-reserves '' @ show_strings reserved_env_exact @ '' and prefixes '' @
             show_strings reserved_env_prefixes @ '' regardless of allowed_env; provider-injected environment always wins''))
      else None)"

text \<open>The names are checked in an order Go does not fix; a first error is reported in the list's order.\<close>

definition parse_extra_specs :: "(json \<Rightarrow> string list) \<Rightarrow> json \<Rightarrow> extra_specs res" where
  "parse_extra_specs schema_errors raw0 =
     (case strip_garm_reserved_keys raw0 of
        Inl e \<Rightarrow> Inl e
      | Inr raw \<Rightarrow>
          if schema_errors raw \<noteq> []
          then Inl (PlainErr (''extra_specs failed schema validation: '' @ join_with ''; '' (schema_errors raw)))
          else (case decode_extra_specs raw of
                  None \<Rightarrow> Inl (PlainErr ''failed to decode extra_specs'')
                | Some s \<Rightarrow>
                    (case List.map_filter (\<lambda>(name, v). check_env_name name) (es_extra_env s) of
                       e # es \<Rightarrow> Inl e
                     | [] \<Rightarrow> Inr s)))"

section \<open>Resolution\<close>

record resolved =
  rv_flavor :: string
  rv_dind_mode :: string
  rv_runner_image :: string
  rv_runner_memory_bytes :: int
  rv_dind_memory_bytes :: int
  rv_storage_driver :: string
  rv_extra_runner_labels :: "string list"
  rv_extra_env :: "(string \<times> string) list"

definition bound_memory :: "string \<Rightarrow> string \<Rightarrow> int \<Rightarrow> int res" where
  "bound_memory field override ceiling_bytes =
     (if override = '''' then Inr ceiling_bytes
      else (case parse_positive_byte_size override of
              Inl e \<Rightarrow> Inl (WrapErr (''extra_specs.'' @ field @ '' '' @ quoted override) e)
            | Inr req \<Rightarrow>
                if ceiling_bytes > 0 \<and> req > ceiling_bytes
                then Inl (PlainErr (''extra_specs.'' @ field @ '' '' @ quoted override @ '' ('' @ itoa req @
                       '' bytes) exceeds the configured ceiling of '' @ itoa ceiling_bytes @
                       '' bytes; extra_specs may only request within the operator's limit (reject-not-clamp)''))
                else Inr req))"

definition resolve_specs :: "extra_specs \<Rightarrow> config \<Rightarrow> resolved res" where
  "resolve_specs s cfg =
     (if es_flavor s \<noteq> '''' \<and> map_of (cf_flavors cfg) (es_flavor s) = None
      then Inl (PlainErr (''extra_specs.flavor '' @ quoted (es_flavor s) @ '' is not a configured flavor (define [flavors.'' @ es_flavor s @
             ''] in the provider config)''))
      else (case effective_dind_mode cfg (es_dind_mode s) of
        Inl e \<Rightarrow> Inl (WrapErr ''extra_specs.dind_mode rejected'' e)
      | Inr dind_mode \<Rightarrow>
      (case effective_runner_memory_bytes cfg (es_flavor s) of
        Inl e \<Rightarrow> Inl (WrapErr ''failed to resolve the runner_memory ceiling'' e)
      | Inr runner_ceiling \<Rightarrow>
      (case bound_memory ''runner_memory'' (es_runner_memory s) runner_ceiling of
        Inl e \<Rightarrow> Inl e
      | Inr runner_bytes \<Rightarrow>
      (case effective_dind_memory_bytes cfg (es_flavor s) of
        Inl e \<Rightarrow> Inl (WrapErr ''failed to resolve the dind_memory ceiling'' e)
      | Inr dind_ceiling \<Rightarrow>
      (case bound_memory ''dind_memory'' (es_dind_memory s) dind_ceiling of
        Inl e \<Rightarrow> Inl e
      | Inr dind_bytes \<Rightarrow>
      (case find (\<lambda>name. \<not> env_allowed cfg name) (sort (map fst (es_extra_env s))) of
        Some name \<Rightarrow> Inl (PlainErr (''extra_specs.extra_env key '' @ quoted name @
            '' is not on the operator's allowlist ([extra_specs].allowed_env); extra env is fail-closed and rejected by default unless the operator opts the name in''))
      | None \<Rightarrow>
          Inr \<lparr>rv_flavor = es_flavor s, rv_dind_mode = dind_mode,
               rv_runner_image = effective_runner_image cfg (es_flavor s),
               rv_runner_memory_bytes = runner_bytes, rv_dind_memory_bytes = dind_bytes,
               rv_storage_driver = (if es_storage_driver s \<noteq> '''' then es_storage_driver s else cf_storage_driver cfg),
               rv_extra_runner_labels = es_runner_labels s, rv_extra_env = es_extra_env s\<rparr>)))))))"

end
