(* ===== verification/Go_Net.thy ===== *)
theory Go_Net
  imports Go_Url
begin

text \<open>
  Addresses of Go's \<open>net\<close> and \<open>net/netip\<close>: \<open>ParseIP\<close>, \<open>IsLoopback\<close>, \<open>ParsePrefix\<close> with its mask, and
  \<open>SplitHostPort\<close>. An address is its list of bytes, four or sixteen.
\<close>

section \<open>Addresses\<close>

type_synonym ip = "nat list"

definition ipv4_octet :: "string \<Rightarrow> nat option" where
  "ipv4_octet s =
     (if s = '''' \<or> \<not> list_all is_digit s then None
      else if length s > 1 \<and> hd s = CHR ''0'' then None
      else if length s > 3 \<or> dec_val s > 255 then None
      else Some (dec_val s))"

definition parse_ipv4 :: "string \<Rightarrow> ip option" where
  "parse_ipv4 s =
     (let parts = map ipv4_octet (split_on (CHR ''.'') s)
      in if length parts = 4 \<and> None \<notin> set parts then Some (map the parts) else None)"

definition hex_value :: "string \<Rightarrow> nat" where
  "hex_value s = foldl (\<lambda>a c. 16 * a + unhex c) 0 s"

text \<open>
  The groups of an IPv6 address: \<open>acc\<close> holds the bytes read, \<open>ell\<close> the place of the ellipsis. The
  final check fills the ellipsis with zeros.
\<close>

definition ipv6_finish :: "ip \<Rightarrow> nat option \<Rightarrow> ip option" where
  "ipv6_finish acc ell =
     (case ell of
        None \<Rightarrow> if length acc = 16 then Some acc else None
      | Some k \<Rightarrow>
          if length acc < 16 then Some (take k acc @ replicate (16 - length acc) 0 @ drop k acc) else None)"

function ipv6_groups :: "string \<Rightarrow> ip \<Rightarrow> nat option \<Rightarrow> ip option" where
  "ipv6_groups s acc ell =
     (if length acc \<ge> 16 then (if s = [] then ipv6_finish acc ell else None)
      else
        (case (takeWhile is_hex s, dropWhile is_hex s) of (g, rest) \<Rightarrow>
           if g = [] \<or> length g > 4 then None
           else if has_prefix rest ''.'' then
             (if ell = None \<and> length acc \<noteq> 12 then None
              else if length acc + 4 > 16 then None
              else (case parse_ipv4 s of None \<Rightarrow> None | Some b \<Rightarrow> ipv6_finish (acc @ b) ell))
           else
             (case (acc @ [hex_value g div 256, hex_value g mod 256], rest) of
                (acc', []) \<Rightarrow> ipv6_finish acc' ell
              | (acc', [c]) \<Rightarrow> None
              | (acc', c # d # r) \<Rightarrow>
                  if c \<noteq> CHR '':'' then None
                  else if d = CHR '':'' then
                    (if ell \<noteq> None then None
                     else if r = [] then ipv6_finish acc' (Some (length acc'))
                     else ipv6_groups r acc' (Some (length acc')))
                  else ipv6_groups (d # r) acc' ell)))"
  by pat_completeness auto
termination
  by (relation "measure (\<lambda>(s, acc, ell). 18 - length acc)") auto

declare ipv6_groups.simps [simp del]

definition parse_ipv6 :: "string \<Rightarrow> ip option" where
  "parse_ipv6 s =
     (if s = ''::'' then Some (replicate 16 0)
      else if has_prefix s ''::'' then ipv6_groups (drop 2 s) [] (Some 0)
      else ipv6_groups s [] None)"

text \<open>The first of dot, colon and percent decides; a zone is refused.\<close>

definition parse_ip :: "string \<Rightarrow> ip option" where
  "parse_ip s =
     (if CHR ''%'' \<in> set s then None
      else (case find (\<lambda>c. c = CHR ''.'' \<or> c = CHR '':'') s of
              None \<Rightarrow> None
            | Some c \<Rightarrow> if c = CHR ''.'' then parse_ipv4 s else parse_ipv6 s))"

text \<open>\<open>To4\<close> unwraps an IPv4-mapped address.\<close>

definition to4 :: "ip \<Rightarrow> ip option" where
  "to4 a =
     (if length a = 4 then Some a
      else if length a = 16 \<and> take 12 a = replicate 10 0 @ [255, 255] then Some (drop 12 a)
      else None)"

definition is_loopback :: "ip \<Rightarrow> bool" where
  "is_loopback a \<longleftrightarrow>
     (case to4 a of Some b \<Rightarrow> hd b = 127 | None \<Rightarrow> a = replicate 15 0 @ [1])"

section \<open>Prefixes\<close>

definition mask_byte :: "nat \<Rightarrow> nat \<Rightarrow> nat" where
  "mask_byte b n = (if n \<ge> 8 then b else b div 2 ^ (8 - n) * 2 ^ (8 - n))"

definition masked :: "ip \<Rightarrow> nat \<Rightarrow> ip" where
  "masked a bits = map (\<lambda>i. mask_byte (a ! i) (bits - 8 * i)) [0..<length a]"

text \<open>A prefix length: decimal, without sign or leading zero, at most the address's width.\<close>

definition parse_prefix :: "string \<Rightarrow> (ip \<times> nat) option" where
  "parse_prefix s =
     (case last_index s (CHR ''/'') of
        None \<Rightarrow> None
      | Some i \<Rightarrow>
          (case parse_ip (take i s) of
             None \<Rightarrow> None
           | Some a \<Rightarrow>
               (let b = drop (i + 1) s
                in if b = '''' \<or> \<not> list_all is_digit b \<or> (length b > 1 \<and> hd b = CHR ''0'') then None
                   else if dec_val b > 8 * length a then None
                   else Some (masked a (dec_val b), dec_val b))))"

section \<open>Host and port\<close>

text \<open>\<open>net.SplitHostPort\<close>.\<close>

definition net_split_host_port :: "string \<Rightarrow> (string \<times> string) res" where
  "net_split_host_port hp =
     (case last_index hp (CHR '':'') of
        None \<Rightarrow> Inl (PlainErr ''missing port in address'')
      | Some i \<Rightarrow>
          if has_prefix hp ''['' then
            (case str_index hp '']'' of
               None \<Rightarrow> Inl (PlainErr ''missing ']' in address'')
             | Some e \<Rightarrow>
                 if e + 1 = length hp then Inl (PlainErr ''missing port in address'')
                 else if e + 1 \<noteq> i then
                   Inl (PlainErr (if hp ! (e + 1) = CHR '':'' then ''too many colons in address''
                                  else ''missing port in address''))
                 else if CHR ''['' \<in> set (drop 1 hp) then Inl (PlainErr ''unexpected '['  in address'')
                 else if CHR '']'' \<in> set (drop (e + 1) hp) then Inl (PlainErr ''unexpected ']' in address'')
                 else Inr (drop 1 (take e hp), drop (i + 1) hp))
          else if CHR '':'' \<in> set (take i hp) then Inl (PlainErr ''too many colons in address'')
          else if CHR ''['' \<in> set hp then Inl (PlainErr ''unexpected '[' in address'')
          else if CHR '']'' \<in> set hp then Inl (PlainErr ''unexpected ']' in address'')
          else Inr (take i hp, drop (i + 1) hp))"

section \<open>Lemmas\<close>

lemma ipv4_octet_bound: "ipv4_octet s = Some n \<Longrightarrow> n < 256"
  by (simp add: ipv4_octet_def split: if_splits)

lemma loopback_examples:
  "map_option is_loopback (parse_ip ''127.0.0.1'') = Some True"
  "map_option is_loopback (parse_ip ''::1'') = Some True"
  "map_option is_loopback (parse_ip ''10.0.0.1'') = Some False"
  "parse_ip ''127.0.0.01'' = None" "parse_ip ''1::2::3'' = None" "parse_ip ''fe80::1%eth0'' = None"
  by code_simp+

end
