(* ===== verification/Metadata.thy ===== *)
theory Metadata
  imports Go_Net Topology_Report
begin

text \<open>
  The client of GARM's metadata and callback endpoints, from \<open>internal/metadata\<close> and \<open>Redact\<close> of
  \<open>internal/logging\<close>: the checks on a URL the instance token is sent to, the redirect policy, the
  retries and the credential files. One exchange over the network is the argument \<open>http\<close>: it sends a
  request, with the token as bearer, and answers a transport failure, a redirect with its absolute
  target, or a status with the body read. Following redirects is \<open>net/http\<close>'s loop around the code's
  policy. \<open>ctx_err\<close> reads whether the call's time is spent, \<open>pem_ok\<close> is the certificate parser.
\<close>

section \<open>Exchanges\<close>

record http_request =
  hr_post :: bool
  hr_url :: string
  hr_token :: string
  hr_body :: "(string \<times> string) option"

datatype http_reply =
    HttpFail gerr
  | HttpRedirect int string
  | HttpStatus int "string res"

definition redacted_placeholder :: string where "redacted_placeholder = ''[REDACTED]''"

definition redact :: "string \<Rightarrow> string \<Rightarrow> string" where
  "redact s secret = (if secret = '''' then s else replace_all s secret redacted_placeholder)"

section \<open>URLs that may carry the token\<close>

definition is_loopback_host :: "string \<Rightarrow> bool" where
  "is_loopback_host host \<longleftrightarrow>
     host = ''localhost'' \<or> (case parse_ip host of None \<Rightarrow> False | Some a \<Rightarrow> is_loopback a)"

definition validate_token_url :: "string \<Rightarrow> string \<Rightarrow> gerr option" where
  "validate_token_url field raw =
     (case url_parse raw of
        Inl e \<Rightarrow> Some (WrapErr (''invalid '' @ field @ '' '' @ quoted raw) e)
      | Inr u \<Rightarrow>
          if u_host u = '''' then Some (PlainErr (field @ '' '' @ quoted raw @ '' has no host''))
          else if u_user u \<noteq> None then Some (PlainErr (field @ '' '' @ quoted raw @ '' must not embed userinfo credentials''))
          else if u_scheme u = ''https'' then None
          else if u_scheme u = ''http'' then
            (if is_loopback_host (hostname u) then None
             else Some (PlainErr (field @ '' '' @ quoted raw @
                    '' uses cleartext http to a non-loopback host; https is required to protect the instance token'')))
          else Some (PlainErr (field @ '' '' @ quoted raw @ '' must use https (or http to a loopback host), got scheme '' @
                 quoted (u_scheme u))))"

definition metadata_url_field :: string where "metadata_url_field = ''metadata-url''"
definition callback_url_field :: string where "callback_url_field = ''callback-url''"

definition validate_metadata_url :: "string \<Rightarrow> gerr option" where
  "validate_metadata_url raw = validate_token_url metadata_url_field raw"

definition origin_key :: "url \<Rightarrow> string" where
  "origin_key u =
     (let port = (if url_port u \<noteq> '''' then url_port u
                  else if u_scheme u = ''https'' then ''443''
                  else if u_scheme u = ''http'' then ''80'' else '''')
      in u_scheme u @ ''://'' @ to_lower (hostname u) @ '':'' @ port)"

section \<open>The client\<close>

definition default_max_retries :: nat where "default_max_retries = 3"
definition max_credential_bytes :: nat where "max_credential_bytes = 2 ^ 20"
definition max_redirects :: nat where "max_redirects = 3"

record 's metadata_client =
  mc_base_url :: string
  mc_token :: string
  mc_origin :: string
  mc_max_retries :: nat
  mc_follow :: bool
  mc_http :: "http_request \<Rightarrow> ('s, http_reply) state"
  mc_ctx_err :: "'s \<Rightarrow> gerr option"

definition new_client ::
  "(http_request \<Rightarrow> ('s, http_reply) state) \<Rightarrow> ('s \<Rightarrow> gerr option) \<Rightarrow> (string \<Rightarrow> bool) \<Rightarrow>
   string \<Rightarrow> string \<Rightarrow> string \<Rightarrow> string \<Rightarrow> 's metadata_client res" where
  "new_client http ctx_err pem_ok field base_url token ca_bundle =
     (case validate_token_url field base_url of
        Some e \<Rightarrow> Inl e
      | None \<Rightarrow>
          if ca_bundle \<noteq> '''' \<and> \<not> pem_ok ca_bundle
          then Inl (PlainErr ''failed to parse ca-cert-bundle: no valid certificates found'')
          else (case url_parse base_url of
                  Inl e \<Rightarrow> Inl (WrapErr (''invalid '' @ field @ '' '' @ quoted base_url) e)
                | Inr base \<Rightarrow>
                    Inr \<lparr>mc_base_url = trim_right_by (\<lambda>c. c = CHR ''/'') base_url, mc_token = token,
                         mc_origin = origin_key base, mc_max_retries = default_max_retries, mc_follow = True,
                         mc_http = http, mc_ctx_err = ctx_err\<rparr>))"

definition client_redact :: "'s metadata_client \<Rightarrow> gerr \<Rightarrow> gerr" where
  "client_redact c e = PlainErr (redact (err_text e) (mc_token c))"

text \<open>\<open>via\<close> counts the requests already made for this call.\<close>

definition check_redirect :: "'s metadata_client \<Rightarrow> string \<Rightarrow> nat \<Rightarrow> gerr option" where
  "check_redirect c target via =
     (if via \<ge> max_redirects
      then Some (PlainErr (''stopped after '' @ nat_str max_redirects @ '' redirects fetching metadata''))
      else (case validate_metadata_url target of
              Some e \<Rightarrow> Some (client_redact c (WrapErr ''refusing metadata redirect'' e))
            | None \<Rightarrow>
                (case url_parse target of
                   Inl e \<Rightarrow> Some e
                 | Inr u \<Rightarrow>
                     if origin_key u \<noteq> mc_origin c
                     then Some (PlainErr (''refusing cross-origin metadata redirect from '' @ mc_origin c @ '' to '' @
                            origin_key u))
                     else None)))"

text \<open>One call of the HTTP client: the loop of \<open>net/http\<close> with the client's redirect policy.\<close>

function http_do :: "'s metadata_client \<Rightarrow> http_request \<Rightarrow> nat \<Rightarrow> ('s, http_reply) state" where
  "http_do c rq via = do {
     r \<leftarrow> mc_http c rq;
     case r of
       HttpRedirect code target \<Rightarrow>
         if \<not> mc_follow c then ret (HttpStatus code (Inr ''''))
         else (case check_redirect c target (via + 1) of
                 Some e \<Rightarrow> ret (HttpFail e)
               | None \<Rightarrow> http_do c (rq\<lparr>hr_url := target\<rparr>) (via + 1))
     | _ \<Rightarrow> ret r
   }"
  by pat_completeness auto
termination
  by (relation "measure (\<lambda>(c, rq, via). max_redirects - via)") (auto simp: check_redirect_def split: if_splits)

declare http_do.simps [simp del]

definition status_error :: "string \<Rightarrow> int \<Rightarrow> bool \<times> gerr" where
  "status_error url code =
     (if code = 401 \<or> code = 403
      then (False, PlainErr (''metadata service returned '' @ itoa code @ '' (unauthorized) for '' @ url))
      else if code = 404 then (False, PlainErr (''metadata service returned 404 (not found) for '' @ url))
      else if code \<ge> 500 then (True, PlainErr (''metadata service returned '' @ itoa code @ '' for '' @ url))
      else (False, PlainErr (''metadata service returned unexpected status '' @ itoa code @ '' for '' @ url)))"

text \<open>\<open>doGet\<close>: the body, or whether to retry and the error.\<close>

definition do_get :: "'s metadata_client \<Rightarrow> string \<Rightarrow> ('s, (bool \<times> gerr) + string) state" where
  "do_get c url =
     (case url_parse url of
        Inl e \<Rightarrow> ret (Inl (False, WrapErr (''failed to build request for '' @ url) e))
      | Inr u \<Rightarrow> do {
          r \<leftarrow> http_do c \<lparr>hr_post = False, hr_url = url, hr_token = mc_token c, hr_body = None\<rparr> 0;
          ret (case r of
                 HttpFail e \<Rightarrow> Inl (True, WrapErr (''request to '' @ url @ '' failed'') e)
               | HttpRedirect code target \<Rightarrow> Inl (status_error url code)
               | HttpStatus code body \<Rightarrow>
                   if code = 200 then
                     (case body of
                        Inl e \<Rightarrow> Inl (True, WrapErr (''failed to read response from '' @ url) e)
                      | Inr b \<Rightarrow>
                          if length b > max_credential_bytes
                          then Inl (False, PlainErr (''response from '' @ url @ '' exceeds '' @
                                 nat_str max_credential_bytes @ '' bytes''))
                          else Inr b)
                   else Inl (status_error url code))
        })"

text \<open>The attempts; before a retry the call waits, and stops waiting when its time is spent.\<close>

function get_attempts :: "'s metadata_client \<Rightarrow> string \<Rightarrow> nat \<Rightarrow> gerr \<Rightarrow> ('s, string res) state" where
  "get_attempts c url attempt last_err =
     (if attempt > mc_max_retries c
      then ret (Inl (client_redact c (WrapErr (''giving up after '' @ nat_str (mc_max_retries c + 1) @ '' attempts'') last_err)))
      else do {
        spent \<leftarrow> (if attempt > 0 then read_state (mc_ctx_err c) else ret None);
        case spent of
          Some e \<Rightarrow> ret (Inl e)
        | None \<Rightarrow> do {
            r \<leftarrow> do_get c url;
            case r of
              Inr body \<Rightarrow> ret (Inr body)
            | Inl (retryable, e) \<Rightarrow>
                if \<not> retryable then ret (Inl (client_redact c e)) else get_attempts c url (attempt + 1) e
          }
      })"
  by pat_completeness auto
termination
  by (relation "measure (\<lambda>(c, url, attempt, e). mc_max_retries c + 1 - attempt)") auto

declare get_attempts.simps [simp del]

definition metadata_get :: "'s metadata_client \<Rightarrow> string \<Rightarrow> ('s, string res) state" where
  "metadata_get c path = get_attempts c (mc_base_url c @ ''/'' @ path) 0 (PlainErr '''')"

section \<open>Credentials\<close>

definition jit_credential_files :: "(string \<times> string) list" where
  "jit_credential_files =
     [(''runner'', ''runner''), (''credentials'', ''credentials''), (''credentials_rsaparams'', ''credentials_rsaparams'')]"

definition registration_token_file :: string where "registration_token_file = ''registration-token''"
definition registration_token_path :: string where "registration_token_path = ''runner-registration-token''"

fun fetch_files :: "'s metadata_client \<Rightarrow> (string \<times> string) list \<Rightarrow> ('s, (string \<times> string) list res) state" where
  "fetch_files c [] = ret (Inr [])"
| "fetch_files c ((remote, local_name) # fs) = do {
     r \<leftarrow> metadata_get c (''credentials/'' @ remote);
     case r of
       Inl e \<Rightarrow> ret (Inl (WrapErr (''failed to fetch JIT credential '' @ quoted remote) e))
     | Inr b \<Rightarrow> do {
         rest \<leftarrow> fetch_files c fs;
         ret (case rest of Inl e \<Rightarrow> Inl e | Inr out \<Rightarrow> Inr ((local_name, b) # out))
       }
   }"

definition fetch_jit_credentials :: "'s metadata_client \<Rightarrow> ('s, (string \<times> string) list res) state" where
  "fetch_jit_credentials c = fetch_files c jit_credential_files"

definition fetch_registration_token :: "'s metadata_client \<Rightarrow> ('s, (string \<times> string) res) state" where
  "fetch_registration_token c = do {
     r \<leftarrow> metadata_get c registration_token_path;
     ret (case r of
            Inl e \<Rightarrow> Inl (WrapErr ''failed to fetch runner registration token'' e)
          | Inr b \<Rightarrow> Inr (registration_token_file, trim_space b))
   }"

definition tar_archive :: "(string \<times> string) list \<Rightarrow> archive" where
  "tar_archive files = Tar (map (\<lambda>(name, bytes). \<lparr>te_name = name, te_data = bytes, te_mode = 384\<rparr>) files)"

section \<open>Status reports\<close>

definition RunnerStatusInstalling :: string where "RunnerStatusInstalling = ''installing''"
definition RunnerStatusIdle :: string where "RunnerStatusIdle = ''idle''"
definition status_path :: string where "status_path = ''/status''"

record 's status_reporter =
  sr_client :: "'s metadata_client"
  sr_status_url :: string

definition status_endpoint :: "string \<Rightarrow> string" where
  "status_endpoint callback_url =
     (let base = trim_right_by (\<lambda>c. c = CHR ''/'') callback_url
      in if has_suffix base status_path then base else base @ status_path)"

text \<open>A reporter follows no redirect: \<open>refuseRedirect\<close> hands the 3xx answer back.\<close>

definition new_status_reporter ::
  "(http_request \<Rightarrow> ('s, http_reply) state) \<Rightarrow> ('s \<Rightarrow> gerr option) \<Rightarrow> (string \<Rightarrow> bool) \<Rightarrow>
   string \<Rightarrow> string \<Rightarrow> string \<Rightarrow> 's status_reporter res" where
  "new_status_reporter http ctx_err pem_ok callback_url token ca_bundle =
     (case new_client http ctx_err pem_ok callback_url_field callback_url token ca_bundle of
        Inl e \<Rightarrow> Inl e
      | Inr c \<Rightarrow> Inr \<lparr>sr_client = c\<lparr>mc_follow := False\<rparr>, sr_status_url = status_endpoint callback_url\<rparr>)"

text \<open>\<open>doPost\<close>: nothing on success, else whether to retry and the error.\<close>

definition do_post :: "'s status_reporter \<Rightarrow> string \<times> string \<Rightarrow> ('s, (bool \<times> gerr) option) state" where
  "do_post r body =
     (case url_parse (sr_status_url r) of
        Inl e \<Rightarrow> ret (Some (False, WrapErr ''failed to build callback request'' e))
      | Inr u \<Rightarrow> do {
          resp \<leftarrow> http_do (sr_client r)
            \<lparr>hr_post = True, hr_url = sr_status_url r, hr_token = mc_token (sr_client r), hr_body = Some body\<rparr> 0;
          ret (case resp of
                 HttpFail e \<Rightarrow> Some (True, WrapErr ''callback request failed'' e)
               | HttpRedirect code target \<Rightarrow> Some (False, PlainErr (''callback endpoint returned redirect '' @ itoa code))
               | HttpStatus code b \<Rightarrow>
                   if 200 \<le> code \<and> code < 300 then None
                   else if code \<ge> 500 then Some (True, PlainErr (''callback endpoint returned '' @ itoa code))
                   else if 300 \<le> code \<and> code < 400
                   then Some (False, PlainErr (''callback endpoint returned redirect '' @ itoa code @ ''; redirects are refused''))
                   else Some (False, PlainErr (''callback endpoint returned '' @ itoa code)))
        })"

definition post_context :: "string \<Rightarrow> string" where
  "post_context status = ''reporting runner status '' @ quoted status"

function post_attempts ::
  "'s status_reporter \<Rightarrow> string \<Rightarrow> string \<Rightarrow> nat \<Rightarrow> gerr \<Rightarrow> ('s, gerr option) state" where
  "post_attempts r status message attempt last_err =
     (if attempt > mc_max_retries (sr_client r)
      then ret (Some (client_redact (sr_client r) (WrapErr (post_context status)
             (WrapErr (''giving up after '' @ nat_str (mc_max_retries (sr_client r) + 1) @ '' attempts'') last_err))))
      else do {
        spent \<leftarrow> (if attempt > 0 then read_state (mc_ctx_err (sr_client r)) else ret None);
        case spent of
          Some e \<Rightarrow>
            ret (Some (client_redact (sr_client r) (WrapErr (post_context status)
              (PlainErr (err_text e @ '' (last error: '' @ err_text last_err @ '')'')))))
        | None \<Rightarrow> do {
            e \<leftarrow> do_post r (status, message);
            case e of
              None \<Rightarrow> ret None
            | Some (retryable, err) \<Rightarrow>
                if \<not> retryable then ret (Some (client_redact (sr_client r) (WrapErr (post_context status) err)))
                else post_attempts r status message (attempt + 1) err
          }
      })"
  by pat_completeness auto
termination
  by (relation "measure (\<lambda>(r, status, message, attempt, e). mc_max_retries (sr_client r) + 1 - attempt)") auto

declare post_attempts.simps [simp del]

definition post_status :: "'s status_reporter \<Rightarrow> string \<Rightarrow> string \<Rightarrow> ('s, gerr option) state" where
  "post_status r status message = post_attempts r status message 0 (PlainErr '''')"

end
