(* ===== verification/Status_Watch.thy ===== *)
theory Status_Watch
  imports Metadata Config
begin

text \<open>
  The runner status watcher, from \<open>internal/provider/status_watch.go\<close> and \<open>status_report.go\<close>, with
  \<open>ParseLevel\<close> of \<open>internal/logging\<close>. The watcher posts \<open>installing\<close>, waits until the runner listens
  for jobs, then posts \<open>idle\<close> or the reason it never did. What it needs of its surroundings is the
  record \<open>watch_env\<close>: \<open>we_stdout\<close> delivers the followed standard output of a container until the stream
  or the time ends, \<open>we_wait_err\<close> reads whether the wait's time is spent, \<open>we_tick\<close> waits for the next
  poll and answers False when the time ended first, \<open>we_fuel\<close> bounds the polls a run may make,
  \<open>we_pid1\<close> is the name of PID 1, and \<open>we_detach\<close> starts the detached process.
\<close>

section \<open>The request\<close>

record status_watch_request =
  sw_instance :: string
  sw_container :: string
  sw_docker_host :: string
  sw_callback_url :: string
  sw_token :: string
  sw_ca_bundle :: string
  sw_deadline :: time
  sw_proxy_env :: "(string \<times> string) list"
  sw_log_file :: string
  sw_log_level :: string

definition proxy_env_vars :: "string list" where
  "proxy_env_vars = [''HTTP_PROXY'', ''http_proxy'', ''HTTPS_PROXY'', ''https_proxy'', ''NO_PROXY'', ''no_proxy'']"

definition current_proxy_env :: "(string \<Rightarrow> string option) \<Rightarrow> (string \<times> string) list" where
  "current_proxy_env lookup = List.map_filter (\<lambda>k. map_option (\<lambda>v. (k, v)) (lookup k)) proxy_env_vars"

text \<open>Setting the carried variables in this process, up to the first that cannot be set.\<close>

fun set_proxy_vars ::
  "(string \<Rightarrow> string \<Rightarrow> ('s, gerr option) state) \<Rightarrow> (string \<times> string) list \<Rightarrow> string list \<Rightarrow> ('s, gerr option) state" where
  "set_proxy_vars setenv env [] = ret None"
| "set_proxy_vars setenv env (k # ks) =
     (case map_of env k of
        None \<Rightarrow> set_proxy_vars setenv env ks
      | Some v \<Rightarrow> do {
          e \<leftarrow> setenv k v;
          case e of Some err \<Rightarrow> ret (Some err) | None \<Rightarrow> set_proxy_vars setenv env ks
        })"

definition apply_proxy_env ::
  "(string \<Rightarrow> string \<Rightarrow> ('s, gerr option) state) \<Rightarrow> (string \<times> string) list \<Rightarrow> ('s, gerr option) state" where
  "apply_proxy_env setenv env = set_proxy_vars setenv env proxy_env_vars"

fun redact_proxies :: "string \<Rightarrow> (string \<times> string) list \<Rightarrow> string" where
  "redact_proxies s [] = s"
| "redact_proxies s ((k, v) # env) =
     (case url_parse v of
        Inl e \<Rightarrow> redact_proxies s env
      | Inr u \<Rightarrow>
          (case u_user u of
             None \<Rightarrow> redact_proxies s env
           | Some (name, pw) \<Rightarrow>
               (let s1 = (case pw of
                            None \<Rightarrow> s
                          | Some q \<Rightarrow> if q \<noteq> '''' then redact (redact s q) (query_escape q) else s);
                    s2 = (if name \<noteq> '''' then redact s1 (userinfo_string (name, pw)) else s1)
                in redact_proxies s2 env)))"

definition request_redact :: "status_watch_request \<Rightarrow> string \<Rightarrow> string" where
  "request_redact r s = redact_proxies (redact s (sw_token r)) (sw_proxy_env r)"

definition validate_request :: "status_watch_request \<Rightarrow> time \<Rightarrow> gerr option" where
  "validate_request r now =
     (if sw_instance r = '''' \<or> sw_container r = '''' \<or> sw_docker_host r = '''' \<or> sw_callback_url r = '''' \<or>
         sw_token r = ''''
      then Some (PlainErr ''incomplete status watch request'')
      else if sw_deadline r \<le> now then Some (PlainErr ''status watch deadline already passed'')
      else if sw_deadline r > now + max_status_report_timeout_seconds * second + minute
      then Some (PlainErr ''status watch deadline is beyond the largest allowed timeout'')
      else None)"

text \<open>A log level by its name; anything unknown means info.\<close>

definition parse_level :: "string \<Rightarrow> string" where
  "parse_level name =
     (let n = to_lower (trim_space name)
      in if n = ''debug'' then ''DEBUG''
         else if n = ''warn'' \<or> n = ''warning'' then ''WARN''
         else if n = ''error'' then ''ERROR''
         else ''INFO'')"

section \<open>Waiting for the runner\<close>

definition runner_listening_marker :: string where "runner_listening_marker = ''Listening for Jobs''"
definition runner_listener_process :: string where "runner_listener_process = ''Runner.Listener''"
definition max_log_line_bytes :: nat where "max_log_line_bytes = 64 * 2 ^ 10"
definition status_post_timeout :: duration where "status_post_timeout = 20 * second"
definition status_watch_grace :: duration where "status_watch_grace = status_post_timeout + 5 * second"
definition listener_settle :: duration where "listener_settle = 5 * second"

definition err_runner_stopped :: gerr where
  "err_runner_stopped = PlainErr ''runner container is no longer running''"

definition err_log_stream_ended :: gerr where
  "err_log_stream_ended = PlainErr ''runner log stream ended before the runner was listening''"

record 's watch_env =
  we_cli :: "'s client"
  we_stdout :: "string \<Rightarrow> ('s, string res) state"
  we_http :: "http_request \<Rightarrow> ('s, http_reply) state"
  we_ctx_err :: "'s \<Rightarrow> gerr option"
  we_wait_err :: "'s \<Rightarrow> gerr option"
  we_pem_ok :: "string \<Rightarrow> bool"
  we_now :: "'s \<Rightarrow> time"
  we_tick :: "('s, bool) state"
  we_fuel :: nat
  we_pid1 :: "string res"
  we_detach :: "status_watch_request \<Rightarrow> ('s, gerr option) state"

definition confirm_running :: "'s watch_env \<Rightarrow> string \<Rightarrow> ('s, bool \<times> gerr option) state" where
  "confirm_running we i = do {
     r \<leftarrow> container_inspect (we_cli we) i;
     ret (case r of
            Inl e \<Rightarrow>
              if is_not_found e then (False, Some err_runner_stopped)
              else (False, Some (WrapErr ''inspecting the runner container'' e))
          | Inr info \<Rightarrow>
              (case cj_state info of
                 None \<Rightarrow> (False, Some err_runner_stopped)
               | Some st \<Rightarrow>
                   if \<not> cs_running st \<or> cs_restarting st \<or> cs_paused st \<or> cs_dead st \<or> cs_oom_killed st
                   then (False, Some err_runner_stopped)
                   else (True, None)))
   }"

definition title_index :: "string list \<Rightarrow> nat option" where
  "title_index titles =
     (let n = length (takeWhile (\<lambda>t. t \<noteq> ''CMD'' \<and> t \<noteq> ''COMMAND'') titles)
      in if n < length titles then Some n else None)"

definition has_process :: "string list \<times> string list list \<Rightarrow> string \<Rightarrow> bool" where
  "has_process procs name =
     (case title_index (fst procs) of
        None \<Rightarrow> False
      | Some col \<Rightarrow> list_ex (\<lambda>proc. col < length proc \<and> str_contains (proc ! col) name) (snd procs))"

text \<open>
  The polling loop. \<open>first_seen\<close> is when the listener was first seen in the current unbroken run.
  None: the fuel ran out.
\<close>

fun wait_listener_process ::
  "'s watch_env \<Rightarrow> string \<Rightarrow> nat \<Rightarrow> time option \<Rightarrow> ('s, (bool \<times> gerr option) option) state" where
  "wait_listener_process we i 0 first_seen = ret None"
| "wait_listener_process we i (Suc n) first_seen = do {
     tp \<leftarrow> container_top (we_cli we) i;
     now \<leftarrow> read_state (we_now we);
     let next = (do {
       alive \<leftarrow> we_tick we;
       spent \<leftarrow> read_state (we_wait_err we);
       ret (alive, spent)
     });
     case tp of
       Inl e \<Rightarrow>
         if is_not_found e \<or> is_conflict e then ret (Some (False, Some err_runner_stopped))
         else do {
           (alive, spent) \<leftarrow> next;
           if alive then wait_listener_process we i n None else ret (Some (False, spent))
         }
     | Inr t \<Rightarrow>
         if has_process t runner_listener_process then
           (let seen = (case first_seen of None \<Rightarrow> now | Some f \<Rightarrow> f)
            in if time_sub now seen \<ge> listener_settle then ret (Some (True, None))
               else do {
                 (alive, spent) \<leftarrow> next;
                 if alive then wait_listener_process we i n (Some seen) else ret (Some (False, spent))
               })
         else do {
           (alive, spent) \<leftarrow> next;
           if alive then wait_listener_process we i n None else ret (Some (False, spent))
         }
   }"

text \<open>
  \<open>ReadLine\<close> of a 64 KiB buffered reader: a line without its end, or a full buffer of a longer one;
  a carriage return at the end of a full buffer is put back.
\<close>

function read_lines :: "string \<Rightarrow> string list" where
  "read_lines s =
     (if s = [] then []
      else if CHR 0x0A \<in> set (take max_log_line_bytes s) then
        trim_suffix (takeWhile (\<lambda>c. c \<noteq> CHR 0x0A) s) [CHR 0x0D] #
          read_lines (drop (Suc (length (takeWhile (\<lambda>c. c \<noteq> CHR 0x0A) s))) s)
      else if length s < max_log_line_bytes then [s]
      else if last (take max_log_line_bytes s) = CHR 0x0D then
        take (max_log_line_bytes - 1) s # read_lines (drop (max_log_line_bytes - 1) s)
      else take max_log_line_bytes s # read_lines (drop max_log_line_bytes s))"
  by pat_completeness auto
termination
  by (relation "measure length") (auto simp: max_log_line_bytes_def)

declare read_lines.simps [simp del]

definition contains_line :: "string \<Rightarrow> string \<Rightarrow> bool" where
  "contains_line s marker = list_ex (\<lambda>l. str_contains l marker) (read_lines s)"

definition unreadable_log_line :: "string \<Rightarrow> gerr \<Rightarrow> log_line" where
  "unreadable_log_line i e =
     \<lparr>ll_level = Warn,
      ll_msg = ''cannot read the runner's logs; falling back to watching for the runner listener process, which is weaker evidence that the runner is online than its '' @
        quoted runner_listening_marker @
        '' line. Use a log driver the daemon can read back (json-file or local, or enable dual logging) for exact detection'',
      ll_attrs = [(''container_id'', AStr i), (''error'', AStr (err_text e))]\<rparr>"

definition wait_runner_listening ::
  "'s watch_env \<Rightarrow> string \<Rightarrow> ('s, ((bool \<times> bool \<times> gerr option) \<times> log_line list) option) state" where
  "wait_runner_listening we i = do {
     r \<leftarrow> we_stdout we i;
     spent \<leftarrow> read_state (we_wait_err we);
     case r of
       Inl e \<Rightarrow>
         if spent \<noteq> None then ret (Some ((False, False, spent), []))
         else do {
           let logs = [unreadable_log_line i e];
           w \<leftarrow> wait_listener_process we i (we_fuel we) None;
           case w of
             None \<Rightarrow> ret None
           | Some (ok, err) \<Rightarrow>
               if ok then do {
                 (ok2, err2) \<leftarrow> confirm_running we i;
                 ret (Some ((ok2, True, err2), logs))
               }
               else ret (Some ((ok, True, err), logs))
         }
     | Inr out \<Rightarrow>
         if contains_line out runner_listening_marker then do {
           (ok, err) \<leftarrow> confirm_running we i;
           ret (Some ((ok, False, err), []))
         }
         else if spent \<noteq> None then ret (Some ((False, False, spent), []))
         else ret (Some ((False, False, Some err_log_stream_ended), []))
   }"

section \<open>The watcher\<close>

definition status_message_installing :: string where
  "status_message_installing = ''runner container started and credentials delivered by the provider''"
definition status_message_idle :: string where
  "status_message_idle = ''runner is listening for jobs''"
definition status_message_idle_via_process :: string where
  "status_message_idle_via_process = ''runner listener process is up; the runner's logs could not be read with the container's log driver (use json-file or local for exact detection)''"
definition status_message_not_listening :: string where
  "status_message_not_listening = ''runner was not listening for jobs before the status-report timeout; left installing for GARM's bootstrap timeout''"
definition status_message_runner_stopped :: string where
  "status_message_runner_stopped = ''runner container stopped before it was ready for jobs''"

definition watch_log :: "level \<Rightarrow> string \<Rightarrow> status_watch_request \<Rightarrow> attrs \<Rightarrow> log_line" where
  "watch_log lev msg req as = \<lparr>ll_level = lev, ll_msg = msg, ll_attrs = (''instance'', AStr (sw_instance req)) # as\<rparr>"

definition redacted_error :: "status_watch_request \<Rightarrow> gerr \<Rightarrow> string \<times> attr_val" where
  "redacted_error req e = (''error'', AStr (request_redact req (err_text e)))"

definition final_status :: "bool \<times> bool \<times> gerr option \<Rightarrow> string \<times> string" where
  "final_status w =
     (case w of (ok, via_process, wait_err) \<Rightarrow>
        if ok \<and> via_process then (RunnerStatusIdle, status_message_idle_via_process)
        else if \<not> ok \<and> (wait_err = Some err_runner_stopped \<or> wait_err = Some err_log_stream_ended)
        then (RunnerStatusInstalling, status_message_runner_stopped)
        else if \<not> ok then (RunnerStatusInstalling, status_message_not_listening)
        else (RunnerStatusIdle, status_message_idle))"

definition run_status_watch :: "'s watch_env \<Rightarrow> status_watch_request \<Rightarrow> ('s, log_line list option) state" where
  "run_status_watch we req =
     (case new_status_reporter (we_http we) (we_ctx_err we) (we_pem_ok we) (sw_callback_url req) (sw_token req)
             (sw_ca_bundle req) of
        Inl e \<Rightarrow> ret (Some [watch_log Warn ''status watcher: invalid callback URL'' req [redacted_error req e]])
      | Inr reporter \<Rightarrow> do {
          e1 \<leftarrow> post_status reporter RunnerStatusInstalling status_message_installing;
          case e1 of
            Some e \<Rightarrow>
              ret (Some [watch_log Warn
                ''status watcher: failed to report runner status installing; not waiting for the runner'' req
                [redacted_error req e]])
          | None \<Rightarrow> do {
              w \<leftarrow> wait_runner_listening we (sw_container req);
              case w of
                None \<Rightarrow> ret None
              | Some (res, logs) \<Rightarrow>
                  (case final_status res of (status, message) \<Rightarrow> do {
                     e2 \<leftarrow> post_status reporter status message;
                     ret (Some (logs @ (case e2 of
                       Some e \<Rightarrow>
                         [watch_log Warn ''status watcher: failed to report runner status'' req
                            [(''status'', AStr status), redacted_error req e]]
                     | None \<Rightarrow>
                         [watch_log Info ''status watcher: reported runner status'' req
                            [(''status'', AStr status), (''detail'', AStr message),
                             (''wait_error'', AStr (request_redact req
                                (case snd (snd res) of None \<Rightarrow> ''<nil>'' | Some e \<Rightarrow> err_text e)))]])))
                   })
            }
        })"

section \<open>Starting the watcher\<close>

definition known_reapers :: "string list" where
  "known_reapers =
     [''systemd'', ''init'', ''tini'', ''tini-static'', ''docker-init'', ''dumb-init'', ''catatonit'', ''s6-svscan'',
      ''runsvdir'', ''runit'', ''openrc-init'', ''supervisord'', ''pause'', ''launchd'']"

definition reaper_verdict :: "string res \<Rightarrow> bool" where
  "reaper_verdict comm = (case comm of Inl e \<Rightarrow> True | Inr name \<Rightarrow> trim_space name \<in> set known_reapers)"

text \<open>A detached watcher answers only whether it started; one run in this process, what it logged.\<close>

definition run_in_process_watcher ::
  "'s watch_env \<Rightarrow> status_watch_request \<Rightarrow> ('s, (gerr option \<times> log_line list) option) state" where
  "run_in_process_watcher we req = do {
     logs \<leftarrow> run_status_watch we req;
     ret (map_option (\<lambda>l. (None, l)) logs)
   }"

definition start_status_watcher ::
  "'s watch_env \<Rightarrow> status_watch_request \<Rightarrow> ('s, (gerr option \<times> log_line list) option) state" where
  "start_status_watcher we req =
     (if \<not> reaper_verdict (we_pid1 we) then do {
        r \<leftarrow> run_in_process_watcher we req;
        ret (map_option (\<lambda>(e, logs). (e,
          watch_log Warn ''CreateInstance: PID 1 in this PID namespace is not an init process that reaps orphans, so a detached status watcher would be left as a zombie; waiting for the runner inside CreateInstance instead. Run GARM's container with an init process (docker run --init, or init: true in Compose) to avoid this'' req
            [(''pid1'', AStr (case we_pid1 we of Inl e \<Rightarrow> '''' | Inr n \<Rightarrow> n))] # logs)) r)
      }
      else do {
        e \<leftarrow> we_detach we req;
        ret (Some (e, []))
      })"

end
