(* ===== verification/Provider.thy ===== *)
theory Provider
  imports Topology_Sweep Topology_Cache Extra_Specs Status_Watch
begin

text \<open>
  The provider and the commands that act on one instance, from \<open>internal/provider\<close>:
  \<open>provider.go\<close>, \<open>resolver.go\<close>, \<open>get.go\<close>, \<open>delete.go\<close>, \<open>start.go\<close>, \<open>stop.go\<close>, \<open>status.go\<close> and
  \<open>remove_all.go\<close>. The provider keeps no state across calls. What the process around it supplies is
  the record \<open>runtime\<close>: the clock, the 16 bytes of \<open>crypto/rand\<close> or its error, the order in which Go
  iterates a map's keys, the permutation of \<open>rand.Shuffle\<close>, the JSON schema's validator, and the
  surroundings of the status watcher.
\<close>

section \<open>The provider\<close>

record 's runtime =
  rt_now :: "'s \<Rightarrow> time"
  rt_ctx_err :: "'s \<Rightarrow> gerr option"
  rt_demux :: "string \<Rightarrow> string res"
  rt_rand :: "('s, nat list res) state"
  rt_order :: "string list \<Rightarrow> string list"
  rt_shuffle :: "nat \<Rightarrow> nat list"
  rt_schema :: "json \<Rightarrow> string list"
  rt_getenv :: "string \<Rightarrow> string option"
  rt_watch :: "'s watch_env"

record 's provider =
  pv_cli :: "'s client"
  pv_cfg :: config
  pv_controller :: string
  pv_topo :: "'s manager"
  pv_rt :: "'s runtime"
  pv_spawn :: "status_watch_request \<Rightarrow> ('s, (gerr option \<times> log_line list) option) state"

text \<open>\<open>in_process\<close> is the option that replaces the detached watcher.\<close>

definition new_provider ::
  "'s client \<Rightarrow> config \<Rightarrow> string \<Rightarrow> 's runtime \<Rightarrow> bool \<Rightarrow> 's provider res" where
  "new_provider cli cfg controller rt in_process =
     (case validate_allowed_dind_modes cfg of
        Some e \<Rightarrow> Inl (WrapErr ''invalid provider config'' e)
      | None \<Rightarrow>
          Inr \<lparr>pv_cli = cli, pv_cfg = cfg, pv_controller = controller,
               pv_topo = new_manager cli controller (rt_now rt) (rt_ctx_err rt) (rt_demux rt), pv_rt = rt,
               pv_spawn = (if in_process then run_in_process_watcher (rt_watch rt)
                           else start_status_watcher (rt_watch rt))\<rparr>)"

definition managed_by_instance_name_filter :: "'s provider \<Rightarrow> string \<Rightarrow> string list" where
  "managed_by_instance_name_filter p instance_name =
     [label_eq LabelManaged ''true'', label_eq LabelControllerID (pv_controller p),
      label_eq LabelInstanceName instance_name]"

definition managed_runner_by_instance_name_filter :: "'s provider \<Rightarrow> string \<Rightarrow> string list" where
  "managed_runner_by_instance_name_filter p instance_name =
     managed_by_instance_name_filter p instance_name @ [label_eq LabelRole RoleRunner]"

section \<open>Instances\<close>

datatype instance_status =
  InstanceRunning | InstanceStopped | InstancePendingCreate | InstanceError | InstanceStatusUnknown

record provider_instance =
  pi_provider_id :: string
  pi_name :: string
  pi_os_type :: string
  pi_os_arch :: string
  pi_status :: instance_status
  pi_addresses :: "string list"
  pi_fault :: "string option"

definition map_container_status :: "string \<Rightarrow> bool \<Rightarrow> bool \<Rightarrow> instance_status" where
  "map_container_status st oom_killed dead =
     (if oom_killed \<or> dead then InstanceError
      else if st = ''running'' then InstanceRunning
      else if st = ''exited'' then InstanceStopped
      else if st = ''created'' then InstancePendingCreate
      else InstanceStatusUnknown)"

definition container_fault_message :: "container_state \<Rightarrow> string" where
  "container_fault_message st =
     (if cs_oom_killed st
      then ''container was killed for out-of-memory (exit_code='' @ itoa (cs_exit_code st) @ '', finished_at='' @
             cs_finished_at st @ '')''
      else if cs_dead st
      then ''container is in the daemon's dead state'' @ (if cs_error st \<noteq> '''' then '': '' @ cs_error st else '''')
      else ''container reported an error state'')"

text \<open>\<open>cj_networks\<close> are the endpoints in the order Go iterates the map.\<close>

definition addresses_from_inspect :: "container_json \<Rightarrow> string list" where
  "addresses_from_inspect c = filter (\<lambda>a. a \<noteq> '''') (map snd (cj_networks c))"

definition to_provider_instance :: "container_json \<Rightarrow> provider_instance" where
  "to_provider_instance c =
     (let l = (case cj_config c of None \<Rightarrow> Map.empty | Some cfg \<Rightarrow> cc_labels cfg);
          name0 = lget l LabelInstanceName;
          name = (if name0 = '''' then trim_prefix (cj_name c) ''/'' else name0);
          status = (case cj_state c of
                      None \<Rightarrow> InstanceStatusUnknown
                    | Some st \<Rightarrow> map_container_status (cs_status st) (cs_oom_killed st) (cs_dead st));
          fault = (case cj_state c of
                     None \<Rightarrow> None
                   | Some st \<Rightarrow> if status = InstanceError then Some (container_fault_message st) else None)
      in \<lparr>pi_provider_id = name, pi_name = name, pi_os_type = lget l LabelOSType, pi_os_arch = lget l LabelOSArch,
          pi_status = status, pi_addresses = addresses_from_inspect c, pi_fault = fault\<rparr>)"

definition to_provider_instance_from_summary :: "container_summary \<Rightarrow> provider_instance" where
  "to_provider_instance_from_summary c =
     (let name0 = lget (su_labels c) LabelInstanceName;
          name = (if name0 = '''' \<and> su_names c \<noteq> [] then trim_prefix (hd (su_names c)) ''/'' else name0);
          status = map_container_status (su_state c) False (su_state c = ''dead'')
      in \<lparr>pi_provider_id = name, pi_name = name, pi_os_type = lget (su_labels c) LabelOSType,
          pi_os_arch = lget (su_labels c) LabelOSArch, pi_status = status, pi_addresses = [],
          pi_fault = (if status = InstanceError \<and> su_status c \<noteq> '''' then Some (su_status c) else None)\<rparr>)"

section \<open>Resolving an instance\<close>

definition owns_runner :: "'s provider \<Rightarrow> container_json \<Rightarrow> bool" where
  "owns_runner p c =
     (case cj_config c of None \<Rightarrow> False | Some cfg \<Rightarrow> is_managed_runner (cc_labels cfg) (pv_controller p))"

fun first_owned :: "'s provider \<Rightarrow> container_summary list \<Rightarrow> ('s, container_json option res) state" where
  "first_owned p [] = ret (Inr None)"
| "first_owned p (c # cs) = do {
     r \<leftarrow> container_inspect (pv_cli p) (su_id c);
     case r of
       Inl e \<Rightarrow>
         if is_not_found e then first_owned p cs
         else ret (Inl (WrapErr (''failed to inspect '' @ quoted (su_id c)) e))
     | Inr inspected \<Rightarrow> if owns_runner p inspected then ret (Inr (Some inspected)) else first_owned p cs
   }"

definition resolve_by_owned_label :: "'s provider \<Rightarrow> string \<Rightarrow> ('s, container_json option res) state" where
  "resolve_by_owned_label p instance_id = do {
     r \<leftarrow> container_list (pv_cli p) True (managed_runner_by_instance_name_filter p instance_id);
     case r of
       Inl e \<Rightarrow> ret (Inl (WrapErr (''failed to list containers for '' @ quoted instance_id) e))
     | Inr xs \<Rightarrow> first_owned p xs
   }"

definition resolve_instance :: "'s provider \<Rightarrow> string \<Rightarrow> ('s, container_json option res) state" where
  "resolve_instance p instance_id = resolve_by_owned_label p instance_id"

definition has_managed_allocation_resources :: "'s provider \<Rightarrow> string \<Rightarrow> ('s, bool res) state" where
  "has_managed_allocation_resources p instance_name = do {
     let fs = managed_by_instance_name_filter p instance_name;
     rc \<leftarrow> container_list (pv_cli p) True fs;
     case rc of
       Inl e \<Rightarrow> ret (Inl (WrapErr (''failed to list containers for '' @ quoted instance_name) e))
     | Inr conts \<Rightarrow>
         if list_ex (\<lambda>c. matches_predicate (su_labels c) (pv_controller p)) conts then ret (Inr True)
         else do {
           rn \<leftarrow> network_list (pv_cli p) fs;
           case rn of
             Inl e \<Rightarrow> ret (Inl (WrapErr (''failed to list networks for '' @ quoted instance_name) e))
           | Inr nets \<Rightarrow>
               if list_ex (\<lambda>n. matches_predicate (ns_labels n) (pv_controller p)) nets then ret (Inr True)
               else do {
                 rv \<leftarrow> volume_list (pv_cli p) fs;
                 ret (case rv of
                        Inl e \<Rightarrow> Inl (WrapErr (''failed to list volumes for '' @ quoted instance_name) e)
                      | Inr vols \<Rightarrow>
                          Inr (list_ex (\<lambda>v. matches_predicate (vol_labels v) (pv_controller p)) (List.map_filter id vols)))
               }
         }
   }"

text \<open>The not-found error, which \<open>main\<close> maps to exit code 30.\<close>

definition not_found_error :: "string \<Rightarrow> gerr" where
  "not_found_error instance_id = GarmNotFoundErr (''instance '' @ quoted instance_id @ '' not found'')"

section \<open>Commands on one instance\<close>

definition get_instance :: "'s provider \<Rightarrow> string \<Rightarrow> ('s, provider_instance res) state" where
  "get_instance p instance_id = do {
     r \<leftarrow> resolve_instance p instance_id;
     ret (case r of
            Inl e \<Rightarrow> Inl e
          | Inr None \<Rightarrow> Inl (not_found_error instance_id)
          | Inr (Some c) \<Rightarrow> Inr (to_provider_instance c))
   }"

definition start_instance :: "'s provider \<Rightarrow> string \<Rightarrow> ('s, gerr option) state" where
  "start_instance p instance_id = do {
     r \<leftarrow> resolve_instance p instance_id;
     case r of
       Inl e \<Rightarrow> ret (Some e)
     | Inr None \<Rightarrow> ret (Some (not_found_error instance_id))
     | Inr (Some c) \<Rightarrow> do {
         e \<leftarrow> container_start (pv_cli p) (cj_id c);
         ret (map_option (WrapErr (''failed to start instance '' @ quoted instance_id)) e)
       }
   }"

text \<open>The grace period of a stop is the daemon's business: \<open>force\<close> asks for none.\<close>

definition stop_instance :: "'s provider \<Rightarrow> string \<Rightarrow> bool \<Rightarrow> ('s, gerr option) state" where
  "stop_instance p instance_id force = do {
     r \<leftarrow> resolve_instance p instance_id;
     case r of
       Inl e \<Rightarrow> ret (Some e)
     | Inr None \<Rightarrow> ret (Some (not_found_error instance_id))
     | Inr (Some c) \<Rightarrow> do {
         e \<leftarrow> container_stop (pv_cli p) (cj_id c);
         ret (map_option (WrapErr (''failed to stop instance '' @ quoted instance_id)) e)
       }
   }"

definition resolve_instance_name :: "'s provider \<Rightarrow> string \<Rightarrow> ('s, string option res) state" where
  "resolve_instance_name p instance_id = do {
     r \<leftarrow> resolve_instance p instance_id;
     case r of
       Inl e \<Rightarrow> ret (Inl e)
     | Inr (Some c) \<Rightarrow>
         (let name = (case cj_config c of None \<Rightarrow> '''' | Some cfg \<Rightarrow> lget (cc_labels cfg) LabelInstanceName)
          in ret (Inr (Some (if name = '''' then instance_id else name))))
     | Inr None \<Rightarrow> do {
         l \<leftarrow> has_managed_allocation_resources p instance_id;
         ret (case l of
                Inl e \<Rightarrow> Inl e
              | Inr lingering \<Rightarrow> Inr (if lingering then Some instance_id else None))
       }
   }"

definition delete_instance :: "'s provider \<Rightarrow> string \<Rightarrow> ('s, gerr option \<times> log_line list) state" where
  "delete_instance p instance_id = do {
     r \<leftarrow> resolve_instance_name p instance_id;
     case r of
       Inl e \<Rightarrow> ret (Some e, [])
     | Inr None \<Rightarrow> ret (Some (not_found_error instance_id), [])
     | Inr (Some instance_name) \<Rightarrow> do {
         (torn, e, logs) \<leftarrow> teardown_allocation_reporting_io (pv_topo p) instance_name;
         ret (case e of
                Some err \<Rightarrow> (Some (WrapErr (''failed to delete instance '' @ quoted instance_id) err), logs)
              | None \<Rightarrow> (if torn then None else Some (not_found_error instance_id), logs))
       }
   }"

definition remove_all_instances :: "'s provider \<Rightarrow> ('s, gerr option) state" where
  "remove_all_instances p = do {
     e \<leftarrow> teardown_all (pv_topo p);
     ret (map_option (WrapErr ''garm-provider-docker: RemoveAllInstances: best-effort teardown left resources behind'') e)
   }"

end
