(* ===== verification/Housekeeping.thy ===== *)
theory Housekeeping
  imports Provider
begin

text \<open>
  The housekeeping of the provider, from \<open>internal/provider/throttle.go\<close>, \<open>gc.go\<close> and \<open>list.go\<close>: the
  stamp containers that rate-limit a pass across processes, the reaping of leaked helpers, the
  stale-cache report and the pruning of diagnostic logs. A pass answers the log lines it writes; a
  warning about a step that is skipped carries the error and what it concerns.
\<close>

section \<open>Shared pieces\<close>

definition gc_warn :: "string \<Rightarrow> attrs \<Rightarrow> log_line" where
  "gc_warn msg as = \<lparr>ll_level = Warn, ll_msg = msg, ll_attrs = as\<rparr>"

definition gc_info :: "string \<Rightarrow> attrs \<Rightarrow> log_line" where
  "gc_info msg as = \<lparr>ll_level = Info, ll_msg = msg, ll_attrs = as\<rparr>"

definition err_attr :: "gerr \<Rightarrow> string \<times> attr_val" where
  "err_attr e = (''error'', AStr (err_text e))"

text \<open>
  Steps that may fail: \<open>attempt m f\<close> is \<open>x, err := m(); if err != nil { return err }; f(x)\<close>, collecting the
  logs of both. \<open>answer\<close> and \<open>no_error\<close> lift a call with a result and one with only an error, \<open>within\<close>
  wraps the error.
\<close>

definition attempt ::
  "('s, 'a res \<times> log_line list) state \<Rightarrow> ('a \<Rightarrow> ('s, 'b res \<times> log_line list) state) \<Rightarrow>
   ('s, 'b res \<times> log_line list) state" where
  "attempt m f = do {
     (r, l1) \<leftarrow> m;
     case r of
       Inl e \<Rightarrow> ret (Inl e, l1)
     | Inr a \<Rightarrow> do {
         (r2, l2) \<leftarrow> f a;
         ret (r2, l1 @ l2)
       }
   }"

definition answer :: "('s, 'a res) state \<Rightarrow> ('s, 'a res \<times> log_line list) state" where
  "answer m = do { r \<leftarrow> m; ret (r, []) }"

definition no_error :: "('s, gerr option) state \<Rightarrow> ('s, unit res \<times> log_line list) state" where
  "no_error m = do { e \<leftarrow> m; ret (case e of None \<Rightarrow> Inr () | Some err \<Rightarrow> Inl err, []) }"

definition within :: "string \<Rightarrow> ('s, 'a res \<times> log_line list) state \<Rightarrow> ('s, 'a res \<times> log_line list) state" where
  "within ctx m = do { (r, l) \<leftarrow> m; ret (map_sum (WrapErr ctx) id r, l) }"

definition new_create_nonce :: "'s provider \<Rightarrow> ('s, string res) state" where
  "new_create_nonce p = do {
     r \<leftarrow> rt_rand (pv_rt p);
     ret (case r of Inl e \<Rightarrow> Inl e | Inr bytes \<Rightarrow> Inr (concat (map hex_byte bytes)))
   }"

definition owned_helper_labels :: "'s provider \<Rightarrow> string \<Rightarrow> time \<Rightarrow> labels" where
  "owned_helper_labels p role now =
     [LabelManaged \<mapsto> ''true'', LabelControllerID \<mapsto> pv_controller p, LabelRole \<mapsto> role,
      LabelCreatedAt \<mapsto> format_rfc3339 now]"

definition helper_labels :: "'s provider \<Rightarrow> time \<Rightarrow> labels" where
  "helper_labels p now = owned_helper_labels p RoleCacheHelper now"

definition helper_age :: "time \<Rightarrow> string \<Rightarrow> duration option" where
  "helper_age now created_at =
     (if created_at = '''' then None
      else map_option (\<lambda>t. time_sub now (fst t)) (parse_rfc3339 created_at))"

definition image_digest_hex :: "'s provider \<Rightarrow> string \<Rightarrow> ('s, string res) state" where
  "image_digest_hex p image_ref = do {
     r \<leftarrow> image_inspect (pv_cli p) image_ref;
     ret (case r of
            Inl e \<Rightarrow> Inl (WrapErr (''failed to inspect runner image '' @ quoted image_ref @ '' for its externals-cache digest'') e)
          | Inr insp \<Rightarrow>
              (let i = (case str_index (im_id insp) '':'' of None \<Rightarrow> im_id insp | Some k \<Rightarrow> drop (k + 1) (im_id insp))
               in if i = '''' then Inl (PlainErr (''runner image '' @ quoted image_ref @
                      '' has no content ID to key the externals cache on''))
                  else Inr i))
   }"

text \<open>An error of a removal other than not-found.\<close>

definition hard_error :: "gerr option \<Rightarrow> gerr option" where
  "hard_error e = (case e of None \<Rightarrow> None | Some err \<Rightarrow> if is_not_found err then None else Some err)"

section \<open>The throttle\<close>

definition orphan_sweep_interval :: duration where "orphan_sweep_interval = 3 * minute"
definition cache_gc_interval :: duration where "cache_gc_interval = 5 * minute"
definition diag_prune_interval :: duration where "diag_prune_interval = 6 * hour"

record throttle_stamp =
  th_name :: string
  th_role :: string
  th_interval :: duration
  th_what :: string

definition diag_prune_stamp :: "'s provider \<Rightarrow> throttle_stamp" where
  "diag_prune_stamp p = \<lparr>th_name = diag_prune_stamp_name (pv_controller p), th_role = RoleDiagPruneStamp,
     th_interval = diag_prune_interval, th_what = ''diag prune''\<rparr>"

definition orphan_sweep_stamp :: "'s provider \<Rightarrow> throttle_stamp" where
  "orphan_sweep_stamp p = \<lparr>th_name = throttle_stamp_name (pv_controller p) StampOrphanSweep, th_role = RoleThrottleStamp,
     th_interval = orphan_sweep_interval, th_what = ''orphan sweep''\<rparr>"

definition cache_gc_stamp :: "'s provider \<Rightarrow> throttle_stamp" where
  "cache_gc_stamp p = \<lparr>th_name = throttle_stamp_name (pv_controller p) StampCacheGC, th_role = RoleThrottleStamp,
     th_interval = cache_gc_interval, th_what = ''cache GC''\<rparr>"

definition is_own_stamp :: "'s provider \<Rightarrow> labels \<Rightarrow> string \<Rightarrow> bool" where
  "is_own_stamp p l role =
     (if lget l LabelManaged \<noteq> ''true'' \<or> lget l LabelControllerID \<noteq> pv_controller p then False
      else if lget l LabelRole \<noteq> role then False
      else l LabelInstanceName = None)"

definition create_stamp :: "'s provider \<Rightarrow> throttle_stamp \<Rightarrow> string \<Rightarrow> ('s, bool \<times> log_line list) state" where
  "create_stamp p st img = do {
     now \<leftarrow> read_state (rt_now (pv_rt p));
     let (cfg, host) = build_stamp_container img (owned_helper_labels p (th_role st) now);
     (i, e) \<leftarrow> container_create (pv_cli p) cfg host (th_name st);
     ret (case e of
            None \<Rightarrow> (True, [])
          | Some err \<Rightarrow>
              (False, if is_conflict err then []
                      else [gc_warn ''throttle: failed to create the stamp; skipping this pass''
                              [(''pass'', AStr (th_what st)), err_attr err]]))
   }"

text \<open>The inspection and its verdict: whether a stamp of ours stands there, its ID and its age.\<close>

datatype stamp_view =
    StampAbsent
  | StampUnknown gerr
  | StampForeign
  | StampOurs string "duration option"

definition look_at_stamp :: "'s provider \<Rightarrow> throttle_stamp \<Rightarrow> ('s, stamp_view) state" where
  "look_at_stamp p st = do {
     r \<leftarrow> container_inspect (pv_cli p) (th_name st);
     now \<leftarrow> read_state (rt_now (pv_rt p));
     ret (case r of
            Inl e \<Rightarrow> if is_not_found e then StampAbsent else StampUnknown e
          | Inr existing \<Rightarrow>
              (let l = (case cj_config existing of None \<Rightarrow> Map.empty | Some cfg \<Rightarrow> cc_labels cfg)
               in if \<not> is_own_stamp p l (th_role st) \<or> cj_id existing = '''' then StampForeign
                  else StampOurs (cj_id existing) (helper_age now (lget l LabelCreatedAt))))
   }"

definition fresh_stamp :: "throttle_stamp \<Rightarrow> duration option \<Rightarrow> bool" where
  "fresh_stamp st age \<longleftrightarrow> (case age of None \<Rightarrow> False | Some a \<Rightarrow> 0 \<le> a \<and> a < th_interval st)"

definition usable_age :: "duration option \<Rightarrow> bool" where
  "usable_age age \<longleftrightarrow> (case age of None \<Rightarrow> False | Some a \<Rightarrow> 0 \<le> a)"

definition pass_attrs :: "throttle_stamp \<Rightarrow> attrs" where
  "pass_attrs st = [(''pass'', AStr (th_what st)), (''resource'', AStr ''container''), (''container_name'', AStr (th_name st))]"

text \<open>What follows once the expired stamp is gone: a stamp without a usable time never runs the pass.\<close>

definition replace_stamp :: "'s provider \<Rightarrow> throttle_stamp \<Rightarrow> string \<Rightarrow> duration option \<Rightarrow> ('s, bool \<times> log_line list) state" where
  "replace_stamp p st img age =
     (if \<not> usable_age age then do {
        (made, logs) \<leftarrow> create_stamp p st img;
        ret (False, logs @ (if made
          then [gc_warn ''throttle: the stamp had no usable time; reset it, the next round runs one interval from now'' (pass_attrs st)]
          else []))
      }
      else create_stamp p st img)"

definition claim_stamp :: "'s provider \<Rightarrow> throttle_stamp \<Rightarrow> string \<Rightarrow> ('s, bool \<times> log_line list) state" where
  "claim_stamp p st img = do {
     v \<leftarrow> look_at_stamp p st;
     case v of
       StampAbsent \<Rightarrow> create_stamp p st img
     | StampUnknown e \<Rightarrow>
         ret (False, [gc_warn ''throttle: failed to inspect the stamp; skipping this pass'' (pass_attrs st @ [err_attr e])])
     | StampForeign \<Rightarrow>
         ret (False, [gc_warn ''throttle: a container named like the stamp is not this controller's stamp; leaving it in place and skipping this pass''
                        (pass_attrs st)])
     | StampOurs i age \<Rightarrow>
         if fresh_stamp st age then ret (False, [])
         else do {
           e \<leftarrow> container_remove (pv_cli p) i True False;
           case hard_error e of
             Some err \<Rightarrow>
               ret (False,
                 if is_conflict err
                 then [\<lparr>ll_level = Debug, ll_msg = ''throttle: a peer is replacing the stamp; skipping this pass'',
                        ll_attrs = pass_attrs st @ [err_attr err]\<rparr>]
                 else [gc_warn ''throttle: failed to replace the stamp; skipping this pass'' (pass_attrs st @ [err_attr err])])
           | None \<Rightarrow> replace_stamp p st img age
         }
   }"

definition claim_round :: "'s provider \<Rightarrow> throttle_stamp \<Rightarrow> ('s, bool \<times> log_line list) state" where
  "claim_round p st = do {
     let img = effective_runner_image (pv_cfg p) '''';
     r \<leftarrow> image_inspect (pv_cli p) img;
     case r of
       Inl e \<Rightarrow>
         if is_not_found e then ret (True, [])
         else ret (False, [gc_warn ''throttle: failed to inspect the runner image; skipping this pass''
                             [(''pass'', AStr (th_what st)), (''image'', AStr img), err_attr e]])
     | Inr insp \<Rightarrow> claim_stamp p st img
   }"

section \<open>Helpers\<close>

definition helper_terminal_grace :: duration where "helper_terminal_grace = 2 * minute"
definition externals_seed_timeout :: duration where "externals_seed_timeout = 10 * minute"
definition helper_running_max_age :: duration where "helper_running_max_age = externals_seed_timeout + 5 * minute"
definition helper_reap_max :: nat where "helper_reap_max = 50"

definition helper_reapable :: "string \<Rightarrow> duration option \<Rightarrow> bool" where
  "helper_reapable st age =
     (if st = ''created'' \<or> st = ''running''
      then (case age of None \<Rightarrow> False | Some a \<Rightarrow> a \<ge> helper_running_max_age)
      else (case age of None \<Rightarrow> True | Some a \<Rightarrow> a \<ge> helper_terminal_grace))"

definition reap_candidate :: "'s provider \<Rightarrow> time \<Rightarrow> container_summary \<Rightarrow> bool" where
  "reap_candidate p now c \<longleftrightarrow>
     lget (su_labels c) LabelRole = RoleCacheHelper \<and> lget (su_labels c) LabelControllerID = pv_controller p \<and>
     su_labels c LabelInstanceName = None \<and>
     helper_reapable (su_state c) (helper_age now (lget (su_labels c) LabelCreatedAt))"

definition reap_step ::
  "'s provider \<Rightarrow> time \<Rightarrow> container_summary \<Rightarrow> nat \<times> log_line list \<Rightarrow> ('s, nat \<times> log_line list) state" where
  "reap_step p now c acc =
     (case acc of (reaped, logs) \<Rightarrow>
        if reaped \<ge> helper_reap_max then ret (reaped, logs)
        else if \<not> reap_candidate p now c then ret (reaped, logs)
        else do {
          e \<leftarrow> container_remove (pv_cli p) (su_id c) True False;
          ret (case hard_error e of
                 Some err \<Rightarrow>
                   (reaped, logs @ [gc_warn ''cache GC: failed to reap leaked helper (continuing)''
                      [(''resource'', AStr ''container''), (''container_id'', AStr (su_id c)), err_attr err]])
               | None \<Rightarrow> (reaped + 1, logs))
        })"

definition helper_filter :: "'s provider \<Rightarrow> string list" where
  "helper_filter p =
     [label_eq LabelManaged ''true'', label_eq LabelControllerID (pv_controller p), label_eq LabelRole RoleCacheHelper]"

definition reap_leaked_helpers :: "'s provider \<Rightarrow> ('s, log_line list) state" where
  "reap_leaked_helpers p = do {
     r \<leftarrow> container_list (pv_cli p) True (helper_filter p);
     case r of
       Inl e \<Rightarrow> ret [gc_warn ''cache GC: failed to list helper containers (continuing)'' [err_attr e]]
     | Inr cs \<Rightarrow> do {
         now \<leftarrow> read_state (rt_now (pv_rt p));
         (reaped, logs) \<leftarrow> for_each (reap_step p now) cs (0, []);
         ret (logs @ (if reaped > 0
           then [gc_info ''cache GC: reaped leaked cache-helper container(s)'' [(''count'', AInt (int reaped))]] else []))
       }
   }"

text \<open>
  A helper runs to completion and is removed whatever happened; the removal's failure is only
  logged.
\<close>

definition helper_body ::
  "'s provider \<Rightarrow> string \<Rightarrow> string \<Rightarrow> gerr option \<Rightarrow> ('s, int res) state" where
  "helper_body p name i checked =
     (case checked of
        Some err \<Rightarrow> ret (Inl err)
      | None \<Rightarrow> do {
          se \<leftarrow> container_start (pv_cli p) i;
          case se of
            Some err \<Rightarrow> ret (Inl (WrapErr (''failed to start helper '' @ quoted name) err))
          | None \<Rightarrow> do {
              w \<leftarrow> container_wait (pv_cli p) i;
              ret (case w of
                     WaitFailed err \<Rightarrow> Inl (WrapErr (''failed to wait for helper '' @ quoted name) err)
                   | WaitEnded code (Some m) \<Rightarrow> Inl (PlainErr (''helper '' @ quoted name @ '' reported a daemon error: '' @ m))
                   | WaitEnded code None \<Rightarrow> Inr code
                   | WaitTimedOut err \<Rightarrow> Inl (WrapErr (''helper '' @ quoted name @ '' did not complete in time'') err))
            }
        })"

definition run_helper_container ::
  "'s provider \<Rightarrow> container_config \<Rightarrow> host_config \<Rightarrow> string \<Rightarrow> ('s, gerr option \<times> log_line list) state \<Rightarrow>
   ('s, int res \<times> log_line list) state" where
  "run_helper_container p cfg host name after_create = do {
     (i, e) \<leftarrow> container_create (pv_cli p) cfg host name;
     case e of
       Some err \<Rightarrow> ret (Inl (WrapErr (''failed to create helper '' @ quoted name) err), [])
     | None \<Rightarrow> do {
         (checked, l1) \<leftarrow> after_create;
         r \<leftarrow> helper_body p name i checked;
         re \<leftarrow> container_remove (pv_cli p) i True False;
         ret (r, l1 @ (case hard_error re of
                   Some err \<Rightarrow> [gc_warn ''failed to remove helper container (continuing)''
                                  [(''resource'', AStr ''container''), (''container_name'', AStr name), err_attr err]]
                 | None \<Rightarrow> []))
       }
   }"

section \<open>Diagnostic logs\<close>

definition cache_gc_max_diag_prunes :: nat where "cache_gc_max_diag_prunes = 20"

definition check_prune_target ::
  "'s provider \<Rightarrow> diag_volume_ref \<Rightarrow> ('s, gerr option \<times> log_line list) state" where
  "check_prune_target p ref = do {
     r \<leftarrow> volume_inspect (pv_cli p) (dv_name ref);
     ret (case r of
            Inl e \<Rightarrow> (Some (WrapErr (''diag prune target '' @ quoted (dv_name ref) @ '' could not be re-inspected'') e), [])
          | Inr v \<Rightarrow>
              (case validate_diag_prune_target (vol_labels v) (dv_labels ref) (pv_controller p) of
                 None \<Rightarrow> (None, [])
               | Some verr \<Rightarrow>
                   (Some (WrapErr (''diag prune target '' @ quoted (dv_name ref) @ '' failed strict identity re-validation'') verr),
                    [gc_warn ''cache GC: diag prune target failed strict identity re-validation; leaving it in place and skipping the prune''
                       [(''resource'', AStr ''cache-volume''), (''volume'', AStr (dv_name ref)), err_attr verr]])))
   }"

definition prune_diag_volume :: "'s provider \<Rightarrow> string \<Rightarrow> diag_volume_ref \<Rightarrow> ('s, log_line list) state" where
  "prune_diag_volume p img ref = do {
     rn \<leftarrow> new_create_nonce p;
     case rn of
       Inl e \<Rightarrow> ret [gc_warn ''cache GC: failed to name diag-prune helper'' [(''volume'', AStr (dv_name ref)), err_attr e]]
     | Inr nonce \<Rightarrow> do {
         now \<leftarrow> read_state (rt_now (pv_rt p));
         let days = cch_diag_days (cf_cache (pv_cfg p));
         let (cfg, host) = build_diag_prune_container img (dv_name ref) days (helper_labels p now);
         (r, logs) \<leftarrow> run_helper_container p cfg host (''garm-diagprune-'' @ nonce) (check_prune_target p ref);
         ret (logs @ (case r of
                 Inl e \<Rightarrow> [gc_warn ''cache GC: skipping/failed diag prune (continuing)'' [(''volume'', AStr (dv_name ref)), err_attr e]]
               | Inr code \<Rightarrow>
                   if code \<noteq> 0
                   then [gc_warn ''cache GC: diag prune exited non-zero (continuing)''
                           [(''volume'', AStr (dv_name ref)), (''exit_code'', AInt code)]]
                   else [gc_info ''cache GC: pruned diag volume''
                           [(''volume'', AStr (dv_name ref)), (''retention_days'', AInt days)]]))
       }
   }"

fun prune_each :: "'s provider \<Rightarrow> string \<Rightarrow> nat \<Rightarrow> diag_volume_ref list \<Rightarrow> ('s, log_line list) state" where
  "prune_each p img i [] = ret []"
| "prune_each p img i (ref # refs) =
     (if i \<ge> cache_gc_max_diag_prunes
      then ret [gc_info ''cache GC: hit the per-round diag-prune cap; remaining diag volumes pruned in a later round''
                  [(''cap'', AInt (int cache_gc_max_diag_prunes))]]
      else do {
        logs \<leftarrow> prune_diag_volume p img ref;
        rest \<leftarrow> prune_each p img (i + 1) refs;
        ret (logs @ rest)
      })"

definition prune_diag_volumes :: "'s provider \<Rightarrow> string \<Rightarrow> ('s, log_line list) state" where
  "prune_diag_volumes p img = do {
     r \<leftarrow> list_diag_volumes (pv_topo p);
     case r of
       Inl e \<Rightarrow> ret [gc_warn ''cache GC: failed to list diag volumes (continuing)'' [err_attr e]]
     | Inr refs \<Rightarrow>
         if refs = [] then ret []
         else do {
           ri \<leftarrow> image_inspect (pv_cli p) img;
           case ri of
             Inl e \<Rightarrow> ret [gc_info ''cache GC: runner image not present; skipping diag prune this pass'' [(''image'', AStr img)]]
           | Inr insp \<Rightarrow> do {
               (won, logs) \<leftarrow> claim_stamp p (diag_prune_stamp p) img;
               if \<not> won then ret logs
               else do {
                 rest \<leftarrow> prune_each p img 0 (map (\<lambda>k. refs ! k) (rt_shuffle (pv_rt p) (length refs)));
                 ret (logs @ rest)
               }
             }
         }
   }"

section \<open>The pass\<close>

definition cache_eviction_grace :: duration where "cache_eviction_grace = 30 * minute"
definition cache_gc_stale_log_max :: nat where "cache_gc_stale_log_max = 50"
definition cache_gc_cruft_log_max :: nat where "cache_gc_cruft_log_max = 50"

definition log_stale_caches :: "'s provider \<Rightarrow> (string \<times> string) list \<Rightarrow> log_line list" where
  "log_stale_caches p stale =
     (if stale = [] then []
      else [gc_info ''cache GC: cache volume(s) are stale/superseded/aged and eligible for operator pruning; NOT auto-deleted (ADR-003: opportunistic auto-GC of a volume is inherently TOCTOU/foreign-unsafe)''
              [(''resource'', AStr ''cache-volume''), (''count'', AInt (int (length stale))),
               (''purge_command'', AStr (''docker volume prune -a --filter label='' @ LabelCache @ ''=true --filter label='' @
                  LabelControllerID @ ''='' @ pv_controller p)),
               (''stale_caches'', AStr (join_with '', ''
                  (map (\<lambda>(name, reason). name @ '' ('' @ reason @ '')'') (take cache_gc_stale_log_max stale))))]])"

definition log_unprovable_cache_cruft :: "'s provider \<Rightarrow> ('s, log_line list) state" where
  "log_unprovable_cache_cruft p = do {
     r \<leftarrow> list_unprovable_cache_cruft (pv_topo p);
     ret (case r of
            Inl e \<Rightarrow> [gc_warn ''cache GC: cruft-visibility scan failed (continuing)'' [err_attr e]]
          | Inr cruft \<Rightarrow>
              if cruft = [] then []
              else [gc_info (''cache GC: cache-named volume(s) carry no managed cache labels (unlabeled auto-created replacements or foreign squatters); NOT deleting them (ADR-003: a volume that cannot be proved ours is never deleted) '' @ em_dash @
                         '' an operator may reclaim disk manually if genuinely stale'')
                      [(''resource'', AStr ''cache-volume''), (''count'', AInt (int (length cruft))),
                       (''cruft_volumes'', AStr (join_with '', '' (take cache_gc_cruft_log_max cruft)))]])
   }"

definition run_cache_gc :: "'s provider \<Rightarrow> ('s, log_line list) state" where
  "run_cache_gc p = do {
     l1 \<leftarrow> reap_leaked_helpers p;
     let img = effective_runner_image (pv_cfg p) '''';
     rd \<leftarrow> image_digest_hex p img;
     let gc = \<lparr>gc_generation = cch_generation (cf_cache (pv_cfg p)), gc_pnpm_major = cch_pnpm_major (cf_cache (pv_cfg p)),
               gc_image_digest = (case rd of Inl e \<Rightarrow> '''' | Inr d \<Rightarrow> d),
               gc_stale_days = cch_stale_days (cf_cache (pv_cfg p)), gc_grace = cache_eviction_grace\<rparr>;
     now \<leftarrow> read_state (rt_now (pv_rt p));
     rs \<leftarrow> list_stale_caches (pv_topo p) (\<lambda>l. evaluate_cache_eviction l gc now);
     let l2 = (case rs of
                 Inl e \<Rightarrow> [gc_warn ''cache GC: stale-cache enumeration had errors (continuing)'' [err_attr e]]
               | Inr stale \<Rightarrow> log_stale_caches p stale);
     l3 \<leftarrow> prune_diag_volumes p img;
     l4 \<leftarrow> log_unprovable_cache_cruft p;
     ret (l1 @ l2 @ l3 @ l4)
   }"

definition run_cache_gc_throttled :: "'s provider \<Rightarrow> ('s, log_line list) state" where
  "run_cache_gc_throttled p = do {
     (won, logs) \<leftarrow> claim_round p (cache_gc_stamp p);
     if won then do {
       rest \<leftarrow> run_cache_gc p;
       ret (logs @ rest)
     }
     else ret logs
   }"

definition sweep_throttled :: "'s provider \<Rightarrow> ('s, log_line list) state" where
  "sweep_throttled p = do {
     (won, logs) \<leftarrow> claim_round p (orphan_sweep_stamp p);
     if \<not> won then ret logs
     else do {
       (e, swept) \<leftarrow> sweep_orphans (pv_topo p) (rt_order (pv_rt p));
       ret (logs @ swept @ (case e of
              None \<Rightarrow> []
            | Some err \<Rightarrow> [gc_warn ''ListInstances: orphan sweep failed (continuing)'' [err_attr err]]))
     }
   }"

section \<open>Listing the instances\<close>

definition list_instances :: "'s provider \<Rightarrow> string \<Rightarrow> ('s, provider_instance list res \<times> log_line list) state" where
  "list_instances p pool_id = do {
     l1 \<leftarrow> sweep_throttled p;
     l2 \<leftarrow> run_cache_gc_throttled p;
     r \<leftarrow> container_list (pv_cli p) True
            ([label_eq LabelManaged ''true'', label_eq LabelControllerID (pv_controller p), label_eq LabelRole RoleRunner] @
             (if pool_id \<noteq> '''' then [label_eq LabelPoolID pool_id] else []));
     ret (case r of
            Inl e \<Rightarrow> Inl (WrapErr ''failed to list instances'' e)
          | Inr cs \<Rightarrow> Inr (map to_provider_instance_from_summary cs),
          l1 @ l2)
   }"

end
