(* ===== verification/Provider_Create.thy ===== *)
theory Provider_Create
  imports Housekeeping
begin

text \<open>
  Creating an instance, from \<open>internal/provider/create.go\<close>, \<open>cache.go\<close>, \<open>externals.go\<close>,
  \<open>runner_start.go\<close> and \<open>dind.go\<close>, and the start of status reporting from \<open>status_report.go\<close>: the cache
  plan, the seeded externals, the runner with its one retry without the IPv6 sysctl, the sidecar, the
  delivery of the credentials, and the rollback that every failure after the claim goes through.
\<close>

section \<open>Cache plan\<close>

record cache_plan =
  cp_toolcache_path :: string
  cp_toolcache_volume :: string
  cp_pnpm_path :: string
  cp_pnpm_volume :: string
  cp_diag_volume :: string
  cp_diag_dir :: string
  cp_externals_volume :: string
  cp_refs :: "(string \<times> labels) list"

definition empty_plan :: cache_plan where
  "empty_plan =
     \<lparr>cp_toolcache_path = '''', cp_toolcache_volume = '''', cp_pnpm_path = '''', cp_pnpm_volume = '''',
      cp_diag_volume = '''', cp_diag_dir = '''', cp_externals_volume = '''', cp_refs = []\<rparr>"

definition add_cache_ref :: "string \<Rightarrow> labels \<Rightarrow> cache_plan \<Rightarrow> cache_plan" where
  "add_cache_ref name want c = (if name = '''' then c else c\<lparr>cp_refs := cp_refs c @ [(name, want)]\<rparr>)"

definition runner_os_key_of :: "'s provider \<Rightarrow> string \<Rightarrow> ('s, string res \<times> log_line list) state" where
  "runner_os_key_of p img = do {
     r \<leftarrow> image_inspect (pv_cli p) img;
     ret (case r of
            Inl e \<Rightarrow> (Inl (WrapErr (''failed to inspect runner image '' @ quoted img @ '' for its OS release'') e), [])
          | Inr insp \<Rightarrow>
              (let labels = (case im_labels insp of None \<Rightarrow> Map.empty | Some l \<Rightarrow> l)
               in case runner_os_key labels (im_id insp) of
                    Inl e \<Rightarrow> (Inl (WrapErr (''runner image '' @ quoted img) e), [])
                  | Inr key \<Rightarrow>
                      (Inr key,
                       if labels LabelOSRelease = None
                       then [gc_info ''CreateInstance: runner image has no OS release label; keying its toolcache and pnpm store on the image digest (set the label to keep them warm across rebuilds)''
                               [(''image'', AStr img), (''label'', AStr LabelOSRelease), (''os_key'', AStr key)]]
                       else [])))
   }"

text \<open>One cache volume: its name is validated, then it is ensured.\<close>

definition plan_one ::
  "'s provider \<Rightarrow> string \<Rightarrow> string \<Rightarrow> string \<Rightarrow> labels \<Rightarrow> ('s, cache_volume_result res \<times> log_line list) state" where
  "plan_one p kind instance_name name l =
     (case validate_derived_name (kind @ '' cache volume'') name of
        Some e \<Rightarrow> ret (Inl e, [])
      | None \<Rightarrow> within (''failed to ensure '' @ kind @ '' volume for '' @ quoted instance_name)
                  (ensure_cache_volume (pv_topo p) name l))"

definition plan_caches :: "'s provider \<Rightarrow> bootstrap \<Rightarrow> string \<Rightarrow> ('s, cache_plan res \<times> log_line list) state" where
  "plan_caches p b img =
     (let cache = cf_cache (pv_cfg p);
          plan = empty_plan\<lparr>cp_toolcache_path := cch_toolcache_path cache\<rparr>;
          scope = detect_cache_entity_scope (bs_repo_url b);
          key = repo_key (bs_repo_url b)
      in if \<not> cch_enabled cache then ret (Inr empty_plan, [])
         else if \<not> cache_scope_allowed scope (cch_allow_org_shared cache)
         then ret (Inr plan,
           [gc_info ''CreateInstance: entity scope withholds persistent caches; using an ephemeral in-container toolcache''
              [(''instance'', AStr (bs_name b)), (''scope'', AStr (cache_scope_name scope)),
               (''allow_org_shared'', ABool (cch_allow_org_shared cache)),
               (''toolcache_path'', AStr (cp_toolcache_path plan))]])
         else attempt (runner_os_key_of p img) (\<lambda>os_key. do {
           last_used \<leftarrow> read_state (rt_now (pv_rt p));
           let ident = \<lparr>ci_controller = pv_controller p, ci_repo_key = key,
                        ci_repo_url_digest = repo_url_digest (bs_repo_url b), ci_os_key = os_key\<rparr>;
           let tool_labels = toolcache_labels ident (cch_generation cache) last_used;
           let pn_labels = pnpm_labels ident (cch_pnpm_major cache) last_used;
           let dg_labels = diag_labels ident last_used;
           attempt (plan_one p ''toolcache'' (bs_name b) (toolcache_volume_name key os_key (cch_generation cache)) tool_labels)
             (\<lambda>tool. attempt (plan_one p ''pnpm store'' (bs_name b) (pnpm_volume_name key os_key (cch_pnpm_major cache)) pn_labels)
             (\<lambda>pnpm. attempt (plan_one p ''diag'' (bs_name b) (diag_volume_name key) dg_labels)
             (\<lambda>diag. ret (Inr
                (add_cache_ref (cv_name diag) dg_labels
                   (add_cache_ref (cv_name pnpm) pn_labels
                      (add_cache_ref (cv_name tool) tool_labels
                         (plan\<lparr>cp_toolcache_volume := cv_name tool, cp_pnpm_volume := cv_name pnpm,
                               cp_pnpm_path := cch_pnpm_store_path cache, cp_diag_volume := cv_name diag,
                               cp_diag_dir := RunnerDiagDir\<rparr>)))),
                [gc_info ''CreateInstance: repo-scoped caches resolved''
                   [(''instance'', AStr (bs_name b)), (''repo_key'', AStr key), (''os_key'', AStr os_key),
                    (''toolcache_volume'', AStr (cv_name tool)), (''toolcache_hit'', ABool (cv_hit tool)),
                    (''pnpm_volume'', AStr (cv_name pnpm)), (''pnpm_hit'', ABool (cv_hit pnpm)),
                    (''diag_volume'', AStr (cv_name diag)), (''diag_hit'', ABool (cv_hit diag))]]))))
         }))"

section \<open>Externals\<close>

definition check_seed_target ::
  "'s provider \<Rightarrow> string \<Rightarrow> labels \<Rightarrow> ('s, gerr option \<times> log_line list) state" where
  "check_seed_target p vol want = do {
     r \<leftarrow> volume_inspect (pv_cli p) vol;
     ret (case r of
            Inl e \<Rightarrow>
              (Some (WrapErr (''externals seed target '' @ quoted vol @ '' could not be re-inspected before seeding'') e), [])
          | Inr v \<Rightarrow>
              (case validate_adopted_cache_volume vol (vol_labels v) want of
                 None \<Rightarrow> (None, [])
               | Some verr \<Rightarrow>
                   (Some (WrapErr (''externals seed target '' @ quoted vol @
                      '' is not our seeded cache (a manual-purge/create race auto-created it)'') verr),
                    [gc_warn ''externals seed target is not our validated cache; leaving it in place as cruft and aborting this seed so GARM retries and reconciles around the slot''
                       [(''resource'', AStr ''cache-volume''), (''volume'', AStr vol), err_attr verr]])))
   }"

definition seed_externals :: "'s provider \<Rightarrow> string \<Rightarrow> string \<Rightarrow> labels \<Rightarrow> ('s, unit res \<times> log_line list) state" where
  "seed_externals p img vol want = do {
     rn \<leftarrow> new_create_nonce p;
     case rn of
       Inl e \<Rightarrow> ret (Inl (WrapErr ''failed to generate externals seed nonce'' e), [])
     | Inr nonce \<Rightarrow> do {
         now \<leftarrow> read_state (rt_now (pv_rt p));
         let (cfg, host) = build_externals_seed_container img vol (helper_labels p now);
         (r, logs) \<leftarrow> run_helper_container p cfg host (''garm-seed-'' @ nonce) (check_seed_target p vol want);
         ret (case r of
                Inl e \<Rightarrow> Inl (WrapErr (''externals seed for '' @ quoted vol @ '' failed'') e)
              | Inr code \<Rightarrow>
                  if code \<noteq> 0
                  then Inl (PlainErr (''externals seed for '' @ quoted vol @ '' exited with code '' @ itoa code))
                  else Inr (), logs)
       }
   }"

definition plan_externals :: "'s provider \<Rightarrow> string \<Rightarrow> ('s, (string \<times> labels) res \<times> log_line list) state" where
  "plan_externals p img =
     attempt (answer (image_digest_hex p img)) (\<lambda>digest.
       (let name = externals_volume_name digest
        in case validate_derived_name ''externals cache volume'' name of
             Some e \<Rightarrow> ret (Inl e, [])
           | None \<Rightarrow> do {
               now \<leftarrow> read_state (rt_now (pv_rt p));
               let want = externals_labels (pv_controller p) digest now;
               attempt (within (''failed to ensure externals volume '' @ quoted name) (ensure_cache_volume (pv_topo p) name want))
                 (\<lambda>v. attempt (seed_externals p img (cv_name v) want) (\<lambda>u. ret (Inr (cv_name v, want), [])))
             }))"

section \<open>The runner\<close>

fun bad_refs :: "'s provider \<Rightarrow> (string \<times> labels) list \<Rightarrow> ('s, string list \<times> log_line list) state" where
  "bad_refs p [] = ret ([], [])"
| "bad_refs p ((name, want) # refs) = do {
     r \<leftarrow> volume_inspect (pv_cli p) name;
     (rest, logs) \<leftarrow> bad_refs p refs;
     ret (case r of
            Inl e \<Rightarrow> ((name @ '' (inspect failed, not deleting: '' @ err_text e @ '')'') # rest, logs)
          | Inr v \<Rightarrow>
              (case validate_adopted_cache_volume name (vol_labels v) want of
                 None \<Rightarrow> (rest, logs)
               | Some verr \<Rightarrow>
                   ((name @ '' ('' @ err_text verr @ '')'') # rest,
                    gc_warn ''CreateInstance: referenced cache volume is not our validated cache; leaving it in place as cruft and failing this allocation closed so GARM retries and reconciles around the slot''
                      [(''resource'', AStr ''cache-volume''), (''volume'', AStr name), err_attr verr] # logs)))
   }"

definition revalidate_referenced_caches ::
  "'s provider \<Rightarrow> cache_plan \<Rightarrow> ('s, gerr option \<times> log_line list) state" where
  "revalidate_referenced_caches p plan = do {
     (bad, logs) \<leftarrow> bad_refs p (cp_refs plan);
     ret (if bad \<noteq> []
          then Some (PlainErr (''cache volume(s) could not be confirmed as our seeded cache during create (a manual-purge/create race or a transient inspect failure); refusing to run the runner against an unverified cache: '' @
                 join_with '', '' bad))
          else None, logs)
   }"

definition best_effort_remove_container :: "'s provider \<Rightarrow> string \<Rightarrow> ('s, log_line list) state" where
  "best_effort_remove_container p i = do {
     e \<leftarrow> container_remove (pv_cli p) i True False;
     ret (case hard_error e of
            None \<Rightarrow> []
          | Some err \<Rightarrow> [gc_warn ''cache-revalidation rollback: failed to remove runner container (continuing)''
                           [(''container_id'', AStr i), err_attr err]])
   }"

definition ipv6_sysctl_path :: string where
  "ipv6_sysctl_path = ''sys/'' @ replace_all RunnerIPv6Sysctl ''.'' ''/''"

datatype ipv6_rejection = Ipv6NotRejected | Ipv6Missing | Ipv6Refused

definition classify_ipv6_sysctl_error :: "gerr option \<Rightarrow> ipv6_rejection" where
  "classify_ipv6_sysctl_error e =
     (case e of
        None \<Rightarrow> Ipv6NotRejected
      | Some err \<Rightarrow>
          if is_context err then Ipv6NotRejected
          else
            (let msg = err_text err
             in if \<not> str_contains msg RunnerIPv6Sysctl \<and> \<not> str_contains msg ipv6_sysctl_path then Ipv6NotRejected
                else if str_contains (to_lower msg) ''no such file or directory'' then Ipv6Missing
                else Ipv6Refused))"

definition without_ipv6_sysctl :: "host_config \<Rightarrow> host_config" where
  "without_ipv6_sysctl h = h\<lparr>hc_sysctls := filter (\<lambda>(k, v). k \<noteq> RunnerIPv6Sysctl) (hc_sysctls h)\<rparr>"

text \<open>One attempt: the ID of a container that still exists, and the error.\<close>

definition create_and_start_runner_once ::
  "'s provider \<Rightarrow> container_config \<Rightarrow> host_config \<Rightarrow> string \<Rightarrow> cache_plan \<Rightarrow>
   ('s, string \<times> gerr option \<times> log_line list) state" where
  "create_and_start_runner_once p cfg host instance_name plan = do {
     (i, e) \<leftarrow> container_create (pv_cli p) cfg host (runner_container_name instance_name);
     case e of
       Some err \<Rightarrow> ret ('''', Some (WrapErr (''failed to create container for '' @ quoted instance_name) err), [])
     | None \<Rightarrow> do {
         (re, l1) \<leftarrow> revalidate_referenced_caches p plan;
         case re of
           Some err \<Rightarrow> do {
             l2 \<leftarrow> best_effort_remove_container p i;
             ret ('''', Some err, l1 @ l2)
           }
         | None \<Rightarrow> do {
             se \<leftarrow> container_start (pv_cli p) i;
             ret (i, map_option (WrapErr (''failed to start container for '' @ quoted instance_name)) se, l1)
           }
       }
   }"

definition ipv6_retry_log :: "string \<Rightarrow> gerr \<Rightarrow> log_line" where
  "ipv6_retry_log instance_name err =
     gc_warn
       (if classify_ipv6_sysctl_error (Some err) = Ipv6Missing
        then ''CreateInstance: the Docker host has no IPv6 (the runner's IPv6 sysctl does not exist); recreating the runner once without it. ::1 cannot exist in the runner, so localhost stays IPv4-only''
        else ''CreateInstance: the Docker daemon could not apply the runner's IPv6 sysctl for a reason other than missing IPv6; recreating the runner once without it. IPv6 may remain enabled in the runner, so localhost can resolve to ::1 and a server bound to localhost may be unreachable via 127.0.0.1 (see ADR-002, the runner IPv6 amendment)'')
       [(''instance'', AStr instance_name), (''sysctl'', AStr RunnerIPv6Sysctl), err_attr err]"

definition retry_without_ipv6 ::
  "'s provider \<Rightarrow> container_config \<Rightarrow> host_config \<Rightarrow> string \<Rightarrow> cache_plan \<Rightarrow> string \<Rightarrow> gerr \<Rightarrow> log_line list \<Rightarrow>
   ('s, string \<times> gerr option \<times> log_line list) state" where
  "retry_without_ipv6 p cfg host instance_name plan i err logs = do {
     re \<leftarrow> (if i \<noteq> '''' then container_remove (pv_cli p) i True False else ret None);
     case hard_error re of
       Some rerr \<Rightarrow>
         ret (i, Some (JoinErr [err, WrapErr (''failed to remove runner container '' @ i @
                    '' before retrying without the IPv6 sysctl'') rerr]), logs)
     | None \<Rightarrow> do {
         (i2, e2, l3) \<leftarrow> create_and_start_runner_once p cfg (without_ipv6_sysctl host) instance_name plan;
         ret (i2, e2, logs @ l3)
       }
   }"

definition create_and_start_runner ::
  "'s provider \<Rightarrow> container_config \<Rightarrow> host_config \<Rightarrow> string \<Rightarrow> cache_plan \<Rightarrow>
   ('s, string \<times> gerr option \<times> log_line list) state" where
  "create_and_start_runner p cfg host instance_name plan = do {
     (i, e, l1) \<leftarrow> create_and_start_runner_once p cfg host instance_name plan;
     case e of
       None \<Rightarrow> ret (i, e, l1)
     | Some err \<Rightarrow>
         if (case map_of (hc_sysctls host) RunnerIPv6Sysctl of None \<Rightarrow> '''' | Some v \<Rightarrow> v) = '''' then ret (i, e, l1)
         else if classify_ipv6_sysctl_error e = Ipv6NotRejected then ret (i, e, l1)
         else retry_without_ipv6 p cfg host instance_name plan i err (l1 @ [ipv6_retry_log instance_name err])
   }"

section \<open>The sidecar\<close>

definition runtime_unavailable_error :: "string \<Rightarrow> string \<Rightarrow> gerr option \<Rightarrow> gerr option" where
  "runtime_unavailable_error dind_mode runtime e =
     (case e of
        None \<Rightarrow> None
      | Some err \<Rightarrow>
          if runtime = '''' then None
          else
            (let msg = to_lower (err_text err)
             in if \<not> str_contains msg (to_lower runtime) then None
                else if \<not> str_contains msg ''unknown runtime'' then None
                else Some (WrapErr (''dind_mode='' @ dind_mode @ '' requires the '' @ quoted runtime @
                       '' runtime to be registered on the Docker daemon; it is not available'') err)))"

definition sidecar_error :: "string \<Rightarrow> string \<Rightarrow> string \<Rightarrow> gerr \<Rightarrow> gerr" where
  "sidecar_error dind_mode runtime ctx err =
     (case runtime_unavailable_error dind_mode runtime (Some err) of Some clear \<Rightarrow> clear | None \<Rightarrow> WrapErr ctx err)"

definition registry_log :: "config \<Rightarrow> string \<Rightarrow> log_line list" where
  "registry_log cfg instance_name =
     (if cf_registry_mirrors cfg \<noteq> [] \<or> cf_insecure_registries cfg \<noteq> []
      then [gc_info ''CreateInstance: DinD sidecar registry settings''
              [(''instance'', AStr instance_name), (''registry_mirrors'', AStr (show_strings (cf_registry_mirrors cfg))),
               (''insecure_registries'', AStr (show_strings (cf_insecure_registries cfg)))]]
      else [])"

definition start_dind_sidecar ::
  "'s provider \<Rightarrow> alloc_identity \<Rightarrow> string \<Rightarrow> string \<Rightarrow> string \<Rightarrow> int \<Rightarrow> time \<Rightarrow> string \<Rightarrow> string \<Rightarrow>
   ('s, string res \<times> log_line list) state" where
  "start_dind_sidecar p identity nonce dind_mode storage_driver memory created_at runner_id externals_volume =
     (let instance_name = id_instance identity
      in case dind_runtime_selection dind_mode of
           Inl e \<Rightarrow> ret (Inl (WrapErr (''failed to derive DinD runtime for '' @ quoted instance_name) e), [])
         | Inr (privileged, runtime) \<Rightarrow> do {
             let (cfg, host) = build_dind_container
               \<lparr>ds_image = cf_dind_image (pv_cfg p), ds_env = [],
                ds_labels = (dind_container_labels identity created_at)(LabelCreateNonce \<mapsto> nonce),
                ds_memory_bytes = memory, ds_storage_driver = storage_driver,
                ds_registry_mirrors = cf_registry_mirrors (pv_cfg p),
                ds_insecure_registries = cf_insecure_registries (pv_cfg p),
                ds_privileged = privileged, ds_runtime = runtime,
                ds_netns_container = (if dind_shares_runner_netns dind_mode then runner_id else ''''),
                ds_network = (if dind_shares_runner_netns dind_mode then '''' else job_network_name instance_name),
                ds_socket_volume = socket_volume_name instance_name nonce,
                ds_dind_state_volume = dind_state_volume_name instance_name nonce,
                ds_workspace_volume = workspace_volume_name instance_name nonce,
                ds_externals_volume = externals_volume\<rparr>;
             let logs = registry_log (pv_cfg p) instance_name;
             (i, e) \<leftarrow> container_create (pv_cli p) cfg host (dind_container_name instance_name);
             case e of
               Some err \<Rightarrow>
                 ret (Inl (sidecar_error dind_mode runtime (''failed to create DinD sidecar for '' @ quoted instance_name) err), logs)
             | None \<Rightarrow> do {
                 se \<leftarrow> container_start (pv_cli p) i;
                 ret (case se of
                        Some err \<Rightarrow> Inl (sidecar_error dind_mode runtime
                          (''failed to start DinD sidecar for '' @ quoted instance_name) err)
                      | None \<Rightarrow> Inr i, logs)
               }
           })"

definition verify_running :: "'s provider \<Rightarrow> string \<Rightarrow> string \<Rightarrow> string \<Rightarrow> ('s, gerr option) state" where
  "verify_running p i role instance_name = do {
     r \<leftarrow> container_inspect (pv_cli p) i;
     ret (case r of
            Inl e \<Rightarrow> Some (WrapErr (''failed to verify '' @ role @ '' state for '' @ quoted instance_name) e)
          | Inr inspected \<Rightarrow>
              if (case cj_state inspected of None \<Rightarrow> True | Some st \<Rightarrow> \<not> cs_running st)
              then Some (PlainErr (role @ '' for '' @ quoted instance_name @ '' is not running after credential delivery''))
              else None)
   }"

section \<open>Images and credentials\<close>

definition ensure_image :: "'s provider \<Rightarrow> string \<Rightarrow> ('s, gerr option) state" where
  "ensure_image p img = do {
     r \<leftarrow> image_inspect (pv_cli p) img;
     case r of
       Inr insp \<Rightarrow> ret None
     | Inl e \<Rightarrow>
         if \<not> is_not_found e then ret (Some (WrapErr (''failed to inspect image '' @ quoted img) e))
         else do {
           pull \<leftarrow> image_pull (pv_cli p) img;
           ret (case pull of
                  Inl pe \<Rightarrow> Some (WrapErr (''failed to pull image '' @ quoted img) pe)
                | Inr drained \<Rightarrow> map_option (WrapErr (''failed to complete pull of image '' @ quoted img)) drained)
         }
   }"

definition fetch_credentials :: "'s provider \<Rightarrow> bootstrap \<Rightarrow> ('s, (string \<times> string) list res) state" where
  "fetch_credentials p b =
     (let we = rt_watch (pv_rt p)
      in case new_client (we_http we) (we_ctx_err we) (we_pem_ok we) metadata_url_field (bs_metadata_url b)
                (bs_instance_token b) (bs_ca_cert_bundle b) of
           Inl e \<Rightarrow> ret (Inl e)
         | Inr mc \<Rightarrow>
             if bs_jit b then fetch_jit_credentials mc
             else do {
               r \<leftarrow> fetch_registration_token mc;
               ret (case r of Inl e \<Rightarrow> Inl e | Inr tok \<Rightarrow> Inr [tok])
             })"

definition with_ready_marker :: "(string \<times> string) list \<Rightarrow> (string \<times> string) list" where
  "with_ready_marker files = files @ [(ReadyMarker, '''')]"

definition credential_deliver_cmd :: "string list" where
  "credential_deliver_cmd = [''tar'', ''-x'', ''-p'', ''-C'', CredentialDir]"

section \<open>Status reporting\<close>

definition log_level_env_var :: string where "log_level_env_var = ''GARM_PROVIDER_DOCKER_LOG_LEVEL''"

definition report_warn :: "bootstrap \<Rightarrow> string \<Rightarrow> attrs \<Rightarrow> log_line" where
  "report_warn b msg as = gc_warn msg ((''instance'', AStr (bs_name b)) # as)"

definition report_debug :: "bootstrap \<Rightarrow> string \<Rightarrow> log_line" where
  "report_debug b msg = \<lparr>ll_level = Debug, ll_msg = msg, ll_attrs = [(''instance'', AStr (bs_name b))]\<rparr>"

definition watch_request :: "'s provider \<Rightarrow> bootstrap \<Rightarrow> string \<Rightarrow> time \<Rightarrow> status_watch_request" where
  "watch_request p b i now =
     \<lparr>sw_instance = bs_name b, sw_container = i, sw_docker_host = cf_docker_host (pv_cfg p),
      sw_callback_url = bs_callback_url b, sw_token = bs_instance_token b, sw_ca_bundle = bs_ca_cert_bundle b,
      sw_deadline = now + status_report_timeout (pv_cfg p), sw_proxy_env = current_proxy_env (rt_getenv (pv_rt p)),
      sw_log_file = cf_log_file (pv_cfg p),
      sw_log_level = (if cf_log_file (pv_cfg p) = '''' then ''''
        else parse_level (case rt_getenv (pv_rt p) log_level_env_var of None \<Rightarrow> '''' | Some v \<Rightarrow> v))\<rparr>"

text \<open>None: the watcher, run inside this call, did not end.\<close>

definition report_runner_status :: "'s provider \<Rightarrow> bootstrap \<Rightarrow> string \<Rightarrow> ('s, log_line list option) state" where
  "report_runner_status p b i =
     (let we = rt_watch (pv_rt p)
      in if \<not> status_report_enabled (pv_cfg p)
         then ret (Some [report_debug b ''CreateInstance: runner status reporting disabled ([status_report].timeout_seconds = 0)''])
         else if \<not> bs_jit b
         then ret (Some [report_debug b ''CreateInstance: runner status reporting skipped for a non-JIT runner''])
         else if bs_callback_url b = ''''
         then ret (Some [report_warn b ''CreateInstance: GARM sent no callback URL; runner status is not reported and GARM keeps the runner pending'' []])
         else (case new_status_reporter (we_http we) (we_ctx_err we) (we_pem_ok we) (bs_callback_url b)
                      (bs_instance_token b) (bs_ca_cert_bundle b) of
                 Inl e \<Rightarrow> ret (Some [report_warn b ''CreateInstance: cannot report runner status: invalid callback URL (continuing)''
                   [(''error'', AStr (redact (err_text e) (bs_instance_token b)))]])
               | Inr reporter \<Rightarrow> do {
                   now \<leftarrow> read_state (rt_now (pv_rt p));
                   r \<leftarrow> pv_spawn p (watch_request p b i now);
                   ret (map_option (\<lambda>(e, logs). logs @
                     [case e of
                        Some err \<Rightarrow> report_warn b ''CreateInstance: could not start the runner status watcher; the runner stays pending (continuing)''
                          [(''error'', AStr (redact (err_text err) (bs_instance_token b)))]
                      | None \<Rightarrow> gc_info ''CreateInstance: started the runner status watcher; it reports installing, then idle once the runner is listening for jobs''
                          [(''instance'', AStr (bs_name b))]]) r)
                 }))"

section \<open>CreateInstance\<close>

definition dind_enabled :: "string \<Rightarrow> bool" where
  "dind_enabled mode \<longleftrightarrow> mode = dind_mode_privileged_sidecar \<or> mode = dind_mode_sysbox_runc"

definition runner_labels :: "bootstrap \<Rightarrow> alloc_identity \<Rightarrow> string \<Rightarrow> time \<Rightarrow> labels" where
  "runner_labels b identity nonce created_at =
     (container_labels identity RoleRunner created_at)
       (LabelOSType \<mapsto> bs_os_type b, LabelOSArch \<mapsto> bs_os_arch b, LabelCreateNonce \<mapsto> nonce)"

definition runner_spec ::
  "bootstrap \<Rightarrow> resolved \<Rightarrow> string \<Rightarrow> cache_plan \<Rightarrow> string list \<Rightarrow> labels \<Rightarrow> runner_container_spec" where
  "runner_spec b rv nonce plan env l =
     \<lparr>rs_image = rv_runner_image rv, rs_env = env, rs_labels = l, rs_memory_bytes = rv_runner_memory_bytes rv,
      rs_workspace_volume = workspace_volume_name (bs_name b) nonce, rs_network = job_network_name (bs_name b),
      rs_socket_volume = (if dind_enabled (rv_dind_mode rv) then socket_volume_name (bs_name b) nonce else ''''),
      rs_toolcache_volume = cp_toolcache_volume plan, rs_toolcache_path = cp_toolcache_path plan,
      rs_pnpm_volume = cp_pnpm_volume plan, rs_pnpm_path = cp_pnpm_path plan,
      rs_externals_volume = cp_externals_volume plan, rs_diag_volume = cp_diag_volume plan\<rparr>"

text \<open>The job volumes: the workspace, and for a sidecar the socket and the daemon's state.\<close>

definition create_job_volumes ::
  "'s provider \<Rightarrow> alloc_identity \<Rightarrow> string \<Rightarrow> bool \<Rightarrow> ('s, unit res \<times> log_line list) state" where
  "create_job_volumes p identity nonce dind =
     attempt (no_error (create_workspace_volume (pv_topo p) identity nonce)) (\<lambda>u.
       if dind then
         attempt (no_error (create_socket_volume (pv_topo p) identity nonce)) (\<lambda>u.
         no_error (create_dind_state_volume (pv_topo p) identity nonce))
       else ret (Inr (), []))"

text \<open>The externals are planned whenever the cache is on, for every entity scope.\<close>

definition add_externals ::
  "'s provider \<Rightarrow> string \<Rightarrow> string \<Rightarrow> cache_plan \<Rightarrow> ('s, cache_plan res \<times> log_line list) state" where
  "add_externals p instance_name img plan =
     (if \<not> cch_enabled (cf_cache (pv_cfg p)) then ret (Inr plan, [])
      else attempt (within (''failed to prepare externals cache for '' @ quoted instance_name) (plan_externals p img))
        (\<lambda>(vol, want). ret (Inr (add_cache_ref vol want (plan\<lparr>cp_externals_volume := vol\<rparr>)), [])))"

definition start_runner ::
  "'s provider \<Rightarrow> container_config \<Rightarrow> host_config \<Rightarrow> string \<Rightarrow> cache_plan \<Rightarrow> ('s, string res \<times> log_line list) state" where
  "start_runner p cfg host instance_name plan = do {
     (i, e, logs) \<leftarrow> create_and_start_runner p cfg host instance_name plan;
     ret (case e of None \<Rightarrow> Inr i | Some err \<Rightarrow> Inl err, logs)
   }"

definition deliver_credentials :: "'s provider \<Rightarrow> string \<Rightarrow> string \<Rightarrow> archive \<Rightarrow> ('s, gerr option) state" where
  "deliver_credentials p instance_name i arch = do {
     r \<leftarrow> exec_stream (pv_cli p) i credential_deliver_cmd arch;
     ret (case r of
            Inl e \<Rightarrow> Some (WrapErr (''failed to deliver credentials to '' @ quoted instance_name) e)
          | Inr code \<Rightarrow>
              if code \<noteq> 0
              then Some (PlainErr (''credential delivery exec for '' @ quoted instance_name @ '' exited with code '' @ itoa code))
              else None)
   }"

text \<open>
  Everything between the claim and the last check: the steps whose failure \<open>guarded\<close> rolls back.
  \<open>finish_runner\<close> is what follows the runner's start: the sidecar, the credentials and the checks that
  both still run; \<open>launch_runner\<close> is the runner's start with what it needs; \<open>provision\<close> is all of it. They
  answer the runner's container ID.
\<close>

definition finish_runner ::
  "'s provider \<Rightarrow> resolved \<Rightarrow> alloc_identity \<Rightarrow> string \<Rightarrow> cache_plan \<Rightarrow> (string \<times> string) list \<Rightarrow> time \<Rightarrow> string \<Rightarrow>
   ('s, string res \<times> log_line list) state" where
  "finish_runner p rv identity nonce plan creds created_at runner_id =
     (let name = id_instance identity; mode = rv_dind_mode rv; dind = dind_enabled mode
      in attempt (if dind
             then start_dind_sidecar p identity nonce mode (rv_storage_driver rv) (rv_dind_memory_bytes rv)
                    created_at runner_id (cp_externals_volume plan)
             else ret (Inr '''', [])) (\<lambda>dind_id.
         attempt (no_error (deliver_credentials p name runner_id (tar_archive (with_ready_marker creds)))) (\<lambda>u.
         attempt (no_error (verify_running p runner_id ''runner'' name)) (\<lambda>u.
         attempt (if dind then no_error (verify_running p dind_id ''DinD sidecar'' name) else ret (Inr (), [])) (\<lambda>u.
         ret (Inr runner_id, []))))))"

text \<open>The environment, with a warning for each variable of the pool that it drops.\<close>

definition logged_env :: "(string list \<times> string list) res \<Rightarrow> string list res \<times> log_line list" where
  "logged_env r =
     (case r of
        Inl e \<Rightarrow> (Inl e, [])
      | Inr (env, dropped) \<Rightarrow>
          (Inr env, map (\<lambda>k. gc_warn
             ''CreateInstance: extra_specs.extra_env collides with a provider-injected variable; keeping the provider's value''
             [(''env_key'', AStr k)]) dropped))"

definition launch_runner ::
  "'s provider \<Rightarrow> bootstrap \<Rightarrow> resolved \<Rightarrow> alloc_identity \<Rightarrow> string \<Rightarrow> cache_plan \<Rightarrow> (string \<times> string) list \<Rightarrow>
   ('s, string res \<times> log_line list) state" where
  "launch_runner p b rv identity nonce plan creds = do {
     created_at \<leftarrow> read_state (rt_now (pv_rt p));
     let dind = dind_enabled (rv_dind_mode rv);
     attempt (if dind then no_error (ensure_image p (cf_dind_image (pv_cfg p))) else ret (Inr (), [])) (\<lambda>u.
     attempt (ret (logged_env (build_runner_env b (if dind then DindDockerHost else '''') (cp_toolcache_path plan)
         (cp_pnpm_path plan) (cp_diag_dir plan)
         (if cp_externals_volume plan \<noteq> '''' then RunnerExternalsSeededMarkerPath else '''')
         (rv_extra_runner_labels rv) (rv_extra_env rv)))) (\<lambda>env.
     let (cfg, host) = build_runner_container
           (runner_spec b rv nonce plan env (runner_labels b identity nonce created_at))
     in attempt (start_runner p cfg host (id_instance identity) plan) (\<lambda>runner_id.
     finish_runner p rv identity nonce plan creds created_at runner_id)))
   }"

definition provision ::
  "'s provider \<Rightarrow> bootstrap \<Rightarrow> resolved \<Rightarrow> alloc_identity \<Rightarrow> string \<Rightarrow> ('s, string res \<times> log_line list) state" where
  "provision p b rv identity nonce =
     (let name = bs_name b; img = rv_runner_image rv
      in attempt (create_job_volumes p identity nonce (dind_enabled (rv_dind_mode rv))) (\<lambda>u.
         attempt (no_error (ensure_image p img)) (\<lambda>u.
         attempt (plan_caches p b img) (\<lambda>plan0.
         attempt (within (''failed to fetch credentials for '' @ quoted name) (answer (fetch_credentials p b))) (\<lambda>creds.
         attempt (add_externals p name img plan0) (\<lambda>plan.
         launch_runner p b rv identity nonce plan creds))))))"

text \<open>A failure after the claim: roll back this attempt, and join a rollback failure onto the error.\<close>

definition cleanup_line :: "string \<Rightarrow> string \<Rightarrow> string \<Rightarrow> gerr \<Rightarrow> log_line" where
  "cleanup_line msg instance_name nonce e =
     \<lparr>ll_level = Error, ll_msg = msg, ll_attrs = [(''instance'', AStr instance_name), (''nonce'', AStr nonce), err_attr e]\<rparr>"

definition guarded :: "'s provider \<Rightarrow> string \<Rightarrow> string \<Rightarrow> gerr \<Rightarrow> ('s, gerr \<times> log_line list) state" where
  "guarded p instance_name nonce err = do {
     c \<leftarrow> rollback (pv_topo p) instance_name nonce;
     ret (case c of
            None \<Rightarrow> (err, [])
          | Some cerr \<Rightarrow>
              (JoinErr [err, WrapErr (''creation-guard rollback for '' @ quoted instance_name @ '' failed'') cerr],
               [cleanup_line ''CreateInstance: creation-guard rollback failed'' instance_name nonce cerr]))
   }"

text \<open>What is checked before the first Docker call.\<close>

definition admit :: "'s provider \<Rightarrow> bootstrap \<Rightarrow> json \<Rightarrow> resolved res" where
  "admit p b extra =
     (if bs_name b = '''' then Inl (PlainErr ''bootstrap instance name is empty'')
      else (case validate_platform b of
        Some e \<Rightarrow> Inl e
      | None \<Rightarrow>
      (case parse_extra_specs (rt_schema (pv_rt p)) extra of
        Inl e \<Rightarrow> Inl (WrapErr (''invalid extra_specs for '' @ quoted (bs_name b)) e)
      | Inr specs \<Rightarrow>
      (case resolve_specs specs (pv_cfg p) of
        Inl e \<Rightarrow> Inl (WrapErr (''invalid extra_specs for '' @ quoted (bs_name b)) e)
      | Inr rv \<Rightarrow>
          if rv_dind_mode rv \<noteq> dind_mode_none \<and> cf_dind_image (pv_cfg p) = ''''
          then Inl (PlainErr (''instance '' @ quoted (bs_name b) @ '' requests dind_mode '' @ quoted (rv_dind_mode rv) @
                 '' but no dind_image is configured: set dind_image in the provider config, or narrow allowed_dind_modes so this pool cannot select a DinD mode''))
          else Inr rv))))"

text \<open>The housekeeping before a create; its failures are only logged.\<close>

definition create_housekeeping :: "'s provider \<Rightarrow> bootstrap \<Rightarrow> ('s, log_line list) state" where
  "create_housekeeping p b = do {
     (se, l1) \<leftarrow> sweep_orphans (pv_topo p) (rt_order (pv_rt p));
     l2 \<leftarrow> run_cache_gc_throttled p;
     ret (l1 @
       (case se of None \<Rightarrow> [] | Some e \<Rightarrow>
          [gc_warn ''CreateInstance: pre-create orphan sweep failed (continuing)'' [(''instance'', AStr (bs_name b)), err_attr e]]) @
       l2 @
       (if \<not> cf_enable_job_network (pv_cfg p)
        then [gc_warn ''CreateInstance: [network].enable_job_network=false is reserved and not yet honored; creating the isolated per-job network anyway'' [(''instance'', AStr (bs_name b))]]
        else []))
   }"

definition running_instance :: "bootstrap \<Rightarrow> provider_instance" where
  "running_instance b =
     \<lparr>pi_provider_id = bs_name b, pi_name = bs_name b, pi_os_type = bs_os_type b, pi_os_arch = bs_os_arch b,
      pi_status = InstanceRunning, pi_addresses = [], pi_fault = None\<rparr>"

text \<open>The create of an attempt that holds its claim.\<close>

definition create_claimed ::
  "'s provider \<Rightarrow> bootstrap \<Rightarrow> resolved \<Rightarrow> alloc_identity \<Rightarrow> string \<Rightarrow> log_line list \<Rightarrow>
   ('s, (provider_instance res \<times> log_line list) option) state" where
  "create_claimed p b rv identity nonce logs = do {
     (r, l3) \<leftarrow> provision p b rv identity nonce;
     case r of
       Inl e \<Rightarrow> do {
         (err, l4) \<leftarrow> guarded p (bs_name b) nonce e;
         ret (Some (Inl err, logs @ l3 @ l4))
       }
     | Inr runner_id \<Rightarrow> do {
         l4 \<leftarrow> report_runner_status p b runner_id;
         ret (map_option (\<lambda>l4. (Inr (running_instance b), logs @ l3 @ l4)) l4)
       }
   }"

text \<open>What \<open>CreateClaimNetwork\<close> logged: only a clean-up that failed joins an error onto the create's.\<close>

definition claim_cleanup_log :: "string \<Rightarrow> string \<Rightarrow> gerr \<Rightarrow> log_line list" where
  "claim_cleanup_log instance_name nonce e =
     (case e of
        JoinErr [e1, WrapErr m e2] \<Rightarrow>
          [cleanup_line ''CreateClaimNetwork: ambiguous-create cleanup failed'' instance_name nonce e2]
      | _ \<Rightarrow> [])"

definition create_with_nonce ::
  "'s provider \<Rightarrow> bootstrap \<Rightarrow> resolved \<Rightarrow> string \<Rightarrow> log_line list \<Rightarrow>
   ('s, (provider_instance res \<times> log_line list) option) state" where
  "create_with_nonce p b rv nonce logs =
     (case validate_allocation_names (bs_name b) nonce of
        Some e \<Rightarrow> ret (Some (Inl (WrapErr (''instance name '' @ quoted (bs_name b) @
          '' produces an invalid Docker resource name'') e), logs))
      | None \<Rightarrow> do {
          let identity = \<lparr>id_controller = pv_controller p, id_pool = bs_pool_id b, id_instance = bs_name b\<rparr>;
          (i, dup, ce) \<leftarrow> create_claim_network (pv_topo p) identity nonce (cf_internal (pv_cfg p));
          case dup of
            Some e \<Rightarrow> ret (Some (Inl e, logs))
          | None \<Rightarrow>
              (case ce of
                 Some e \<Rightarrow> ret (Some (Inl e, logs @ claim_cleanup_log (bs_name b) nonce e))
               | None \<Rightarrow> create_claimed p b rv identity nonce logs)
        })"

definition create_instance ::
  "'s provider \<Rightarrow> bootstrap \<Rightarrow> json \<Rightarrow> ('s, (provider_instance res \<times> log_line list) option) state" where
  "create_instance p b extra =
     (case admit p b extra of
        Inl e \<Rightarrow> ret (Some (Inl e, []))
      | Inr rv \<Rightarrow> do {
          logs \<leftarrow> create_housekeeping p b;
          rn \<leftarrow> new_create_nonce p;
          case rn of
            Inl e \<Rightarrow> ret (Some (Inl (WrapErr (''failed to generate create nonce for '' @ quoted (bs_name b)) e), logs))
          | Inr nonce \<Rightarrow> create_with_nonce p b rv nonce logs
        })"

end
