(* ===== verification/Provider_Host.thy ===== *)
theory Provider_Host
  imports Docker_Named Provider_Create
begin

text \<open>
  The provider on a daemon: the locale \<open>provider_host\<close> is a daemon that meets \<open>docker_named\<close> and a provider
  \<open>new_provider\<close> built on it, whose surroundings (random bytes, HTTP exchanges, the detached process)
  leave the daemon alone. Its lemmas frame every step of the provider: what a step may remove and what
  it may add, by labels.
\<close>

section \<open>What talks to the network only\<close>

lemma quiet_http_do:
  assumes "\<And>rq. quiet I V (mc_http c rq)"
  shows "quiet I V (http_do c rq via)"
  using assms
proof (induction c rq via rule: http_do.induct)
  case (1 c rq via)
  show ?case
    by (subst http_do.simps) (auto intro!: quiet_rules "1.prems" "1.IH" [simplified] split: http_reply.splits option.splits)
qed

lemma quiet_do_get: "(\<And>rq. quiet I V (mc_http c rq)) \<Longrightarrow> quiet I V (do_get c url)"
  unfolding do_get_def by (intro quiet_rules quiet_http_do) auto

lemma quiet_get_attempts:
  assumes "\<And>rq. quiet I V (mc_http c rq)"
  shows "quiet I V (get_attempts c url a e)"
  using assms
proof (induction "Suc (mc_max_retries c) - a" arbitrary: a e rule: less_induct)
  case less
  have IH: "quiet I V (get_attempts c url (a + 1) e')" if "a \<le> mc_max_retries c" for e'
    using less.hyps less.prems that by simp
  show ?case
    by (subst get_attempts.simps) (intro quiet_rules quiet_do_get less.prems IH, simp)
qed

lemma quiet_fetch_files: "(\<And>rq. quiet I V (mc_http c rq)) \<Longrightarrow> quiet I V (fetch_files c fs)"
  by (induction c fs rule: fetch_files.induct)
    (simp_all add: metadata_get_def quiet_get_attempts quiet_return quiet_bind quiet_sum)

lemma quiet_registration: "(\<And>rq. quiet I V (mc_http c rq)) \<Longrightarrow> quiet I V (fetch_registration_token c)"
  unfolding fetch_registration_token_def metadata_get_def by (intro quiet_rules quiet_get_attempts)

lemma quiet_do_post: "(\<And>rq. quiet I V (mc_http (sr_client r) rq)) \<Longrightarrow> quiet I V (do_post r body)"
  unfolding do_post_def by (intro quiet_rules quiet_http_do) auto

lemma quiet_post_attempts:
  assumes "\<And>rq. quiet I V (mc_http (sr_client r) rq)"
  shows "quiet I V (post_attempts r status message a e)"
  using assms
proof (induction "Suc (mc_max_retries (sr_client r)) - a" arbitrary: a e rule: less_induct)
  case less
  have IH: "quiet I V (post_attempts r status message (a + 1) e')" if "a \<le> mc_max_retries (sr_client r)" for e'
    using less.hyps less.prems that by simp
  show ?case
    by (subst post_attempts.simps) (intro quiet_rules quiet_do_post less.prems IH, simp)
qed

lemma new_client_http: "new_client http ce pem f u tok ca = Inr c \<Longrightarrow> mc_http c = http"
  by (auto simp: new_client_def Let_def split: option.splits sum.splits if_splits)

lemma new_status_reporter_http:
  "new_status_reporter http ce pem u tok ca = Inr r \<Longrightarrow> mc_http (sr_client r) = http"
  by (auto simp: new_status_reporter_def dest: new_client_http split: sum.splits)

section \<open>The status watcher\<close>

text \<open>A watcher's surroundings that leave the daemon alone.\<close>

definition quiet_watch :: "('s \<Rightarrow> bool) \<Rightarrow> ('s \<Rightarrow> store) \<Rightarrow> 's watch_env \<Rightarrow> bool" where
  "quiet_watch I V we \<longleftrightarrow>
     (\<forall>i. quiet I V (container_inspect (we_cli we) i)) \<and> (\<forall>i. quiet I V (container_top (we_cli we) i)) \<and>
     (\<forall>i. quiet I V (we_stdout we i)) \<and> (\<forall>rq. quiet I V (we_http we rq)) \<and> quiet I V (we_tick we) \<and>
     (\<forall>req. quiet I V (we_detach we req))"

lemma quiet_wait_listener: "quiet_watch I V we \<Longrightarrow> quiet I V (wait_listener_process we i n fs)"
proof (induction n arbitrary: fs)
  case (Suc n)
  have q: "quiet I V (container_top (we_cli we) i)" "quiet I V (we_tick we)"
    using Suc.prems by (simp_all add: quiet_watch_def)
  show ?case unfolding wait_listener_process.simps Let_def
    by (intro quiet_rules q Suc.IH Suc.prems)
qed (simp add: quiet_return)

lemma quiet_confirm: "quiet_watch I V we \<Longrightarrow> quiet I V (confirm_running we i)"
  by (simp add: confirm_running_def quiet_watch_def quiet_bind quiet_return)

lemma quiet_wait_runner: "quiet_watch I V we \<Longrightarrow> quiet I V (wait_runner_listening we i)"
  unfolding wait_runner_listening_def Let_def
  by (intro quiet_rules quiet_wait_listener quiet_confirm) (simp_all add: quiet_watch_def)

lemma quiet_run_watch: "quiet_watch I V we \<Longrightarrow> quiet I V (run_status_watch we req)"
  unfolding run_status_watch_def post_status_def
  by (cases "new_status_reporter (we_http we) (we_ctx_err we) (we_pem_ok we) (sw_callback_url req) (sw_token req)
      (sw_ca_bundle req)")
    (auto intro!: quiet_rules quiet_wait_runner quiet_post_attempts split: prod.splits option.splits
      simp: new_status_reporter_http quiet_watch_def)

lemma quiet_in_process: "quiet_watch I V we \<Longrightarrow> quiet I V (run_in_process_watcher we req)"
  unfolding run_in_process_watcher_def by (intro quiet_rules quiet_run_watch)

lemma quiet_start_watcher: "quiet_watch I V we \<Longrightarrow> quiet I V (start_status_watcher we req)"
  unfolding start_status_watcher_def by (intro quiet_rules quiet_in_process) (simp_all add: quiet_watch_def)

section \<open>Steps that may fail\<close>

lemma framed_attempt [frame]:
  "framed I V P Q m \<Longrightarrow> (\<And>a. framed I V P Q (f a)) \<Longrightarrow> framed I V P Q (attempt m f)"
  unfolding attempt_def by (intro frame)

lemma framed_answer [frame]: "framed I V P Q m \<Longrightarrow> framed I V P Q (answer m)"
  unfolding answer_def by (intro frame)

lemma framed_no_error [frame]: "framed I V P Q m \<Longrightarrow> framed I V P Q (no_error m)"
  unfolding no_error_def by (intro frame)

lemma framed_within [frame]: "framed I V P Q m \<Longrightarrow> framed I V P Q (within ctx m)"
  unfolding within_def by (intro frame)

section \<open>Labels of what the provider adds\<close>

text \<open>The containers of the housekeeping: helpers and throttle stamps of this controller.\<close>

definition housekeeping :: "string \<Rightarrow> labels \<Rightarrow> bool" where
  "housekeeping cid l \<longleftrightarrow>
     lget l LabelManaged = ''true'' \<and> lget l LabelControllerID = cid \<and>
     lget l LabelRole \<in> {RoleCacheHelper, RoleThrottleStamp, RoleDiagPruneStamp} \<and> l LabelInstanceName = None"

definition not_housekeeping :: "string \<Rightarrow> rid \<Rightarrow> labels \<Rightarrow> bool" where
  "not_housekeeping cid r l \<longleftrightarrow> \<not> ((\<exists>i. r = Ctr i) \<and> housekeeping cid l)"

text \<open>What the housekeeping may add; a container create adds volumes it mounts that are missing, unlabelled.\<close>

definition gc_added :: "string \<Rightarrow> rid \<Rightarrow> labels \<Rightarrow> bool" where
  "gc_added cid r l \<longleftrightarrow> (\<exists>i. r = Ctr i) \<and> housekeeping cid l \<or> (\<exists>i. r = Vol i) \<and> l = Map.empty"

lemma housekeeping_owned:
  "role \<in> {RoleCacheHelper, RoleThrottleStamp, RoleDiagPruneStamp} \<Longrightarrow>
   housekeeping (pv_controller p) (owned_helper_labels p role t)"
  by (auto simp: housekeeping_def owned_helper_labels_def lget_def)

lemma gc_added_owned:
  "role \<in> {RoleCacheHelper, RoleThrottleStamp, RoleDiagPruneStamp} \<Longrightarrow>
   gc_added (pv_controller p) (Ctr i) (owned_helper_labels p role t)"
  by (simp add: gc_added_def housekeeping_owned)

lemma gc_added_empty [simp]: "gc_added cid (Vol i) Map.empty"
  by (simp add: gc_added_def)

lemma gc_added_helper [simp]: "gc_added (pv_controller p) (Ctr i) (helper_labels p t)"
  by (simp add: helper_labels_def gc_added_owned)

lemma built_labels [simp]:
  "cc_labels (fst (build_stamp_container img l)) = l"
  "cc_labels (fst (build_diag_prune_container img vol d l)) = l"
  "cc_labels (fst (build_externals_seed_container img vol l)) = l"
  "cc_labels (fst (build_runner_container s)) = rs_labels s"
  "cc_labels (fst (build_dind_container ds)) = ds_labels ds"
  by (simp_all add: build_stamp_container_def build_diag_prune_container_def build_externals_seed_container_def
      build_runner_container_def build_dind_container_def Let_def)

text \<open>A step that undoes what it created itself.\<close>

lemma removes_changes: "removes D v w \<Longrightarrow> (\<And>r n l. D r n l \<Longrightarrow> \<not> P r l) \<Longrightarrow> changes P Q v w"
  by (rule changes_removes)

section \<open>A provider on a daemon\<close>

lemma new_provider_fields:
  assumes "new_provider c cfg cid rt b = Inr p"
  shows "pv_cli p = c" "m_cli (pv_topo p) = c" "m_controller (pv_topo p) = cid" "m_now (pv_topo p) = rt_now (pv_rt p)"
    "pv_rt p = rt" "pv_spawn p = (if b then run_in_process_watcher (rt_watch rt) else start_status_watcher (rt_watch rt))"
  using assms by (auto simp: new_provider_def new_manager_def split: option.splits)

locale provider_host = docker_named c inv view
  for c :: "'s client" and inv :: "'s \<Rightarrow> bool" and view :: "'s \<Rightarrow> store" +
  fixes p :: "'s provider"
  assumes made: "\<exists>cfg rt b. new_provider c cfg (pv_controller p) rt b = Inr p"
    and controller: "pv_controller p \<noteq> ''''"
    and order: "set (rt_order (pv_rt p) xs) = set xs \<and> distinct (rt_order (pv_rt p) xs)"
    and rand_quiet: "quiet inv view (rt_rand (pv_rt p))"
    and watch_quiet: "quiet_watch inv view (rt_watch (pv_rt p))"

context provider_host begin

lemma cli [simp]: "pv_cli p = c" "m_cli (pv_topo p) = c" "m_controller (pv_topo p) = pv_controller p"
  "m_now (pv_topo p) = rt_now (pv_rt p)"
  using made by (auto dest: new_provider_fields)

lemma spawn_quiet: "quiet inv view (pv_spawn p req)"
  using made new_provider_fields(5,6) [of c _ _ _ _ p] watch_quiet quiet_in_process quiet_start_watcher
  by (metis (full_types))

lemmas framed_calls [frame] = quiet_calls [THEN quiet_framed] spawn_quiet [THEN quiet_framed]

lemma framed_nonce [frame]: "framed inv view P Q (new_create_nonce p)"
  unfolding new_create_nonce_def by (intro frame quiet_framed [OF rand_quiet])

lemma framed_digest [frame]: "framed inv view P Q (image_digest_hex p img)"
  unfolding image_digest_hex_def by (simp, intro frame)

text \<open>A helper container is gone again, whatever the daemon answered, or it is still there with its labels.\<close>

lemma framed_run_helper [frame]:
  assumes "quiet inv view chk" "\<And>i. Q (Ctr i) (cc_labels cfg)" "\<And>i. Q (Vol i) Map.empty"
  shows "framed inv view P Q (run_helper_container p cfg host name chk)"
proof (rule framedI)
  fix s r s'
  assume s: "inv s" and run: "run_state (run_helper_container p cfg host name chk) s = (r, s')"
  obtain i e s1 where cr: "run_state (container_create c cfg host name) s = ((i, e), s1)"
    by (metis surj_pair)
  show "inv s' \<and> changes P Q (view s) (view s')"
  proof (cases e)
    case (Some err)
    then have "s' = s1" using run cr by (simp add: run_helper_container_def)
    then show ?thesis using framedD [OF framed_create s cr] assms(2,3) by blast
  next
    case None
    define m where "m = chk \<bind> (\<lambda>(checked, l1). helper_body p name i checked \<bind> (\<lambda>r. ret (r, l1)))"
    have q: "quiet inv view m" unfolding m_def helper_body_def cli by (intro quiet_rules quiet_calls assms(1))
    obtain a s2 where m: "run_state m s1 = (a, s2)" by fastforce
    obtain re s3 where rm: "run_state (container_remove c i True False) s2 = (re, s3)" by fastforce
    have "run_state (run_helper_container p cfg host name chk) s =
        run_state (m \<bind> (\<lambda>(r, l1). container_remove c i True False \<bind> (\<lambda>re. ret (r, l1 @ (case hard_error re of
           Some err \<Rightarrow> [gc_warn ''failed to remove helper container (continuing)''
             [(''resource'', AStr ''container''), (''container_name'', AStr name), err_attr err]]
         | None \<Rightarrow> []))))) s1"
      using cr None by (simp add: run_helper_container_def m_def split_beta)
    then have "s' = s3" using run m rm by (simp split: prod.splits)
    then show ?thesis using run_created_removed [OF s cr [unfolded None] q m rm] assms(2,3) by blast
  qed
qed

end

section \<open>Housekeeping\<close>

context provider_host begin

lemma framed_create_stamp:
  assumes "th_role st \<in> {RoleCacheHelper, RoleThrottleStamp, RoleDiagPruneStamp}"
  shows "framed inv view P (gc_added (pv_controller p)) (create_stamp p st img)"
  unfolding create_stamp_def Let_def split_beta cli
  by (intro frame) (simp_all add: gc_added_owned [OF assms])

lemma run_look_at_stamp:
  assumes "inv s" "run_state (look_at_stamp p st) s = (v, s')"
  shows "inv s' \<and> view s' = view s \<and>
    (\<forall>i age. v = StampOurs i age \<longrightarrow>
      (\<exists>n l. view s (Ctr i) = Some (n, l) \<and> is_own_stamp p l (th_role st) \<and>
         (\<exists>t. age = helper_age t (lget l LabelCreatedAt))))"
proof -
  obtain r s1 where r: "run_state (container_inspect c (th_name st)) s = (r, s1)" by fastforce
  have s1: "inv s1 \<and> view s1 = view s" using rd_ctr_inspect [OF assms(1) r] .
  have out: "s' = s1" "v = (case r of
            Inl e \<Rightarrow> if is_not_found e then StampAbsent else StampUnknown e
          | Inr j \<Rightarrow> if \<not> is_own_stamp p (json_labels j) (th_role st) \<or> cj_id j = '''' then StampForeign
              else StampOurs (cj_id j) (helper_age (rt_now (pv_rt p) s1) (lget (json_labels j) LabelCreatedAt)))"
    using assms(2) r by (auto simp: look_at_stamp_def json_labels_def Let_def split: sum.splits)
  show ?thesis
  proof (cases r)
    case (Inl e)
    then show ?thesis using s1 out by simp
  next
    case (Inr j)
    have "labels_of (view s) (Ctr (cj_id j)) = Some (json_labels j)" using inspect_some [OF assms(1)] r Inr by blast
    then obtain n where "view s (Ctr (cj_id j)) = Some (n, json_labels j)" by (auto simp: labels_of_def)
    then show ?thesis using s1 out Inr by (auto split: if_splits)
  qed
qed

lemma framed_claim_stamp:
  assumes role: "th_role st \<in> {RoleCacheHelper, RoleThrottleStamp, RoleDiagPruneStamp}"
  shows "framed inv view (not_housekeeping (pv_controller p)) (gc_added (pv_controller p)) (claim_stamp p st img)"
proof (rule framedI)
  fix s r s'
  let ?P = "not_housekeeping (pv_controller p)" and ?Q = "gc_added (pv_controller p)"
  assume s: "inv s" and run: "run_state (claim_stamp p st img) s = (r, s')"
  obtain v s1 where look: "run_state (look_at_stamp p st) s = (v, s1)" by fastforce
  note l = run_look_at_stamp [OF s look]
  note cs = framed_create_stamp [OF role, of ?P]
  have rs: "framed inv view ?P ?Q (replace_stamp p st img age)" for age
    unfolding replace_stamp_def by (intro frame cs)
  show "inv s' \<and> changes ?P ?Q (view s) (view s')"
  proof (cases v)
    case StampAbsent
    then have "run_state (create_stamp p st img) s1 = (r, s')" using run look by (simp add: claim_stamp_def)
    then show ?thesis using framedD [OF cs, of s1] l by simp
  next
    case (StampUnknown e)
    then show ?thesis using run look l by (auto simp: claim_stamp_def)
  next
    case StampForeign
    then show ?thesis using run look l by (auto simp: claim_stamp_def)
  next
    case (StampOurs i age)
    show ?thesis
    proof (cases "fresh_stamp st age")
      case True
      then show ?thesis using run look l StampOurs by (auto simp: claim_stamp_def)
    next
      case False
      obtain n lb where v: "view s1 (Ctr i) = Some (n, lb)" "is_own_stamp p lb (th_role st)" using l StampOurs by auto
      obtain e s2 where rm: "run_state (container_remove c i True False) s1 = (e, s2)" by fastforce
      have hk: "housekeeping (pv_controller p) lb"
        using v(2) role by (auto simp: is_own_stamp_def housekeeping_def split: if_splits)
      have i1: "inv s1" "view s1 (Ctr i) \<noteq> None" using l v by auto
      note r2 = ctr_remove [OF i1 rm]
      have ch: "inv s2" "changes ?P ?Q (view s) (view s2)"
        using r2 l v hk changes_removal [of "Ctr i" "view s1" e "view s2" ?P ?Q] by (auto simp: not_housekeeping_def)
      show ?thesis
      proof (cases "hard_error e")
        case None
        then have "run_state (replace_stamp p st img age) s2 = (r, s')"
          using run look StampOurs False rm by (simp add: claim_stamp_def)
        then show ?thesis using framedD [OF rs ch(1)] ch(2) changes_trans by blast
      next
        case (Some err)
        then have "s' = s2" using run look StampOurs False rm by (simp add: claim_stamp_def)
        then show ?thesis using ch by simp
      qed
    qed
  qed
qed

lemma stamp_roles [simp]:
  "th_role (diag_prune_stamp p) = RoleDiagPruneStamp" "th_role (orphan_sweep_stamp p) = RoleThrottleStamp"
  "th_role (cache_gc_stamp p) = RoleThrottleStamp"
  by (simp_all add: diag_prune_stamp_def orphan_sweep_stamp_def cache_gc_stamp_def)

text \<open>The reaper: each container it removes was listed with the labels of a helper.\<close>

lemma reap_candidate_housekeeping: "reap_candidate p now x \<Longrightarrow> lget (su_labels x) LabelManaged = ''true'' \<Longrightarrow>
    housekeeping (pv_controller p) (su_labels x)"
  by (simp add: reap_candidate_def housekeeping_def)

lemma run_reap_step:
  assumes t: "inv t" and x: "view t (Ctr (su_id x)) = Some (n, su_labels x)" "lget (su_labels x) LabelManaged = ''true''"
    and run: "run_state (reap_step p now x acc) t = (r, t')"
  shows "inv t' \<and> changes (not_housekeeping (pv_controller p)) Q (view t) (view t') \<and>
    (\<forall>q. q \<noteq> Ctr (su_id x) \<longrightarrow> view t' q = view t q)"
proof (cases "fst acc \<ge> helper_reap_max \<or> \<not> reap_candidate p now x")
  case True
  then have "t' = t" using run by (auto simp: reap_step_def split: prod.splits if_splits)
  then show ?thesis using t by simp
next
  case False
  obtain e where rm: "run_state (container_remove c (su_id x) True False) t = (e, t')"
    using run False by (auto simp: reap_step_def split: prod.splits if_splits)
  have "view t (Ctr (su_id x)) \<noteq> None" using x by simp
  note r = ctr_remove [OF t this rm]
  have "housekeeping (pv_controller p) (su_labels x)" using reap_candidate_housekeeping False x(2) by blast
  then show ?thesis
    using r x changes_removal [of "Ctr (su_id x)" "view t" e "view t'" "not_housekeeping (pv_controller p)" Q]
    by (auto simp: not_housekeeping_def removal_def)
qed

lemma framed_reap [frame]: "framed inv view (not_housekeeping (pv_controller p)) Q (reap_leaked_helpers p)"
proof (rule framedI)
  fix s r s'
  assume s: "inv s" and run: "run_state (reap_leaked_helpers p) s = (r, s')"
  obtain rl s1 where l: "run_state (container_list c True (helper_filter p)) s = (rl, s1)" by fastforce
  note v1 = ctr_list [OF s l]
  show "inv s' \<and> changes (not_housekeeping (pv_controller p)) Q (view s) (view s')"
  proof (cases rl)
    case (Inl e)
    then show ?thesis using run l v1 by (auto simp: reap_leaked_helpers_def)
  next
    case (Inr cs)
    have lm: "lists_matching Ctr su_id su_labels (helper_filter p) (view s) cs" using v1 Inr by simp
    obtain acc where loop: "run_state (for_each (reap_step p (rt_now (pv_rt p) s1)) cs (0, [])) s1 = (acc, s')"
      using run l Inr by (auto simp: reap_leaked_helpers_def split: prod.splits)
    let ?I = "\<lambda>(ys :: container_summary list) (acc :: nat \<times> log_line list) t. inv t \<and>
      changes (not_housekeeping (pv_controller p)) Q (view s) (view t) \<and>
      (\<forall>q. (\<forall>y\<in>set ys. q \<noteq> Ctr (su_id y)) \<longrightarrow> view t q = view s q)"
    have "valid (?I [] (0, [])) (for_each (reap_step p (rt_now (pv_rt p) s1)) cs (0, [])) (?I cs)"
    proof (rule valid_for_each_prefix [where I = ?I])
      fix ys x zs acc
      assume cs: "cs = ys @ x # zs"
      show "valid (?I ys acc) (reap_step p (rt_now (pv_rt p) s1) x acc) (?I (ys @ [x]))"
      proof
      fix t r t'
      assume I: "?I ys acc t" and st: "run_state (reap_step p (rt_now (pv_rt p) s1) x acc) t = (r, t')"
      have lx: "labels_of (view s) (Ctr (su_id x)) = Some (su_labels x)"
          "list_all (match_term (su_labels x)) (helper_filter p)"
        using lists_matchingD [OF lm, of x] cs by auto
      obtain n where "view s (Ctr (su_id x)) = Some (n, su_labels x)" using lx(1) by (auto simp: labels_of_def)
      moreover have "\<forall>y\<in>set ys. Ctr (su_id x) \<noteq> Ctr (su_id y)" using lm cs by (auto simp: lists_matching_def)
      ultimately have vx: "view t (Ctr (su_id x)) = Some (n, su_labels x)" using I by metis
      have "lget (su_labels x) LabelManaged = ''true''" using lx(2) by (simp add: helper_filter_def lget_def)
      from run_reap_step [OF conjunct1 [OF I] vx this st, of Q] I
      show "?I (ys @ [x]) r t'" using changes_trans by auto
      qed
    qed
    from validD [OF this _ loop] v1 s show ?thesis by simp
  qed
qed

lemma framed_check_prune: "quiet inv view (check_prune_target p ref)"
  unfolding check_prune_target_def cli by (intro quiet_rules quiet_calls)

lemma framed_prune_diag_volume: "framed inv view P (gc_added (pv_controller p)) (prune_diag_volume p img ref)"
  unfolding prune_diag_volume_def Let_def split_beta by (intro frame framed_check_prune) simp_all

lemma framed_prune_each: "framed inv view P (gc_added (pv_controller p)) (prune_each p img k refs)"
  by (induction refs arbitrary: k) (auto intro!: frame framed_prune_diag_volume)

lemma framed_prune [frame]:
  "framed inv view (not_housekeeping (pv_controller p)) (gc_added (pv_controller p)) (prune_diag_volumes p img)"
  unfolding prune_diag_volumes_def list_diag_volumes_def Let_def cli
  by (intro frame framed_prune_each framed_claim_stamp) simp

lemma framed_claim_round:
  assumes "th_role st \<in> {RoleCacheHelper, RoleThrottleStamp, RoleDiagPruneStamp}"
  shows "framed inv view (not_housekeeping (pv_controller p)) (gc_added (pv_controller p)) (claim_round p st)"
  unfolding claim_round_def Let_def cli by (intro frame framed_claim_stamp assms)

lemma framed_run_cache_gc:
  "framed inv view (not_housekeeping (pv_controller p)) (gc_added (pv_controller p)) (run_cache_gc p)"
  unfolding run_cache_gc_def log_unprovable_cache_cruft_def list_unprovable_cache_cruft_def list_stale_caches_def
    Let_def cli
  by (intro frame)

lemma framed_gc_throttled:
  "framed inv view (not_housekeeping (pv_controller p)) (gc_added (pv_controller p)) (run_cache_gc_throttled p)"
  unfolding run_cache_gc_throttled_def by (intro frame framed_claim_round framed_run_cache_gc) simp

end

end
