(* ===== verification/Create_Run.thy ===== *)
theory Create_Run
  imports Provider_Host
begin

text \<open>
  What the steps of a create do to the daemon's store: the cache plan and the externals add caches and
  helpers, the job volumes carry this attempt's nonce, the runner and the sidecar its labels, and a
  failed runner is removed again. \<open>create_added\<close> collects what a create attempt may add.
\<close>

section \<open>What a create adds\<close>

definition cache_added :: "rid \<Rightarrow> labels \<Rightarrow> bool" where
  "cache_added r l \<longleftrightarrow> (\<exists>n. r = Vol n) \<and> (l = Map.empty \<or> provider_cache_labels l)"

definition create_added :: "string \<Rightarrow> string \<Rightarrow> string \<Rightarrow> rid \<Rightarrow> labels \<Rightarrow> bool" where
  "create_added cid i nonce r l \<longleftrightarrow> gc_added cid r l \<or> cache_added r l \<or> rollback_owned cid i nonce l"

text \<open>What a create never removes: caches, and whatever is neither a job resource nor a helper or stamp.\<close>

definition not_job :: "string \<Rightarrow> rid \<Rightarrow> labels \<Rightarrow> bool" where
  "not_job cid r l \<longleftrightarrow> \<not> matches_predicate l cid \<and> not_housekeeping cid r l"

text \<open>Nor a network of any kind, once the attempt holds its claim.\<close>

definition not_job_volume :: "string \<Rightarrow> rid \<Rightarrow> labels \<Rightarrow> bool" where
  "not_job_volume cid r l \<longleftrightarrow> \<not> ((\<exists>n. r = Vol n) \<and> matches_predicate l cid)"

lemma create_added_simps [simp]:
  "create_added (pv_controller p) i nonce (Ctr j) (helper_labels p t)"
  "create_added cid i nonce (Vol n) Map.empty"
  "provider_cache_labels l \<Longrightarrow> create_added cid i nonce (Vol n) l"
  "rollback_owned cid i nonce l \<Longrightarrow> create_added cid i nonce r l"
  by (simp_all add: create_added_def cache_added_def)

lemma runner_container_name_nonempty: "i \<noteq> '''' \<Longrightarrow> runner_container_name i \<noteq> ''''"
  by (simp add: runner_container_name_def to_lower_def)

lemma derived_name_nonempty: "validate_derived_name k n = None \<Longrightarrow> n \<noteq> ''''"
  by (auto simp: validate_derived_name_def)

lemma job_volume_names_nonempty [simp]:
  "workspace_volume_name i n \<noteq> ''''" "socket_volume_name i n \<noteq> ''''" "dind_state_volume_name i n \<noteq> ''''"
  by (simp_all add: workspace_volume_name_def socket_volume_name_def dind_state_volume_name_def volume_name_def)

lemma rollback_owned_volumes [simp]:
  "rollback_owned (id_controller i) (id_instance i) n ((workspace_volume_labels i t)(LabelCreateNonce \<mapsto> n))"
  "rollback_owned (id_controller i) (id_instance i) n ((socket_volume_labels i t)(LabelCreateNonce \<mapsto> n))"
  "rollback_owned (id_controller i) (id_instance i) n ((dind_state_volume_labels i t)(LabelCreateNonce \<mapsto> n))"
  by (auto simp: rollback_owned_def matches_predicate_iff workspace_volume_labels_def socket_volume_labels_def
      dind_state_volume_labels_def resource_labels_def base_labels_def resource_values)

lemma rollback_owned_containers [simp]:
  "rollback_owned (id_controller i) (id_instance i) n (runner_labels b i n t)"
  "rollback_owned (id_controller i) (id_instance i) n ((dind_container_labels i t)(LabelCreateNonce \<mapsto> n))"
  by (auto simp: rollback_owned_def matches_predicate_iff runner_labels_def dind_container_labels_def
      container_labels_def base_labels_def)

lemma rollback_owned_claim: "rollback_owned (id_controller i) (id_instance i) n (claim_labels i n t)"
  by (simp add: rollback_owned_def matches_predicate_iff lget_def claim_labels_def network_labels_def
      resource_labels_def base_labels_def)

lemma changes_upd: "v r = None \<Longrightarrow> Q r l \<Longrightarrow> changes P Q v (v(r \<mapsto> (n, l)))"
  by (auto simp: changes_def)

context provider_host begin

section \<open>Caches\<close>

lemma framed_ensure_cache:
  assumes "provider_cache_labels l" "name \<noteq> ''''" "\<And>n. Q (Vol n) l"
  shows "framed inv view P Q (ensure_cache_volume (pv_topo p) name l)"
proof (rule framedI)
  fix s r s'
  assume s: "inv s" and run: "run_state (ensure_cache_volume (pv_topo p) name l) s = (r, s')"
  have mc: "managed_cache l" using provider_cache_labels_managed [OF assms(1)] by simp
  have "run_state (ensure_cache_volume (pv_topo p) name l) s = ((fst r, snd r), s')" using run by simp
  from run_ensure_cache_volume [OF cli(2) mc s assms(2) this]
  show "inv s' \<and> changes P Q (view s) (view s')"
    using assms(3) changes_upd by (auto simp: adds_volume_def)
qed

lemma framed_plan_one:
  assumes "provider_cache_labels l" "\<And>n. Q (Vol n) l"
  shows "framed inv view P Q (plan_one p kind i name l)"
proof (cases "validate_derived_name (kind @ '' cache volume'') name")
  case None
  then show ?thesis unfolding plan_one_def
    by (simp add: framed_within framed_ensure_cache assms derived_name_nonempty [OF None])
qed (simp add: plan_one_def framed_return)

lemma framed_os_key [frame]: "framed inv view P Q (runner_os_key_of p img)"
  unfolding runner_os_key_of_def cli by (intro frame)

lemma framed_plan_caches:
  "framed inv view P (create_added (pv_controller p) i nonce) (plan_caches p b img)"
  unfolding plan_caches_def Let_def by (intro frame framed_plan_one) simp_all

lemma quiet_check_seed: "quiet inv view (check_seed_target p vol want)"
  unfolding check_seed_target_def cli by (intro quiet_rules quiet_calls)

lemma framed_seed_externals:
  "framed inv view P (create_added (pv_controller p) i nonce) (seed_externals p img vol want)"
  unfolding seed_externals_def Let_def split_beta by (intro frame quiet_check_seed) simp_all

lemma framed_plan_externals:
  "framed inv view P (create_added (pv_controller p) i nonce) (plan_externals p img)"
  unfolding plan_externals_def Let_def
proof (intro framed_attempt framed_answer framed_digest)
  fix digest
  show "framed inv view P (create_added (pv_controller p) i nonce)
    (case validate_derived_name ''externals cache volume'' (externals_volume_name digest) of
        None \<Rightarrow> read_state (rt_now (pv_rt p)) \<bind> (\<lambda>now.
          attempt (within (''failed to ensure externals volume '' @ quoted (externals_volume_name digest))
              (ensure_cache_volume (pv_topo p) (externals_volume_name digest)
                (externals_labels (pv_controller p) digest now)))
            (\<lambda>v. attempt (seed_externals p img (cv_name v) (externals_labels (pv_controller p) digest now))
               (\<lambda>u. ret (Inr (cv_name v, externals_labels (pv_controller p) digest now), []))))
      | Some e \<Rightarrow> ret (Inl e, []))"
  proof (cases "validate_derived_name ''externals cache volume'' (externals_volume_name digest)")
    case None
    then show ?thesis
      by (simp, intro frame framed_ensure_cache framed_seed_externals derived_name_nonempty [OF None]) simp_all
  qed (simp add: framed_return)
qed

lemma framed_add_externals:
  "framed inv view P (create_added (pv_controller p) i nonce) (add_externals p name img plan)"
  unfolding add_externals_def by (intro frame framed_plan_externals)

section \<open>Job volumes\<close>

lemma framed_volume_create:
  assumes "n \<noteq> ''''"
  shows "framed inv view P (\<lambda>r l'. r = Vol n \<and> l' = l) (volume_create c n l)"
proof (rule framedI)
  fix s r s'
  assume s: "inv s" and run: "run_state (volume_create c n l) s = (r, s')"
  note v = vol_create [OF s assms run]
  have "view s' = view s \<or> view s (Vol n) = None \<and> view s' = (view s)(Vol n \<mapsto> (n, l))"
  proof (cases r)
    case (Inl e)
    from conjunct2 [OF conjunct2 [OF v], rule_format, OF Inl] show ?thesis .
  next
    case (Inr x)
    from conjunct1 [OF conjunct2 [OF v], rule_format, OF Inr] show ?thesis
      by (cases "view s (Vol n)") (simp_all split: prod.splits)
  qed
  then have "changes P (\<lambda>r l'. r = Vol n \<and> l' = l) (view s) (view s')"
    by (elim disjE conjE) (simp_all add: changes_upd)
  then show "inv s' \<and> changes P (\<lambda>r l'. r = Vol n \<and> l' = l) (view s) (view s')" using v by simp
qed

lemma framed_volume_remove: "framed inv view (\<lambda>_ _. False) Q (volume_remove c n f)"
proof (rule framedI)
  fix s r s'
  assume s: "inv s" and run: "run_state (volume_remove c n f) s = (r, s')"
  show "inv s' \<and> changes (\<lambda>_ _. False) Q (view s) (view s')"
    using vol_remove [OF s run] by (auto intro: changes_removal)
qed

lemma framed_fresh_volume:
  assumes "n \<noteq> ''''" "Q (Vol n) (l(LabelCreateNonce \<mapsto> nonce))"
  shows "framed inv view (not_job_volume (pv_controller p)) Q (create_fresh_volume (pv_topo p) kind n l nonce)"
proof (rule framedI)
  fix s r s'
  assume s: "inv s" and run: "run_state (create_fresh_volume (pv_topo p) kind n l nonce) s = (r, s')"
  let ?L = "l(LabelCreateNonce \<mapsto> nonce)"
  have "framed inv view (\<lambda>_ _. False) (\<lambda>r l'. r = Vol n \<and> l' = ?L) (create_fresh_volume (pv_topo p) kind n l nonce)"
    unfolding create_fresh_volume_def Let_def cli
    by (intro frame framed_volume_create framed_volume_remove assms(1))
  from framedD [OF this s run] have new: "\<And>q m k. view s' q = Some (m, k) \<Longrightarrow> view s q = Some (m, k) \<or> Q q k"
    using assms(2) changes_new by blast
  note f = run_create_fresh_volume [OF s cli(2) assms(1) run]
  have "view s' q = Some (m, k)" if "view s q = Some (m, k)" "not_job_volume (pv_controller p) q k" for q m k
  proof (cases "q = Vol n")
    case True
    then have "\<not> owns_volume_for_replacement (pv_topo p) k ?L"
      using that(2) by (simp add: not_job_volume_def owns_volume_for_replacement_def)
    then show ?thesis using f that(1) True by blast
  qed (use f that in simp)
  then show "inv s' \<and> changes (not_job_volume (pv_controller p)) Q (view s) (view s')"
    using f new by (simp add: changes_def)
qed

lemma framed_job_volumes:
  assumes "id_controller identity = pv_controller p"
  shows "framed inv view (not_job_volume (pv_controller p)) (create_added (pv_controller p) (id_instance identity) nonce)
    (create_job_volumes p identity nonce dind)"
proof -
  note own = rollback_owned_volumes [of identity nonce, unfolded assms]
  show ?thesis
    unfolding create_job_volumes_def create_workspace_volume_def create_socket_volume_def create_dind_state_volume_def
    by (intro frame framed_fresh_volume) (simp_all add: own)
qed

end

section \<open>The runner and the sidecar\<close>

context provider_host begin

lemma quiet_bad_refs: "quiet inv view (bad_refs p refs)"
proof (induction refs)
  case (Cons x refs)
  then show ?case by (cases x) (auto intro!: quiet_rules quiet_calls)
qed (simp add: quiet_return)

lemma quiet_revalidate: "quiet inv view (revalidate_referenced_caches p plan)"
  unfolding revalidate_referenced_caches_def by (intro quiet_rules quiet_bad_refs)

text \<open>One attempt: a returned ID is the new container, and without an error the container is there.\<close>

lemma run_runner_once:
  assumes s: "inv s" and n: "name \<noteq> ''''" and Q: "\<And>j. Q (Ctr j) (cc_labels cfg)" "\<And>n. Q (Vol n) Map.empty"
    and run: "run_state (create_and_start_runner_once p cfg host name plan) s = ((i, e, logs), s')"
  shows "inv s' \<and> changes anything Q (view s) (view s') \<and>
    (e = None \<or> i \<noteq> '''' \<longrightarrow>
       view s (Ctr i) = None \<and> view s' (Ctr i) = Some (runner_container_name name, cc_labels cfg))"
proof -
  obtain j ce s1 where cr: "run_state (container_create c cfg host (runner_container_name name)) s = ((j, ce), s1)"
    by (metis surj_pair)
  note c1 = ctr_create [OF s cr] and f1 = framedD [OF framed_create [of Q, OF Q] s cr, of anything]
  show ?thesis
  proof (cases ce)
    case (Some err)
    then show ?thesis using run cr f1 by (auto simp: create_and_start_runner_once_def)
  next
    case None
    have nm: "view s (Ctr j) = None" "view s1 (Ctr j) = Some (runner_container_name name, cc_labels cfg)"
      using c1 None create_named [OF s _ cr [unfolded None]]
      by (simp_all add: container_creates_def runner_container_name_nonempty [OF n])
    obtain re rl s2 where re: "run_state (revalidate_referenced_caches p plan) s1 = ((re, rl), s2)" by (metis surj_pair)
    have v2: "inv s2" "view s2 = view s1" using quietD [OF quiet_revalidate _ re] f1 by simp_all
    show ?thesis
    proof (cases re)
      case (Some err)
      obtain x s3 where rm: "run_state (container_remove c j True False) s2 = (x, s3)" by fastforce
      have out: "s' = s3" "e = Some err" "i = ''''"
        using run cr None re Some rm
        by (auto simp: create_and_start_runner_once_def best_effort_remove_container_def split: prod.splits)
      from run_created_removed [OF s cr [unfolded None] quiet_revalidate re rm Q] out show ?thesis by simp
    next
      case nre: None
      obtain se s3 where st: "run_state (container_start c j) s2 = (se, s3)" by fastforce
      have out: "s' = s3" "i = j" using run cr None re nre st by (auto simp: create_and_start_runner_once_def)
      have "inv s3" "view s3 = view s2" using rd_ctr_start [OF v2(1) st] by simp_all
      then show ?thesis using out v2 f1 nm by simp
    qed
  qed
qed

lemma run_runner:
  assumes s: "inv s" and n: "name \<noteq> ''''" and Q: "\<And>j. Q (Ctr j) (cc_labels cfg)" "\<And>n. Q (Vol n) Map.empty"
    and run: "run_state (create_and_start_runner p cfg host name plan) s = ((i, e, logs), s')"
  shows "inv s' \<and> changes anything Q (view s) (view s') \<and>
    (e = None \<longrightarrow> view s' (Ctr i) = Some (runner_container_name name, cc_labels cfg))"
proof -
  obtain i1 e1 l1 s1 where r1: "run_state (create_and_start_runner_once p cfg host name plan) s = ((i1, e1, l1), s1)"
    by (metis surj_pair)
  note o1 = run_runner_once [OF s n Q r1]
  have "(s' = s1 \<and> i = i1 \<and> e = e1) \<or>
    (\<exists>err l2. e1 = Some err \<and> run_state (retry_without_ipv6 p cfg host name plan i1 err l2) s1 = ((i, e, logs), s'))"
    using run r1 unfolding create_and_start_runner_def by (auto split: option.split_asm if_split_asm)
  then show ?thesis
  proof (elim disjE conjE exE)
    assume "s' = s1" "i = i1" "e = e1"
    then show ?thesis using o1 by simp
  next
    fix err l2
    assume "e1 = Some err" and again: "run_state (retry_without_ipv6 p cfg host name plan i1 err l2) s1 = ((i, e, logs), s')"
    define rm where "rm = (if i1 \<noteq> '''' then container_remove c i1 True False else ret None)"
    obtain re s2 where re: "run_state rm s1 = (re, s2)" by fastforce
    note again = again [unfolded retry_without_ipv6_def cli, folded rm_def]
    have ch2: "inv s2 \<and> changes anything Q (view s) (view s2)"
    proof (cases "i1 = ''''")
      case True
      then show ?thesis using re o1 by (simp add: rm_def)
    next
      case ne: False
      have i1: "view s (Ctr i1) = None" "view s1 (Ctr i1) \<noteq> None" "inv s1" using o1 ne by auto
      have rm1: "run_state (container_remove c i1 True False) s1 = (re, s2)" using re ne by (simp add: rm_def)
      note r = ctr_remove [OF i1(3,2) rm1]
      have "changes anything Q (view s) (view s1)" using o1 by simp
      then show ?thesis using r changes_undo [of anything Q "view s" "view s1" i1 re "view s2"] i1(1) by simp
    qed
    show ?thesis
    proof (cases "hard_error re")
      case (Some x)
      then show ?thesis using again re ch2 by auto
    next
      case None
      obtain i3 e3 l3 s3 where
        r3: "run_state (create_and_start_runner_once p cfg (without_ipv6_sysctl host) name plan) s2 = ((i3, e3, l3), s3)"
        by (metis surj_pair)
      have "s' = s3" "e = e3" "i = i3" using again re r3 None by simp_all
      then show ?thesis using run_runner_once [OF conjunct1 [OF ch2] n Q r3] ch2 changes_trans by blast
    qed
  qed
qed

lemma run_start_runner:
  assumes s: "inv s" and n: "name \<noteq> ''''" and Q: "\<And>j. Q (Ctr j) (cc_labels cfg)" "\<And>n. Q (Vol n) Map.empty"
    and run: "run_state (start_runner p cfg host name plan) s = ((r, logs), s')"
  shows "inv s' \<and> changes anything Q (view s) (view s') \<and>
    (\<forall>i. r = Inr i \<longrightarrow> view s' (Ctr i) = Some (runner_container_name name, cc_labels cfg))"
proof -
  obtain i e l s1 where r1: "run_state (create_and_start_runner p cfg host name plan) s = ((i, e, l), s1)"
    by (metis surj_pair)
  then have "s' = s1" "r = (case e of None \<Rightarrow> Inr i | Some err \<Rightarrow> Inl err)"
    using run by (auto simp: start_runner_def)
  then show ?thesis using run_runner [OF s n Q r1] by (auto split: option.splits)
qed

lemma framed_start_runner:
  assumes "name \<noteq> ''''" "\<And>j. Q (Ctr j) (cc_labels cfg)" "\<And>n. Q (Vol n) Map.empty"
  shows "framed inv view P Q (start_runner p cfg host name plan)"
proof (rule framedI)
  fix s r s'
  assume "inv s" "run_state (start_runner p cfg host name plan) s = (r, s')"
  then show "inv s' \<and> changes P Q (view s) (view s')"
    using run_start_runner [OF _ assms, where r = "fst r" and logs = "snd r"]
      changes_mono [of anything Q "view s" "view s'" P Q]
    by simp
qed

lemma framed_sidecar:
  assumes "id_controller identity = pv_controller p"
  shows "framed inv view P (create_added (pv_controller p) (id_instance identity) nonce)
    (start_dind_sidecar p identity nonce mode sd memory t rid ev)"
  using rollback_owned_containers(2) [of identity nonce, unfolded assms]
  unfolding start_dind_sidecar_def Let_def split_beta cli by (intro frame) simp_all

end

section \<open>Provisioning\<close>

lemma run_state_bind_read: "run_state (read_state g \<bind> f) s = run_state (f (g s)) s"
  by simp

lemma run_attempt_Inr:
  assumes "run_state (attempt m f) s = ((Inr b, l), s')"
  obtains a l1 l2 s1 where "run_state m s = ((Inr a, l1), s1)" "run_state (f a) s1 = ((Inr b, l2), s')"
proof -
  obtain r l1 s1 where m: "run_state m s = ((r, l1), s1)" by (metis surj_pair)
  then obtain a where a: "r = Inr a" using assms by (cases r) (auto simp: attempt_def)
  obtain r2 l2 s2 where f: "run_state (f a) s1 = ((r2, l2), s2)" by (metis surj_pair)
  then have "r2 = Inr b" "s2 = s'" using assms m a by (auto simp: attempt_def)
  then show thesis using that m f a by simp
qed

context provider_host begin

lemma framed_finish:
  assumes "id_controller identity = pv_controller p"
  shows "framed inv view P (create_added (pv_controller p) (id_instance identity) nonce)
    (finish_runner p rv identity nonce plan creds t rid)"
  unfolding finish_runner_def deliver_credentials_def verify_running_def Let_def cli
  by (intro frame framed_sidecar assms)

lemma finish_result: "run_state (finish_runner p rv identity nonce plan creds t rid) s = ((Inr i, l), s') \<Longrightarrow> i = rid"
  unfolding finish_runner_def Let_def by (elim run_attempt_Inr) simp

lemma framed_ensure_image [frame]: "framed inv view P Q (ensure_image p img)"
  unfolding ensure_image_def cli by (intro frame)

lemma framed_credentials [frame]: "framed inv view P Q (fetch_credentials p b)"
proof -
  have http: "quiet inv view (we_http (rt_watch (pv_rt p)) rq)" for rq
    using watch_quiet by (simp add: quiet_watch_def)
  let ?c = "new_client (we_http (rt_watch (pv_rt p))) (we_ctx_err (rt_watch (pv_rt p))) (we_pem_ok (rt_watch (pv_rt p)))
    metadata_url_field (bs_metadata_url b) (bs_instance_token b) (bs_ca_cert_bundle b)"
  show ?thesis
  proof (cases ?c)
    case (Inl e)
    then show ?thesis by (simp add: fetch_credentials_def framed_return)
  next
    case (Inr mc)
    have q: "quiet inv view (mc_http mc rq)" for rq using new_client_http [OF Inr] http by simp
    show ?thesis unfolding fetch_credentials_def fetch_jit_credentials_def Let_def Inr
      by (simp, intro conjI impI frame quiet_framed [OF quiet_fetch_files] quiet_framed [OF quiet_registration] q)
  qed
qed

lemma framed_launch:
  assumes "id_controller identity = pv_controller p" "id_instance identity \<noteq> ''''"
  shows "framed inv view P (create_added (pv_controller p) (id_instance identity) nonce)
    (launch_runner p b rv identity nonce plan creds)"
  using rollback_owned_containers(1) [of identity nonce, unfolded assms(1)]
  unfolding launch_runner_def Let_def split_beta
  by (intro frame framed_finish framed_start_runner assms) (simp_all add: runner_spec_def)

text \<open>A launched runner is there, with the labels of this attempt.\<close>

lemma run_launch:
  assumes "id_controller identity = pv_controller p" "id_instance identity \<noteq> ''''" "inv s"
    and run: "run_state (launch_runner p b rv identity nonce plan creds) s = ((Inr i, l), s')"
  shows "\<exists>t. view s' (Ctr i) =
    Some (runner_container_name (id_instance identity), runner_labels b identity nonce t)"
proof -
  let ?dind = "dind_enabled (rv_dind_mode rv)" and ?Q = "create_added (pv_controller p) (id_instance identity) nonce"
  define t where "t = rt_now (pv_rt p) s"
  let ?img = "if ?dind then no_error (ensure_image p (cf_dind_image (pv_cfg p))) else ret (Inr (), [])"
  let ?cont = "\<lambda>env. case build_runner_container (runner_spec b rv nonce plan env (runner_labels b identity nonce t)) of
       (cfg, host) \<Rightarrow> attempt (start_runner p cfg host (id_instance identity) plan)
         (\<lambda>runner_id. finish_runner p rv identity nonce plan creds t runner_id)"
  let ?env = "ret (logged_env (build_runner_env b (if ?dind then DindDockerHost else '''') (cp_toolcache_path plan)
         (cp_pnpm_path plan) (cp_diag_dir plan)
         (if cp_externals_volume plan \<noteq> '''' then RunnerExternalsSeededMarkerPath else '''')
         (rv_extra_runner_labels rv) (rv_extra_env rv)))"
  have "run_state (attempt ?img (\<lambda>u. attempt ?env ?cont)) s = ((Inr i, l), s')"
    using run by (simp only: launch_runner_def Let_def run_state_bind_read t_def)
  then obtain u l1 l2 s1 where img: "run_state ?img s = ((Inr u, l1), s1)"
    and rest: "run_state (attempt ?env ?cont) s1 = ((Inr i, l2), s')"
    by (rule run_attempt_Inr)
  from rest obtain env l0 l2 s1' where "run_state ?env s1 = ((Inr env, l0), s1')" and rest: "run_state (?cont env) s1' = ((Inr i, l2), s')"
    by (rule run_attempt_Inr)
  then have rest: "run_state (?cont env) s1 = ((Inr i, l2), s')" by simp
  obtain cfg host where cfg:
    "build_runner_container (runner_spec b rv nonce plan env (runner_labels b identity nonce t)) = (cfg, host)"
    by fastforce
  have labels: "cc_labels cfg = runner_labels b identity nonce t"
    using built_labels(4) [of "runner_spec b rv nonce plan env (runner_labels b identity nonce t)"]
    unfolding cfg fst_conv by (simp add: runner_spec_def)
  have "framed inv view anything ?Q ?img" by (intro frame)
  from framedD [OF this assms(3) img] have i1: "inv s1" by simp
  obtain l2 where "run_state (attempt (start_runner p cfg host (id_instance identity) plan)
         (\<lambda>runner_id. finish_runner p rv identity nonce plan creds t runner_id)) s1 = ((Inr i, l2), s')"
    using rest cfg that by auto
  then obtain rid l3 l4 s2 where st: "run_state (start_runner p cfg host (id_instance identity) plan) s1 = ((Inr rid, l3), s2)"
    and fin: "run_state (finish_runner p rv identity nonce plan creds t rid) s2 = ((Inr i, l4), s')"
    by (rule run_attempt_Inr)
  have "\<And>j. ?Q (Ctr j) (cc_labels cfg)"
    using rollback_owned_containers(1) [of identity nonce b t] by (simp add: labels assms(1))
  then have "inv s2 \<and> view s2 (Ctr rid) = Some (runner_container_name (id_instance identity), cc_labels cfg)"
    using run_start_runner [OF i1 assms(2) _ _ st, of ?Q] by simp
  then have "view s' (Ctr rid) = Some (runner_container_name (id_instance identity), cc_labels cfg)"
    using framedD [OF framed_finish [OF assms(1)] _ fin, of anything] changes_kept by blast
  then show ?thesis using finish_result [OF fin] labels by auto
qed


end

text \<open>A provisioned attempt: its runner and its workspace volume are there; networks are left alone.\<close>

context provider_host begin

lemma framed_provision:
  assumes "id_controller identity = pv_controller p" "id_instance identity = bs_name b" "bs_name b \<noteq> ''''"
  shows "framed inv view (not_job_volume (pv_controller p)) (create_added (pv_controller p) (bs_name b) nonce)
    (provision p b rv identity nonce)"
  using assms framed_job_volumes [OF assms(1), where nonce = nonce] framed_launch [OF assms(1), where nonce = nonce]
  unfolding provision_def Let_def assms(2)
  by (intro frame framed_plan_caches framed_add_externals) simp_all

lemma run_job_volumes:
  assumes "id_controller identity = pv_controller p" "inv s"
    and run: "run_state (create_job_volumes p identity nonce dind) s = ((Inr u, l), s')"
  shows "\<exists>n lb. view s' (Vol (workspace_volume_name (id_instance identity) nonce)) = Some (n, lb) \<and>
    lget lb LabelCreateNonce = nonce"
proof -
  let ?w = "workspace_volume_name (id_instance identity) nonce" and ?t = "rt_now (pv_rt p) s"
  from run [unfolded create_job_volumes_def] obtain u1 l1 l2 s1 where
    ws: "run_state (no_error (create_workspace_volume (pv_topo p) identity nonce)) s = ((Inr u1, l1), s1)"
    and rest: "run_state (if dind then
         attempt (no_error (create_socket_volume (pv_topo p) identity nonce)) (\<lambda>u.
         no_error (create_dind_state_volume (pv_topo p) identity nonce))
       else ret (Inr (), [])) s1 = ((Inr u, l2), s')"
    by (rule run_attempt_Inr)
  have vol: "run_state (create_fresh_volume (pv_topo p) ''workspace'' ?w (workspace_volume_labels identity ?t) nonce) s
      = (None, s1)"
    using ws by (auto simp: no_error_def create_workspace_volume_def split: prod.splits option.splits)
  note w = run_create_fresh_volume [OF assms(2) cli(2) job_volume_names_nonempty(1) vol]
  have i1: "inv s1" using w by simp
  have other: "framed inv view (\<lambda>r l. r = Vol ?w) anything (if dind then
         attempt (no_error (create_socket_volume (pv_topo p) identity nonce)) (\<lambda>u.
         no_error (create_dind_state_volume (pv_topo p) identity nonce))
       else ret (Inr (), []))"
  proof -
    have "framed inv view (\<lambda>r l. r = Vol ?w) anything (create_fresh_volume (pv_topo p) k v lb nonce)"
      if "v \<noteq> ''''" "v \<noteq> ?w" for k v lb
    proof (rule framedI)
      fix t r t'
      assume "inv t" "run_state (create_fresh_volume (pv_topo p) k v lb nonce) t = (r, t')"
      from run_create_fresh_volume [OF this(1) cli(2) that(1) this(2)] that(2)
      show "inv t' \<and> changes (\<lambda>r l. r = Vol ?w) anything (view t) (view t')" by (simp add: changes_def)
    qed
    then show ?thesis
      unfolding create_socket_volume_def create_dind_state_volume_def
      by (intro frame) (simp_all add: volume_kinds_distinct not_sym [OF volume_kinds_distinct(1)] not_sym [OF volume_kinds_distinct(2)])
  qed
  obtain n lb where "view s1 (Vol ?w) = Some (n, lb)" "lget lb LabelCreateNonce = nonce" using w by blast
  then show ?thesis using framedD [OF other i1 rest] changes_kept by blast
qed

lemma run_provision:
  assumes id: "id_controller identity = pv_controller p" "id_instance identity = bs_name b" "bs_name b \<noteq> ''''"
    and s: "inv s" and run: "run_state (provision p b rv identity nonce) s = ((Inr i, l), s')"
  shows "(\<exists>t. view s' (Ctr i) = Some (runner_container_name (bs_name b), runner_labels b identity nonce t)) \<and>
    (\<exists>n lb. view s' (Vol (workspace_volume_name (bs_name b) nonce)) = Some (n, lb) \<and> lget lb LabelCreateNonce = nonce)"
proof -
  let ?Q = "create_added (pv_controller p) (bs_name b) nonce"
  let ?tail = "\<lambda>u. attempt (no_error (ensure_image p (rv_runner_image rv))) (\<lambda>u.
         attempt (plan_caches p b (rv_runner_image rv)) (\<lambda>plan0.
         attempt (within (''failed to fetch credentials for '' @ quoted (bs_name b)) (answer (fetch_credentials p b))) (\<lambda>creds.
         attempt (add_externals p (bs_name b) (rv_runner_image rv) plan0) (\<lambda>plan.
         launch_runner p b rv identity nonce plan creds))))"
  obtain u l1 l2 s1 where jv: "run_state (create_job_volumes p identity nonce (dind_enabled (rv_dind_mode rv))) s = ((Inr u, l1), s1)"
    and tail: "run_state (?tail u) s1 = ((Inr i, l2), s')"
    using run [unfolded provision_def Let_def] by (rule run_attempt_Inr)
  have i1: "inv s1" using framedD [OF framed_job_volumes [OF id(1)] s jv] by simp
  have fr: "framed inv view anything ?Q (?tail u)"
    using framed_launch [OF id(1), where nonce = nonce] id
    by (intro frame framed_plan_caches framed_add_externals) simp
  obtain n lb where "view s1 (Vol (workspace_volume_name (bs_name b) nonce)) = Some (n, lb)" "lget lb LabelCreateNonce = nonce"
    using run_job_volumes [OF id(1) s jv] id(2) by auto
  then have w: "view s' (Vol (workspace_volume_name (bs_name b) nonce)) = Some (n, lb)" "lget lb LabelCreateNonce = nonce"
    using framedD [OF fr i1 tail] changes_kept by blast+
  obtain s5 plan creds l5 where i5: "inv s5" and la: "run_state (launch_runner p b rv identity nonce plan creds) s5 = ((Inr i, l5), s')"
  proof -
    note F = framedD [of inv view anything ?Q]
    from tail obtain a1 m1 n1 t1 where 1: "run_state (no_error (ensure_image p (rv_runner_image rv))) s1 = ((Inr a1, m1), t1)"
      and "run_state (attempt (plan_caches p b (rv_runner_image rv)) (\<lambda>plan0.
         attempt (within (''failed to fetch credentials for '' @ quoted (bs_name b)) (answer (fetch_credentials p b))) (\<lambda>creds.
         attempt (add_externals p (bs_name b) (rv_runner_image rv) plan0) (\<lambda>plan.
         launch_runner p b rv identity nonce plan creds)))) t1 = ((Inr i, n1), s')"
      by (rule run_attempt_Inr)
    from this(2) obtain plan0 m2 n2 t2 where 2: "run_state (plan_caches p b (rv_runner_image rv)) t1 = ((Inr plan0, m2), t2)"
      and "run_state (attempt (within (''failed to fetch credentials for '' @ quoted (bs_name b)) (answer (fetch_credentials p b))) (\<lambda>creds.
         attempt (add_externals p (bs_name b) (rv_runner_image rv) plan0) (\<lambda>plan.
         launch_runner p b rv identity nonce plan creds))) t2 = ((Inr i, n2), s')"
      by (rule run_attempt_Inr)
    from this(2) obtain creds m3 n3 t3 where
        3: "run_state (within (''failed to fetch credentials for '' @ quoted (bs_name b)) (answer (fetch_credentials p b))) t2 = ((Inr creds, m3), t3)"
      and "run_state (attempt (add_externals p (bs_name b) (rv_runner_image rv) plan0) (\<lambda>plan.
         launch_runner p b rv identity nonce plan creds)) t3 = ((Inr i, n3), s')"
      by (rule run_attempt_Inr)
    from this(2) obtain plan m4 n4 t4 where 4: "run_state (add_externals p (bs_name b) (rv_runner_image rv) plan0) t3 = ((Inr plan, m4), t4)"
      and 5: "run_state (launch_runner p b rv identity nonce plan creds) t4 = ((Inr i, n4), s')"
      by (rule run_attempt_Inr)
    have "inv t1" using F [OF _ i1 1] framed_no_error [OF framed_ensure_image] by blast
    then have "inv t2" using F [OF framed_plan_caches _ 2] by blast
    then have "inv t3" using F [OF framed_within [OF framed_answer [OF framed_credentials]] _ 3] by blast
    then have "inv t4" using F [OF framed_add_externals _ 4] by blast
    then show thesis using that 5 by blast
  qed
  show ?thesis using run_launch [OF id(1) _ i5 la] id(2,3) w by auto
qed

end

section \<open>The whole create\<close>

text \<open>What no create removes: what other controllers own, and volumes that are not job volumes, such as caches.\<close>

definition never_removed :: "string \<Rightarrow> rid \<Rightarrow> labels \<Rightarrow> bool" where
  "never_removed cid r l \<longleftrightarrow> lget l LabelControllerID \<noteq> cid \<or> (\<exists>n. r = Vol n) \<and> \<not> matches_predicate l cid"

text \<open>What a failed create may leave that was not there before: caches, helpers and stamps.\<close>

definition left_over :: "string \<Rightarrow> rid \<Rightarrow> labels \<Rightarrow> bool" where
  "left_over cid r l \<longleftrightarrow> gc_added cid r l \<or> cache_added r l"

definition cleanup_failed :: "string \<Rightarrow> gerr \<Rightarrow> bool" where
  "cleanup_failed name err \<longleftrightarrow>
     (\<exists>e c. err = JoinErr [e, WrapErr (''creation-guard rollback for '' @ quoted name @ '' failed'') c] \<or>
            err = JoinErr [e, WrapErr (''ambiguous-create network cleanup for '' @ quoted name @ '' failed'') c])"

lemma never_removed_facts:
  assumes "never_removed cid r l"
  shows "\<not> (matches_predicate l cid)" "not_housekeeping cid r l" "not_job_volume cid r l"
    "cid \<noteq> '''' \<Longrightarrow> \<not> own_network cid nonce r n l"
  using assms
  by (auto simp: never_removed_def not_housekeeping_def housekeeping_def not_job_volume_def matches_predicate_iff
      own_network_def filters_for_nonce_def lget_def split: option.splits)

lemma left_over_no_job: "left_over cid r l \<Longrightarrow> l LabelInstanceName = None"
  by (auto simp: left_over_def gc_added_def housekeeping_def cache_added_def dest: provider_cache_labels_managed)

context provider_host begin

lemma framed_sweep:
  "framed inv view (never_removed (pv_controller p)) Q (sweep_orphans (pv_topo p) (rt_order (pv_rt p)))"
proof (rule framedI)
  fix s r s'
  assume s: "inv s" and run: "run_state (sweep_orphans (pv_topo p) (rt_order (pv_rt p))) s = (r, s')"
  have "run_state (sweep_orphans (pv_topo p) (rt_order (pv_rt p))) s = ((fst r, snd r), s')" using run by simp
  from run_sweep_orphans [OF cli(2) _ s order this] controller
  have sw: "inv s'" "view s' = view s \<or> (\<exists>ys errs. fates (pv_topo p) (view s) ys errs (view s'))" by auto
  have "changes (never_removed (pv_controller p)) Q (view s) (view s')" if "fates (pv_topo p) (view s) ys errs (view s')" for ys errs
  proof -
    have "removes (\<lambda>r n l. \<exists>i\<in>set ys. of_instance (pv_controller p) i l) (view s) (view s')"
      using that by (simp add: fates_def)
    then show ?thesis by (rule changes_removes) (auto simp: of_instance_def dest: never_removed_facts(1))
  qed
  then show "inv s' \<and> changes (never_removed (pv_controller p)) Q (view s) (view s')" using sw by auto
qed

lemma framed_gc:
  "framed inv view (never_removed (pv_controller p)) (left_over (pv_controller p)) (run_cache_gc_throttled p)"
  by (rule framed_mono [OF framed_gc_throttled]) (auto simp: left_over_def dest: never_removed_facts)

lemma framed_housekeeping:
  "framed inv view (never_removed (pv_controller p)) (left_over (pv_controller p)) (create_housekeeping p b)"
  unfolding create_housekeeping_def by (intro frame framed_sweep framed_gc)

text \<open>A claim that fails and is cleaned up leaves nothing new.\<close>

lemma run_claim_failed:
  assumes s: "inv s" and id: "id_controller identity = pv_controller p"
    and run: "run_state (create_claim_network (pv_topo p) identity nonce internal) s = ((i, dup, err), s')"
    and failed: "dup \<noteq> None \<or> (\<exists>e. err = Some e \<and> \<not> cleanup_failed (id_instance identity) e)"
  shows "inv s' \<and> changes (never_removed (pv_controller p)) (\<lambda>_ _. False) (view s) (view s')"
proof -
  let ?cid = "pv_controller p" and ?name = "job_network_name (id_instance identity)"
  let ?L = "(network_labels identity (rt_now (pv_rt p) s))(LabelCreateNonce \<mapsto> nonce)"
  obtain i0 cerr s1 where cr: "run_state (network_create c ?name internal ?L) s = ((i0, cerr), s1)"
    by (metis surj_pair)
  note nc = net_create [OF s cr] and run = run [unfolded create_claim_network_def Let_def cli]
  show ?thesis
  proof (cases cerr)
    case None
    then show ?thesis using failed run cr by auto
  next
    case (Some ce)
    show ?thesis
    proof (cases "is_conflict ce")
      case True
      then obtain r where r: "run_state (existing_claim_is_ours (pv_topo p) ?name (id_instance identity)) s1 = (r, s')"
        using run cr Some by (auto split: sum.splits prod.splits if_splits)
      have "inv s1" "view s1 = view s" using nc Some True by auto
      then show ?thesis using run_existing_claim [OF _ cli(2) _ r] controller by simp
    next
      case False
      obtain e2 where e2: "run_state (best_effort_remove_own_network (pv_topo p) nonce) s1 = (e2, s')"
        and out: "e2 = None"
        using run cr Some False failed
        by (auto simp: cleanup_failed_def split: prod.splits option.splits)
      have i1: "inv s1" using nc by simp
      note be = run_best_effort_remove [OF i1 cli(2) e2]
      let ?own = "\<lambda>r l. (\<exists>j. r = Net j) \<and> own_network ?cid nonce r ?name l"
      have own: "?own (Net j) ?L" for j
        by (simp add: own_network_def filters_for_nonce_def id network_labels_def resource_labels_def base_labels_def)
      have "view s1 = view s \<or> (\<exists>j. view s (Net j) = None \<and> view s1 = (view s)(Net j \<mapsto> (?name, ?L)))"
        using conjunct2 [OF conjunct2 [OF nc], rule_format, OF Some] by blast
      then have old: "changes (never_removed ?cid) ?own (view s) (view s1)"
      proof (elim disjE exE conjE)
        fix j
        assume "view s (Net j) = None" "view s1 = (view s)(Net j \<mapsto> (?name, ?L))"
        then show ?thesis using changes_upd [of "view s" "Net j" ?own ?L "never_removed ?cid" ?name] own [of j] by simp
      qed simp
      have gone: "view s' (Net j) = None" if "view s1 (Net j) = Some (n, l)" "own_network ?cid nonce (Net j) n l" for j n l
        using be out that by simp
      have rem: "removes (own_network ?cid nonce) (view s1) (view s')" using be by simp
      have kept: "view s' q = Some (n, l)" if "view s q = Some (n, l)" "never_removed ?cid q l" for q n l
        using removes_kept [OF rem changes_kept [OF old that]] never_removed_facts(4) [OF that(2)] controller by simp
      have old_one: "view s q = Some (n, l)" if v: "view s' q = Some (n, l)" for q n l
      proof -
        have v1: "view s1 q = Some (n, l)" using removes_back [OF rem v] .
        have "\<not> ((\<exists>j. q = Net j) \<and> own_network ?cid nonce q n l)" using gone v v1 by auto
        then show ?thesis using changes_new [OF old v1] by (auto simp: own_network_def)
      qed
      have "inv s'" using be by simp
      moreover have "changes (never_removed ?cid) (\<lambda>_ _. False) (view s) (view s')"
        by (rule changesI) (erule kept, assumption, rule disjI1, erule old_one)
      ultimately show ?thesis by blast
    qed
  qed
qed

end

context provider_host begin

lemma run_guarded:
  assumes s: "inv s" and run: "run_state (guarded p name nonce e) s = ((err, l), s')"
  shows "inv s' \<and> changes (never_removed (pv_controller p)) (\<lambda>_ _. False) (view s) (view s') \<and>
    (\<not> cleanup_failed name err \<longrightarrow> (\<forall>r n l. view s' r = Some (n, l) \<longrightarrow> \<not> rollback_owned (pv_controller p) name nonce l))"
proof -
  obtain ce s1 where rb: "run_state (rollback (pv_topo p) name nonce) s = (ce, s1)" by fastforce
  note r = run_rollback [OF cli(2) _ s rb, unfolded cli, OF controller]
  have out: "s' = s1" "ce \<noteq> None \<Longrightarrow> cleanup_failed name err"
    using run rb by (auto simp: guarded_def cleanup_failed_def split: option.splits)
  have "changes (never_removed (pv_controller p)) (\<lambda>_ _. False) (view s) (view s')"
    by (rule changes_removes [of "\<lambda>r n l. rollback_owned (pv_controller p) name nonce l"])
      (use r out in \<open>auto simp: rollback_owned_def dest: never_removed_facts(1)\<close>)
  moreover have "\<not> rollback_owned (pv_controller p) name nonce l" if "ce = None" "view s' q = Some (n, l)" for q n l
    using r out that by (auto simp: drop_matching_def split: option.splits if_splits)
  ultimately show ?thesis using r out by blast
qed

lemma framed_report [frame]: "framed inv view P Q (report_runner_status p b i)"
  unfolding report_runner_status_def Let_def by (intro frame)

text \<open>A create that fails and whose clean-up worked leaves nothing of a job behind.\<close>

lemma run_create_claimed_failed:
  assumes id: "id_controller identity = pv_controller p" "id_instance identity = bs_name b" "bs_name b \<noteq> ''''"
    and s: "inv s" and run: "run_state (create_claimed p b rv identity nonce logs0) s = (Some (Inl err, logs), s')"
  shows "inv s' \<and> changes (\<lambda>r l. never_removed (pv_controller p) r l)
      (\<lambda>r l. left_over (pv_controller p) r l \<or> cleanup_failed (bs_name b) err) (view s) (view s') \<and>
    (\<not> cleanup_failed (bs_name b) err \<longrightarrow>
       (\<forall>r n l. view s' r = Some (n, l) \<longrightarrow> \<not> rollback_owned (pv_controller p) (bs_name b) nonce l))"
proof -
  obtain r l3 s1 where pr: "run_state (provision p b rv identity nonce) s = ((r, l3), s1)" by (metis surj_pair)
  note f = framedD [OF framed_provision [OF id] s pr]
  obtain e l4 where e: "r = Inl e" and g: "run_state (guarded p (bs_name b) nonce e) s1 = ((err, l4), s')"
    using run pr by (cases r) (auto simp: create_claimed_def split: prod.splits option.splits)
  note g = run_guarded [OF conjunct1 [OF f] g]
  have kept: "view s' q = Some (n, l)" if "view s q = Some (n, l)" "never_removed (pv_controller p) q l" for q n l
    using changes_kept [OF conjunct2 [OF f] that(1) never_removed_facts(3) [OF that(2)]] g that(2) changes_kept by blast
  have new: "view s q = Some (n, l) \<or> left_over (pv_controller p) q l \<or> cleanup_failed (bs_name b) err"
    if v: "view s' q = Some (n, l)" for q n l
  proof (cases "cleanup_failed (bs_name b) err")
    case False
    then have "\<not> rollback_owned (pv_controller p) (bs_name b) nonce l" using g v by blast
    moreover have "view s1 q = Some (n, l)" using g v changes_new by blast
    ultimately show ?thesis using changes_new [OF conjunct2 [OF f]] by (auto simp: create_added_def left_over_def)
  qed simp
  show ?thesis
    by (intro conjI changesI) (use g in blast, erule kept, assumption, erule new, use g in blast)
qed

text \<open>What happens up to the claim, and what is left to do once it is held.\<close>

lemma run_create_cases:
  assumes s: "inv s" and run: "run_state (create_instance p b extra) s = (Some (x, logs), s')"
  defines "ident \<equiv> \<lparr>id_controller = pv_controller p, id_pool = bs_pool_id b, id_instance = bs_name b\<rparr>"
  obtains (refused) err where "x = Inl err" "inv s'"
      "\<not> cleanup_failed (bs_name b) err \<Longrightarrow>
       changes (never_removed (pv_controller p)) (left_over (pv_controller p)) (view s) (view s')"
  | (claimed) rv nonce l1 s2 i s3 t where "bs_name b \<noteq> ''''" "inv s3" "view s2 (Net i) = None"
      "changes (never_removed (pv_controller p)) (left_over (pv_controller p)) (view s) (view s2)"
      "view s3 = (view s2)(Net i \<mapsto> (job_network_name (bs_name b), claim_labels ident nonce t))"
      "run_state (create_claimed p b rv ident nonce l1) s3 = (Some (x, logs), s')"
proof (cases "admit p b extra")
  case (Inl e)
  then have "x = Inl e" "s' = s" using run by (auto simp: create_instance_def)
  then show thesis using refused s by simp
next
  case (Inr rv)
  let ?P = "never_removed (pv_controller p)" and ?Q = "left_over (pv_controller p)"
  have name: "bs_name b \<noteq> ''''" using Inr by (auto simp: admit_def)
  obtain l1 s1 where hk: "run_state (create_housekeeping p b) s = (l1, s1)" by fastforce
  note f1 = framedD [OF framed_housekeeping s hk]
  obtain rn s2 where nn: "run_state (new_create_nonce p) s1 = (rn, s2)" by fastforce
  have f2: "inv s2" "changes ?P ?Q (view s) (view s2)"
    using framedD [OF framed_nonce conjunct1 [OF f1] nn, of ?P ?Q] f1 changes_trans [of ?P ?Q "view s" "view s1" "view s2"]
    by simp_all
  show thesis
  proof (cases "\<exists>nonce. rn = Inr nonce \<and> validate_allocation_names (bs_name b) nonce = None")
    case False
    then have "s' = s2" "\<exists>e. x = Inl e"
      using run Inr hk nn by (auto simp: create_instance_def create_with_nonce_def split: sum.splits option.splits)
    then show thesis using f2 refused by blast
  next
    case True
    then obtain nonce where nonce: "rn = Inr nonce" "validate_allocation_names (bs_name b) nonce = None" by blast
    obtain i dup ce s3 where cl: "run_state (create_claim_network (pv_topo p) ident nonce (cf_internal (pv_cfg p))) s2 = ((i, dup, ce), s3)"
      by (metis surj_pair)
    have cont: "(case dup of Some e \<Rightarrow> (Some (Inl e, l1), s3)
      | None \<Rightarrow> (case ce of Some e \<Rightarrow> (Some (Inl e, l1 @ claim_cleanup_log (bs_name b) nonce e), s3)
         | None \<Rightarrow> run_state (create_claimed p b rv ident nonce l1) s3)) = (Some (x, logs), s')"
      using run Inr hk nn nonce cl
      by (simp add: create_instance_def create_with_nonce_def Let_def ident_def [symmetric] split: option.splits)
    have id: "id_controller ident = pv_controller p" "id_instance ident = bs_name b" by (simp_all add: ident_def)
    show thesis
    proof (cases "dup = None \<and> ce = None")
      case False
      then obtain err where err: "x = Inl err" "s' = s3" "dup \<noteq> None \<or> ce = Some err"
        using cont by (auto split: option.splits)
      have ch: "inv s' \<and> changes ?P (\<lambda>_ _. False) (view s2) (view s')" if "\<not> cleanup_failed (bs_name b) err"
        using run_claim_failed [OF f2(1) id(1) cl] err that id by auto
      have "inv s'" using run_create_claim [OF f2(1) cli(2) _ _ cl, unfolded cli, OF controller id(1)] err by simp
      then show thesis
        using refused [OF err(1)] ch f2(2) changes_trans changes_mono [of ?P "\<lambda>_ _. False" "view s2" "view s'" ?P ?Q]
        by blast
    next
      case True
      note cc = run_create_claim [OF f2(1) cli(2) _ _ cl, unfolded cli, OF controller id(1)]
      have v3: "inv s3" "view s2 (Net i) = None"
        "view s3 = (view s2)(Net i \<mapsto> (job_network_name (bs_name b), claim_labels ident nonce (rt_now (pv_rt p) s2)))"
        using cc True id by simp_all
      show thesis by (rule claimed [OF name v3(1,2) f2(2) v3(3)]) (use cont True in simp)
    qed
  qed
qed

text \<open>A create that fails and whose clean-up worked leaves nothing of a job behind.\<close>

theorem run_create_failed:
  assumes s: "inv s" and run: "run_state (create_instance p b extra) s = (Some (Inl err, logs), s')"
    and ok: "\<not> cleanup_failed (bs_name b) err"
  shows "inv s' \<and> changes (never_removed (pv_controller p)) (left_over (pv_controller p)) (view s) (view s')"
  using s run
proof (cases rule: run_create_cases)
  case (refused err')
  then show ?thesis using ok by simp
next
  case (claimed rv nonce l1 s2 i s3 t)
  let ?P = "never_removed (pv_controller p)" and ?Q = "left_over (pv_controller p)"
  let ?id = "\<lparr>id_controller = pv_controller p, id_pool = bs_pool_id b, id_instance = bs_name b\<rparr>"
  have id: "id_controller ?id = pv_controller p" "id_instance ?id = bs_name b" by simp_all
  note f4 = run_create_claimed_failed [OF id claimed(1,2,6)]
  have own: "rollback_owned (pv_controller p) (bs_name b) nonce (claim_labels ?id nonce t)"
    using rollback_owned_claim [of ?id nonce t] by simp
  have old: "view s' q = Some (n, l)" if "view s2 q = Some (n, l)" "?P q l" for q n l
  proof -
    have "view s3 q = Some (n, l)" using that(1) claimed(3,5) by (cases "q = Net i") simp_all
    then show ?thesis using f4 that(2) changes_kept by blast
  qed
  have new: "view s2 q = Some (n, l) \<or> ?Q q l" if v: "view s' q = Some (n, l)" for q n l
  proof -
    have "view s3 q = Some (n, l) \<or> ?Q q l" using f4 ok v changes_new by blast
    moreover have "\<not> rollback_owned (pv_controller p) (bs_name b) nonce l" using f4 ok v by blast
    ultimately show ?thesis using claimed(5) own by (cases "q = Net i") auto
  qed
  have "changes ?P ?Q (view s2) (view s')" by (rule changesI) (erule old, assumption, erule new)
  then show ?thesis using claimed(4) f4 changes_trans by blast
qed

text \<open>A create that succeeds: the claim, the workspace and the runner of one nonce are there.\<close>

theorem run_create_succeeded:
  assumes s: "inv s" and run: "run_state (create_instance p b extra) s = (Some (Inr inst, logs), s')"
  defines "ident \<equiv> \<lparr>id_controller = pv_controller p, id_pool = bs_pool_id b, id_instance = bs_name b\<rparr>"
  shows "inst = running_instance b \<and>
    (\<exists>nonce net rid t t'.
       view s' (Net net) = Some (job_network_name (bs_name b), claim_labels ident nonce t) \<and>
       view s' (Ctr rid) = Some (runner_container_name (bs_name b), runner_labels b ident nonce t') \<and>
       (\<exists>n lb. view s' (Vol (workspace_volume_name (bs_name b) nonce)) = Some (n, lb) \<and> lget lb LabelCreateNonce = nonce))"
  using s run
proof (cases rule: run_create_cases)
  case (claimed rv nonce l1 s2 i s3 t)
  have id: "id_controller ident = pv_controller p" "id_instance ident = bs_name b" by (simp_all add: ident_def)
  note c = claimed [folded ident_def]
  obtain r l3 s4 where pr: "run_state (provision p b rv ident nonce) s3 = ((r, l3), s4)" by (metis surj_pair)
  obtain rid where rid: "r = Inr rid" using c(6) pr by (cases r) (auto simp: create_claimed_def split: prod.splits)
  obtain l4 where rep: "run_state (report_runner_status p b rid) s4 = (Some l4, s')" and inst: "inst = running_instance b"
    using c(6) pr rid by (auto simp: create_claimed_def split: prod.splits)
  note f4 = framedD [OF framed_provision [OF id c(1)] c(2) pr]
  have net: "view s4 (Net i) = Some (job_network_name (bs_name b), claim_labels ident nonce t)"
    using f4 c(5) by (auto simp: not_job_volume_def intro: changes_kept)
  have keep: "view s' q = Some x" if "view s4 q = Some x" for q x
    using framedD [OF framed_report conjunct1 [OF f4] rep, of anything anything] changes_kept that by (cases x) blast
  from run_provision [OF id c(1,2) pr [unfolded rid]] show ?thesis using inst keep [OF net] keep by blast
qed simp

end

end
