(* ===== verification/Config_Load.thy ===== *)
theory Config_Load
  imports Go_Net Extra_Specs
begin

text \<open>
  The whole configuration and what GARM hands the process: registry mirrors and insecure registries,
  \<open>Validate\<close> and \<open>Load\<close> from \<open>internal/config\<close>, the pool check of \<open>internal/provider/v011.go\<close>, the
  environment of \<open>internal/garmenv\<close>. Third-party code is an argument:
  \<open>domain_ok\<close> is the registry domain pattern, \<open>parse_ref\<close> the image reference parser, \<open>decode\<close> the
  TOML decoder reading a file over the defaults, \<open>json_value\<close> and \<open>base64\<close> the decoders of a pool's
  extra specs, \<open>lib_validate\<close> the library's check of an environment.
\<close>

section \<open>Registries\<close>

definition max_port :: int where "max_port = 65535"
definition registry_mirrors_key :: string where "registry_mirrors_key = ''registry_mirrors''"
definition insecure_registries_key :: string where "insecure_registries_key = ''insecure_registries''"

definition validate_host_port :: "(string \<Rightarrow> bool) \<Rightarrow> string \<Rightarrow> gerr option" where
  "validate_host_port domain_ok s =
     (let (host, port) = (case net_split_host_port s of Inl e \<Rightarrow> (s, '''') | Inr hp \<Rightarrow> hp)
      in if \<not> domain_ok s \<and> parse_ip host = None then Some (PlainErr (''invalid host '' @ quoted host))
         else if port \<noteq> '''' \<and> (case atoi port of Inl e \<Rightarrow> True | Inr n \<Rightarrow> n < 1 \<or> n > max_port)
         then Some (PlainErr (''invalid port '' @ quoted port @ '': must be 1-'' @ itoa max_port))
         else None)"

definition validate_registry_mirror :: "(string \<Rightarrow> bool) \<Rightarrow> string \<Rightarrow> gerr option" where
  "validate_registry_mirror domain_ok raw =
     (if contains_any raw ''@%''
      then Some (PlainErr ''a mirror URL must not contain userinfo (user:password@) or percent-encoding; the value is not shown'')
      else if trim_space raw \<noteq> raw \<or> raw = ''''
      then Some (PlainErr (quoted raw @ '' must not be empty or have leading or trailing whitespace''))
      else
        (case str_cut raw ''://'' of (scheme, rest, ok) \<Rightarrow>
           if \<not> ok \<or> scheme = ''''
           then Some (PlainErr (quoted raw @ '' must be an absolute URL with an http:// or https:// scheme''))
           else if scheme \<noteq> ''http'' \<and> scheme \<noteq> ''https''
           then Some (PlainErr (quoted raw @ '' has unsupported scheme '' @ quoted scheme @ '': must be lowercase http or https''))
           else if str_contains rest ''?'' then Some (PlainErr (quoted raw @ '' must not have a query''))
           else if str_contains rest ''#'' then Some (PlainErr (quoted raw @ '' must not have a fragment''))
           else
             (case url_parse raw of
                Inl e \<Rightarrow> Some (WrapErr (quoted raw @ '' is not a valid URL'') (case e of WrapErr ctx cause \<Rightarrow> cause | _ \<Rightarrow> e))
              | Inr u \<Rightarrow>
                  if hostname u = '''' then Some (PlainErr (quoted raw @ '' has no host''))
                  else if u_path u \<noteq> '''' \<and> u_path u \<noteq> ''/''
                  then Some (PlainErr (quoted raw @ '' must not have a path (only a bare origin is accepted)''))
                  else map_option (WrapErr (quoted raw)) (validate_host_port domain_ok (u_host u)))))"

text \<open>The key that detects duplicates: a masked prefix, or a host in lower case.\<close>

datatype registry_key = CidrKey "ip \<times> nat" | HostKey string

definition validate_insecure_registry :: "(string \<Rightarrow> bool) \<Rightarrow> string \<Rightarrow> registry_key res" where
  "validate_insecure_registry domain_ok raw =
     (if contains_any raw ''@%''
      then Inl (PlainErr ''must be host[:port] or a CIDR and must not contain userinfo ('@') or '%'; the value is not shown'')
      else if trim_space raw \<noteq> raw \<or> raw = ''''
      then Inl (PlainErr ''must not be empty or have leading or trailing whitespace'')
      else if str_contains raw ''://''
      then Inl (PlainErr ''must not include a scheme (use host[:port] or a CIDR, not a URL)'')
      else if has_prefix raw ''-'' \<or> has_suffix raw ''-''
      then Inl (PlainErr ''invalid index name: cannot begin or end with a hyphen'')
      else (case parse_prefix raw of
              Some pre \<Rightarrow> Inr (CidrKey pre)
            | None \<Rightarrow>
                if str_contains raw ''/''
                then Inl (PlainErr (''is not a valid CIDR, and a registry host[:port] cannot contain '' @ [CHR 0x27, CHR ''/'', CHR 0x27]))
                else (case validate_host_port domain_ok raw of
                        Some e \<Rightarrow> Inl e
                      | None \<Rightarrow> Inr (HostKey (to_lower raw)))))"

definition entry_text :: "string \<Rightarrow> nat \<Rightarrow> string" where
  "entry_text key i = key @ ''['' @ nat_str i @ '']''"

fun check_mirrors :: "(string \<Rightarrow> bool) \<Rightarrow> nat \<Rightarrow> string list \<Rightarrow> string list \<Rightarrow> gerr option" where
  "check_mirrors domain_ok i [] seen = None"
| "check_mirrors domain_ok i (raw # raws) seen =
     (case validate_registry_mirror domain_ok raw of
        Some e \<Rightarrow> Some (WrapErr (entry_text registry_mirrors_key i) e)
      | None \<Rightarrow>
          (let key = to_lower (trim_suffix raw ''/'')
           in if key \<in> set seen
              then Some (PlainErr (entry_text registry_mirrors_key i @ '' '' @ quoted raw @ '' is a duplicate of an earlier entry''))
              else check_mirrors domain_ok (i + 1) raws (key # seen)))"

definition validate_registry_mirrors :: "(string \<Rightarrow> bool) \<Rightarrow> config \<Rightarrow> gerr option" where
  "validate_registry_mirrors domain_ok c = check_mirrors domain_ok 0 (cf_registry_mirrors c) []"

fun check_insecure :: "(string \<Rightarrow> bool) \<Rightarrow> nat \<Rightarrow> string list \<Rightarrow> registry_key list \<Rightarrow> gerr option" where
  "check_insecure domain_ok i [] seen = None"
| "check_insecure domain_ok i (raw # raws) seen =
     (case validate_insecure_registry domain_ok raw of
        Inl e \<Rightarrow>
          if contains_any raw ''@%'' then Some (WrapErr (entry_text insecure_registries_key i) e)
          else Some (WrapErr (entry_text insecure_registries_key i @ '' '' @ quoted raw) e)
      | Inr key \<Rightarrow>
          if key \<in> set seen
          then Some (PlainErr (entry_text insecure_registries_key i @ '' '' @ quoted raw @ '' is a duplicate of an earlier entry''))
          else check_insecure domain_ok (i + 1) raws (key # seen))"

definition validate_insecure_registries :: "(string \<Rightarrow> bool) \<Rightarrow> config \<Rightarrow> gerr option" where
  "validate_insecure_registries domain_ok c = check_insecure domain_ok 0 (cf_insecure_registries c) []"

section \<open>The configuration\<close>

fun first_error :: "gerr option list \<Rightarrow> gerr option" where
  "first_error [] = None"
| "first_error (Some e # es) = Some e"
| "first_error (None # es) = first_error es"

definition validate_config ::
  "(string \<Rightarrow> bool) \<Rightarrow> (string \<Rightarrow> (string \<times> string) option res) \<Rightarrow> config \<Rightarrow> gerr option" where
  "validate_config domain_ok parse_ref c =
     (if cf_runner_image c = '''' then Some (PlainErr ''runner_image is required'')
      else first_error
        ([validate_digest_pinned_image parse_ref ''runner_image'' (cf_runner_image c) (cf_allow_unpinned_runner_image c),
          validate_dind_mode parse_ref c,
          validate_storage_driver c,
          validate_registry_mirrors domain_ok c,
          validate_insecure_registries domain_ok c,
          map_option (WrapErr ''[resources]'') (validate_resources (cf_resources c))] @
         map (\<lambda>(name, fl). map_option (WrapErr (''flavor '' @ quoted name))
                 (validate_flavor parse_ref (cf_allow_unpinned_runner_image c) fl)) (cf_flavors c) @
         [map_option (WrapErr ''[cache]'') (validate_cache (cf_cache c)),
          map_option (WrapErr ''[status_report]'') (validate_status_report c)]))"

definition default_docker_host :: string where "default_docker_host = ''unix:///var/run/docker.sock''"
definition default_storage_driver :: string where "default_storage_driver = ''overlay2''"

definition default_config :: config where
  "default_config =
     \<lparr>cf_docker_host = default_docker_host, cf_runner_image = '''', cf_allow_unpinned_runner_image = False,
      cf_dind_mode = dind_mode_none, cf_allowed_dind_modes = default_allowed_dind_modes, cf_dind_image = '''',
      cf_allow_unpinned_dind_image = False, cf_storage_driver = default_storage_driver, cf_registry_mirrors = [],
      cf_insecure_registries = [], cf_resources = \<lparr>rs_runner_memory = '''', rs_dind_memory = ''''\<rparr>,
      cf_enable_job_network = True, cf_internal = False, cf_flavors = [], cf_cache = default_cache,
      cf_allowed_env = [], cf_status_timeout = None, cf_log_file = ''''\<rparr>"

definition load_config ::
  "(string \<Rightarrow> bool) \<Rightarrow> (string \<Rightarrow> (string \<times> string) option res) \<Rightarrow> (string \<Rightarrow> config \<Rightarrow> config res) \<Rightarrow> string \<Rightarrow>
   config res" where
  "load_config domain_ok parse_ref decode path =
     (case decode path default_config of
        Inl e \<Rightarrow> Inl (WrapErr (''failed to parse config file '' @ quoted path) e)
      | Inr cfg0 \<Rightarrow>
          (let cfg = (if cf_docker_host cfg0 = '''' then cfg0\<lparr>cf_docker_host := default_docker_host\<rparr> else cfg0)
           in case validate_config domain_ok parse_ref cfg of Some e \<Rightarrow> Inl e | None \<Rightarrow> Inr cfg))"

section \<open>The pool check\<close>

definition decode_pool_extra_specs ::
  "(string \<Rightarrow> json option) \<Rightarrow> (string \<Rightarrow> string res) \<Rightarrow> string \<Rightarrow> json res" where
  "decode_pool_extra_specs json_value base64 s0 =
     (let s = trim_space s0
      in if s = '''' then Inr (JObj [])
         else (case json_value s of
                 Some j \<Rightarrow> Inr j
               | None \<Rightarrow>
                   (case base64 s of
                      Inl e \<Rightarrow> Inl (WrapErr ''extra_specs is neither valid JSON nor base64'' e)
                    | Inr decoded \<Rightarrow>
                        (case json_value decoded of
                           None \<Rightarrow> Inl (PlainErr ''extra_specs base64 payload is not valid JSON'')
                         | Some j \<Rightarrow> Inr j))))"

definition validate_pool_info ::
  "(string \<Rightarrow> config res) \<Rightarrow> (json \<Rightarrow> string list) \<Rightarrow> (string \<Rightarrow> json option) \<Rightarrow> (string \<Rightarrow> string res) \<Rightarrow>
   config \<Rightarrow> string \<Rightarrow> string \<Rightarrow> gerr option" where
  "validate_pool_info load schema_errors json_value base64 own provider_config extra =
     (case (if provider_config \<noteq> ''''
            then map_sum (WrapErr (''failed to load provider config '' @ quoted provider_config)) id (load provider_config)
            else Inr own) of
        Inl e \<Rightarrow> Some e
      | Inr cfg \<Rightarrow>
          (case decode_pool_extra_specs json_value base64 extra of
             Inl e \<Rightarrow> Some (WrapErr ''invalid extra_specs'' e)
           | Inr raw \<Rightarrow>
               (case parse_extra_specs schema_errors raw of
                  Inl e \<Rightarrow> Some e
                | Inr specs \<Rightarrow> (case resolve_specs specs cfg of Inl e \<Rightarrow> Some e | Inr r \<Rightarrow> None))))"

definition supported_interface_versions :: "string list" where
  "supported_interface_versions = [''v0.1.0'', ''v0.1.1'']"

section \<open>The environment GARM sets\<close>

record garm_env =
  ge_command :: string
  ge_controller :: string
  ge_pool :: string
  ge_config_file :: string
  ge_instance :: string
  ge_extra_specs :: string
  ge_bootstrap :: bootstrap

definition pool_id_optional_commands :: "string list" where
  "pool_id_optional_commands = [''DeleteInstance'', ''GetInstance'', ''StartInstance'', ''StopInstance'']"

definition validation_pool_id_placeholder :: string where
  "validation_pool_id_placeholder = ''scale-set-instance-without-pool-id''"

definition validate_v011 :: "(garm_env \<Rightarrow> gerr option) \<Rightarrow> garm_env \<Rightarrow> gerr option" where
  "validate_v011 lib_validate env =
     lib_validate
       (if ge_pool env = '''' \<and> ge_command env \<in> set pool_id_optional_commands
        then env\<lparr>ge_pool := validation_pool_id_placeholder\<rparr> else env)"

definition get_environment_v011 ::
  "(string \<Rightarrow> string) \<Rightarrow> (string \<Rightarrow> bootstrap res) \<Rightarrow> (garm_env \<Rightarrow> gerr option) \<Rightarrow> garm_env res" where
  "get_environment_v011 getenv bootstrap_params lib_validate =
     (case bootstrap_params (getenv ''GARM_COMMAND'') of
        Inl e \<Rightarrow> Inl (WrapErr ''failed to get bootstrap params'' e)
      | Inr b \<Rightarrow>
          (let env = \<lparr>ge_command = getenv ''GARM_COMMAND'', ge_controller = getenv ''GARM_CONTROLLER_ID'',
                      ge_pool = getenv ''GARM_POOL_ID'', ge_config_file = getenv ''GARM_PROVIDER_CONFIG_FILE'',
                      ge_instance = getenv ''GARM_INSTANCE_ID'', ge_extra_specs = getenv ''GARM_POOL_EXTRASPECS'',
                      ge_bootstrap = b\<rparr>
           in case validate_v011 lib_validate env of
                Some e \<Rightarrow> Inl (WrapErr ''failed to validate execution environment'' e)
              | None \<Rightarrow> Inr env))"

text \<open>Every other interface version goes to the library, \<open>lib_env\<close>.\<close>

definition get_environment ::
  "(string \<Rightarrow> string) \<Rightarrow> garm_env res \<Rightarrow> (string \<Rightarrow> bootstrap res) \<Rightarrow> (garm_env \<Rightarrow> gerr option) \<Rightarrow> garm_env res" where
  "get_environment getenv lib_env bootstrap_params lib_validate =
     (if getenv ''GARM_INTERFACE_VERSION'' \<noteq> ''v0.1.1'' then lib_env
      else get_environment_v011 getenv bootstrap_params lib_validate)"

end
