(* ===== verification/Provider_Fixtures.thy ===== *)
theory Provider_Fixtures
  imports Create_Run Config_Load
begin

text \<open>
  A provider on the fake daemon, for the witnesses: a configuration with the caches off, constant
  random bytes, a metadata service that answers every request, and a watcher run in the process
  whose runner says at once that it listens. \<open>provider_host\<close> is interpreted on it.
\<close>

definition demo_watch :: "fake watch_env" where
  "demo_watch =
     \<lparr>we_cli = fake_client fake_sdk, we_stdout = (\<lambda>i. ret (Inr ''Listening for Jobs'')),
      we_http = (\<lambda>rq. ret (HttpStatus 200 (Inr ''secret''))), we_ctx_err = (\<lambda>f. None), we_wait_err = (\<lambda>f. None),
      we_pem_ok = (\<lambda>x. True), we_now = fk_now, we_tick = ret False, we_fuel = 3, we_pid1 = Inr ''systemd'',
      we_detach = (\<lambda>req. ret None)\<rparr>"

definition demo_runtime :: "fake runtime" where
  "demo_runtime =
     \<lparr>rt_now = fk_now, rt_ctx_err = (\<lambda>f. None), rt_demux = Inr, rt_rand = ret (Inr (replicate 16 7)),
      rt_order = remdups, rt_shuffle = (\<lambda>n. [0..<n]), rt_schema = (\<lambda>j. []), rt_getenv = (\<lambda>k. None),
      rt_watch = demo_watch\<rparr>"

definition demo_config :: config where
  "demo_config = default_config\<lparr>cf_runner_image := ''runner'', cf_cache := default_cache\<lparr>cch_enabled := False\<rparr>\<rparr>"

definition demo_provider :: "fake provider" where
  "demo_provider =
     \<lparr>pv_cli = fake_client fake_sdk, pv_cfg = demo_config, pv_controller = ''ctl'', pv_topo = demo_manager,
      pv_rt = demo_runtime, pv_spawn = run_in_process_watcher demo_watch\<rparr>"

lemma demo_provider_simps [simp]:
  "pv_cli demo_provider = fake_client fake_sdk" "pv_cfg demo_provider = demo_config"
  "pv_controller demo_provider = ''ctl''" "pv_topo demo_provider = demo_manager" "pv_rt demo_provider = demo_runtime"
  by (simp_all add: demo_provider_def)

lemma demo_runtime_simps [simp]:
  "rt_now demo_runtime = fk_now" "rt_order demo_runtime = remdups" "rt_rand demo_runtime = ret (Inr (replicate 16 7))"
  "rt_watch demo_runtime = demo_watch" "rt_schema demo_runtime j = []"
  by (simp_all add: demo_runtime_def)

lemma demo_provider_made: "new_provider (fake_client fake_sdk) demo_config ''ctl'' demo_runtime True = Inr demo_provider"
proof -
  have "validate_allowed_dind_modes demo_config = None" by code_simp
  then show ?thesis
    by (simp add: new_provider_def demo_provider_def demo_manager_def) (simp add: demo_runtime_def)
qed

lemma demo_watch_quiet: "quiet_watch fake_inv fake_view demo_watch"
  using fake_named.quiet_calls by (simp add: quiet_watch_def demo_watch_def quiet_return)

interpretation demo_host: provider_host "fake_client fake_sdk" fake_inv fake_view demo_provider
proof unfold_locales
  show "\<exists>cfg rt b. new_provider (fake_client fake_sdk) cfg (pv_controller demo_provider) rt b = Inr demo_provider"
    using demo_provider_made by (auto simp del: demo_provider_simps(1,2,4,5))
qed (simp_all add: demo_watch_quiet quiet_return)

lemmas demo_provider_host = demo_host.provider_host_axioms

end
