(* ===== verification/Demo_Create.thy ===== *)
theory Demo_Create
  imports Provider_Fixtures
begin

text \<open>
  Two runs of \<open>create_instance\<close> on the fake daemon, step by step: one that fails because the daemon cannot
  create the workspace volume, and one that succeeds on an empty daemon.
\<close>

section \<open>The request\<close>

definition demo_bootstrap :: bootstrap where
  "demo_bootstrap =
     \<lparr>bs_name = ''r1'', bs_repo_url = ''https://github.com/o/r'', bs_callback_url = '''',
      bs_metadata_url = ''https://garm/md'', bs_instance_token = ''tok'', bs_ca_cert_bundle = '''',
      bs_os_type = ''linux'', bs_os_arch = ''amd64'', bs_labels = [''l''], bs_pool_id = ''pool'', bs_jit = False,
      bs_runner_group = ''''\<rparr>"

definition demo_resolved :: resolved where
  "demo_resolved = \<lparr>rv_flavor = [], rv_dind_mode = ''none'', rv_runner_image = ''runner'',
        rv_runner_memory_bytes = 0, rv_dind_memory_bytes = 0,
        rv_storage_driver = ''overlay2'', rv_extra_runner_labels = [],
        rv_extra_env = []\<rparr>"

lemma demo_admit: "admit demo_provider demo_bootstrap JNull = Inr demo_resolved"
  by code_simp

definition empty_daemon :: "fake \<Rightarrow> bool" where
  "empty_daemon f \<longleftrightarrow> fk_containers f = [] \<and> fk_networks f = [] \<and> fk_volumes f = [] \<and> fk_present f = []"

lemma demo_effective_image: "effective_runner_image demo_config '''' = ''runner''" by code_simp

lemma demo_diag_enabled: "cf_cache demo_config = default_cache\<lparr>cch_enabled := False\<rparr>" by (simp add: demo_config_def)

lemma demo_housekeeping:
  assumes "empty_daemon f"
  shows "run_state (create_housekeeping demo_provider demo_bootstrap) f = ([], f)"
proof -
  have sw: "run_state (sweep_orphans demo_manager remdups) f = ((None, []), f)"
    using assms by (simp add: run_eval sweep_orphans_def enumerate_instance_names_def empty_daemon_def)
  have gc: "run_state (run_cache_gc_throttled demo_provider) f = ([], f)"
    using assms
    by (simp add: run_eval empty_daemon_def run_cache_gc_throttled_def claim_round_def fake_image_inspect_def demo_effective_image
      run_cache_gc_def reap_leaked_helpers_def image_digest_hex_def list_stale_caches_def prune_diag_volumes_def
      list_diag_volumes_def log_unprovable_cache_cruft_def list_unprovable_cache_cruft_def log_stale_caches_def)
  have "cf_enable_job_network demo_config" by (simp add: demo_config_def default_config_def)
  then show ?thesis by (simp add: create_housekeeping_def sw gc)
qed

definition demo_nonce :: string where "demo_nonce = ''07070707070707070707070707070707''"

lemma demo_new_nonce: "run_state (new_create_nonce demo_provider) f = (Inr demo_nonce, f)"
proof -
  have "concat (map hex_byte (replicate 16 7)) = demo_nonce" by code_simp
  then show ?thesis by (simp add: new_create_nonce_def)
qed

lemma demo_names: "validate_allocation_names ''r1'' demo_nonce = None" by code_simp

lemma demo_bootstrap_simps [simp]: "bs_name demo_bootstrap = ''r1''" "bs_pool_id demo_bootstrap = ''pool''" "bs_jit demo_bootstrap = False"
  "bs_os_type demo_bootstrap = ''linux''"  "bs_os_arch demo_bootstrap = ''amd64''" 
  by (simp_all add: demo_bootstrap_def)

lemma demo_resolved_simps [simp]: "rv_dind_mode demo_resolved = ''none''" "rv_runner_image demo_resolved = ''runner''"
  by (simp_all add: demo_resolved_def)

definition claimed_fake :: "fake \<Rightarrow> fake" where
  "claimed_fake f = f\<lparr>fk_next_id := 1, fk_networks := [\<lparr>fn_id = ''fake-net-1'', fn_name = job_network_name ''r1'',
      fn_labels = claim_labels (demo_identity ''r1'') demo_nonce 0\<rparr>]\<rparr>"

lemma demo_claim:
  assumes "empty_daemon f" "fk_network_create_err f = None" "fk_now f = 0" "fk_next_id f = 0"
  shows "run_state (create_claim_network demo_manager (demo_identity ''r1'') demo_nonce False) f = ((''fake-net-1'', None, None), claimed_fake f)"
proof -
  have n: "nat_str 1 = ''1''" by code_simp
  show ?thesis using assms n by (simp add: run_eval empty_daemon_def claimed_fake_def claim_labels_def demo_identity_def)
qed

lemma demo_dind [simp]: "dind_enabled ''none'' = False" by code_simp

lemma demo_image_id: "cf_internal demo_config = False" by (simp add: demo_config_def default_config_def)

definition broken_fake :: fake where "broken_fake = new_fake\<lparr>fk_volume_create_err := Some (SystemErr ''disk full'')\<rparr>"

definition demo_failure :: gerr where
  "demo_failure = WrapErr (''failed to create workspace volume '' @ quoted (workspace_volume_name ''r1'' demo_nonce)) (SystemErr ''disk full'')"

lemma demo_volume_fails:
  "run_state (create_job_volumes demo_provider (demo_identity ''r1'') demo_nonce False) (claimed_fake broken_fake) =
    ((Inl demo_failure, []), claimed_fake broken_fake)"
  by (simp add: create_job_volumes_def create_workspace_volume_def attempt_def no_error_def run_eval claimed_fake_def broken_fake_def demo_failure_def demo_identity_def)

lemma demo_rollback_claim:
  "run_state (guarded demo_provider ''r1'' demo_nonce e) (claimed_fake broken_fake) =
   ((e, []), (claimed_fake broken_fake)\<lparr>fk_networks := [], fk_remove_order := [''network:fake-net-1'']\<rparr>)"
  by (simp add: guarded_def run_eval claimed_fake_def broken_fake_def lget_def demo_identity_def join_errs_def)
  

lemma demo_create_fails:
  "run_state (create_instance demo_provider demo_bootstrap JNull) broken_fake =
    (Some (Inl demo_failure, []), (claimed_fake broken_fake)\<lparr>fk_networks := [], fk_remove_order := [''network:fake-net-1'']\<rparr>)"
proof -
  have b: "empty_daemon broken_fake" by (simp add: empty_daemon_def broken_fake_def)
  have c: "run_state (create_claim_network demo_manager (demo_identity ''r1'') demo_nonce False) broken_fake =
    ((''fake-net-1'', None, None), claimed_fake broken_fake)"
    by (rule demo_claim [OF b]) (simp_all add: broken_fake_def)
  have id: "\<lparr>id_controller = ''ctl'', id_pool = ''pool'', id_instance = ''r1''\<rparr> = demo_identity ''r1''" by (simp add: demo_identity_def)
  have pr: "run_state (provision demo_provider demo_bootstrap demo_resolved (demo_identity ''r1'') demo_nonce) (claimed_fake broken_fake)
    = ((Inl demo_failure, []), claimed_fake broken_fake)"
    unfolding provision_def Let_def by (subst attempt_def) (simp add: demo_volume_fails)
  show ?thesis
    by (simp add: create_instance_def demo_admit demo_housekeeping [OF b] demo_new_nonce create_with_nonce_def demo_names id
       demo_image_id c Let_def create_claimed_def pr demo_rollback_claim)
qed

section \<open>A create that succeeds\<close>

lemma demo_nonce_ne [simp]: "demo_nonce \<noteq> []" by (simp add: demo_nonce_def)

definition demo_volume :: fake_volume where
  "demo_volume = \<lparr>fv_name = workspace_volume_name ''r1'' demo_nonce,
     fv_labels = (workspace_volume_labels (demo_identity ''r1'') 0)(LabelCreateNonce \<mapsto> demo_nonce)\<rparr>"

definition fake2 :: fake where "fake2 = (claimed_fake new_fake)\<lparr>fk_volumes := [demo_volume]\<rparr>"

definition fake3 :: fake where "fake3 = fake2\<lparr>fk_pulled := [''runner''], fk_present := [''runner'']\<rparr>"

lemma demo_volumes:
  "run_state (create_job_volumes demo_provider (demo_identity ''r1'') demo_nonce False) (claimed_fake new_fake) = ((Inr (), []), fake2)"
  by (simp add: create_job_volumes_def create_workspace_volume_def attempt_def no_error_def run_eval claimed_fake_def demo_identity_def fake2_def demo_volume_def lget_def)

lemma demo_ensure_image:
  "run_state (ensure_image demo_provider ''runner'') fake2 = (None, fake3)"
  by (simp add: ensure_image_def run_eval fake_image_inspect_def fake_image_pull_def fake2_def fake3_def claimed_fake_def)

lemma demo_plan: "run_state (plan_caches demo_provider demo_bootstrap img) f = ((Inr empty_plan, []), f)"
  by (simp add: plan_caches_def demo_diag_enabled)

lemma demo_externals: "run_state (add_externals demo_provider n img plan) f = ((Inr plan, []), f)"
  by (simp add: add_externals_def demo_diag_enabled)

lemma demo_token_url: "validate_token_url metadata_url_field ''https://garm/md'' = None" by code_simp

lemma demo_url_ok: "\<exists>u. url_parse ''https://garm/md'' = Inr u" "\<exists>u. url_parse ''https://garm/md/runner-registration-token'' = Inr u"
proof -
  have "\<not> isl (url_parse ''https://garm/md'')" "\<not> isl (url_parse ''https://garm/md/runner-registration-token'')" by code_simp+
  then show "\<exists>u. url_parse ''https://garm/md'' = Inr u" "\<exists>u. url_parse ''https://garm/md/runner-registration-token'' = Inr u"
    by (metis sum.disc(1) sum.collapse(2))+
qed

lemma demo_trim: "trim_right_by (\<lambda>c. c = CHR ''/'') ''https://garm/md'' = ''https://garm/md''" by code_simp

lemma demo_secret: "trim_space ''secret'' = ''secret''" by code_simp

lemma demo_credentials:
  "run_state (fetch_credentials demo_provider demo_bootstrap) f = (Inr [(registration_token_file, ''secret'')], f)"
proof -
  obtain u v where u: "url_parse ''https://garm/md'' = Inr u" "url_parse ''https://garm/md/runner-registration-token'' = Inr v"
    using demo_url_ok by blast
  show ?thesis
    by (simp add: fetch_credentials_def new_client_def demo_bootstrap_def demo_token_url u demo_trim fetch_registration_token_def metadata_get_def
      get_attempts.simps do_get_def http_do.simps registration_token_path_def demo_watch_def max_credential_bytes_def demo_secret)
qed

definition demo_env :: "string list" where
  "demo_env = fst (projr (build_runner_env demo_bootstrap '''' '''' '''' '''' '''' [] []))"

lemma demo_env: "logged_env (build_runner_env demo_bootstrap '''' '''' '''' '''' '''' [] []) = (Inr demo_env, [])"
proof -
  have "\<not> isl (build_runner_env demo_bootstrap '''' '''' '''' '''' '''' [] [])"
    "snd (projr (build_runner_env demo_bootstrap '''' '''' '''' '''' '''' [] [])) = []" by code_simp+
  then show ?thesis by (auto simp: demo_env_def logged_env_def isl_def split: prod.splits sum.splits)
qed

definition demo_spec :: runner_container_spec where
  "demo_spec = runner_spec demo_bootstrap demo_resolved demo_nonce empty_plan demo_env
   (runner_labels demo_bootstrap (demo_identity ''r1'') demo_nonce 0)"

lemma demo_spec_simps [simp]: "rs_workspace_volume demo_spec = workspace_volume_name ''r1'' demo_nonce"
  "rs_socket_volume demo_spec = ''''" "rs_toolcache_volume demo_spec = ''''" "rs_pnpm_volume demo_spec = ''''"
  "rs_externals_volume demo_spec = ''''" "rs_diag_volume demo_spec = ''''" "rs_network demo_spec = job_network_name ''r1''"
  by (simp_all add: demo_spec_def runner_spec_def empty_plan_def)

definition demo_cfg :: container_config where "demo_cfg = fst (build_runner_container demo_spec)"

definition demo_host :: host_config where "demo_host = snd (build_runner_container demo_spec)"

lemma demo_host_simps [simp]:
  "hc_mounts demo_host = [named_workspace_mount (workspace_volume_name ''r1'' demo_nonce)]"
  "hc_sysctls demo_host = [(RunnerIPv6Sysctl, ''1'')]" "hc_network_mode demo_host = job_network_name ''r1''"
  by (simp_all add: demo_host_def build_runner_container_def Let_def)

definition fake4 :: fake where "fake4 = snd (record_container demo_cfg demo_host (runner_container_name ''r1'') fake3)"

lemma workspace_mount_source: "m_type (named_workspace_mount v) = ''volume''" "m_source (named_workspace_mount v) = v"
  by (simp_all add: named_workspace_mount_def volume_mount_def)

lemma fake3_simps: "fk_next_id fake3 = 1" "fk_containers fake3 = []" "fk_volumes fake3 = [demo_volume]" "fk_create_err fake3 = None"
   "fk_ipv6_fails_at_create fake3 = False" "fk_networks fake3 = fk_networks (claimed_fake new_fake)" "fk_host_lacks_ipv6 fake3 = False"
   "fk_ipv6_denied fake3 = False" "fk_start_err fake3 = None" "fk_exec_err fake3 = None" "fk_inspect_err fake3 = None" "fk_exec_exit_code fake3 = 0"
  by (simp_all add: fake3_def fake2_def claimed_fake_def)

lemma nat_str_2: "nat_str (Suc (Suc 0)) = ''2''" by code_simp

lemma demo_create: "run_state (container_create (fake_client fake_sdk) demo_cfg demo_host (runner_container_name ''r1'')) fake3
   = ((''fake-2'', None), fake4)"
  using runner_container_name_nonempty [of "''r1''"]
  by (simp add: fake_client_def fake_container_create_def fake4_def workspace_mount_source fake3_simps find_by_name_def
      record_container_def Let_def nat_str_2)

definition demo_ctr :: fake_container where "demo_ctr = hd (fk_containers fake4)"

lemma fake4_simps: "fk_containers fake4 = [demo_ctr]" "fc_id demo_ctr = ''fake-2''" "fc_sysctls demo_ctr = [(RunnerIPv6Sysctl, ''1'')]"
 "fc_network_mode demo_ctr = job_network_name ''r1''" "fc_mounts demo_ctr = [named_workspace_mount (workspace_volume_name ''r1'' demo_nonce)]"
  "fk_host_lacks_ipv6 fake4 = False"
   "fk_ipv6_denied fake4 = False" "fk_start_err fake4 = None" "fk_exec_err fake4 = None" "fk_inspect_err fake4 = None" "fk_exec_exit_code fake4 = 0"
   "fk_volumes fake4 = [demo_volume]" "fk_networks fake4 = fk_networks (claimed_fake new_fake)"
  by (simp_all add: fake4_def record_container_def Let_def demo_ctr_def fake3_simps nat_str_2 workspace_mount_source find_volume_def demo_volume_def)

definition running_ctr :: fake_container where "running_ctr = demo_ctr\<lparr>fc_state := ''running''\<rparr>"

definition fake5 :: fake where "fake5 = fake4\<lparr>fk_containers := [running_ctr]\<rparr>"

lemma demo_netns: "joined_netns_owner (job_network_name ''r1'') = None" by code_simp

lemma demo_start: "run_state (container_start (fake_client fake_sdk) ''fake-2'') fake4 = (None, fake5)"
proof -
  have f: "find_container fake4 ''fake-2'' = Some demo_ctr" by (simp add: find_container_def fake4_simps)
  have s: "first_sysctl_error fake4 (fc_sysctls demo_ctr) = None"
    by (simp add: first_sysctl_error_def ipv6_sysctl_err_def fake4_simps)
  have n: "find_network_by_name fake4 (fc_network_mode demo_ctr) \<noteq> None"
    by (simp add: find_network_by_name_def fake4_simps claimed_fake_def)
  have v: "missing_volume fake4 (fc_mounts demo_ctr) = None"
    by (simp add: missing_volume_def fake4_simps workspace_mount_source find_volume_def demo_volume_def)
  have ns: "netns_error fake4 (fc_network_mode demo_ctr) = None" by (simp add: netns_error_def fake4_simps demo_netns)
  have u: "update_container fake4 running_ctr = fake5"
    by (simp add: update_container_def fake5_def fake4_simps running_ctr_def)
  show ?thesis using n v s ns u
    by (simp add: fake_client_def fake_container_start_def f fake4_simps(8) running_ctr_def [symmetric])
qed

lemma demo_runner: "run_state (start_runner demo_provider demo_cfg demo_host ''r1'' empty_plan) fake3 = ((Inr ''fake-2'', []), fake5)"
proof -
  have "run_state (create_and_start_runner_once demo_provider demo_cfg demo_host ''r1'' empty_plan) fake3
    = ((''fake-2'', None, []), fake5)"
    by (simp add: create_and_start_runner_once_def demo_create demo_start revalidate_referenced_caches_def empty_plan_def)
  then show ?thesis by (simp add: start_runner_def create_and_start_runner_def)
qed

lemma fake5_simps: "find_container fake5 ''fake-2'' = Some running_ctr" "fk_exec_err fake5 = None" "fk_inspect_err fake5 = None"
   "fk_exec_exit_code fake5 = 0" "fc_state running_ctr = ''running''" "fc_id running_ctr = ''fake-2''"
  by (simp_all add: find_container_def fake5_def running_ctr_def fake4_simps)

lemma demo_deliver:
  "\<exists>g c. run_state (deliver_credentials demo_provider ''r1'' ''fake-2'' (tar_archive files)) fake5 = (None, g) \<and>
    fk_inspect_err g = None \<and> find_container g ''fake-2'' = Some c \<and> fc_state c = ''running''"
proof -
  have tar: "is_credential_tar_extract credential_deliver_cmd" by code_simp
  define x where "x = snd (extract_tar_into_tmpfs running_ctr (tar_archive files))"
  have x: "extract_tar_into_tmpfs running_ctr (tar_archive files) = (None, x)" "fc_state x = ''running''" "fc_id x = ''fake-2''"
    by (simp_all add: x_def tar_archive_def fake5_simps)
  define g where "g = snd (run_state (deliver_credentials demo_provider ''r1'' ''fake-2'' (tar_archive files)) fake5)"
  have "run_state (deliver_credentials demo_provider ''r1'' ''fake-2'' (tar_archive files)) fake5 = (None, g)"
    by (simp add: g_def deliver_credentials_def fake_client_def fake_exec_stream_def fake5_simps tar x Let_def)
  moreover have "g = update_container (fake5\<lparr>fk_execs := fk_execs fake5 @ [\<lparr>er_container = ''fake-2'', er_cmd = credential_deliver_cmd, er_stdin = tar_archive files\<rparr>]\<rparr>) x"
    by (simp add: g_def deliver_credentials_def fake_client_def fake_exec_stream_def fake5_simps tar x Let_def)
  ultimately show ?thesis using x
    by (simp add: update_container_def find_container_def fake5_def fake4_simps running_ctr_def)
qed

lemma demo_verify:
  assumes "fk_inspect_err g = None" "find_container g ''fake-2'' = Some c" "fc_state c = ''running''"
  shows "run_state (verify_running demo_provider ''fake-2'' role n) g = (None, g)"
  using assms by (simp add: verify_running_def fake_client_def fake_container_inspect_def to_container_json_def)

lemma demo_launch:
  "\<exists>l g. run_state (launch_runner demo_provider demo_bootstrap demo_resolved (demo_identity ''r1'') demo_nonce empty_plan
     [(registration_token_file, ''secret'')]) fake3 = ((Inr ''fake-2'', l), g)"
proof -
  have now: "fk_now fake3 = 0" by (simp add: fake3_def fake2_def claimed_fake_def)
  have b: "build_runner_container (runner_spec demo_bootstrap demo_resolved demo_nonce empty_plan demo_env
     (runner_labels demo_bootstrap (demo_identity ''r1'') demo_nonce 0)) = (demo_cfg, demo_host)"
    by (simp add: demo_cfg_def demo_host_def demo_spec_def)
  obtain g c where g: "run_state (deliver_credentials demo_provider ''r1'' ''fake-2'' (tar_archive (with_ready_marker [(registration_token_file, ''secret'')]))) fake5 = (None, g)"
    "fk_inspect_err g = None" "find_container g ''fake-2'' = Some c" "fc_state c = ''running''" using demo_deliver by blast
  have id: "id_instance (demo_identity ''r1'') = ''r1''" by (simp add: demo_identity_def)
  have pl: "cp_toolcache_path empty_plan = ''''" "cp_pnpm_path empty_plan = ''''" "cp_diag_dir empty_plan = ''''" "cp_externals_volume empty_plan = ''''"
    by (simp_all add: empty_plan_def)
  have rv: "rv_extra_runner_labels demo_resolved = []" "rv_extra_env demo_resolved = []" by (simp_all add: demo_resolved_def)
  have fin: "run_state (finish_runner demo_provider demo_resolved (demo_identity ''r1'') demo_nonce empty_plan [(registration_token_file, ''secret'')] 0 ''fake-2'') fake5 = ((Inr ''fake-2'', []), g)"
    by (simp add: finish_runner_def Let_def attempt_def no_error_def id g demo_verify [OF g(2-4)])
  show ?thesis
    by (simp add: launch_runner_def Let_def now attempt_def pl rv demo_env b id demo_runner fin)
qed

lemma demo_create_succeeds:
  "\<exists>logs s'. run_state (create_instance demo_provider demo_bootstrap JNull) new_fake = (Some (Inr (running_instance demo_bootstrap), logs), s')"
proof -
  have b: "empty_daemon new_fake" by (simp add: empty_daemon_def)
  have c: "run_state (create_claim_network demo_manager (demo_identity ''r1'') demo_nonce False) new_fake =
    ((''fake-net-1'', None, None), claimed_fake new_fake)"
    by (rule demo_claim [OF b]) simp_all
  have id: "\<lparr>id_controller = ''ctl'', id_pool = ''pool'', id_instance = ''r1''\<rparr> = demo_identity ''r1''" by (simp add: demo_identity_def)
  obtain l g where la: "run_state (launch_runner demo_provider demo_bootstrap demo_resolved (demo_identity ''r1'') demo_nonce empty_plan
     [(registration_token_file, ''secret'')]) fake3 = ((Inr ''fake-2'', l), g)" using demo_launch by blast
  have pr: "run_state (provision demo_provider demo_bootstrap demo_resolved (demo_identity ''r1'') demo_nonce) (claimed_fake new_fake)
    = ((Inr ''fake-2'', l), g)"
    by (simp add: provision_def Let_def attempt_def no_error_def within_def answer_def demo_volumes demo_ensure_image demo_plan demo_externals demo_credentials la)
  have rep: "\<exists>l. run_state (report_runner_status demo_provider demo_bootstrap ''fake-2'') g = (Some l, g)"
    by (simp add: report_runner_status_def)
  then show ?thesis
    by (auto simp: create_instance_def demo_admit demo_housekeeping [OF b] demo_new_nonce create_with_nonce_def demo_names id
       demo_image_id c Let_def create_claimed_def pr)
qed
end
