(* ===== verification/Provider_Run.thy ===== *)
theory Provider_Run
  imports Demo_Create
begin

text \<open>
  What the commands on one instance and the listing do to the daemon's store: resolving reads and finds
  nothing but this controller's runner of that instance, a delete removes one generation or reports that
  there is none, a list names the managed runners of a pool and keeps what the housekeeping keeps.
\<close>

section \<open>Resolving\<close>

text \<open>What a list of a pool shows, all pools for the empty id.\<close>

definition pool_runner :: "string \<Rightarrow> string \<Rightarrow> labels \<Rightarrow> bool" where
  "pool_runner cid pool l \<longleftrightarrow>
     l LabelManaged = Some ''true'' \<and> l LabelControllerID = Some cid \<and> l LabelRole = Some RoleRunner \<and>
     (pool \<noteq> '''' \<longrightarrow> l LabelPoolID = Some pool)"

text \<open>The runner container of an instance, by its labels.\<close>

definition runner_of :: "string \<Rightarrow> string \<Rightarrow> labels \<Rightarrow> bool" where
  "runner_of cid i l \<longleftrightarrow> is_managed_runner l cid \<and> l LabelInstanceName = Some i"

definition owned_by_instance :: "string \<Rightarrow> string \<Rightarrow> labels \<Rightarrow> bool" where
  "owned_by_instance cid i l \<longleftrightarrow> matches_predicate l cid \<and> l LabelInstanceName = Some i"

lemma runner_owned: "runner_of cid i l \<Longrightarrow> owned_by_instance cid i l"
  by (simp add: runner_of_def owned_by_instance_def is_managed_runner_def)

lemma allocation_owned_all: "allocation_owned cid i None l \<longleftrightarrow> owned_by_instance cid i l"
  by (simp add: allocation_owned_def owned_by_instance_def)

lemma instance_name_filter_terms:
  assumes "pv_controller p \<noteq> ''''"
  shows "list_all (match_term l) (managed_by_instance_name_filter p i) \<and> matches_predicate l (pv_controller p) \<longleftrightarrow>
    owned_by_instance (pv_controller p) i l"
  using assms
  by (auto simp: managed_by_instance_name_filter_def owned_by_instance_def matches_predicate_iff lget_def split: option.splits)

text \<open>An instance that owns nothing has no claim and nothing of any generation.\<close>

lemma is_claim_owned: "is_claim cid i l \<Longrightarrow> owned_by_instance cid i l"
  by (auto simp: is_claim_def owned_by_instance_def matches_predicate_iff lget_def split: option.splits)

lemma no_generation:
  assumes "\<And>r n l. v r = Some (n, l) \<Longrightarrow> \<not> owned_by_instance cid i l"
  shows "generation_at cid i v None" "v = drop_matching (allocation_owned cid i None) v"
proof -
  show "generation_at cid i v None"
    using assms is_claim_owned by (fastforce simp: generation_at_def claimed_def)
  show "v = drop_matching (allocation_owned cid i None) v"
    using assms by (auto simp: drop_matching_def allocation_owned_all fun_eq_iff split: option.splits)
qed

lemma some_generation: "\<exists>gen. generation_at cid i v gen"
proof (cases "claimed cid i v")
  case True
  then obtain k n l where "v (Net k) = Some (n, l)" "is_claim cid i l" by (auto simp: claimed_def)
  then have "generation_at cid i v (Some (lget l LabelCreateNonce))" by (auto simp: generation_at_def)
  then show ?thesis ..
next
  case False
  then have "generation_at cid i v None" by (simp add: generation_at_def)
  then show ?thesis ..
qed

lemma pool_terms:
  "list_all (match_term l) ([label_eq LabelManaged ''true'', label_eq LabelControllerID cid, label_eq LabelRole RoleRunner] @
     (if pool \<noteq> '''' then [label_eq LabelPoolID pool] else [])) \<longleftrightarrow> pool_runner cid pool l"
proof -
  have "LabelPoolID \<in> set all_label_keys" by (simp add: all_label_keys_def)
  then show ?thesis by (simp add: pool_runner_def)
qed

context provider_host begin

lemma run_first_owned:
  assumes "inv s" "run_state (first_owned p cs) s = (r, s')"
    and "\<And>x. x \<in> set cs \<Longrightarrow> labels_of (view s) (Ctr (su_id x)) = Some (su_labels x) \<and> su_labels x LabelInstanceName = Some i"
  shows "inv s' \<and> view s' = view s \<and> (\<forall>e. r = Inl e \<longrightarrow> (\<exists>m e'. e = WrapErr m e')) \<and>
    (\<forall>j. r = Inr (Some j) \<longrightarrow> labels_of (view s) (Ctr (cj_id j)) = Some (json_labels j) \<and>
       runner_of (pv_controller p) i (json_labels j))"
  using assms
proof (induction cs arbitrary: s)
  case (Cons x cs)
  obtain y s1 where y: "run_state (container_inspect c (su_id x)) s = (y, s1)" by fastforce
  have q: "inv s1" "view s1 = view s" using quietD [OF quiet_calls(5) Cons.prems(1) y] by auto
  have x: "labels_of (view s) (Ctr (su_id x)) = Some (su_labels x)" "su_labels x LabelInstanceName = Some i"
    using Cons.prems(3) by auto
  have rest: ?case if "run_state (first_owned p cs) s1 = (r, s')"
    using Cons.IH [OF q(1) that] Cons.prems(3) q(2) by simp
  have found: "labels_of (view s) (Ctr (cj_id j)) = Some (json_labels j) \<and> runner_of (pv_controller p) i (json_labels j)"
    if j: "y = Inr j" "owns_runner p j" for j
  proof -
    have l: "labels_of (view s) (Ctr (cj_id j)) = Some (json_labels j)"
      using inspect_some [OF Cons.prems(1) y [unfolded j(1)]] .
    have "view s (Ctr (su_id x)) \<noteq> None" using x(1) by (auto simp: labels_of_def)
    then have "cj_id j = su_id x" using inspect_id [OF Cons.prems(1) _ y [unfolded j(1)]] by simp
    then have "json_labels j = su_labels x" using l x(1) by simp
    then show ?thesis using l j(2) x(2)
      by (auto simp: runner_of_def owns_runner_def json_labels_def split: option.splits)
  qed
  show ?case
    using Cons.prems(2) y rest found q by (cases y) (auto split: if_splits)
qed auto

lemma run_resolve:
  assumes s: "inv s" and run: "run_state (resolve_instance p i) s = (r, s')"
  shows "inv s' \<and> view s' = view s \<and> (\<forall>e. r = Inl e \<longrightarrow> (\<exists>m e'. e = WrapErr m e')) \<and>
    (\<forall>j. r = Inr (Some j) \<longrightarrow> labels_of (view s) (Ctr (cj_id j)) = Some (json_labels j) \<and>
       runner_of (pv_controller p) i (json_labels j))"
proof -
  let ?fs = "managed_runner_by_instance_name_filter p i"
  obtain y s1 where y: "run_state (container_list c True ?fs) s = (y, s1)" by fastforce
  note l = ctr_list [OF s y]
  show ?thesis
  proof (cases y)
    case (Inl e)
    then show ?thesis using run y l by (auto simp: resolve_instance_def resolve_by_owned_label_def)
  next
    case (Inr xs)
    have "labels_of (view s) (Ctr (su_id x)) = Some (su_labels x) \<and> su_labels x LabelInstanceName = Some i" if "x \<in> set xs" for x
      using lists_matchingD [OF _ that, of Ctr su_id su_labels ?fs "view s"] l Inr
      by (simp add: managed_runner_by_instance_name_filter_def managed_by_instance_name_filter_def)
    moreover have "run_state (first_owned p xs) s1 = (r, s')"
      using run y Inr by (simp add: resolve_instance_def resolve_by_owned_label_def)
    ultimately show ?thesis using run_first_owned [of s1 xs r s' i] l by simp
  qed
qed

lemma run_get:
  assumes s: "inv s" and run: "run_state (get_instance p i) s = (r, s')"
  shows "inv s' \<and> view s' = view s \<and>
    (\<forall>pi. r = Inr pi \<longrightarrow> (\<exists>j. pi = to_provider_instance j \<and> labels_of (view s) (Ctr (cj_id j)) = Some (json_labels j) \<and>
       runner_of (pv_controller p) i (json_labels j)))"
proof -
  obtain y where y: "run_state (resolve_instance p i) s = (y, s')"
    using run by (auto simp: get_instance_def split: prod.splits)
  then show ?thesis using run_resolve [OF s y] run
    by (auto simp: get_instance_def split: sum.splits option.splits)
qed

text \<open>Without a runner the name is kept only when something of the instance is left.\<close>

lemma listed_owned:
  assumes "lists_matching K idf labf (managed_by_instance_name_filter p i) v xs"
  shows "list_ex (\<lambda>x. matches_predicate (labf x) (pv_controller p)) xs \<longleftrightarrow>
    (\<exists>q n l. v (K q) = Some (n, l) \<and> owned_by_instance (pv_controller p) i l)"
proof
  assume "list_ex (\<lambda>x. matches_predicate (labf x) (pv_controller p)) xs"
  then obtain x where x: "x \<in> set xs" "matches_predicate (labf x) (pv_controller p)" by (auto simp: list_ex_iff)
  then show "\<exists>q n l. v (K q) = Some (n, l) \<and> owned_by_instance (pv_controller p) i l"
    using lists_matchingD [OF assms x(1)] instance_name_filter_terms [OF controller, of "labf x" i]
    by (auto simp: labels_of_def split: option.splits)
next
  assume "\<exists>q n l. v (K q) = Some (n, l) \<and> owned_by_instance (pv_controller p) i l"
  then obtain q n l where q: "v (K q) = Some (n, l)" "owned_by_instance (pv_controller p) i l" by blast
  then have f: "list_all (match_term l) (managed_by_instance_name_filter p i)" "matches_predicate l (pv_controller p)"
    using instance_name_filter_terms [OF controller, of l i] by auto
  have "labels_of v (K q) = Some l" using q by (simp add: labels_of_def)
  then obtain x where "x \<in> set xs" "idf x = q" "labf x = l" using lists_matchingE [OF assms _ f(1)] by blast
  then show "list_ex (\<lambda>x. matches_predicate (labf x) (pv_controller p)) xs" using f(2) by (auto simp: list_ex_iff)
qed

lemma run_lingering:
  assumes s: "inv s" and run: "run_state (has_managed_allocation_resources p i) s = (r, s')"
  shows "inv s' \<and> view s' = view s \<and> (\<forall>e. r = Inl e \<longrightarrow> (\<exists>m e'. e = WrapErr m e')) \<and>
    (\<forall>b. r = Inr b \<longrightarrow> (b \<longleftrightarrow> (\<exists>q n l. view s q = Some (n, l) \<and> owned_by_instance (pv_controller p) i l)))"
proof -
  let ?fs = "managed_by_instance_name_filter p i" and ?cid = "pv_controller p"
  let ?own = "\<lambda>K. \<exists>q n l. view s (K q) = Some (n, l) \<and> owned_by_instance ?cid i l"
  have all: "(\<exists>q n l. view s q = Some (n, l) \<and> owned_by_instance ?cid i l) \<longleftrightarrow> ?own Ctr \<or> ?own Net \<or> ?own Vol"
    by (metis rid.exhaust)
  obtain rc s1 where rc: "run_state (container_list c True ?fs) s = (rc, s1)" by fastforce
  obtain rn s2 where rn: "run_state (network_list c ?fs) s1 = (rn, s2)" by fastforce
  obtain rv s3 where rv: "run_state (volume_list c ?fs) s2 = (rv, s3)" by fastforce
  note l1 = ctr_list [OF s rc]
  note l2 = net_list [OF conjunct1 [OF l1] rn]
  note l3 = vol_list [OF conjunct1 [OF l2] rv]
  note run' = run [unfolded has_managed_allocation_resources_def cli Let_def]
  show ?thesis
  proof (cases rc)
    case (Inl e)
    then show ?thesis using run' rc l1 by auto
  next
    case (Inr xs)
    have o1: "list_ex (\<lambda>x. matches_predicate (su_labels x) ?cid) xs \<longleftrightarrow> ?own Ctr" using l1 Inr by (intro listed_owned) auto
    show ?thesis
    proof (cases "?own Ctr")
      case True
      then show ?thesis using run' rc Inr o1 l1 all by auto
    next
      case no1: False
      show ?thesis
      proof (cases rn)
        case (Inl e)
        then show ?thesis using run' rc \<open>rc = Inr xs\<close> rn o1 no1 l1 l2 by auto
      next
        case net: (Inr ns)
        have o2: "list_ex (\<lambda>x. matches_predicate (ns_labels x) ?cid) ns \<longleftrightarrow> ?own Net"
          using l1 l2 net by (intro listed_owned) auto
        have o3: "list_ex (\<lambda>x. matches_predicate (vol_labels x) ?cid) (List.map_filter id vs) \<longleftrightarrow> ?own Vol" if "rv = Inr vs" for vs
          using l1 l2 l3 that by (intro listed_owned) auto
        show ?thesis
        proof (cases "?own Net")
          case True
          then show ?thesis using run' rc Inr rn net o1 no1 o2 l1 l2 all by auto
        next
          case False
          then have "\<not> list_ex (\<lambda>x. matches_predicate (ns_labels x) ?cid) ns" using o2 by simp
          then have "s' = s3 \<and> r = (case rv of Inl e \<Rightarrow> Inl (WrapErr (''failed to list volumes for '' @ quoted i) e)
             | Inr vols \<Rightarrow> Inr (list_ex (\<lambda>v. matches_predicate (vol_labels v) ?cid) (List.map_filter id vols)))"
            using run' rc Inr rn net rv o1 no1 by (simp split del: if_split)
          then show ?thesis using o3 l1 l2 l3 all no1 False by (cases rv) simp_all
        qed
      qed
    qed
  qed
qed

lemma run_delete_name:
  assumes s: "inv s" and run: "run_state (resolve_instance_name p i) s = (r, s')" and i: "i \<noteq> ''''"
  shows "inv s' \<and> view s' = view s \<and> (\<forall>e. r = Inl e \<longrightarrow> (\<exists>m e'. e = WrapErr m e')) \<and>
    (\<forall>n. r = Inr (Some n) \<longrightarrow> n = i \<and> (\<exists>q m l. view s q = Some (m, l) \<and> owned_by_instance (pv_controller p) i l)) \<and>
    (r = Inr None \<longrightarrow> (\<forall>q m l. view s q = Some (m, l) \<longrightarrow> \<not> owned_by_instance (pv_controller p) i l))"
proof -
  obtain y s1 where y: "run_state (resolve_instance p i) s = (y, s1)" by fastforce
  note f = run_resolve [OF s y]
  show ?thesis
  proof (cases y)
    case (Inl e)
    then show ?thesis using run y f by (auto simp: resolve_instance_name_def)
  next
    case (Inr oc)
    show ?thesis
    proof (cases oc)
      case None
      obtain z where z: "run_state (has_managed_allocation_resources p i) s1 = (z, s')" using run y Inr None
        by (auto simp: resolve_instance_name_def split: prod.splits)
      have r: "r = (case z of Inl e \<Rightarrow> Inl e | Inr lingering \<Rightarrow> Inr (if lingering then Some i else None))"
        using run y Inr None z by (simp add: resolve_instance_name_def)
      note l = run_lingering [OF _ z]
      show ?thesis using l f r by (cases z) auto
    next
      case (Some j)
      have j: "labels_of (view s) (Ctr (cj_id j)) = Some (json_labels j)" "runner_of (pv_controller p) i (json_labels j)"
        using f Inr Some by auto
      have "lget (json_labels j) LabelInstanceName = i" using j(2) by (simp add: runner_of_def lget_def)
      then have "r = Inr (Some i)" "s' = s1"
        using run y Inr Some i by (auto simp: resolve_instance_name_def json_labels_def Let_def split: option.splits)
      moreover have "\<exists>q m l. view s q = Some (m, l) \<and> owned_by_instance (pv_controller p) i l"
        using j(1) runner_owned [OF j(2)] by (fastforce simp: labels_of_def split: option.splits)
      ultimately show ?thesis using f by simp
    qed
  qed
qed

text \<open>A delete: one generation, all of it unless an error is returned, and not-found exactly when there is nothing.\<close>

lemma run_delete:
  assumes s: "inv s" and run: "run_state (delete_instance p i) s = ((e, logs), s')" and i: "i \<noteq> ''''"
  shows "inv s' \<and>
    (\<exists>gen. generation_at (pv_controller p) i (view s) gen \<and>
       removes (\<lambda>r n l. allocation_owned (pv_controller p) i gen l) (view s) (view s') \<and>
       (e = None \<longrightarrow> view s' = drop_matching (allocation_owned (pv_controller p) i gen) (view s))) \<and>
    (e = None \<longrightarrow> (\<exists>r n l. view s r = Some (n, l) \<and> owned_by_instance (pv_controller p) i l)) \<and>
    (e = Some (not_found_error i) \<longrightarrow>
       view s' = view s \<and> (\<forall>r n l. view s r = Some (n, l) \<longrightarrow> \<not> owned_by_instance (pv_controller p) i l))"
proof -
  let ?cid = "pv_controller p"
  obtain y s1 where y: "run_state (resolve_instance_name p i) s = (y, s1)" by fastforce
  note f = run_delete_name [OF s y i]
  have gen: "\<exists>gen. generation_at ?cid i (view s) gen" by (rule some_generation)
  show ?thesis
  proof (cases y)
    case (Inl e')
    then show ?thesis using run y f gen by (auto simp: delete_instance_def not_found_error_def)
  next
    case (Inr on)
    show ?thesis
    proof (cases on)
      case None
      then have n: "\<And>r n l. view s r = Some (n, l) \<Longrightarrow> \<not> owned_by_instance ?cid i l" using f Inr by blast
      have g: "generation_at ?cid i (view s) None" "view s = drop_matching (allocation_owned ?cid i None) (view s)"
        using no_generation [OF n] by auto
      have "e = Some (not_found_error i)" "s' = s1" using run y Inr None by (simp_all add: delete_instance_def)
      then show ?thesis using f g n by auto
    next
      case (Some n)
      have n: "n = i" "\<exists>q m l. view s q = Some (m, l) \<and> owned_by_instance ?cid i l" using f Inr Some by auto
      obtain torn te tl where t: "run_state (teardown_allocation_reporting_io (pv_topo p) i) s1 = ((torn, te, tl), s')"
        using run y Inr Some n(1) by (auto simp: delete_instance_def split: prod.splits)
      have e: "e = (case te of Some err \<Rightarrow> Some (WrapErr (''failed to delete instance '' @ quoted i) err)
         | None \<Rightarrow> if torn then None else Some (not_found_error i))"
        using run y Inr Some n(1) t by (auto simp: delete_instance_def split: option.splits)
      have "inv s1" "view s1 = view s" using f by auto
      note g = run_teardown_generation [OF cli(2) _ this(1) i t [unfolded teardown_allocation_reporting_io_def], unfolded this(2) cli,
          OF controller]
      then obtain gen where g: "inv s'" "generation_at ?cid i (view s) gen"
        "removes (\<lambda>r n l. allocation_owned ?cid i gen l) (view s) (view s')"
        "te = None \<Longrightarrow> view s' = drop_matching (allocation_owned ?cid i gen) (view s) \<and>
         (torn \<longleftrightarrow> (\<exists>r n l. view s r = Some (n, l) \<and> allocation_owned ?cid i gen l))" by blast
      have some: "\<exists>r n l. view s r = Some (n, l) \<and> allocation_owned ?cid i gen l"
      proof (cases gen)
        case None
        then show ?thesis using n(2) by (simp add: allocation_owned_all)
      next
        case (Some x)
        then obtain k m l where k: "view s (Net k) = Some (m, l)" "is_claim ?cid i l" "lget l LabelCreateNonce = x"
          using g(2) by (auto simp: generation_at_def)
        then have "allocation_owned ?cid i gen l"
          using Some is_claim_owned [OF k(2)] by (simp add: allocation_owned_def owned_by_instance_def)
        then show ?thesis using k(1) by blast
      qed
      have "e \<noteq> Some (not_found_error i)" using e g(4) some by (auto simp: not_found_error_def split: option.splits)
      moreover have "e = None \<Longrightarrow> te = None" using e by (auto split: option.splits)
      ultimately show ?thesis using g(1-3) conjunct1 [OF g(4)] n(2) by (intro conjI exI [of _ gen] impI) simp_all
    qed
  qed
qed

lemma framed_sweep_throttled:
  "framed inv view (never_removed (pv_controller p)) (left_over (pv_controller p)) (sweep_throttled p)"
proof -
  have "framed inv view (never_removed (pv_controller p)) (left_over (pv_controller p)) (claim_round p (orphan_sweep_stamp p))"
    by (rule framed_mono [OF framed_claim_round]) (auto simp: orphan_sweep_stamp_def left_over_def dest: never_removed_facts)
  then show ?thesis unfolding sweep_throttled_def by (intro frame framed_sweep)
qed

text \<open>A list: the managed runners of the pool, after the housekeeping.\<close>

lemma run_list:
  assumes s: "inv s" and run: "run_state (list_instances p pool) s = ((r, logs), s')"
  shows "inv s' \<and> changes (never_removed (pv_controller p)) (left_over (pv_controller p)) (view s) (view s') \<and>
    (\<forall>insts. r = Inr insts \<longrightarrow> (\<exists>cs. insts = map to_provider_instance_from_summary cs \<and> distinct (map su_id cs) \<and>
       (\<forall>i l. (\<exists>x\<in>set cs. su_id x = i \<and> su_labels x = l) \<longleftrightarrow>
          labels_of (view s') (Ctr i) = Some l \<and> pool_runner (pv_controller p) pool l)))"
proof -
  let ?cid = "pv_controller p"
  let ?fs = "[label_eq LabelManaged ''true'', label_eq LabelControllerID ?cid, label_eq LabelRole RoleRunner] @
     (if pool \<noteq> '''' then [label_eq LabelPoolID pool] else [])"
  obtain l1 s1 where 1: "run_state (sweep_throttled p) s = (l1, s1)" by fastforce
  obtain l2 s2 where 2: "run_state (run_cache_gc_throttled p) s1 = (l2, s2)" by fastforce
  obtain y s3 where y: "run_state (container_list c True ?fs) s2 = (y, s3)" by fastforce
  have r: "r = (case y of Inl e \<Rightarrow> Inl (WrapErr ''failed to list instances'' e)
      | Inr cs \<Rightarrow> Inr (map to_provider_instance_from_summary cs))" "s' = s3"
    using run 1 2 y by (simp_all add: list_instances_def)
  have f1: "inv s1 \<and> changes (never_removed ?cid) (left_over ?cid) (view s) (view s1)"
    using framedD [OF framed_sweep_throttled s 1] .
  have f2: "inv s2 \<and> changes (never_removed ?cid) (left_over ?cid) (view s1) (view s2)"
    by (rule framedD [OF framed_gc conjunct1 [OF f1] 2])
  note l = ctr_list [OF conjunct1 [OF f2] y]
  have fs: "list_all (match_term lb) ?fs \<longleftrightarrow> pool_runner ?cid pool lb" for lb by (rule pool_terms)
  have "\<exists>cs. insts = map to_provider_instance_from_summary cs \<and> distinct (map su_id cs) \<and>
       (\<forall>i l. (\<exists>x\<in>set cs. su_id x = i \<and> su_labels x = l) \<longleftrightarrow>
          labels_of (view s') (Ctr i) = Some l \<and> pool_runner ?cid pool l)" if ri: "r = Inr insts" for insts
  proof -
    obtain cs where cs: "y = Inr cs" "insts = map to_provider_instance_from_summary cs"
      using ri r by (cases y) auto
    have "lists_matching Ctr su_id su_labels ?fs (view s2) cs"
      by (rule mp [OF spec [OF conjunct2 [OF conjunct2 [OF l]], of cs] cs(1)])
    moreover have "view s' = view s2" using conjunct1 [OF conjunct2 [OF l]] r(2) by simp
    ultimately have lm: "lists_matching Ctr su_id su_labels ?fs (view s2) cs" "view s' = view s2" by blast+
    then have d: "distinct (map su_id cs)" by (simp add: lists_matching_def)
    have "(\<exists>x\<in>set cs. su_id x = i \<and> su_labels x = lb) \<longleftrightarrow>
          labels_of (view s') (Ctr i) = Some lb \<and> pool_runner ?cid pool lb" for i lb
      using lm(1) unfolding lists_matching_def lm(2) fs by blast
    then show ?thesis using cs d by blast
  qed
  moreover have "inv s' \<and> view s' = view s2" using conjunct1 [OF l] conjunct1 [OF conjunct2 [OF l]] r(2) by simp
  moreover have "changes (never_removed ?cid) (left_over ?cid) (view s) (view s2)"
    by (rule changes_trans [OF conjunct2 [OF f1] conjunct2 [OF f2]])
  ultimately show ?thesis by simp
qed

end

end
