(* ===== verification/Create_Props.thy ===== *)
theory Create_Props
  imports Provider_Run
begin

text \<open>
  The properties of the provider's commands, for every daemon that meets \<open>docker_named\<close> and every
  provider that \<open>new_provider\<close> builds on it (\<open>provider_host\<close>), each with a run on the fake daemon.
\<close>

section \<open>Create\<close>





text \<open>
  C2: A create that succeeds reports a running instance of the request, and one nonce binds what it made:
  the claim network of the instance, the runner container under the instance's name with the pool,
  platform and role labels, and the workspace volume are all on the daemon with that nonce.
\<close>

theorem create_success_complete:
  assumes "provider_host c Inv view p" "Inv s"
    and "run_state (create_instance p b extra) s = (Some (Inr inst, logs), s')"
    and "ident = \<lparr>id_controller = pv_controller p, id_pool = bs_pool_id b, id_instance = bs_name b\<rparr>"
  shows "inst = running_instance b \<and>
    (\<exists>nonce net rid t t'.
       view s' (Net net) = Some (job_network_name (bs_name b), claim_labels ident nonce t) \<and>
       view s' (Ctr rid) = Some (runner_container_name (bs_name b), runner_labels b ident nonce t') \<and>
       (\<exists>n lb. view s' (Vol (workspace_volume_name (bs_name b) nonce)) = Some (n, lb) \<and> lget lb LabelCreateNonce = nonce))"
  using provider_host.run_create_succeeded [OF assms(1-3)] assms(4) by simp

lemma new_fake_inv: "fake_inv new_fake"
  by (simp add: fake_inv_def fake_faults_ok_def)

theorem create_success_complete_witness:
  "\<exists>logs s' net rid l l'. run_state (create_instance demo_provider demo_bootstrap JNull) new_fake =
       (Some (Inr (running_instance demo_bootstrap), logs), s') \<and>
     fake_view s' (Net net) = Some (job_network_name ''r1'', l) \<and>
     fake_view s' (Ctr rid) = Some (runner_container_name ''r1'', l')"
proof -
  obtain logs s' where run: "run_state (create_instance demo_provider demo_bootstrap JNull) new_fake =
       (Some (Inr (running_instance demo_bootstrap), logs), s')" using demo_create_succeeds by blast
  from create_success_complete [OF demo_provider_host new_fake_inv run refl] show ?thesis
    unfolding demo_bootstrap_simps using run by blast
qed

section \<open>Delete, get and list\<close>

text \<open>
  C4: A delete tears down one generation of the instance, the one its claim names or every one when there
  is no claim, and nothing else. Without an error all of it is gone and there was something to remove.
  The not-found error, which makes GARM forget the instance, is returned only when this controller has no
  container, network or volume of the instance left, and then nothing was touched.
\<close>

theorem delete_outcomes:
  assumes "provider_host c Inv view p" "Inv s" "i \<noteq> ''''"
    and "run_state (delete_instance p i) s = ((e, logs), s')"
  shows "Inv s' \<and>
    (\<exists>gen. generation_at (pv_controller p) i (view s) gen \<and>
       removes (\<lambda>r n l. allocation_owned (pv_controller p) i gen l) (view s) (view s') \<and>
       (e = None \<longrightarrow> view s' = drop_matching (allocation_owned (pv_controller p) i gen) (view s))) \<and>
    (e = None \<longrightarrow> (\<exists>r n l. view s r = Some (n, l) \<and> owned_by_instance (pv_controller p) i l)) \<and>
    (e = Some (not_found_error i) \<longrightarrow>
       view s' = view s \<and> (\<forall>r n l. view s r = Some (n, l) \<longrightarrow> \<not> owned_by_instance (pv_controller p) i l))"
  by (rule provider_host.run_delete [OF assms(1,2,4,3)])

theorem delete_outcomes_witness:
  "run_state (delete_instance demo_provider ''r9'') demo_fake = ((Some (not_found_error ''r9''), []), demo_fake) \<and>
   \<not> (\<exists>r n l. fake_view demo_fake r = Some (n, l) \<and> owned_by_instance ''ctl'' ''r9'' l)"
proof -
  have run: "run_state (delete_instance demo_provider ''r9'') demo_fake = ((Some (not_found_error ''r9''), []), demo_fake)"
    by (simp add: run_eval lget_def demo_fake_def delete_instance_def resolve_instance_name_def resolve_instance_def
        resolve_by_owned_label_def has_managed_allocation_resources_def managed_runner_by_instance_name_filter_def
        managed_by_instance_name_filter_def)
  then show ?thesis using delete_outcomes [OF demo_provider_host demo_fake_inv _ run] by simp
qed

text \<open>
  C5: A get reads: it changes nothing, and what it returns describes a container on the daemon that is
  this controller's managed runner of that very instance, so its name is the instance's.
\<close>

theorem get_owned:
  assumes "provider_host c Inv view p" "Inv s" "i \<noteq> ''''"
    and "run_state (get_instance p i) s = (r, s')"
  shows "Inv s' \<and> view s' = view s \<and>
    (\<forall>pi. r = Inr pi \<longrightarrow> pi_name pi = i \<and>
       (\<exists>j. pi = to_provider_instance j \<and> labels_of (view s) (Ctr (cj_id j)) = Some (json_labels j) \<and>
            runner_of (pv_controller p) i (json_labels j)))"
proof -
  have "pi_name (to_provider_instance j) = i" if "runner_of (pv_controller p) i (json_labels j)" for j
    using that assms(3) by (auto simp: to_provider_instance_def runner_of_def json_labels_def lget_def Let_def split: option.splits)
  then show ?thesis using provider_host.run_get [OF assms(1,2,4)] by blast
qed

theorem get_owned_witness:
  "\<exists>r s'. run_state (get_instance demo_provider ''r1'') demo_fake = (r, s') \<and> fake_view s' = fake_view demo_fake"
proof -
  obtain r s' where run: "run_state (get_instance demo_provider ''r1'') demo_fake = (r, s')" by fastforce
  then show ?thesis using get_owned [OF demo_provider_host demo_fake_inv _ run] by auto
qed

text \<open>
  C6: A list of a pool shows each managed runner container of this controller and pool exactly once, as
  the daemon has it after the housekeeping of the call, and nothing else; the housekeeping keeps every
  cache volume and everything of other controllers.
\<close>

theorem list_exact:
  assumes "provider_host c Inv view p" "Inv s"
    and "run_state (list_instances p pool) s = ((r, logs), s')"
  shows "Inv s' \<and> changes (never_removed (pv_controller p)) (left_over (pv_controller p)) (view s) (view s') \<and>
    (\<forall>insts. r = Inr insts \<longrightarrow> (\<exists>cs. insts = map to_provider_instance_from_summary cs \<and> distinct (map su_id cs) \<and>
       (\<forall>i l. (\<exists>x\<in>set cs. su_id x = i \<and> su_labels x = l) \<longleftrightarrow>
          labels_of (view s') (Ctr i) = Some l \<and> pool_runner (pv_controller p) pool l)))"
  by (rule provider_host.run_list [OF assms])

theorem list_exact_witness:
  "\<exists>r logs s'. run_state (list_instances demo_provider ''pool'') demo_fake = ((r, logs), s') \<and>
     changes (never_removed ''ctl'') (left_over ''ctl'') (fake_view demo_fake) (fake_view s')"
proof -
  obtain r logs s' where run: "run_state (list_instances demo_provider ''pool'') demo_fake = ((r, logs), s')"
    by (metis surj_pair)
  then show ?thesis using list_exact [OF demo_provider_host demo_fake_inv run] by auto
qed

section \<open>Housekeeping\<close>

text \<open>
  C7: The throttled cache garbage collection never takes anything of a job or a cache: whatever it
  removes or replaces is a helper container or stamp of this controller without an instance name, and
  what it adds is such a container, or an unlabelled volume a helper mounts.
\<close>

theorem gc_spares_jobs:
  assumes "provider_host c Inv view p" "Inv s"
    and "run_state (run_cache_gc_throttled p) s = (logs, s')"
  shows "Inv s' \<and>
    (\<forall>r n l. view s r = Some (n, l) \<longrightarrow> not_housekeeping (pv_controller p) r l \<longrightarrow> view s' r = Some (n, l)) \<and>
    (\<forall>r n l. view s' r = Some (n, l) \<longrightarrow> view s r = Some (n, l) \<or> gc_added (pv_controller p) r l)"
  using framedD [OF provider_host.framed_gc_throttled [OF assms(1)] assms(2,3)] unfolding changes_def .

theorem gc_spares_jobs_witness:
  "fake_view (snd (run_state (run_cache_gc_throttled demo_provider) demo_fake)) (Vol ''v1'') =
     Some (''v1'', demo_labels ''r1'' ''n1'')"
proof -
  have v: "fake_view demo_fake (Vol ''v1'') = Some (''v1'', demo_labels ''r1'' ''n1'')"
    by (simp add: fake_view_def demo_fake_def)
  have "not_housekeeping ''ctl'' (Vol ''v1'') l" for l by (simp add: not_housekeeping_def)
  then show ?thesis
    using gc_spares_jobs [OF demo_provider_host demo_fake_inv, of "fst (run_state (run_cache_gc_throttled demo_provider) demo_fake)"
        "snd (run_state (run_cache_gc_throttled demo_provider) demo_fake)"] v
    by simp
qed

end
