(* ===== verification/Log_File.thy ===== *)
theory Log_File
  imports Status_Watch
begin

text \<open>
  The log file, from \<open>internal/logging/file.go\<close> and the constructors of \<open>logging.go\<close>: a sink that
  appends every record to a file, warns once on standard error when that fails and drops the file. What
  the operating system answers is the record \<open>log_os\<close>; \<open>lo_format\<close> is slog's text handler. The sink's
  mutex makes its methods atomic, as they are here.
\<close>

section \<open>Loggers\<close>

record 's log_os =
  lo_getenv :: "string \<Rightarrow> string"
  lo_format :: "log_line \<Rightarrow> string"
  lo_stderr :: "string \<Rightarrow> ('s, nat \<times> gerr option) state"
  lo_open :: "string \<Rightarrow> nat \<Rightarrow> ('s, string res) state"
  lo_write :: "string \<Rightarrow> string \<Rightarrow> ('s, gerr option) state"
  lo_close :: "string \<Rightarrow> ('s, gerr option) state"

definition level_env_var :: string where "level_env_var = ''GARM_PROVIDER_DOCKER_LOG_LEVEL''"

definition level_from_env :: "'s log_os \<Rightarrow> string" where
  "level_from_env os = parse_level (lo_getenv os level_env_var)"

text \<open>The order of slog's levels, by the names \<open>parse_level\<close> answers.\<close>

fun level_rank :: "level \<Rightarrow> nat" where
  "level_rank Debug = 0"
| "level_rank Info = 1"
| "level_rank Warn = 2"
| "level_rank Error = 3"

definition min_rank :: "string \<Rightarrow> nat" where
  "min_rank l = (if l = ''DEBUG'' then 0 else if l = ''WARN'' then 2 else if l = ''ERROR'' then 3 else 1)"

definition log_enabled :: "string \<Rightarrow> log_line \<Rightarrow> bool" where
  "log_enabled lev l \<longleftrightarrow> min_rank lev \<le> level_rank (ll_level l)"

text \<open>A record to the logger of \<open>NewAt\<close>; slog drops what the write answers.\<close>

definition log_stderr :: "'s log_os \<Rightarrow> string \<Rightarrow> log_line \<Rightarrow> ('s, unit) state" where
  "log_stderr os lev l =
     (if log_enabled lev l then do {
        r \<leftarrow> lo_stderr os (lo_format os l);
        ret ()
      } else ret ())"

section \<open>The sink\<close>

text \<open>\<open>fs_file\<close> is None once the file is closed.\<close>

record file_sink =
  fs_file :: "string option"
  fs_path :: string
  fs_warn_level :: string
  fs_failed :: bool

definition log_file_mode :: nat where "log_file_mode = 6 * 64 + 4 * 8"

definition open_log_file :: "'s log_os \<Rightarrow> string \<Rightarrow> ('s, string res) state" where
  "open_log_file os path =
     (if \<not> has_prefix path ''/'' then ret (Inl (PlainErr ''path must be absolute''))
      else lo_open os path log_file_mode)"

definition write_failed_line :: "string \<Rightarrow> gerr \<Rightarrow> log_line" where
  "write_failed_line path e =
     \<lparr>ll_level = Warn, ll_msg = ''logging: writing the log file failed; continuing with stderr only'',
      ll_attrs = [(''file'', AStr path), (''error'', AStr (err_text e))]\<rparr>"

definition sink_write :: "'s log_os \<Rightarrow> file_sink \<Rightarrow> string \<Rightarrow> ('s, (nat \<times> gerr option) \<times> file_sink) state" where
  "sink_write os fs p =
     (case fs_file fs of
        None \<Rightarrow> ret ((length p, None), fs)
      | Some f \<Rightarrow>
          if fs_failed fs then ret ((length p, None), fs)
          else do {
            e \<leftarrow> lo_write os f p;
            case e of
              None \<Rightarrow> ret ((length p, None), fs)
            | Some err \<Rightarrow> do {
                u \<leftarrow> log_stderr os (fs_warn_level fs) (write_failed_line (fs_path fs) err);
                ret ((length p, None), fs\<lparr>fs_failed := True\<rparr>)
              }
          })"

definition sink_close :: "'s log_os \<Rightarrow> file_sink \<Rightarrow> ('s, gerr option \<times> file_sink) state" where
  "sink_close os fs =
     (case fs_file fs of
        None \<Rightarrow> ret (None, fs)
      | Some f \<Rightarrow> do {
          e \<leftarrow> lo_close os f;
          ret (e, fs\<lparr>fs_file := None\<rparr>)
        })"

text \<open>\<open>teeWriter.Write\<close> on standard error and the sink.\<close>

definition tee_write :: "'s log_os \<Rightarrow> file_sink \<Rightarrow> string \<Rightarrow> ('s, (nat \<times> gerr option) \<times> file_sink) state" where
  "tee_write os fs p = do {
     r \<leftarrow> lo_stderr os p;
     (ignored, fs') \<leftarrow> sink_write os fs p;
     ret (r, fs')
   }"

text \<open>A logger without a sink is the one of \<open>NewAt\<close>; its closer does nothing.\<close>

record logger =
  lg_level :: string
  lg_sink :: "file_sink option"

definition new_with_file_at :: "'s log_os \<Rightarrow> string \<Rightarrow> string \<Rightarrow> ('s, logger) state" where
  "new_with_file_at os path lev = do {
     r \<leftarrow> open_log_file os path;
     case r of
       Inl e \<Rightarrow> do {
         u \<leftarrow> log_stderr os lev
           \<lparr>ll_level = Warn, ll_msg = ''logging: cannot open the log file; continuing with stderr only'',
            ll_attrs = [(''file'', AStr path), (''error'', AStr (err_text e))]\<rparr>;
         ret \<lparr>lg_level = lev, lg_sink = None\<rparr>
       }
     | Inr f \<Rightarrow>
         ret \<lparr>lg_level = lev,
              lg_sink = Some \<lparr>fs_file = Some f, fs_path = path, fs_warn_level = lev, fs_failed = False\<rparr>\<rparr>
   }"

definition new_with_file :: "'s log_os \<Rightarrow> string \<Rightarrow> ('s, logger) state" where
  "new_with_file os path = new_with_file_at os path (level_from_env os)"

definition new_logger :: "'s log_os \<Rightarrow> logger" where
  "new_logger os = \<lparr>lg_level = level_from_env os, lg_sink = None\<rparr>"

text \<open>One record through a logger.\<close>

definition log_record :: "'s log_os \<Rightarrow> logger \<Rightarrow> log_line \<Rightarrow> ('s, logger) state" where
  "log_record os lg l =
     (case lg_sink lg of
        None \<Rightarrow> do { u \<leftarrow> log_stderr os (lg_level lg) l; ret lg }
      | Some fs \<Rightarrow>
          if log_enabled (lg_level lg) l then do {
            (r, fs') \<leftarrow> tee_write os fs (lo_format os l);
            ret (lg\<lparr>lg_sink := Some fs'\<rparr>)
          } else ret lg)"

section \<open>What the sink promises\<close>

text \<open>Successive writes of records to the sink, with what each answered.\<close>

fun sink_writes :: "'s log_os \<Rightarrow> file_sink \<Rightarrow> string list \<Rightarrow> ('s, (nat \<times> gerr option) list \<times> file_sink) state" where
  "sink_writes os fs [] = ret ([], fs)"
| "sink_writes os fs (p # ps) = do {
     (r, fs1) \<leftarrow> sink_write os fs p;
     (rs, fs2) \<leftarrow> sink_writes os fs1 ps;
     ret (r # rs, fs2)
   }"

text \<open>The plain appends to a file, as long as all of them succeed.\<close>

fun append_all :: "'s log_os \<Rightarrow> string \<Rightarrow> string list \<Rightarrow> 's \<Rightarrow> 's option" where
  "append_all os f [] s = Some s"
| "append_all os f (p # ps) s =
     (case run_state (lo_write os f p) s of (None, s1) \<Rightarrow> append_all os f ps s1 | (Some e, s1) \<Rightarrow> None)"

lemma sink_writes_dropped:
  assumes "fs_file fs = None \<or> fs_failed fs"
  shows "run_state (sink_writes os fs ps) s = ((map (\<lambda>p. (length p, None)) ps, fs), s)"
proof -
  have w: "sink_write os fs p = ret ((length p, None), fs)" for p
    using assms by (auto simp: sink_write_def split: option.splits)
  show ?thesis by (induction ps arbitrary: s) (simp_all add: w)
qed

text \<open>
  C25: A log file can never fail the call. Every write to the sink answers success. The records reach the
  file one by one, in order, up to the first write the system refuses; that refusal is reported once on
  standard error, and from then on the file is not touched again.
\<close>

theorem log_file_never_fails:
  assumes "fs_file fs = Some f" "\<not> fs_failed fs"
    and "run_state (sink_writes os fs ps) s = ((rs, fs'), s')"
  shows "rs = map (\<lambda>p. (length p, None)) ps \<and>
    ((append_all os f ps s = Some s' \<and> fs' = fs) \<or>
     (\<exists>written p rest s1 e s2. ps = written @ p # rest \<and> append_all os f written s = Some s1 \<and>
        run_state (lo_write os f p) s1 = (Some e, s2) \<and> fs' = fs\<lparr>fs_failed := True\<rparr> \<and>
        s' = snd (run_state (log_stderr os (fs_warn_level fs) (write_failed_line (fs_path fs) e)) s2)))"
  using assms(3)
proof (induction ps arbitrary: s rs)
  case (Cons p ps)
  obtain e s1 where w: "run_state (lo_write os f p) s = (e, s1)" by fastforce
  show ?case
  proof (cases e)
    case None
    have sw: "run_state (sink_write os fs p) s = (((length p, None), fs), s1)"
      using assms(1,2) w None by (simp add: sink_write_def)
    obtain rs1 where r: "run_state (sink_writes os fs ps) s1 = ((rs1, fs'), s')" "rs = (length p, None) # rs1"
      using Cons.prems sw by (auto split: prod.splits)
    note ih = Cons.IH [OF r(1)]
    have app: "append_all os f (p # written) s = append_all os f written s1" for written using w None by simp
    from ih show ?thesis
    proof (elim conjE disjE exE)
      assume "rs1 = map (\<lambda>p. (length p, None)) ps" "append_all os f ps s1 = Some s'" "fs' = fs"
      then show ?thesis using r(2) app by simp
    next
      fix written q rest t err t2
      assume "rs1 = map (\<lambda>p. (length p, None)) ps" and a: "ps = written @ q # rest" "append_all os f written s1 = Some t"
        "run_state (lo_write os f q) t = (Some err, t2)" "fs' = fs\<lparr>fs_failed := True\<rparr>"
        "s' = snd (run_state (log_stderr os (fs_warn_level fs) (write_failed_line (fs_path fs) err)) t2)"
      moreover have "p # ps = (p # written) @ q # rest" using a(1) by simp
      moreover have "append_all os f (p # written) s = Some t" using app a(2) by simp
      ultimately show ?thesis using r(2)
        by (intro conjI disjI2) (simp, rule exI [of _ "p # written"], rule exI [of _ q], rule exI [of _ rest],
          rule exI [of _ t], rule exI [of _ err], rule exI [of _ t2], simp)
    qed
  next
    case (Some err)
    obtain s2 where l: "run_state (log_stderr os (fs_warn_level fs) (write_failed_line (fs_path fs) err)) s1 = ((), s2)"
      by (metis old.unit.exhaust surj_pair)
    have sw: "run_state (sink_write os fs p) s = (((length p, None), fs\<lparr>fs_failed := True\<rparr>), s2)"
      using assms(1,2) w Some l by (simp add: sink_write_def)
    have "run_state (sink_writes os (fs\<lparr>fs_failed := True\<rparr>) ps) s2 =
        ((map (\<lambda>p. (length p, None)) ps, fs\<lparr>fs_failed := True\<rparr>), s2)"
      by (rule sink_writes_dropped) simp
    then have "rs = map (\<lambda>p. (length p, None)) (p # ps)" "fs' = fs\<lparr>fs_failed := True\<rparr>" "s' = s2"
      using Cons.prems sw by auto
    then show ?thesis using w Some l
      by (intro conjI disjI2) (simp, rule exI [of _ "[]"], rule exI [of _ p], rule exI [of _ ps], rule exI [of _ s],
        rule exI [of _ err], rule exI [of _ s1], simp)
  qed
qed simp

text \<open>A file system that is full after two writes, for the witness: the state counts writes and warnings.\<close>

definition full_disk :: "(nat \<times> nat) log_os" where
  "full_disk =
     \<lparr>lo_getenv = (\<lambda>k. ''''), lo_format = ll_msg,
      lo_stderr = (\<lambda>p. State (\<lambda>(n, m). ((length p, None), (n, Suc m)))),
      lo_open = (\<lambda>p mode. ret (Inr p)),
      lo_write = (\<lambda>f p. State (\<lambda>(n, m). (if n < 2 then None else Some (SystemErr ''no space''), (Suc n, m)))),
      lo_close = (\<lambda>f. ret None)\<rparr>"

theorem log_file_never_fails_witness:
  "run_state (sink_writes full_disk \<lparr>fs_file = Some ''f'', fs_path = ''/f'', fs_warn_level = ''INFO'', fs_failed = False\<rparr>
       [''a'', ''b'', ''c'', ''d'']) (0, 0) =
     (([(1, None), (1, None), (1, None), (1, None)],
       \<lparr>fs_file = Some ''f'', fs_path = ''/f'', fs_warn_level = ''INFO'', fs_failed = True\<rparr>), (3, 1))"
proof -
  let ?fs = "\<lparr>fs_file = Some ''f'', fs_path = ''/f'', fs_warn_level = ''INFO'', fs_failed = False\<rparr>"
  obtain rs fs' s' where run: "run_state (sink_writes full_disk ?fs [''a'', ''b'', ''c'', ''d'']) (0, 0) = ((rs, fs'), s')"
    by (metis surj_pair)
  have "rs = map (\<lambda>p. (length p, None)) [''a'', ''b'', ''c'', ''d'']"
    using log_file_never_fails [OF _ _ run, of "''f''"] by simp
  then show ?thesis using run
    by (auto simp: sink_write_def full_disk_def log_stderr_def log_enabled_def min_rank_def write_failed_line_def)
qed

end
