(* ===== verification/Watch_Start.thy ===== *)
theory Watch_Start
  imports Log_File
begin

text \<open>
  The detached watcher process: how it is started, from \<open>internal/provider/status_watch_unix.go\<close>, and its
  entry point \<open>RunStatusWatcher\<close> of \<open>status_watch.go\<close>. What the operating system does is the record
  \<open>proc_os\<close>; file descriptors and processes are named by strings.
\<close>

section \<open>Starting the process\<close>

definition status_watcher_arg :: string where
  "status_watcher_arg = ''__garm-provider-docker-status-watcher''"

definition watcher_handoff_timeout :: duration where "watcher_handoff_timeout = 5 * second"

definition watcher_argv :: "string \<Rightarrow> string list" where
  "watcher_argv exe = [exe, status_watcher_arg]"

definition watcher_exec_env_vars :: "string list" where
  "watcher_exec_env_vars = [''SSL_CERT_FILE'', ''SSL_CERT_DIR'', ''GODEBUG'']"

definition watcher_exec_env :: "(string \<Rightarrow> string option) \<Rightarrow> string list" where
  "watcher_exec_env lookup =
     List.map_filter (\<lambda>k. map_option (\<lambda>v. k @ CHR ''='' # v) (lookup k)) watcher_exec_env_vars"

record proc_attr =
  pa_dir :: string
  pa_env :: "string list"
  pa_files :: "string list"
  pa_setsid :: bool

definition watcher_proc_attr :: "string \<Rightarrow> string \<Rightarrow> string list \<Rightarrow> proc_attr" where
  "watcher_proc_attr stdin dev_null env =
     \<lparr>pa_dir = ''/'', pa_env = env, pa_files = [stdin, dev_null, dev_null], pa_setsid = True\<rparr>"

text \<open>
  \<open>po_marshal\<close> is the JSON encoder; \<open>po_deadline\<close> answers None also for \<open>os.ErrNoDeadline\<close>, which the
  code ignores.
\<close>

record 's proc_os =
  po_executable :: "('s, string res) state"
  po_marshal :: "status_watch_request \<Rightarrow> string res"
  po_lookup :: "string \<Rightarrow> string option"
  po_open_null :: "('s, string res) state"
  po_pipe :: "('s, (string \<times> string) res) state"
  po_start :: "string \<Rightarrow> string list \<Rightarrow> proc_attr \<Rightarrow> ('s, string res) state"
  po_close :: "string \<Rightarrow> ('s, gerr option) state"
  po_deadline :: "string \<Rightarrow> duration \<Rightarrow> ('s, gerr option) state"
  po_write :: "string \<Rightarrow> string \<Rightarrow> ('s, gerr option) state"
  po_kill :: "string \<Rightarrow> ('s, unit) state"
  po_wait :: "string \<Rightarrow> ('s, unit) state"
  po_release :: "string \<Rightarrow> ('s, unit) state"

text \<open>A body and the deferred call that follows it whatever it answered.\<close>

definition deferring :: "('s, 'a) state \<Rightarrow> ('a \<Rightarrow> ('s, 'b) state) \<Rightarrow> ('s, 'a) state" where
  "deferring m d = do { r \<leftarrow> m; x \<leftarrow> d r; ret r }"

definition hand_over :: "'s proc_os \<Rightarrow> string \<Rightarrow> string \<Rightarrow> ('s, gerr option) state" where
  "hand_over os pw payload = do {
     e1 \<leftarrow> po_deadline os pw watcher_handoff_timeout;
     case e1 of
       Some e \<Rightarrow> ret (Some (WrapErr ''handing the request to the status watcher'' e))
     | None \<Rightarrow> do {
         e2 \<leftarrow> po_write os pw payload;
         case e2 of
           Some e \<Rightarrow> ret (Some (WrapErr ''handing the request to the status watcher'' e))
         | None \<Rightarrow> do {
             e3 \<leftarrow> po_close os pw;
             ret (map_option (WrapErr ''handing the request to the status watcher'') e3)
           }
       }
   }"

text \<open>The deferred clean-up of a started process.\<close>

definition settle_process :: "'s proc_os \<Rightarrow> string \<Rightarrow> gerr option \<Rightarrow> ('s, unit) state" where
  "settle_process os proc err =
     (case err of
        Some e \<Rightarrow> do { u \<leftarrow> po_kill os proc; po_wait os proc }
      | None \<Rightarrow> po_release os proc)"

definition launch_watcher :: "'s proc_os \<Rightarrow> string \<Rightarrow> string \<Rightarrow> string \<Rightarrow> string \<Rightarrow> string \<Rightarrow> ('s, gerr option) state" where
  "launch_watcher os exe payload dev_null pr pw = do {
     r \<leftarrow> po_start os exe (watcher_argv exe) (watcher_proc_attr pr dev_null (watcher_exec_env (po_lookup os)));
     ignored \<leftarrow> po_close os pr;
     case r of
       Inl e \<Rightarrow> ret (Some (WrapErr ''starting the status watcher'' e))
     | Inr proc \<Rightarrow> deferring (hand_over os pw payload) (settle_process os proc)
   }"

definition start_detached_watcher :: "'s proc_os \<Rightarrow> status_watch_request \<Rightarrow> ('s, gerr option) state" where
  "start_detached_watcher os req = do {
     x \<leftarrow> po_executable os;
     case x of
       Inl e \<Rightarrow> ret (Some (WrapErr ''locating the provider binary'' e))
     | Inr exe \<Rightarrow>
         (case po_marshal os req of
            Inl e \<Rightarrow> ret (Some (WrapErr ''encoding the status watch request'' e))
          | Inr payload \<Rightarrow> do {
              n \<leftarrow> po_open_null os;
              case n of
                Inl e \<Rightarrow> ret (Some (WrapErr ''opening /dev/null'' e))
              | Inr dev_null \<Rightarrow>
                  deferring
                    (do {
                       p \<leftarrow> po_pipe os;
                       case p of
                         Inl e \<Rightarrow> ret (Some (WrapErr ''creating the watcher pipe'' e))
                       | Inr (pr, pw) \<Rightarrow>
                           deferring (launch_watcher os exe payload dev_null pr pw) (\<lambda>r. po_close os pw)
                     })
                    (\<lambda>r. po_close os dev_null)
            })
   }"

section \<open>The watcher's entry point\<close>

definition max_status_watch_request_bytes :: nat where "max_status_watch_request_bytes = 2 ^ 20"

definition install_watcher_logger :: "'s log_os \<Rightarrow> status_watch_request \<Rightarrow> logger \<Rightarrow> ('s, logger) state" where
  "install_watcher_logger os req current =
     (if sw_log_file req = '''' then ret current
      else new_with_file_at os (sw_log_file req) (parse_level (sw_log_level req)))"

definition close_logger :: "'s log_os \<Rightarrow> logger \<Rightarrow> ('s, unit) state" where
  "close_logger os lg =
     (case lg_sink lg of None \<Rightarrow> ret () | Some fs \<Rightarrow> do { r \<leftarrow> sink_close os fs; ret () })"

fun log_all :: "'s log_os \<Rightarrow> logger \<Rightarrow> log_line list \<Rightarrow> ('s, logger) state" where
  "log_all os lg [] = ret lg"
| "log_all os lg (l # ls) = log_record os lg l \<bind> (\<lambda>lg1. log_all os lg1 ls)"

text \<open>
  The exit code. \<open>input\<close> is what reading standard input gave, \<open>decode\<close> the JSON decoder, \<open>connect\<close> the
  client for a Docker host. A run that is still waiting when the hard stop comes is ended with code 3.
\<close>

definition run_status_watcher ::
  "'s log_os \<Rightarrow> 's watch_env \<Rightarrow> (string \<Rightarrow> string \<Rightarrow> ('s, gerr option) state) \<Rightarrow> string res \<Rightarrow>
   (string \<Rightarrow> status_watch_request option) \<Rightarrow> (string \<Rightarrow> 's client option) \<Rightarrow> ('s, int) state" where
  "run_status_watcher os we setenv input decode connect =
     (case input of
        Inl e \<Rightarrow> ret 2
      | Inr raw \<Rightarrow>
          (case decode (take max_status_watch_request_bytes raw) of
             None \<Rightarrow> ret 2
           | Some req \<Rightarrow> do {
               now \<leftarrow> read_state (we_now we);
               case validate_request req now of
                 Some e \<Rightarrow> ret 2
               | None \<Rightarrow> do {
                   lg \<leftarrow> install_watcher_logger os req (new_logger os);
                   e \<leftarrow> apply_proxy_env setenv (sw_proxy_env req);
                   case e of
                     Some err \<Rightarrow> do { u \<leftarrow> close_logger os lg; ret 2 }
                   | None \<Rightarrow>
                       (case connect (sw_docker_host req) of
                          None \<Rightarrow> do { u \<leftarrow> close_logger os lg; ret 2 }
                        | Some cli \<Rightarrow> do {
                            logs \<leftarrow> run_status_watch (we\<lparr>we_cli := cli\<rparr>) req;
                            case logs of
                              None \<Rightarrow> ret 3
                            | Some ls \<Rightarrow> do {
                                lg1 \<leftarrow> log_all os lg ls;
                                u \<leftarrow> close_logger os lg1;
                                ret 0
                              }
                          })
                 }
             }))"

section \<open>What a start does\<close>

text \<open>The operating system with a record of what it was asked, for any answers.\<close>

datatype os_event =
    Opened string
  | Closed string
  | Started string "string list" proc_attr string
  | Wrote string string
  | Killed string
  | Waited string
  | Released string

record os_answers =
  oa_executable :: "string res"
  oa_payload :: "string res"
  oa_lookup :: "string \<Rightarrow> string option"
  oa_null :: "string res"
  oa_pipe :: "(string \<times> string) res"
  oa_start :: "string res"
  oa_close :: "os_event list \<Rightarrow> string \<Rightarrow> gerr option"
  oa_deadline :: "gerr option"
  oa_write :: "gerr option"

definition note_event :: "os_event list \<Rightarrow> 'a \<Rightarrow> (os_event list, 'a) state" where
  "note_event es r = State (\<lambda>s. (r, s @ es))"

lemma run_note_event [simp]: "run_state (note_event es r) s = (r, s @ es)"
  by (simp add: note_event_def)

definition recording_os :: "os_answers \<Rightarrow> os_event list proc_os" where
  "recording_os oa =
     \<lparr>po_executable = ret (oa_executable oa), po_marshal = (\<lambda>req. oa_payload oa), po_lookup = oa_lookup oa,
      po_open_null = note_event (case oa_null oa of Inl e \<Rightarrow> [] | Inr n \<Rightarrow> [Opened n]) (oa_null oa),
      po_pipe = note_event (case oa_pipe oa of Inl e \<Rightarrow> [] | Inr (r, w) \<Rightarrow> [Opened r, Opened w]) (oa_pipe oa),
      po_start = (\<lambda>exe argv attr. note_event (case oa_start oa of Inl e \<Rightarrow> [] | Inr q \<Rightarrow> [Started exe argv attr q]) (oa_start oa)),
      po_close = (\<lambda>f. State (\<lambda>s. (oa_close oa s f, s @ [Closed f]))),
      po_deadline = (\<lambda>f d. ret (oa_deadline oa)),
      po_write = (\<lambda>f p. note_event [Wrote f p] (oa_write oa)),
      po_kill = (\<lambda>q. note_event [Killed q] ()), po_wait = (\<lambda>q. note_event [Waited q] ()),
      po_release = (\<lambda>q. note_event [Released q] ())\<rparr>"

text \<open>
  C26: Whatever the system answers, a start of the detached watcher closes every descriptor it opened; the
  process it starts gets the binary and the fixed argument as its command line, the allow-listed variables
  and nothing else as its environment, and never the request, which goes into the pipe only; and a process
  that was started is released when the hand-over succeeded and otherwise killed and waited for.
\<close>

theorem detached_start_clean:
  assumes "run_state (start_detached_watcher (recording_os oa) req) [] = (e, es)"
  shows "(\<forall>f. Opened f \<in> set es \<longrightarrow> Closed f \<in> set es) \<and>
    (\<forall>exe argv attr q. Started exe argv attr q \<in> set es \<longrightarrow>
       oa_executable oa = Inr exe \<and> argv = [exe, status_watcher_arg] \<and> pa_env attr = watcher_exec_env (oa_lookup oa) \<and>
       pa_setsid attr \<and> (e = None \<longrightarrow> Released q \<in> set es) \<and> (e \<noteq> None \<longrightarrow> Killed q \<in> set es \<and> Waited q \<in> set es)) \<and>
    (\<forall>f p. Wrote f p \<in> set es \<longrightarrow> oa_payload oa = Inr p \<and> (\<exists>r. oa_pipe oa = Inr (r, f)))"
proof -
  note ev = start_detached_watcher_def launch_watcher_def hand_over_def settle_process_def deferring_def
    watcher_argv_def watcher_proc_attr_def recording_os_def
  show ?thesis
  proof (cases "oa_executable oa")
    case exe: (Inr exe)
    show ?thesis
    proof (cases "oa_payload oa")
      case pay: (Inr payload)
      show ?thesis
      proof (cases "oa_null oa")
        case null: (Inr dev_null)
        show ?thesis
        proof (cases "oa_pipe oa")
          case pipe: (Inr ends)
          obtain r w where rw: "ends = (r, w)" by (cases ends)
          show ?thesis using assms exe pay null pipe rw
            by (cases "oa_start oa"; cases "oa_deadline oa"; cases "oa_write oa")
              (auto simp: ev split: option.splits)
        qed (use assms exe pay null in \<open>auto simp: ev\<close>)
      qed (use assms exe pay in \<open>auto simp: ev\<close>)
    qed (use assms exe in \<open>auto simp: ev\<close>)
  qed (use assms in \<open>auto simp: ev\<close>)
qed

definition demo_answers :: os_answers where
  "demo_answers =
     \<lparr>oa_executable = Inr ''/bin/p'', oa_payload = Inr ''json'', oa_lookup = (\<lambda>k. None), oa_null = Inr ''null'',
      oa_pipe = Inr (''r'', ''w''), oa_start = Inr ''42'', oa_close = (\<lambda>es f. None), oa_deadline = None,
      oa_write = Some (SystemErr ''broken pipe'')\<rparr>"

definition demo_request :: status_watch_request where
  "demo_request =
     \<lparr>sw_instance = ''r1'', sw_container = ''c1'', sw_docker_host = ''unix:///var/run/docker.sock'',
      sw_callback_url = ''https://garm/cb'', sw_token = ''tok'', sw_ca_bundle = '''', sw_deadline = 0, sw_proxy_env = [],
      sw_log_file = '''', sw_log_level = ''''\<rparr>"

theorem detached_start_clean_witness:
  "\<exists>e es. run_state (start_detached_watcher (recording_os demo_answers) demo_request) [] = (Some e, es) \<and>
     Killed ''42'' \<in> set es \<and> Waited ''42'' \<in> set es \<and> Closed ''w'' \<in> set es"
proof -
  obtain e es where run: "run_state (start_detached_watcher (recording_os demo_answers) demo_request) [] = (e, es)" by fastforce
  then have "e \<noteq> None" "Started ''/bin/p'' [''/bin/p'', status_watcher_arg]
      (watcher_proc_attr ''r'' ''null'' (watcher_exec_env (\<lambda>k. None))) ''42'' \<in> set es" "Opened ''w'' \<in> set es"
    by (auto simp: start_detached_watcher_def launch_watcher_def hand_over_def settle_process_def deferring_def
        watcher_argv_def recording_os_def demo_answers_def)
  then show ?thesis using run detached_start_clean [OF run] by blast
qed

end
