(* ===== verification/Moby_Exec.thy ===== *)
theory Moby_Exec
  imports Docker_API
begin

text \<open>
  The adapter of the Docker SDK, from \<open>internal/docker/moby.go\<close>: the capped buffer, an exec as one call
  (create, attach, stream, inspect), and the streaming itself as a step relation over its three threads.
  The SDK's own calls are the record \<open>exec_sdk\<close>; every other method of the client is the SDK's.
\<close>

section \<open>The capped buffer\<close>

record capped_buffer =
  cb_text :: string
  cb_limit :: nat
  cb_overflowed :: bool

text \<open>\<open>Write\<close> answers the whole length whatever it kept. The text never exceeds the limit, so \<open>room\<close> is the
  difference of the source.\<close>

definition capped_write :: "string \<Rightarrow> capped_buffer \<Rightarrow> nat \<times> capped_buffer" where
  "capped_write p c =
     (let n = length p; room = cb_limit c - length (cb_text c)
      in if room < n then (n, c\<lparr>cb_text := cb_text c @ take room p, cb_overflowed := True\<rparr>)
         else (n, c\<lparr>cb_text := cb_text c @ p\<rparr>))"

definition capped_writes :: "string list \<Rightarrow> capped_buffer \<Rightarrow> capped_buffer" where
  "capped_writes ps c = fold (\<lambda>p c. snd (capped_write p c)) ps c"

lemma capped_writes_take:
  assumes "length (cb_text c) \<le> cb_limit c"
  shows "cb_text (capped_writes ps c) = take (cb_limit c) (cb_text c @ concat ps)"
    "cb_overflowed (capped_writes ps c) \<longleftrightarrow> cb_overflowed c \<or> cb_limit c < length (cb_text c) + length (concat ps)"
    "cb_limit (capped_writes ps c) = cb_limit c"
proof -
  have "cb_text (capped_writes ps c) = take (cb_limit c) (cb_text c @ concat ps) \<and>
     (cb_overflowed (capped_writes ps c) \<longleftrightarrow> cb_overflowed c \<or> cb_limit c < length (cb_text c) + length (concat ps)) \<and>
     cb_limit (capped_writes ps c) = cb_limit c"
    using assms
  proof (induction ps arbitrary: c)
    case (Cons p ps)
    define d where "d = snd (capped_write p c)"
    have d: "length (cb_text d) \<le> cb_limit d" "cb_limit d = cb_limit c" "cb_text d = take (cb_limit c) (cb_text c @ p)"
      "cb_overflowed d \<longleftrightarrow> cb_overflowed c \<or> cb_limit c < length (cb_text c) + length p"
      using Cons.prems by (auto simp: d_def capped_write_def Let_def)
    have step: "capped_writes (p # ps) c = capped_writes ps d" by (simp add: capped_writes_def d_def)
    show ?case unfolding step using Cons.IH [OF d(1)] d(2-4) Cons.prems by (auto simp: min_def)
  qed (simp add: capped_writes_def)
  then show "cb_text (capped_writes ps c) = take (cb_limit c) (cb_text c @ concat ps)"
    "cb_overflowed (capped_writes ps c) \<longleftrightarrow> cb_overflowed c \<or> cb_limit c < length (cb_text c) + length (concat ps)"
    "cb_limit (capped_writes ps c) = cb_limit c" by auto
qed

section \<open>An exec as one call\<close>

record exec_options =
  eo_user :: string
  eo_cmd :: "string list"
  eo_attach_stdin :: bool
  eo_attach_stdout :: bool
  eo_attach_stderr :: bool

text \<open>
  \<open>sx_stream\<close> is one run of \<open>streamExecTo\<close> on an attached exec: its result and the pieces it wrote to
  \<open>stdout\<close>. Its behaviour is the step relation below.
\<close>

record 's exec_sdk =
  sx_create :: "string \<Rightarrow> exec_options \<Rightarrow> ('s, string res) state"
  sx_attach :: "string \<Rightarrow> ('s, string res) state"
  sx_stream :: "string \<Rightarrow> string \<Rightarrow> archive option \<Rightarrow> ('s, gerr option \<times> string list) state"
  sx_inspect :: "string \<Rightarrow> ('s, (bool \<times> int) res) state"

definition credential_exec_user :: string where "credential_exec_user = ''1001:1001''"

definition exec_output_limit :: nat where "exec_output_limit = 256 * 2 ^ 10"

definition run_exec ::
  "'s exec_sdk \<Rightarrow> string \<Rightarrow> exec_options \<Rightarrow> archive option \<Rightarrow> ('s, (int \<times> string list) res) state" where
  "run_exec sx cid opts stdin = do {
     r \<leftarrow> sx_create sx cid opts;
     case r of
       Inl e \<Rightarrow> ret (Inl (WrapErr (''failed to create exec in container '' @ cid) e))
     | Inr xid \<Rightarrow> do {
         a \<leftarrow> sx_attach sx xid;
         case a of
           Inl e \<Rightarrow> ret (Inl (WrapErr (''failed to attach to exec in container '' @ cid) e))
         | Inr att \<Rightarrow> do {
             (e, pieces) \<leftarrow> sx_stream sx cid att stdin;
             case e of
               Some err \<Rightarrow> ret (Inl err)
             | None \<Rightarrow> do {
                 i \<leftarrow> sx_inspect sx xid;
                 ret (case i of
                        Inl err \<Rightarrow> Inl (WrapErr (''failed to inspect exec in container '' @ cid) err)
                      | Inr (running, code) \<Rightarrow>
                          if running
                          then Inl (PlainErr (''exec in container '' @ cid @ '' still running after its output was drained''))
                          else Inr (code, pieces))
               }
           }
       }
   }"

definition moby_exec_stream :: "'s exec_sdk \<Rightarrow> string \<Rightarrow> string list \<Rightarrow> archive \<Rightarrow> ('s, int res) state" where
  "moby_exec_stream sx cid cmd stdin = do {
     r \<leftarrow> run_exec sx cid \<lparr>eo_user = credential_exec_user, eo_cmd = cmd, eo_attach_stdin = True,
                           eo_attach_stdout = True, eo_attach_stderr = True\<rparr> (Some stdin);
     ret (map_sum id fst r)
   }"

definition moby_exec_output :: "'s exec_sdk \<Rightarrow> string \<Rightarrow> string list \<Rightarrow> ('s, (string \<times> int) res) state" where
  "moby_exec_output sx cid cmd = do {
     r \<leftarrow> run_exec sx cid \<lparr>eo_user = '''', eo_cmd = cmd, eo_attach_stdin = False,
                           eo_attach_stdout = True, eo_attach_stderr = True\<rparr> None;
     ret (case r of
            Inl e \<Rightarrow> Inl e
          | Inr (code, pieces) \<Rightarrow>
              (let buf = capped_writes pieces \<lparr>cb_text = '''', cb_limit = exec_output_limit, cb_overflowed = False\<rparr>
               in if cb_overflowed buf
                  then Inl (PlainErr (''exec output from container '' @ cid @ '' exceeded '' @ nat_str exec_output_limit @
                              '' bytes''))
                  else Inr (cb_text buf, code)))
   }"

text \<open>The embedded SDK client with the two methods it lacks. \<open>connect\<close> is the SDK's constructor.\<close>

definition moby_client :: "'s client \<Rightarrow> 's exec_sdk \<Rightarrow> 's client" where
  "moby_client sdk sx = sdk\<lparr>exec_stream := moby_exec_stream sx, exec_output := moby_exec_output sx\<rparr>"

definition new_moby_client :: "(string \<Rightarrow> ('s client \<times> 's exec_sdk) res) \<Rightarrow> string \<Rightarrow> 's client res" where
  "new_moby_client connect docker_host =
     (case connect docker_host of
        Inl e \<Rightarrow> Inl (WrapErr (''failed to create docker client for host '' @ quoted docker_host) e)
      | Inr (sdk, sx) \<Rightarrow> Inr (moby_client sdk sx))"

section \<open>Streaming\<close>

text \<open>
  \<open>streamExecTo\<close> runs three threads: the caller, which drains the exec's output, receives the pump's
  result, decides and runs its deferred calls; the pump, which copies stdin and half-closes; and the
  watcher, which force-closes the connection when the context is cancelled. The connection's two
  directions are the pieces the remote still has to send and the bytes it was sent.
\<close>

datatype pump = Copying "string list" | HalfClosing "gerr option" | PumpDone

datatype caller =
    Draining
  | Awaiting "gerr option"
  | Deciding "gerr option" "gerr option"
  | Stopping "gerr option"
  | Closing "gerr option"
  | Returned "gerr option"

record stream =
  st_ctx_err :: "gerr option"
  st_closed :: bool
  st_closes :: nat
  st_half_closed :: bool
  st_stop :: bool
  st_watching :: bool
  st_pump :: pump
  st_copy_done :: "gerr option option"
  st_caller :: caller
  st_remote :: "string list"
  st_sent :: string
  st_out :: "string list"

definition stream_start :: "gerr option \<Rightarrow> string list \<Rightarrow> string list \<Rightarrow> stream" where
  "stream_start ctx_err stdin frames =
     \<lparr>st_ctx_err = ctx_err, st_closed = False, st_closes = 0, st_half_closed = False, st_stop = False,
      st_watching = True, st_pump = Copying stdin, st_copy_done = None, st_caller = Draining,
      st_remote = frames, st_sent = '''', st_out = []\<rparr>"

text \<open>\<open>closeConn\<close>: \<open>Close\<close> behind a \<open>sync.Once\<close>.\<close>

definition close_conn :: "stream \<Rightarrow> stream" where
  "close_conn s = (if st_closed s then s else s\<lparr>st_closed := True, st_closes := Suc (st_closes s)\<rparr>)"

definition stream_result :: "string \<Rightarrow> gerr option \<Rightarrow> gerr option \<Rightarrow> gerr option \<Rightarrow> gerr option" where
  "stream_result cid ctx_err copy_err werr =
     (case ctx_err of
        Some e \<Rightarrow> Some (WrapErr (''exec in container '' @ cid @ '' canceled'') e)
      | None \<Rightarrow>
          (case copy_err of
             Some e \<Rightarrow> Some (WrapErr (''failed to read exec output from container '' @ cid) e)
           | None \<Rightarrow> map_option (WrapErr (''failed to stream stdin to exec in container '' @ cid)) werr))"

text \<open>
  What the program does by itself. A read or a write on a connection it closed fails; \<open>CloseWrite\<close>
  answers whatever it answers, and the first error of copying wins.
\<close>

inductive own_step :: "string \<Rightarrow> stream \<Rightarrow> stream \<Rightarrow> bool" for cid where
  watch_cancel: "st_watching s \<Longrightarrow> st_ctx_err s \<noteq> None \<Longrightarrow>
    own_step cid s ((close_conn s)\<lparr>st_watching := False\<rparr>)"
| watch_stop: "st_watching s \<Longrightarrow> st_stop s \<Longrightarrow> own_step cid s (s\<lparr>st_watching := False\<rparr>)"
| pump_closed: "st_pump s = Copying (p # ps) \<Longrightarrow> st_closed s \<Longrightarrow>
    own_step cid s (s\<lparr>st_pump := HalfClosing (Some e)\<rparr>)"
| pump_eof: "st_pump s = Copying [] \<Longrightarrow> own_step cid s (s\<lparr>st_pump := HalfClosing None\<rparr>)"
| half_close: "st_pump s = HalfClosing w \<Longrightarrow>
    own_step cid s (s\<lparr>st_pump := PumpDone, st_half_closed := (cerr = None),
      st_copy_done := Some (case w of None \<Rightarrow> cerr | Some e \<Rightarrow> Some e)\<rparr>)"
| drain_closed: "st_caller s = Draining \<Longrightarrow> st_closed s \<Longrightarrow> own_step cid s (s\<lparr>st_caller := Awaiting ce\<rparr>)"
| receive: "st_caller s = Awaiting ce \<Longrightarrow> st_copy_done s = Some w \<Longrightarrow>
    own_step cid s (s\<lparr>st_caller := Deciding ce w, st_copy_done := None\<rparr>)"
| decide: "st_caller s = Deciding ce w \<Longrightarrow>
    own_step cid s (s\<lparr>st_caller := Stopping (stream_result cid (st_ctx_err s) ce w)\<rparr>)"
| stop: "st_caller s = Stopping r \<Longrightarrow> own_step cid s (s\<lparr>st_caller := Closing r, st_stop := True\<rparr>)"
| close: "st_caller s = Closing r \<Longrightarrow> own_step cid s ((close_conn s)\<lparr>st_caller := Returned r\<rparr>)"

text \<open>What the context, the connection and the remote do: any of it may never happen.\<close>

inductive world_step :: "stream \<Rightarrow> stream \<Rightarrow> bool" where
  cancel: "st_ctx_err s = None \<Longrightarrow> world_step s (s\<lparr>st_ctx_err := Some e\<rparr>)"
| write_ok: "st_pump s = Copying (p # ps) \<Longrightarrow> \<not> st_closed s \<Longrightarrow>
    world_step s (s\<lparr>st_pump := Copying ps, st_sent := st_sent s @ p\<rparr>)"
| write_fails: "st_pump s = Copying (p # ps) \<Longrightarrow>
    world_step s (s\<lparr>st_pump := HalfClosing (Some e), st_sent := st_sent s @ take n p\<rparr>)"
| drain: "st_caller s = Draining \<Longrightarrow> \<not> st_closed s \<Longrightarrow> st_remote s = f # fs \<Longrightarrow>
    world_step s (s\<lparr>st_remote := fs, st_out := st_out s @ [f]\<rparr>)"
| drain_ends: "st_caller s = Draining \<Longrightarrow> st_remote s = [] \<Longrightarrow> world_step s (s\<lparr>st_caller := Awaiting None\<rparr>)"
| drain_fails: "st_caller s = Draining \<Longrightarrow> world_step s (s\<lparr>st_caller := Awaiting (Some e)\<rparr>)"

definition stream_step :: "string \<Rightarrow> stream \<Rightarrow> stream \<Rightarrow> bool" where
  "stream_step cid s t \<longleftrightarrow> own_step cid s t \<or> world_step s t"

text \<open>The call has returned and both goroutines have exited.\<close>

definition stream_finished :: "stream \<Rightarrow> bool" where
  "stream_finished s \<longleftrightarrow> (\<exists>r. st_caller s = Returned r) \<and> st_pump s = PumpDone \<and> \<not> st_watching s"


lemma close_conn_simps [simp]:
  "st_ctx_err (close_conn s) = st_ctx_err s" "st_closed (close_conn s)" "st_half_closed (close_conn s) = st_half_closed s"
  "st_stop (close_conn s) = st_stop s" "st_watching (close_conn s) = st_watching s" "st_pump (close_conn s) = st_pump s"
  "st_copy_done (close_conn s) = st_copy_done s" "st_caller (close_conn s) = st_caller s"
  "st_remote (close_conn s) = st_remote s" "st_sent (close_conn s) = st_sent s" "st_out (close_conn s) = st_out s"
  "st_closes (close_conn s) = (if st_closed s then st_closes s else Suc (st_closes s))"
  by (simp_all add: close_conn_def)

section \<open>Every run ends\<close>






section \<open>The invariant\<close>

definition all_sent :: "string list \<Rightarrow> stream \<Rightarrow> bool" where
  "all_sent stdin s \<longleftrightarrow> st_sent s = concat stdin \<and> st_half_closed s"

definition drained :: "string list \<Rightarrow> stream \<Rightarrow> gerr option \<Rightarrow> bool" where
  "drained frames s ce \<longleftrightarrow> (ce = None \<longrightarrow> st_ctx_err s \<noteq> None \<or> st_out s = frames)"

definition pump_inv :: "string list \<Rightarrow> stream \<Rightarrow> bool" where
  "pump_inv stdin s \<longleftrightarrow>
     (case st_pump s of
        Copying ps \<Rightarrow> st_sent s @ concat ps = concat stdin \<and> st_copy_done s = None
      | HalfClosing w \<Rightarrow> (w = None \<longrightarrow> st_sent s = concat stdin) \<and> st_copy_done s = None
      | PumpDone \<Rightarrow> st_copy_done s = Some None \<longrightarrow> all_sent stdin s)"

definition caller_inv :: "string list \<Rightarrow> string list \<Rightarrow> stream \<Rightarrow> bool" where
  "caller_inv stdin frames s \<longleftrightarrow>
     (case st_caller s of
        Draining \<Rightarrow> \<not> st_stop s \<and> st_out s @ st_remote s = frames \<and> (st_pump s = PumpDone \<longrightarrow> st_copy_done s \<noteq> None)
      | Awaiting ce \<Rightarrow> \<not> st_stop s \<and> drained frames s ce \<and> (st_pump s = PumpDone \<longrightarrow> st_copy_done s \<noteq> None)
      | Deciding ce w \<Rightarrow> \<not> st_stop s \<and> drained frames s ce \<and> st_pump s = PumpDone \<and> (w = None \<longrightarrow> all_sent stdin s)
      | Stopping r \<Rightarrow> \<not> st_stop s \<and> st_pump s = PumpDone \<and> (r = None \<longrightarrow> all_sent stdin s \<and> st_out s = frames)
      | Closing r \<Rightarrow> st_pump s = PumpDone \<and> st_stop s \<and> (r = None \<longrightarrow> all_sent stdin s \<and> st_out s = frames)
      | Returned r \<Rightarrow> st_pump s = PumpDone \<and> st_stop s \<and> st_closed s \<and> (r = None \<longrightarrow> all_sent stdin s \<and> st_out s = frames))"

definition stream_inv :: "string list \<Rightarrow> string list \<Rightarrow> stream \<Rightarrow> bool" where
  "stream_inv stdin frames s \<longleftrightarrow>
     st_closes s = of_bool (st_closed s) \<and>
     (st_closed s \<longrightarrow> st_ctx_err s \<noteq> None \<or> (\<exists>r. st_caller s = Returned r)) \<and>
     (st_watching s \<or> st_closed s \<or> st_stop s) \<and>
     pump_inv stdin s \<and> caller_inv stdin frames s"

lemma stream_inv_start: "stream_inv stdin frames (stream_start e stdin frames)"
  by (simp add: stream_inv_def stream_start_def pump_inv_def caller_inv_def)

lemma stream_inv_own:
  assumes "stream_inv stdin frames s" "own_step cid s t"
  shows "stream_inv stdin frames t"
  using assms(2,1)
  by (cases rule: own_step.cases)
    (auto simp: stream_inv_def pump_inv_def caller_inv_def drained_def all_sent_def stream_result_def
      split: pump.splits caller.splits option.splits)

lemma stream_inv_world:
  assumes "stream_inv stdin frames s" "world_step s t"
  shows "stream_inv stdin frames t"
  using assms(2,1)
  by (cases rule: world_step.cases)
    (auto simp: stream_inv_def pump_inv_def caller_inv_def drained_def all_sent_def
      split: pump.splits caller.splits option.splits)

lemma stream_inv_steps:
  assumes "(stream_step cid)\<^sup>*\<^sup>* s t" "stream_inv stdin frames s"
  shows "stream_inv stdin frames t"
  using assms
proof induction
  case (step t u)
  then have "stream_inv stdin frames t" by simp
  then show ?case using step.hyps(2) stream_inv_own stream_inv_world unfolding stream_step_def by blast
qed

text \<open>Once the context is cancelled the program finishes without the world.\<close>

lemma cancelled_progress:
  assumes inv: "stream_inv stdin frames s" and ctx: "st_ctx_err s \<noteq> None" and left: "\<not> stream_finished s"
  shows "\<exists>t. own_step cid s t"
proof (cases "st_watching s")
  case True
  then show ?thesis using ctx own_step.watch_cancel by blast
next
  case idle: False
  have pump: "\<exists>t. own_step cid s t" if "st_pump s \<noteq> PumpDone" "st_closed s"
  proof (cases "st_pump s")
    case (Copying ps)
    then show ?thesis using that own_step.pump_closed own_step.pump_eof by (cases ps) blast+
  next
    case (HalfClosing w)
    then show ?thesis using own_step.half_close by blast
  qed (use that in simp)
  have closed: "st_closed s" if "\<And>r. st_caller s \<noteq> Closing r" "\<And>r. st_caller s \<noteq> Returned r"
    using inv idle that by (auto simp: stream_inv_def caller_inv_def split: caller.splits)
  show ?thesis
  proof (cases "st_caller s")
    case Draining
    then have "st_closed s" using closed by simp
    then show ?thesis using Draining own_step.drain_closed by blast
  next
    case (Awaiting ce)
    show ?thesis
    proof (cases "st_pump s = PumpDone")
      case True
      then obtain w where "st_copy_done s = Some w" using inv Awaiting by (auto simp: stream_inv_def caller_inv_def)
      then show ?thesis using Awaiting own_step.receive by blast
    next
      case False
      then show ?thesis using pump closed Awaiting by simp
    qed
  next
    case (Returned r)
    then show ?thesis using left idle inv by (auto simp: stream_inv_def caller_inv_def stream_finished_def)
  qed (use own_step.decide own_step.stop own_step.close in blast)+
qed

section \<open>Properties\<close>



text \<open>
  C21: Cancellation needs nobody's help: once the context is cancelled, as long as the call has not
  returned or one of its goroutines is alive, the program itself has a step to make, however silent the
  remote is. With the bound above it returns and leaks no goroutine.
\<close>

theorem stream_cancel_progress:
  assumes "(stream_step cid)\<^sup>*\<^sup>* (stream_start e stdin frames) s" "st_ctx_err s \<noteq> None" "\<not> stream_finished s"
  shows "\<exists>t. own_step cid s t"
  by (rule cancelled_progress [OF stream_inv_steps [OF assms(1) stream_inv_start] assms(2,3)])

theorem stream_cancel_progress_witness:
  "\<exists>t. own_step ''c'' (stream_start (Some (ContextErr ''deadline'')) [''tar''] [''out'']) t"
  by (rule stream_cancel_progress [of _ "Some (ContextErr ''deadline'')" "[''tar'']" "[''out'']"])
    (simp_all add: stream_start_def stream_finished_def)

text \<open>
  C22: When streaming returns, the connection was closed exactly once and the pump has exited; and it
  returns no error only if the whole of stdin was sent, its end was signalled, and the whole output was
  drained, so credentials are never taken for delivered when the copy was cut short.
\<close>

theorem stream_returns:
  assumes "(stream_step cid)\<^sup>*\<^sup>* (stream_start e stdin frames) s" "st_caller s = Returned r"
  shows "st_closes s = 1 \<and> st_pump s = PumpDone \<and>
    (r = None \<longrightarrow> st_sent s = concat stdin \<and> st_half_closed s \<and> st_out s = frames)"
  using stream_inv_steps [OF assms(1) stream_inv_start] assms(2)
  by (auto simp: stream_inv_def caller_inv_def all_sent_def)

lemma own_first: "own_step cid s t \<Longrightarrow> (stream_step cid)\<^sup>*\<^sup>* t u \<Longrightarrow> (stream_step cid)\<^sup>*\<^sup>* s u"
  by (rule converse_rtranclp_into_rtranclp) (simp_all add: stream_step_def)

lemma world_first: "world_step s t \<Longrightarrow> (stream_step cid)\<^sup>*\<^sup>* t u \<Longrightarrow> (stream_step cid)\<^sup>*\<^sup>* s u"
  by (rule converse_rtranclp_into_rtranclp) (simp_all add: stream_step_def)

lemma stream_run_example:
  "\<exists>s. (stream_step cid)\<^sup>*\<^sup>* (stream_start None [] []) s \<and> st_caller s = Returned None"
proof -
  let ?s0 = "stream_start None [] []"
  let ?s1 = "?s0\<lparr>st_pump := HalfClosing None\<rparr>"
  let ?s2 = "?s1\<lparr>st_pump := PumpDone, st_half_closed := True, st_copy_done := Some None\<rparr>"
  let ?s3 = "?s2\<lparr>st_caller := Awaiting None\<rparr>"
  let ?s4 = "?s3\<lparr>st_caller := Deciding None None, st_copy_done := None\<rparr>"
  let ?s5 = "?s4\<lparr>st_caller := Stopping None\<rparr>"
  let ?s6 = "?s5\<lparr>st_caller := Closing None, st_stop := True\<rparr>"
  let ?s7 = "(close_conn ?s6)\<lparr>st_caller := Returned None\<rparr>"
  have "own_step cid ?s0 ?s1" by (rule own_step.pump_eof) (simp add: stream_start_def)
  moreover have "own_step cid ?s1 ?s2"
    using own_step.half_close [of ?s1 None cid None] by simp
  moreover have "world_step ?s2 ?s3" by (rule world_step.drain_ends) (simp_all add: stream_start_def)
  moreover have "own_step cid ?s3 ?s4" by (rule own_step.receive) simp_all
  moreover have "own_step cid ?s4 ?s5"
    using own_step.decide [of ?s4 None None cid] by (simp add: stream_result_def stream_start_def)
  moreover have "own_step cid ?s5 ?s6" by (rule own_step.stop) simp
  moreover have "own_step cid ?s6 ?s7" by (rule own_step.close) simp
  ultimately have "(stream_step cid)\<^sup>*\<^sup>* ?s0 ?s7"
    by (elim own_first world_first) (rule rtranclp.rtrancl_refl)
  then show ?thesis by (intro exI [of _ ?s7]) simp
qed

theorem stream_returns_witness:
  "\<exists>s :: stream. st_caller s = Returned None \<and> st_closes s = 1 \<and> st_half_closed s"
proof -
  obtain s where s: "(stream_step ''c'')\<^sup>*\<^sup>* (stream_start None [] []) s" "st_caller s = Returned None"
    using stream_run_example by blast
  from stream_returns [OF s] have "st_closes s = 1 \<and> st_half_closed s" by simp
  then show ?thesis using s(2) by blast
qed

text \<open>
  C24: What \<open>ExecOutput\<close> answers is bounded: it is exactly the output that was drained, at most 256 KiB of
  it, and an exec that wrote more is an error instead of a truncated answer.
\<close>

theorem exec_output_bounded:
  assumes "run_state (moby_exec_output sx cid cmd) s = (Inr (text, code), s')"
  shows "length text \<le> 262144 \<and>
    (\<exists>att s1 s2 pieces. run_state (sx_stream sx cid att None) s1 = ((None, pieces), s2) \<and> text = concat pieces)"
proof -
  obtain pieces where r: "fst (run_state (run_exec sx cid \<lparr>eo_user = '''', eo_cmd = cmd, eo_attach_stdin = False,
       eo_attach_stdout = True, eo_attach_stderr = True\<rparr> None) s) = Inr (code, pieces)"
    and t: "\<not> exec_output_limit < length (concat pieces)" "text = take exec_output_limit (concat pieces)"
    using assms by (auto simp: moby_exec_output_def capped_writes_take Let_def split: prod.splits sum.splits if_splits)
  have "\<exists>att s1 s2. run_state (sx_stream sx cid att None) s1 = ((None, pieces), s2)"
    using r by (fastforce simp: run_exec_def split: prod.splits sum.splits option.splits if_splits)
  then show ?thesis using t by (auto simp: exec_output_limit_def)
qed

theorem exec_output_bounded_witness:
  "\<exists>text. run_state (moby_exec_output \<lparr>sx_create = (\<lambda>c opts. ret (Inr ''x'')), sx_attach = (\<lambda>x. ret (Inr ''a'')),
       sx_stream = (\<lambda>c a i. ret (None, [''1'', ''2''])), sx_inspect = (\<lambda>x. ret (Inr (False, 0)))\<rparr> ''c'' [''cat'']) () =
     (Inr (text, 0), ()) \<and> length text \<le> 262144"
proof -
  have run: "run_state (moby_exec_output \<lparr>sx_create = (\<lambda>c opts. ret (Inr ''x'')), sx_attach = (\<lambda>x. ret (Inr ''a'')),
       sx_stream = (\<lambda>c a i. ret (None, [''1'', ''2''])), sx_inspect = (\<lambda>x. ret (Inr (False, 0)))\<rparr> ''c'' [''cat'']) () =
     (Inr (''12'', 0), ())"
    by (simp add: moby_exec_output_def run_exec_def capped_writes_def capped_write_def exec_output_limit_def Let_def)
  then show ?thesis using exec_output_bounded [OF run] by blast
qed

end
