(* ===== verification/Entry_Point.thy ===== *)
theory Entry_Point
  imports Provider_Fixtures Watch_Start Moby_Exec
begin

text \<open>
  The program, from \<open>main.go\<close>: the dispatch to the watcher, and one GARM command from its environment to
  the exit code. The library's command dispatch \<open>Environment.Run\<close>, its error codes and the decoders are
  arguments, gathered in the record \<open>process\<close>.
\<close>

definition exit_code_not_found :: int where "exit_code_not_found = 30"

record 's process =
  pr_args :: "string list"
  pr_getenv :: "string \<Rightarrow> string"
  pr_lib_env :: "garm_env res"
  pr_bootstrap :: "string \<Rightarrow> bootstrap res"
  pr_lib_validate :: "garm_env \<Rightarrow> gerr option"
  pr_domain_ok :: "string \<Rightarrow> bool"
  pr_parse_ref :: "string \<Rightarrow> (string \<times> string) option res"
  pr_decode_config :: "string \<Rightarrow> config \<Rightarrow> config res"
  pr_connect :: "string \<Rightarrow> ('s client \<times> 's exec_sdk) res"
  pr_runtime :: "'s runtime"
  pr_run :: "garm_env \<Rightarrow> 's provider \<Rightarrow> ('s, string res \<times> log_line list) state"
  pr_exit_code :: "gerr \<Rightarrow> int"
  pr_stdout :: "string \<Rightarrow> ('s, unit) state"
  pr_log :: "'s log_os"
  pr_stdin :: "string res"
  pr_decode_request :: "string \<Rightarrow> status_watch_request option"
  pr_setenv :: "string \<Rightarrow> string \<Rightarrow> ('s, gerr option) state"

definition command_line :: "level \<Rightarrow> string \<Rightarrow> string \<Rightarrow> attrs \<Rightarrow> log_line" where
  "command_line lev msg cmd as = \<lparr>ll_level = lev, ll_msg = msg, ll_attrs = (''command'', AStr cmd) # as\<rparr>"

definition error_attr :: "gerr \<Rightarrow> string \<times> attr_val" where
  "error_attr e = (''error'', AStr (err_text e))"

text \<open>The steps before the library takes over: the provider, or the message and the error to log.\<close>

definition set_up ::
  "'s process \<Rightarrow> (string \<times> gerr) + (garm_env \<times> config)" where
  "set_up pr =
     (case get_environment (pr_getenv pr) (pr_lib_env pr) (pr_bootstrap pr) (pr_lib_validate pr) of
        Inl e \<Rightarrow> Inl (''failed to read execution environment'', e)
      | Inr env \<Rightarrow>
          (case load_config (pr_domain_ok pr) (pr_parse_ref pr) (pr_decode_config pr) (ge_config_file env) of
             Inl e \<Rightarrow> Inl (''failed to load provider config'', e)
           | Inr cfg \<Rightarrow> Inr (env, cfg)))"

definition build_provider :: "'s process \<Rightarrow> garm_env \<Rightarrow> config \<Rightarrow> (string \<times> gerr) + 's provider" where
  "build_provider pr env cfg =
     (case new_moby_client (pr_connect pr) (cf_docker_host cfg) of
        Inl e \<Rightarrow> Inl (''failed to create docker client'', e)
      | Inr cli \<Rightarrow>
          (case new_provider cli cfg (ge_controller env) (pr_runtime pr) False of
             Inl e \<Rightarrow> Inl (''failed to construct provider'', e)
           | Inr p \<Rightarrow> Inr p))"

text \<open>How a finished command is reported: the exit code, and what is logged.\<close>

definition finish_command :: "'s process \<Rightarrow> string \<Rightarrow> string res \<Rightarrow> int \<times> log_line" where
  "finish_command pr cmd r =
     (case r of
        Inl e \<Rightarrow>
          (let code = pr_exit_code pr e
           in (code,
               if code = exit_code_not_found
               then command_line Info ''command completed: instance already gone'' cmd [(''exit_code'', AInt code), error_attr e]
               else command_line Error ''command failed'' cmd [(''exit_code'', AInt code), error_attr e]))
      | Inr out \<Rightarrow> (0, command_line Info ''command completed'' cmd [(''exit_code'', AInt 0)]))"

text \<open>\<open>fmt.Fprintln\<close> of a result that is not empty.\<close>

definition print_result :: "'s process \<Rightarrow> string res \<Rightarrow> ('s, unit) state" where
  "print_result pr r =
     (case r of Inl e \<Rightarrow> ret () | Inr out \<Rightarrow> if out \<noteq> '''' then pr_stdout pr (out @ [CHR 0x0A]) else ret ())"

definition run_with_config :: "'s process \<Rightarrow> string \<Rightarrow> garm_env \<Rightarrow> config \<Rightarrow> logger \<Rightarrow> ('s, int) state" where
  "run_with_config pr cmd env cfg lg0 = do {
     lg \<leftarrow> (if cf_log_file cfg \<noteq> '''' then new_with_file (pr_log pr) (cf_log_file cfg) else ret lg0);
     case build_provider pr env cfg of
       Inl (msg, e) \<Rightarrow> do {
         lg1 \<leftarrow> log_record (pr_log pr) lg (command_line Error msg cmd [error_attr e]);
         u \<leftarrow> close_logger (pr_log pr) lg1;
         ret 1
       }
     | Inr p \<Rightarrow> do {
         (r, ls) \<leftarrow> pr_run pr env p;
         lg1 \<leftarrow> log_all (pr_log pr) lg ls;
         u \<leftarrow> print_result pr r;
         lg2 \<leftarrow> log_record (pr_log pr) lg1 (snd (finish_command pr cmd r));
         u2 \<leftarrow> close_logger (pr_log pr) lg2;
         ret (fst (finish_command pr cmd r))
       }
   }"

definition run_command :: "'s process \<Rightarrow> ('s, int) state" where
  "run_command pr = do {
     let cmd = pr_getenv pr ''GARM_COMMAND'';
     lg \<leftarrow> log_record (pr_log pr) (new_logger (pr_log pr)) (command_line Info ''starting garm-provider-docker'' cmd []);
     case set_up pr of
       Inl (msg, e) \<Rightarrow> do {
         lg1 \<leftarrow> log_record (pr_log pr) lg (command_line Error msg cmd [error_attr e]);
         ret 1
       }
     | Inr (env, cfg) \<Rightarrow> run_with_config pr cmd env cfg lg
   }"

definition program_main :: "'s process \<Rightarrow> ('s, int) state" where
  "program_main pr =
     (if length (pr_args pr) = 2 \<and> pr_args pr ! 1 = status_watcher_arg
      then run_status_watcher (pr_log pr) (rt_watch (pr_runtime pr)) (pr_setenv pr) (pr_stdin pr) (pr_decode_request pr)
             (\<lambda>host. case new_moby_client (pr_connect pr) host of Inl e \<Rightarrow> None | Inr cli \<Rightarrow> Some cli)
      else run_command pr)"

section \<open>The exit code\<close>

lemma set_up_updates [simp]:
  "set_up (pr\<lparr>pr_run := f\<rparr>) = set_up pr" "set_up (pr\<lparr>pr_stdout := g\<rparr>) = set_up pr"
  "build_provider (pr\<lparr>pr_run := f\<rparr>) = build_provider pr" "build_provider (pr\<lparr>pr_stdout := g\<rparr>) = build_provider pr"
  "finish_command (pr\<lparr>pr_stdout := g\<rparr>) = finish_command pr"
  by (simp_all add: set_up_def build_provider_def finish_command_def fun_eq_iff split: sum.splits)

lemma finish_code: "fst (finish_command pr cmd r) = (case r of Inl e \<Rightarrow> pr_exit_code pr e | Inr out \<Rightarrow> 0)"
  by (simp add: finish_command_def Let_def split: sum.splits)

text \<open>
  C8: The contract with GARM. A command whose environment, configuration, client or provider cannot be set
  up exits with 1 and never reaches the provider. Otherwise the command runs, and the exit code is the one
  of its error, or 0, which a failed command never gets. Standard output, which GARM parses, is written
  only by a command that exits with 0.
\<close>

theorem exit_contract:
  assumes "\<And>e. pr_exit_code pr e \<noteq> 0"
    and "run_state (run_command pr) s = (code, s')"
  shows "((code = 1 \<and> (\<forall>f. run_state (run_command (pr\<lparr>pr_run := f\<rparr>)) s = (code, s')) \<and>
        (\<nexists>env cfg p. set_up pr = Inr (env, cfg) \<and> build_provider pr env cfg = Inr p)) \<or>
     (\<exists>env cfg p s1 r ls s2. set_up pr = Inr (env, cfg) \<and> build_provider pr env cfg = Inr p \<and>
        run_state (pr_run pr env p) s1 = ((r, ls), s2) \<and>
        code = (case r of Inl e \<Rightarrow> pr_exit_code pr e | Inr out \<Rightarrow> 0))) \<and>
    (code \<noteq> 0 \<longrightarrow> (\<forall>g. run_state (run_command (pr\<lparr>pr_stdout := g\<rparr>)) s = (code, s')))"
proof (cases "set_up pr")
  case (Inl me)
  then have "code = 1" using assms(2) by (auto simp: run_command_def Let_def split: prod.splits)
  then show ?thesis using Inl assms(2) by (simp add: run_command_def Let_def split: prod.splits)
next
  case (Inr ec)
  obtain env cfg where ec: "ec = (env, cfg)" by (cases ec)
  obtain lg s0 where lg: "run_state (log_record (pr_log pr) (new_logger (pr_log pr))
      (command_line Info ''starting garm-provider-docker'' (pr_getenv pr ''GARM_COMMAND'') [])) s = (lg, s0)" by fastforce
  then have run: "run_state (run_with_config pr (pr_getenv pr ''GARM_COMMAND'') env cfg lg) s0 = (code, s')"
    using assms(2) Inr ec by (simp add: run_command_def Let_def)
  show ?thesis
  proof (cases "build_provider pr env cfg")
    case me: (Inl me)
    then have "code = 1" using run by (auto simp: run_with_config_def split: prod.splits)
    have same: "run_with_config (pr\<lparr>pr_run := f\<rparr>) cmd env cfg lg1 = run_with_config pr cmd env cfg lg1"
      "run_with_config (pr\<lparr>pr_stdout := g\<rparr>) cmd env cfg lg1 = run_with_config pr cmd env cfg lg1" for f g cmd lg1
      using me by (simp_all add: run_with_config_def)
    show ?thesis using \<open>code = 1\<close> Inr ec me run lg by (simp add: run_command_def Let_def same)
  next
    case p: (Inr p)
    define cmd where "cmd = pr_getenv pr ''GARM_COMMAND''"
    obtain lg1 s1 where 1: "run_state (if cf_log_file cfg \<noteq> '''' then new_with_file (pr_log pr) (cf_log_file cfg) else ret lg) s0 =
        (lg1, s1)" by fastforce
    obtain r ls s2 where 2: "run_state (pr_run pr env p) s1 = ((r, ls), s2)" by (metis surj_pair)
    have code: "code = fst (finish_command pr cmd r)"
      using run p 1 2 by (auto simp: run_with_config_def cmd_def split: prod.splits)
    have quiet: "run_state (run_command (pr\<lparr>pr_stdout := g\<rparr>)) s = (code, s')" if nz: "code \<noteq> 0" for g
    proof -
      obtain e where "r = Inl e" using nz code by (cases r) (auto simp: finish_code)
      then have "print_result (pr\<lparr>pr_stdout := g\<rparr>) r = print_result pr r" by (simp add: print_result_def)
      then have "run_state (run_with_config (pr\<lparr>pr_stdout := g\<rparr>) cmd env cfg lg) s0 = (code, s')"
        using run p 1 2 by (simp add: run_with_config_def cmd_def split del: if_split cong: if_cong)
      then show ?thesis using Inr ec lg by (simp add: run_command_def Let_def cmd_def)
    qed
    show ?thesis
      by (intro conjI impI allI quiet disjI2)
        (use Inr ec p 2 code in \<open>auto simp: finish_code intro!: exI [of _ env] exI [of _ cfg] exI [of _ p]\<close>)
  qed
qed

text \<open>A process whose environment cannot be read, and the fake daemon's operating system, for the witness.\<close>

definition demo_log_os :: "fake log_os" where
  "demo_log_os =
     \<lparr>lo_getenv = (\<lambda>k. ''''), lo_format = ll_msg, lo_stderr = (\<lambda>p. ret (length p, None)),
      lo_open = (\<lambda>p m. ret (Inr p)), lo_write = (\<lambda>f p. ret None), lo_close = (\<lambda>f. ret None)\<rparr>"

definition demo_process :: "garm_env res \<Rightarrow> fake process" where
  "demo_process env =
     \<lparr>pr_args = [''p''], pr_getenv = (\<lambda>k. ''''), pr_lib_env = env, pr_bootstrap = (\<lambda>c. Inl (PlainErr ''stdin'')),
      pr_lib_validate = (\<lambda>e. None), pr_domain_ok = (\<lambda>d. True), pr_parse_ref = (\<lambda>r. Inr None),
      pr_decode_config = (\<lambda>p c. Inr c), pr_connect = (\<lambda>h. Inl (SystemErr ''no daemon'')), pr_runtime = demo_runtime,
      pr_run = (\<lambda>e p. ret (Inr '''', [])), pr_exit_code = (\<lambda>e. if is_not_found e then 30 else 1),
      pr_stdout = (\<lambda>x. ret ()), pr_log = demo_log_os, pr_stdin = Inr '''', pr_decode_request = (\<lambda>r. None),
      pr_setenv = (\<lambda>k v. ret None)\<rparr>"

theorem exit_contract_witness:
  "run_state (run_command ((demo_process (Inl (PlainErr ''no command'')))
     \<lparr>pr_run := (\<lambda>e p. ret (Inl (PlainErr ''never run''), []))\<rparr>)) new_fake = (1, new_fake)"
proof -
  let ?pr = "demo_process (Inl (PlainErr ''no command''))"
  have run: "run_state (run_command ?pr) new_fake = (1, new_fake)"
    by (simp add: run_command_def set_up_def get_environment_def demo_process_def log_record_def new_logger_def
        log_stderr_def demo_log_os_def Let_def)
  have "set_up ?pr = Inl (''failed to read execution environment'', PlainErr ''no command'')"
    by (simp add: set_up_def get_environment_def demo_process_def)
  then show ?thesis using exit_contract [OF _ run] by (simp add: demo_process_def)
qed

end
