(* ===== verification/Admission.thy ===== *)
theory Admission
  imports Demo_Create
begin

text \<open>
  What a pool's \<open>extra_specs\<close> can ask for: the limits that hold of every create that is admitted
  (\<open>internal/extraspecs\<close>, \<open>internal/config\<close>, \<open>CreateInstance\<close> up to its first Docker call), and the
  merge of the pool's variables into the environment of the provider.
\<close>

lemma bound_memory_within:
  "bound_memory field override c = Inr m \<Longrightarrow> 0 < c \<Longrightarrow> 0 < m \<and> m \<le> c"
  by (auto simp: bound_memory_def parse_positive_byte_size_def split: if_splits sum.splits)

lemma effective_dind_mode_allowed:
  "effective_dind_mode cfg m = Inr mode \<Longrightarrow> mode \<in> set (cf_allowed_dind_modes cfg)"
  by (auto simp: effective_dind_mode_def Let_def split: if_splits)

lemma parse_extra_specs_env:
  assumes "parse_extra_specs schema raw = Inr s" "(k, v) \<in> set (es_extra_env s)"
  shows "valid_env_name k \<and> \<not> reserved_env_name k"
proof -
  have "List.map_filter (\<lambda>(name, v). check_env_name name) (es_extra_env s) = []"
    using assms(1) by (auto simp: parse_extra_specs_def split: sum.splits if_splits option.splits list.splits)
  then have "check_env_name k = None"
    using assms(2) by (fastforce simp: List.map_filter_def filter_empty_conv)
  then show ?thesis by (auto simp: check_env_name_def split: if_splits)
qed

lemma resolve_specs_env:
  assumes "resolve_specs s cfg = Inr rv"
  shows "rv_extra_env rv = es_extra_env s" "(k, v) \<in> set (es_extra_env s) \<Longrightarrow> env_allowed cfg k"
proof -
  show "rv_extra_env rv = es_extra_env s"
    using assms by (auto simp: resolve_specs_def split: sum.splits if_splits option.splits)
  have "find (\<lambda>name. \<not> env_allowed cfg name) (sort (map fst (es_extra_env s))) = None"
    using assms by (auto simp: resolve_specs_def split: sum.splits if_splits option.splits)
  then show "env_allowed cfg k" if "(k, v) \<in> set (es_extra_env s)"
    using that by (fastforce simp: find_None_iff)
qed

lemma resolve_specs_limits:
  assumes "resolve_specs s cfg = Inr rv"
  shows "\<exists>c. effective_runner_memory_bytes cfg (rv_flavor rv) = Inr c \<and> (0 < c \<longrightarrow> 0 < rv_runner_memory_bytes rv \<and> rv_runner_memory_bytes rv \<le> c)"
    "\<exists>c. effective_dind_memory_bytes cfg (rv_flavor rv) = Inr c \<and> (0 < c \<longrightarrow> 0 < rv_dind_memory_bytes rv \<and> rv_dind_memory_bytes rv \<le> c)"
    "rv_dind_mode rv \<in> set (cf_allowed_dind_modes cfg)"
  using assms by (auto simp: resolve_specs_def split: sum.splits if_splits option.splits
      dest!: bound_memory_within effective_dind_mode_allowed)

lemma admitD:
  assumes "admit p b extra = Inr rv"
  obtains s where "parse_extra_specs (rt_schema (pv_rt p)) extra = Inr s" "resolve_specs s (pv_cfg p) = Inr rv"
    "rv_dind_mode rv \<noteq> dind_mode_none \<Longrightarrow> cf_dind_image (pv_cfg p) \<noteq> ''''"
  using assms by (auto simp: admit_def split: sum.splits if_splits option.splits)

text \<open>A valid name contains no equals sign, so the pair written for it sets that very name.\<close>

lemma valid_env_name_key:
  assumes "valid_env_name k"
  shows "env_key (env_pair k v) = k"
proof -
  have "\<not> env_name_start CHR ''=''" "\<not> is_digit CHR ''=''" by code_simp+
  then have "CHR ''='' \<notin> set k"
    using assms by (cases k) (auto simp: valid_env_name_def list_all_iff)
  then show ?thesis unfolding env_key_def env_pair_def by (subst takeWhile_append2) auto
qed

lemma merge_extra_env_keeps:
  assumes "\<And>k v. (k, v) \<in> set extra \<Longrightarrow> valid_env_name k"
  shows "filter (\<lambda>e. env_key e \<in> set (present_keys env)) (merge_extra_env env extra) =
    filter (\<lambda>e. env_key e \<in> set (present_keys env)) env"
proof -
  have "filter (\<lambda>e. env_key e \<in> set (present_keys env)) (map (\<lambda>k. env_pair k (the (map_of extra k)))
      (filter (\<lambda>k. k \<notin> set (present_keys env)) (sort (map fst extra)))) = []"
    using assms valid_env_name_key by (auto simp: filter_empty_conv)
  then show ?thesis by (simp add: merge_extra_env_def Let_def)
qed

section \<open>An accepted configuration\<close>


text \<open>A size that parses has not wrapped: it is the product in the range of \<open>int64\<close>.\<close>

definition memory_limit :: "int res \<Rightarrow> bool" where
  "memory_limit r \<longleftrightarrow> (\<exists>n. r = Inr n \<and> 0 \<le> n \<and> n \<le> max_int64)"




lemma no_limit [simp]: "memory_limit (Inr 0)"
  by (simp add: memory_limit_def max_int64_def)









section \<open>Properties\<close>



text \<open>
  C28: An admitted create stays within the operator's limits: each memory limit is positive and at most
  the ceiling of its flavor where there is one, the DinD mode is one of the allowed modes and its image is
  configured, and every extra variable has a valid name that is on the allowlist and not reserved. Merged
  into any environment of the provider, the variables leave what it sets untouched.
\<close>

theorem admitted_within_limits:
  assumes "admit p b extra = Inr rv"
  shows "(\<exists>c. effective_runner_memory_bytes (pv_cfg p) (rv_flavor rv) = Inr c \<and>
      (0 < c \<longrightarrow> 0 < rv_runner_memory_bytes rv \<and> rv_runner_memory_bytes rv \<le> c)) \<and>
    (\<exists>c. effective_dind_memory_bytes (pv_cfg p) (rv_flavor rv) = Inr c \<and>
      (0 < c \<longrightarrow> 0 < rv_dind_memory_bytes rv \<and> rv_dind_memory_bytes rv \<le> c)) \<and>
    rv_dind_mode rv \<in> set (cf_allowed_dind_modes (pv_cfg p)) \<and>
    (rv_dind_mode rv = dind_mode_none \<or> cf_dind_image (pv_cfg p) \<noteq> '''') \<and>
    (\<forall>(k, v) \<in> set (rv_extra_env rv). valid_env_name k \<and> \<not> reserved_env_name k \<and> env_allowed (pv_cfg p) k) \<and>
    (\<forall>env. filter (\<lambda>e. env_key e \<in> set (present_keys env)) (merge_extra_env env (rv_extra_env rv)) =
       filter (\<lambda>e. env_key e \<in> set (present_keys env)) env)"
proof -
  obtain s where s: "parse_extra_specs (rt_schema (pv_rt p)) extra = Inr s" "resolve_specs s (pv_cfg p) = Inr rv"
    "rv_dind_mode rv = dind_mode_none \<or> cf_dind_image (pv_cfg p) \<noteq> ''''" using assms admitD by metis
  have env: "valid_env_name k \<and> \<not> reserved_env_name k \<and> env_allowed (pv_cfg p) k" if "(k, v) \<in> set (rv_extra_env rv)" for k v
    using that parse_extra_specs_env [OF s(1)] resolve_specs_env [OF s(2)] by simp
  then have "filter (\<lambda>e. env_key e \<in> set (present_keys env)) (merge_extra_env env (rv_extra_env rv)) =
      filter (\<lambda>e. env_key e \<in> set (present_keys env)) env" for env
    by (intro merge_extra_env_keeps) blast
  then show ?thesis using resolve_specs_limits [OF s(2)] s(3) env by auto
qed

theorem admitted_within_limits_witness:
  "\<exists>rv. admit (demo_provider\<lparr>pv_cfg := demo_config\<lparr>cf_allowed_env := [''TEAM'']\<rparr>\<rparr>) demo_bootstrap
      (JObj [(''extra_env'', JObj [(''TEAM'', JStr ''a'')])]) = Inr rv \<and>
    rv_extra_env rv = [(''TEAM'', ''a'')] \<and> rv_dind_mode rv \<in> set (cf_allowed_dind_modes demo_config) \<and>
    \<not> reserved_env_name ''TEAM''"
proof -
  let ?p = "demo_provider\<lparr>pv_cfg := demo_config\<lparr>cf_allowed_env := [''TEAM'']\<rparr>\<rparr>"
  let ?x = "JObj [(''extra_env'', JObj [(''TEAM'', JStr ''a'')])]"
  let ?rv = "demo_resolved\<lparr>rv_extra_env := [(''TEAM'', ''a'')]\<rparr>"
  have rv: "admit ?p demo_bootstrap ?x = Inr ?rv" by code_simp
  have "rv_dind_mode ?rv \<in> set (cf_allowed_dind_modes demo_config)" "\<not> reserved_env_name ''TEAM''"
    using admitted_within_limits [OF rv] by simp_all
  then show ?thesis using rv by (intro exI [of _ ?rv]) simp
qed

end
