(* ===== verification/Watch_Wait.thy ===== *)
theory Watch_Wait
  imports Status_Watch
begin

text \<open>
  The wait for the runner's listener process (\<open>waitListenerProcess\<close> of
  \<open>internal/provider/status_report.go\<close>): it ends, because each tick of its poll brings the deadline
  nearer, and it answers that the runner is online only after polls that all showed the process for the
  whole of the settling time.
\<close>

section \<open>The polls of a wait\<close>

text \<open>What \<open>m + 1\<close> polls observe: the answer of each and when it came.\<close>

type_synonym observation = "(string list \<times> string list list) res \<times> time"

primrec polls :: "'s watch_env \<Rightarrow> string \<Rightarrow> nat \<Rightarrow> ('s, observation list) state" where
  "polls we i 0 = do {
     tp \<leftarrow> container_top (we_cli we) i;
     now \<leftarrow> read_state (we_now we);
     ret [(tp, now)]
   }"
| "polls we i (Suc m) = do {
     tp \<leftarrow> container_top (we_cli we) i;
     now \<leftarrow> read_state (we_now we);
     alive \<leftarrow> we_tick we;
     rest \<leftarrow> polls we i m;
     ret ((tp, now) # rest)
   }"

definition listener_seen :: "observation \<Rightarrow> bool" where
  "listener_seen x = (case fst x of Inl e \<Rightarrow> False | Inr t \<Rightarrow> has_process t runner_listener_process)"

text \<open>From some poll on every one showed the listener, and the last came a settling time after that one.\<close>

definition listener_settled :: "observation list \<Rightarrow> bool" where
  "listener_settled obs \<longleftrightarrow>
     (\<exists>k < length obs. list_all listener_seen (drop k obs) \<and>
        listener_settle \<le> time_sub (snd (last obs)) (snd (obs ! k)))"

definition settled_since :: "time option \<Rightarrow> observation list \<Rightarrow> bool" where
  "settled_since first_seen obs \<longleftrightarrow>
     listener_settled obs \<or>
     (\<exists>f. first_seen = Some f \<and> obs \<noteq> [] \<and> list_all listener_seen obs \<and> listener_settle \<le> time_sub (snd (last obs)) f)"

lemma settled_Cons: "listener_settled obs \<Longrightarrow> listener_settled (x # obs)"
  unfolding listener_settled_def by (auto intro!: exI [of _ "Suc k" for k])

lemma settled_since_unseen: "settled_since None obs \<Longrightarrow> settled_since f (x # obs)"
  by (auto simp: settled_since_def settled_Cons)

lemma settled_since_seen:
  assumes "settled_since (Some (case f of None \<Rightarrow> snd x | Some t \<Rightarrow> t)) obs" "listener_seen x"
  shows "settled_since f (x # obs)"
  using assms
  by (cases f) (auto simp: settled_since_def settled_Cons, auto simp: listener_settled_def intro!: exI [of _ 0])

lemma wait_settled:
  assumes "run_state (wait_listener_process we i n f) s = (Some (True, e), s')"
  shows "e = None \<and> (\<exists>m < n. \<exists>obs. run_state (polls we i m) s = (obs, s') \<and> settled_since f obs)"
  using assms
proof (induction n arbitrary: f s)
  case (Suc n)
  obtain tp s1 where tp: "run_state (container_top (we_cli we) i) s = (tp, s1)" by fastforce
  obtain alive s2 where tk: "run_state (we_tick we) s1 = (alive, s2)" by fastforce
  let ?x = "(tp, we_now we s1)"
  let ?seen = "case f of None \<Rightarrow> we_now we s1 | Some t \<Rightarrow> t"
  have more: ?case if run: "run_state (wait_listener_process we i n g) s2 = (Some (True, e), s')"
    and up: "\<And>obs. settled_since g obs \<Longrightarrow> settled_since f (?x # obs)" for g
  proof -
    obtain m obs where "e = None" "m < n" "run_state (polls we i m) s2 = (obs, s')" "settled_since g obs"
      using Suc.IH [OF run] by blast
    then have "e = None" "Suc m < Suc n" "run_state (polls we i (Suc m)) s = (?x # obs, s')" "settled_since f (?x # obs)"
      using tp tk up by simp_all
    then show ?thesis by blast
  qed
  show ?case
  proof (cases "listener_seen ?x")
    case False
    then have "run_state (wait_listener_process we i n None) s2 = (Some (True, e), s')"
      using Suc.prems tp tk by (auto simp: listener_seen_def split: sum.splits if_splits)
    then show ?thesis using more settled_since_unseen by blast
  next
    case True
    then obtain t where t: "tp = Inr t" "has_process t runner_listener_process"
      by (auto simp: listener_seen_def split: sum.splits)
    show ?thesis
    proof (cases "time_sub (we_now we s1) ?seen \<ge> listener_settle")
      case settle: True
      then have out: "e = None" "s' = s1" using Suc.prems tp t by auto
      have "settled_since f [?x]"
        using settle True by (cases f) (auto simp: settled_since_def listener_settled_def)
      moreover have "run_state (polls we i 0) s = ([?x], s1)" using tp by simp
      ultimately show ?thesis using out by blast
    next
      case nope: False
      then have "run_state (wait_listener_process we i n (Some ?seen)) s2 = (Some (True, e), s')"
        using Suc.prems tp tk t by (auto split: if_splits)
      moreover have "settled_since f (?x # obs)" if "settled_since (Some ?seen) obs" for obs
        using that settled_since_seen [where f = f and x = ?x] True by (cases f) simp_all
      ultimately show ?thesis by (rule more)
    qed
  qed
qed simp

section \<open>The wait ends\<close>

text \<open>\<open>left\<close> is how many ticks a wait can still get: a tick that comes spends one, a poll gains none.\<close>

definition ticks_down :: "('s \<Rightarrow> nat) \<Rightarrow> 's watch_env \<Rightarrow> bool" where
  "ticks_down left we \<longleftrightarrow>
     (\<forall>i s r s'. run_state (container_top (we_cli we) i) s = (r, s') \<longrightarrow> left s' \<le> left s) \<and>
     (\<forall>s s'. run_state (we_tick we) s = (True, s') \<longrightarrow> left s' < left s)"

lemma wait_returns:
  assumes "ticks_down left we" "left s < n"
  shows "\<exists>r s'. run_state (wait_listener_process we i n f) s = (Some r, s')"
  using assms(2)
proof (induction n arbitrary: f s)
  case (Suc n)
  obtain tp s1 where tp: "run_state (container_top (we_cli we) i) s = (tp, s1)" by fastforce
  obtain alive s2 where tk: "run_state (we_tick we) s1 = (alive, s2)" by fastforce
  have "left s1 \<le> left s" using assms(1) tp unfolding ticks_down_def by blast
  moreover have "left s2 < left s1" if alive
    using assms(1) tk that unfolding ticks_down_def by (metis (full_types))
  ultimately have "left s2 < n" if alive using that Suc.prems by linarith
  then have go: "\<exists>r s'. run_state (wait_listener_process we i n g) s2 = (Some r, s')" if alive for g
    using that Suc.IH by blast
  then show ?case using tp tk by (cases alive) (auto simp: Let_def split: sum.split)
qed simp

lemma wait_runner_returns:
  assumes "ticks_down left we" "\<And>s. left s < we_fuel we"
  shows "fst (run_state (wait_runner_listening we i) s) \<noteq> None"
proof -
  have "run_state (wait_listener_process we i (we_fuel we) None) t \<noteq> (None, t')" for t t'
    using wait_returns [OF assms(1) assms(2), of i None t] by auto
  then show ?thesis
    by (auto simp: wait_runner_listening_def Let_def split: sum.split prod.split option.split)
qed

end
