(* ===== verification/Fake_Logs.thy ===== *)
theory Fake_Logs
  imports Fake_Store
begin

text \<open>
  What a test does to the fake daemon's containers, and the followed log stream, from
  \<open>internal/docker/fake.go\<close> and \<open>fake_logs.go\<close>: the hooks, \<open>pumpLogs\<close> as a step relation beside whatever
  else happens to the daemon, and why a follower neither loses a line nor sleeps through one.
\<close>

section \<open>The test's side\<close>

definition append_log :: "string \<Rightarrow> log_stream \<Rightarrow> string \<Rightarrow> fake \<Rightarrow> fake" where
  "append_log i st line f =
     (case find_container f i of
        None \<Rightarrow> f
      | Some c \<Rightarrow> update_container f (wake_log_followers
          (c\<lparr>fc_logs := fc_logs c @ [\<lparr>le_stream = st, le_at = fk_now f, le_line = line @ [CHR 0x0A]\<rparr>]\<rparr>)))"

definition set_processes :: "string \<Rightarrow> string list \<Rightarrow> fake \<Rightarrow> fake" where
  "set_processes i cmdlines f =
     (case find_container f i of
        None \<Rightarrow> f
      | Some c \<Rightarrow> update_container f (c\<lparr>fc_processes := cmdlines\<rparr>))"

text \<open>The body of a statistics answer is kept as the counters its decoder finds in it.\<close>

definition set_stats :: "string \<Rightarrow> (string \<times> 64 word) list \<Rightarrow> fake \<Rightarrow> fake" where
  "set_stats i body f =
     (case find_container f i of
        None \<Rightarrow> f
      | Some c \<Rightarrow> update_container f (c\<lparr>fc_stats := body\<rparr>))"

text \<open>The hooks below \<open>SetState\<close> look the ID up in the map and not the name.\<close>

definition lookup :: "fake \<Rightarrow> string \<Rightarrow> fake_container option" where
  "lookup f i = find (\<lambda>c. fc_id c = i) (fk_containers f)"

definition set_finished_at :: "string \<Rightarrow> time \<Rightarrow> fake \<Rightarrow> fake" where
  "set_finished_at i t f =
     (case lookup f i of
        None \<Rightarrow> f
      | Some c \<Rightarrow> update_container f (c\<lparr>fc_finished_at := Some t\<rparr>))"

definition set_exit_code :: "string \<Rightarrow> int \<Rightarrow> fake \<Rightarrow> fake" where
  "set_exit_code i code f =
     (case lookup f i of
        None \<Rightarrow> f
      | Some c \<Rightarrow> update_container f (c\<lparr>fc_exit_code := code\<rparr>))"

definition fake_tmpfs :: "string \<Rightarrow> fake \<Rightarrow> (string \<times> string) list option" where
  "fake_tmpfs i f = map_option fc_tmpfs (find_container f i)"

definition fake_tmpfs_mounts :: "string \<Rightarrow> fake \<Rightarrow> (string \<times> string) list option" where
  "fake_tmpfs_mounts i f = map_option fc_tmpfs_mounts (find_container f i)"

definition raw_runtime :: "string \<Rightarrow> fake \<Rightarrow> string" where
  "raw_runtime i f = (case find_container f i of None \<Rightarrow> '''' | Some c \<Rightarrow> fc_raw_runtime c)"

text \<open>Everything that changes the containers while somebody reads a log.\<close>

datatype daemon_op =
    AppendLog string log_stream string
  | SetProcesses string "string list"
  | SetStats string "(string \<times> 64 word) list"
  | SetState string string bool
  | SetFinishedAt string time
  | SetExitCode string int
  | Create container_config host_config string
  | Start string
  | Stop string
  | Wait string
  | Remove string
  | Tick time

fun apply_op :: "daemon_op \<Rightarrow> fake \<Rightarrow> fake" where
  "apply_op (AppendLog i st line) f = append_log i st line f"
| "apply_op (SetProcesses i cs) f = set_processes i cs f"
| "apply_op (SetStats i body) f = set_stats i body f"
| "apply_op (SetState i st oom) f = fake_set_state i st oom f"
| "apply_op (SetFinishedAt i t) f = set_finished_at i t f"
| "apply_op (SetExitCode i n) f = set_exit_code i n f"
| "apply_op (Create cfg host name) f = snd (fake_container_create cfg host name f)"
| "apply_op (Start i) f = snd (fake_container_start i f)"
| "apply_op (Stop i) f = snd (fake_container_stop i f)"
| "apply_op (Wait i) f = snd (fake_container_wait i f)"
| "apply_op (Remove i) f = snd (fake_container_remove i f)"
| "apply_op (Tick t) f = f\<lparr>fk_now := t\<rparr>"

section \<open>The pump\<close>

text \<open>
  The pump holds a pointer to its container: \<open>pr_object\<close> is what it points to. While the container is in
  the daemon's map that is the container's entry; \<open>ContainerRemove\<close> takes it out of the map and wakes its
  followers, and nothing can reach it afterwards.
\<close>

definition object_after :: "fake \<Rightarrow> fake \<Rightarrow> fake_container \<Rightarrow> fake_container" where
  "object_after f g c =
     (case lookup g (fc_id c) of
        Some d \<Rightarrow> d
      | None \<Rightarrow> if lookup f (fc_id c) = None then c else wake_log_followers c)"

definition running_in :: "fake \<Rightarrow> fake_container \<Rightarrow> bool" where
  "running_in f c \<longleftrightarrow> fc_state c = ''running'' \<and> lookup f (fc_id c) \<noteq> None"

datatype pump_phase =
    Scanning
  | Writing "fake_log_entry list" bool nat
  | Waiting nat
  | Ended "gerr option"
  | ReaderGone

record pump_run =
  pr_fake :: fake
  pr_object :: fake_container
  pr_ctx_err :: "gerr option"
  pr_open :: bool
  pr_next :: nat
  pr_phase :: pump_phase
  pr_body :: string

definition pump_start :: "fake \<Rightarrow> fake_container \<Rightarrow> nat \<Rightarrow> gerr option \<Rightarrow> pump_run" where
  "pump_start f c start ctx_err =
     \<lparr>pr_fake = f, pr_object = c, pr_ctx_err = ctx_err, pr_open = True, pr_next = start,
      pr_phase = Scanning, pr_body = ''''\<rparr>"

definition chosen :: "log_options \<Rightarrow> fake_log_entry \<Rightarrow> bool" where
  "chosen opts e \<longleftrightarrow> (case le_stream e of LogStdout \<Rightarrow> lo_stdout opts | LogStderr \<Rightarrow> lo_stderr opts)"

text \<open>
  One round of the loop of \<open>pumpLogs\<close>: copy the new entries under the mutex, write the chosen ones (the
  pipe hands each to the reader), then end or wait for the channel that was copied.
\<close>

inductive pump_step :: "sdk \<Rightarrow> log_options \<Rightarrow> pump_run \<Rightarrow> pump_run \<Rightarrow> bool" for k opts where
  scan: "pr_phase r = Scanning \<Longrightarrow>
    pump_step k opts r (r\<lparr>pr_next := length (fc_logs (pr_object r)),
      pr_phase := Writing (drop (pr_next r) (fc_logs (pr_object r))) (running_in (pr_fake r) (pr_object r))
        (fc_log_notify (pr_object r))\<rparr>)"
| skip: "pr_phase r = Writing (e # es) up g \<Longrightarrow> \<not> chosen opts e \<Longrightarrow>
    pump_step k opts r (r\<lparr>pr_phase := Writing es up g\<rparr>)"
| put: "pr_phase r = Writing (e # es) up g \<Longrightarrow> chosen opts e \<Longrightarrow> pr_open r \<Longrightarrow>
    pump_step k opts r (r\<lparr>pr_phase := Writing es up g,
      pr_body := pr_body r @ write_log_entry k opts (fc_tty (pr_object r)) e\<rparr>)"
| reader_gone: "pr_phase r = Writing (e # es) up g \<Longrightarrow> chosen opts e \<Longrightarrow> \<not> pr_open r \<Longrightarrow>
    pump_step k opts r (r\<lparr>pr_phase := ReaderGone\<rparr>)"
| ended: "pr_phase r = Writing [] up g \<Longrightarrow> \<not> lo_follow opts \<or> \<not> up \<Longrightarrow>
    pump_step k opts r (r\<lparr>pr_phase := Ended None\<rparr>)"
| wait: "pr_phase r = Writing [] True g \<Longrightarrow> lo_follow opts \<Longrightarrow>
    pump_step k opts r (r\<lparr>pr_phase := Waiting g\<rparr>)"
| woken: "pr_phase r = Waiting g \<Longrightarrow> g \<noteq> fc_log_notify (pr_object r) \<Longrightarrow>
    pump_step k opts r (r\<lparr>pr_phase := Scanning\<rparr>)"
| canceled: "pr_phase r = Waiting g \<Longrightarrow> pr_ctx_err r = Some e \<Longrightarrow>
    pump_step k opts r (r\<lparr>pr_phase := Ended (Some e)\<rparr>)"

inductive outside_step :: "pump_run \<Rightarrow> pump_run \<Rightarrow> bool" where
  daemon: "outside_step r (r\<lparr>pr_fake := apply_op x (pr_fake r),
    pr_object := object_after (pr_fake r) (apply_op x (pr_fake r)) (pr_object r)\<rparr>)"
| cancel: "pr_ctx_err r = None \<Longrightarrow> outside_step r (r\<lparr>pr_ctx_err := Some e\<rparr>)"
| close_reader: "outside_step r (r\<lparr>pr_open := False\<rparr>)"

definition log_step :: "sdk \<Rightarrow> log_options \<Rightarrow> pump_run \<Rightarrow> pump_run \<Rightarrow> bool" where
  "log_step k opts r t \<longleftrightarrow> pump_step k opts r t \<or> outside_step r t"

inductive_cases pump_stepE: "pump_step k opts r t"
inductive_cases outside_stepE: "outside_step r t"

section \<open>What an operation does to a container\<close>

definition ids_ok :: "fake \<Rightarrow> bool" where
  "ids_ok f \<longleftrightarrow> distinct (map fc_id (fk_containers f)) \<and>
     list_all (\<lambda>i. \<exists>n \<le> fk_next_id f. i = ''fake-'' @ nat_str n) (map fc_id (fk_containers f))"

definition old_id :: "fake \<Rightarrow> string \<Rightarrow> bool" where
  "old_id f i \<longleftrightarrow> (\<exists>n \<le> fk_next_id f. i = ''fake-'' @ nat_str n)"

definition points :: "fake \<Rightarrow> fake_container \<Rightarrow> bool" where
  "points f c \<longleftrightarrow> old_id f (fc_id c) \<and> (lookup f (fc_id c) = None \<or> lookup f (fc_id c) = Some c)"

text \<open>
  Lines are only added, and a change that a follower waits for (a line, the container leaving the
  running state) makes a new channel.
\<close>

definition signalled :: "fake_container \<Rightarrow> bool \<Rightarrow> fake_container \<Rightarrow> bool \<Rightarrow> bool" where
  "signalled c up d up' \<longleftrightarrow>
     fc_id d = fc_id c \<and> fc_tty d = fc_tty c \<and> (\<exists>ls. fc_logs d = fc_logs c @ ls) \<and>
     fc_log_notify c \<le> fc_log_notify d \<and>
     (fc_log_notify d = fc_log_notify c \<longrightarrow> fc_logs d = fc_logs c \<and> (up \<longrightarrow> up'))"

abbreviation signals :: "fake_container \<Rightarrow> fake_container \<Rightarrow> bool" where
  "signals c d \<equiv> signalled c (fc_state c = ''running'') d (fc_state d = ''running'')"

definition op_ok :: "fake \<Rightarrow> fake \<Rightarrow> bool" where
  "op_ok f g \<longleftrightarrow> ids_ok g \<and>
     (\<forall>c. points f c \<longrightarrow> points g (object_after f g c) \<and>
        signalled c (running_in f c) (object_after f g c) (running_in g (object_after f g c)))"

lemma signalled_refl [simp]: "signalled c up c up"
  by (simp add: signalled_def)

lemma lookup_update:
  "lookup (update_container f d) i = (case lookup f i of None \<Rightarrow> None | Some c \<Rightarrow> Some (if i = fc_id d then d else c))"
proof -
  have "find (\<lambda>c. fc_id c = i) (map (\<lambda>x. if fc_id x = fc_id d then d else x) xs) =
    (case find (\<lambda>c. fc_id c = i) xs of None \<Rightarrow> None | Some c \<Rightarrow> Some (if i = fc_id d then d else c))" for xs
    by (induction xs) auto
  then show ?thesis by (simp add: lookup_def update_container_def)
qed

lemma lookup_id: "lookup f i = Some c \<Longrightarrow> fc_id c = i"
  by (auto simp: lookup_def dest: find_SomeD)

lemma lookup_find:
  assumes "ids_ok f" "find_container f i = Some c"
  shows "lookup f (fc_id c) = Some c"
  using assms find_containerD [OF assms(2)] find_key_Some [of fc_id "fk_containers f" "fc_id c" c]
  by (simp add: lookup_def ids_ok_def)

lemma op_ok_refl: "ids_ok f \<Longrightarrow> fk_containers g = fk_containers f \<Longrightarrow> fk_next_id f \<le> fk_next_id g \<Longrightarrow> op_ok f g"
  by (force simp: op_ok_def ids_ok_def points_def old_id_def object_after_def lookup_def running_in_def list_all_iff
      split: option.splits)

lemma ids_ok_cong:
  "map fc_id (fk_containers g) = map fc_id (fk_containers f) \<Longrightarrow> fk_next_id g = fk_next_id f \<Longrightarrow> ids_ok g = ids_ok f"
  by (simp add: ids_ok_def)

lemma op_ok_update:
  assumes "ids_ok f" "lookup f (fc_id c) = Some c" "signals c d"
  shows "op_ok f (update_container f d)"
proof -
  let ?g = "update_container f d"
  have d: "fc_id d = fc_id c" using assms(3) by (simp add: signalled_def)
  have "map fc_id (fk_containers ?g) = map fc_id (fk_containers f)"
    using map_key_upd [of fc_id d "fc_id d" "fk_containers f"] by (simp add: update_container_def)
  then have ids: "ids_ok ?g" using assms(1) ids_ok_cong [of ?g f] by (simp add: update_container_def)
  have old: "old_id ?g = old_id f" by (simp add: old_id_def update_container_def fun_eq_iff)
  have "points ?g (object_after f ?g x) \<and>
    signalled x (running_in f x) (object_after f ?g x) (running_in ?g (object_after f ?g x))"
    if x: "points f x" for x
  proof (cases "lookup f (fc_id x) = Some x \<and> fc_id x = fc_id c")
    case True
    then have "Some x = Some c" using assms(2) by metis
    then have "x = c" by simp
    then show ?thesis using x assms(2,3) d by (simp add: points_def old object_after_def lookup_update running_in_def)
  next
    case False
    then have "object_after f ?g x = x" "lookup ?g (fc_id x) = lookup f (fc_id x)"
      using x d by (auto simp: points_def object_after_def lookup_update split: option.splits)
    then show ?thesis using x by (simp add: points_def old running_in_def)
  qed
  then show ?thesis using ids by (simp add: op_ok_def)
qed

lemma op_ok_remove:
  assumes "ids_ok f" "lookup f (fc_id c) = Some c"
  shows "op_ok f (f\<lparr>fk_containers := filter (\<lambda>d. fc_id d \<noteq> fc_id c) (fk_containers f), fk_remove_order := x\<rparr>)"
    (is "op_ok f ?g")
proof -
  have ids: "ids_ok ?g" using assms(1) by (auto simp: ids_ok_def distinct_map inj_on_def list_all_iff)
  have look: "lookup ?g i = (if i = fc_id c then None else lookup f i)" for i
    by (simp add: lookup_def find_key_filter)
  have old: "old_id ?g = old_id f" by (simp add: old_id_def fun_eq_iff)
  have "points ?g (object_after f ?g y) \<and>
    signalled y (running_in f y) (object_after f ?g y) (running_in ?g (object_after f ?g y))"
    if y: "points f y" for y
  proof (cases "fc_id y = fc_id c")
    case True
    then have "object_after f ?g y = wake_log_followers y" using assms(2) by (simp add: object_after_def look)
    then show ?thesis using y True by (simp add: points_def old look signalled_def)
  next
    case False
    then have "object_after f ?g y = y" using y by (auto simp: points_def object_after_def look split: option.splits)
    then show ?thesis using y False by (simp add: points_def old look running_in_def)
  qed
  then show ?thesis using ids by (simp add: op_ok_def)
qed

lemma old_id_mono: "fk_next_id f \<le> fk_next_id g \<Longrightarrow> old_id f i \<Longrightarrow> old_id g i"
  unfolding old_id_def using le_trans by blast

lemma op_ok_create:
  assumes "ids_ok f" "fc_id c = ''fake-'' @ nat_str (Suc (fk_next_id f))"
    and "fk_containers g = fk_containers f @ [c]" "fk_next_id g = Suc (fk_next_id f)"
  shows "op_ok f g"
proof -
  have fr: "fc_id c \<notin> set (map fc_id (fk_containers f))"
    "list_all (\<lambda>i. \<exists>n \<le> Suc (fk_next_id f). i = ''fake-'' @ nat_str n) (map fc_id (fk_containers f))"
    using fresh_id [of "fk_next_id f" "''fake-''" "map fc_id (fk_containers f)"] assms(1,2) by (auto simp: ids_ok_def)
  then have ids: "ids_ok g" using assms by (auto simp: ids_ok_def)
  have look: "lookup g i = (if i = fc_id c then Some c else lookup f i)" for i
    using fr(1) by (simp add: lookup_def assms(3) find_key_snoc)
  have new: "\<not> old_id f (fc_id c)" by (auto simp: old_id_def assms(2))
  have "points g (object_after f g y) \<and> signalled y (running_in f y) (object_after f g y) (running_in g (object_after f g y))"
    if y: "points f y" for y
  proof -
    have ne: "fc_id y \<noteq> fc_id c" using y new by (auto simp: points_def)
    then have "object_after f g y = y" using y by (auto simp: points_def object_after_def look split: option.splits)
    then show ?thesis using y ne old_id_mono [of f g] assms(4) by (simp add: points_def look running_in_def)
  qed
  then show ?thesis using ids by (simp add: op_ok_def)
qed

lemma create_missing_volumes_containers [simp]:
  "fk_containers (create_missing_volumes ms f) = fk_containers f"
  "fk_next_id (create_missing_volumes ms f) = fk_next_id f"
  by (induction ms f rule: create_missing_volumes.induct) auto

lemma op_ok_record:
  assumes "ids_ok f"
  shows "op_ok f (snd (record_container cfg host name f))"
proof -
  have "\<exists>c. fc_id c = ''fake-'' @ nat_str (Suc (fk_next_id f)) \<and>
      fk_containers (snd (record_container cfg host name f)) = fk_containers f @ [c] \<and>
      fk_next_id (snd (record_container cfg host name f)) = Suc (fk_next_id f)"
    by (simp add: record_container_def Let_def)
  then show ?thesis using op_ok_create [OF assms] by blast
qed

lemma op_ok_container_create:
  assumes "ids_ok f"
  shows "op_ok f (snd (fake_container_create cfg host name f))"
proof -
  have "snd (fake_container_create cfg host name f) \<in> {f, snd (record_container cfg host name f)}"
    by (auto simp: fake_container_create_def Let_def split: option.splits prod.splits)
  then show ?thesis using op_ok_record [OF assms] op_ok_refl [OF assms refl order.refl] by auto
qed

lemma op_ok_step:
  assumes "ids_ok f"
  shows "op_ok f (apply_op x f)"
proof -
  note up = op_ok_update [OF assms]
  note fl = lookup_find [OF assms]
  show ?thesis
  proof (cases x)
    case (AppendLog i st line)
    then show ?thesis using op_ok_refl [OF assms]
      by (auto simp: append_log_def signalled_def split: option.splits dest!: fl intro!: up)
  next
    case (SetState i st oom)
    then show ?thesis using op_ok_refl [OF assms]
      by (auto simp: fake_set_state_def lookup_def [symmetric] signalled_def Let_def split: option.splits
          dest: lookup_id intro!: up)
  next
    case (Start i)
    then show ?thesis using op_ok_refl [OF assms]
      by (auto simp: fake_container_start_def signalled_def Let_def split: option.splits if_splits dest!: fl intro!: up)
  next
    case (Create cfg host name)
    then show ?thesis using op_ok_container_create [OF assms] by simp
  next
    case (Remove i)
    then show ?thesis using op_ok_refl [OF assms]
      by (auto simp: fake_container_remove_def split: option.splits dest!: fl intro!: op_ok_remove [OF assms])
  qed (use op_ok_refl [OF assms] in \<open>auto simp: set_processes_def set_stats_def set_finished_at_def set_exit_code_def
      fake_container_stop_def fake_container_wait_def signalled_def split: option.splits if_splits
      dest: lookup_id dest!: fl intro!: up\<close>)
qed

section \<open>What a follower has read\<close>

definition body_of :: "sdk \<Rightarrow> log_options \<Rightarrow> bool \<Rightarrow> fake_log_entry list \<Rightarrow> string" where
  "body_of k opts tty es = concat (map (write_log_entry k opts tty) es)"

definition read_upto :: "sdk \<Rightarrow> log_options \<Rightarrow> nat \<Rightarrow> pump_run \<Rightarrow> nat \<Rightarrow> string" where
  "read_upto k opts start r n =
     body_of k opts (fc_tty (pr_object r)) (drop start (take n (fc_logs (pr_object r))))"

definition pump_inv :: "sdk \<Rightarrow> log_options \<Rightarrow> nat \<Rightarrow> pump_run \<Rightarrow> bool" where
  "pump_inv k opts start r \<longleftrightarrow>
     ids_ok (pr_fake r) \<and> points (pr_fake r) (pr_object r) \<and>
     start \<le> pr_next r \<and> pr_next r \<le> length (fc_logs (pr_object r)) \<and>
     (let current = (\<lambda>up g. g \<le> fc_log_notify (pr_object r) \<and>
            (g = fc_log_notify (pr_object r) \<longrightarrow> pr_next r = length (fc_logs (pr_object r)) \<and>
               (up \<longrightarrow> running_in (pr_fake r) (pr_object r))));
          done = pr_body r = read_upto k opts start r (pr_next r)
      in case pr_phase r of
           Scanning \<Rightarrow> done
         | Writing es up g \<Rightarrow>
             current up g \<and> (\<exists>n. start \<le> n \<and> n \<le> pr_next r \<and> es = drop n (take (pr_next r) (fc_logs (pr_object r))) \<and>
               pr_body r = read_upto k opts start r n)
         | Waiting g \<Rightarrow> lo_follow opts \<and> current True g \<and> done
         | Ended e \<Rightarrow> (e = None \<or> e = pr_ctx_err r) \<and> done
         | ReaderGone \<Rightarrow> \<not> pr_open r \<and> (\<exists>n. start \<le> n \<and> n \<le> pr_next r \<and> pr_body r = read_upto k opts start r n))"

lemma body_of_simps [simp]:
  "body_of k opts tty [] = ''''"
  "body_of k opts tty (xs @ ys) = body_of k opts tty xs @ body_of k opts tty ys"
  "body_of k opts tty (e # es) = write_log_entry k opts tty e @ body_of k opts tty es"
  by (simp_all add: body_of_def)

lemma write_unchosen [simp]: "\<not> chosen opts e \<Longrightarrow> write_log_entry k opts tty e = ''''"
  by (simp add: write_log_entry_def chosen_def)

lemma drop_ConsD:
  assumes "e # es = drop n (take m xs)" "m \<le> length xs"
  shows "n < m" "es = drop (Suc n) (take m xs)" "take (Suc n) xs = take n xs @ [e]"
proof -
  have len: "n < length (take m xs)" using assms(1) by (metis drop_all list.distinct(1) not_le)
  have "drop n (take m xs) = take m xs ! n # drop (Suc n) (take m xs)"
    by (rule Cons_nth_drop_Suc [OF len, symmetric])
  then have e: "e = take m xs ! n" "es = drop (Suc n) (take m xs)" using assms(1) by simp_all
  then show "n < m" "es = drop (Suc n) (take m xs)" using len by simp_all
  show "take (Suc n) xs = take n xs @ [e]" using len e(1) assms(2) by (simp add: take_Suc_conv_app_nth)
qed

lemma read_upto_Suc:
  assumes "e # es = drop n (take m (fc_logs (pr_object r)))" "m \<le> length (fc_logs (pr_object r))" "start \<le> n"
  shows "read_upto k opts start r (Suc n) =
    read_upto k opts start r n @ write_log_entry k opts (fc_tty (pr_object r)) e"
  using drop_ConsD [OF assms(1,2)] assms(2,3) by (simp add: read_upto_def)

lemma pump_inv_start:
  assumes "ids_ok f" "open_logs opts i f = Inr (c, start)"
  shows "pump_inv k opts start (pump_start f c start ctx_err)"
proof -
  have c: "find_container f i = Some c" "start \<le> length (fc_logs c)"
    using assms(2) by (auto simp: open_logs_def tail_start_def split: option.splits if_splits sum.splits)
  have "old_id f (fc_id c)" using assms(1) find_containerD [OF c(1)] by (auto simp: ids_ok_def list_all_iff old_id_def)
  then show ?thesis
    using assms(1) c lookup_find [OF assms(1) c(1)]
    by (simp add: pump_inv_def pump_start_def points_def read_upto_def)
qed

lemma written_all:
  assumes "pump_inv k opts start r" "pr_phase r = Writing [] up g"
  shows "pr_body r = read_upto k opts start r (pr_next r)"
proof -
  obtain n where n: "n \<le> pr_next r" "[] = drop n (take (pr_next r) (fc_logs (pr_object r)))"
    "pr_body r = read_upto k opts start r n" and le: "pr_next r \<le> length (fc_logs (pr_object r))"
    using assms by (auto simp: pump_inv_def)
  then have "n = pr_next r" by simp
  then show ?thesis using n by simp
qed

lemma pump_inv_step:
  assumes "pump_inv k opts start r" "pump_step k opts r t"
  shows "pump_inv k opts start t"
  using assms(2,1)
proof cases
  case scan
  then show ?thesis using assms(1)
    by (auto simp: pump_inv_def read_upto_def intro!: exI [of _ "pr_next r"])
next
  case (skip e es up g)
  then obtain n where n: "start \<le> n" "n \<le> pr_next r" "e # es = drop n (take (pr_next r) (fc_logs (pr_object r)))"
    "pr_body r = read_upto k opts start r n" using assms(1) by (auto simp: pump_inv_def)
  have le: "pr_next r \<le> length (fc_logs (pr_object r))" using assms(1) by (simp add: pump_inv_def)
  have "pr_body r = read_upto k opts start r (Suc n)" using read_upto_Suc [OF n(3) le n(1)] n(4) skip by simp
  then show ?thesis using assms(1) skip n drop_ConsD [OF n(3) le]
    by (auto simp: pump_inv_def read_upto_def intro!: exI [of _ "Suc n"])
next
  case (put e es up g)
  then obtain n where n: "start \<le> n" "n \<le> pr_next r" "e # es = drop n (take (pr_next r) (fc_logs (pr_object r)))"
    "pr_body r = read_upto k opts start r n" using assms(1) by (auto simp: pump_inv_def)
  have le: "pr_next r \<le> length (fc_logs (pr_object r))" using assms(1) by (simp add: pump_inv_def)
  show ?thesis using assms(1) put n drop_ConsD [OF n(3) le] read_upto_Suc [OF n(3) le n(1), of k opts]
    by (auto simp: pump_inv_def read_upto_def intro!: exI [of _ "Suc n"])
next
  case (reader_gone e es up g)
  then show ?thesis using assms(1) by (auto simp: pump_inv_def read_upto_def)
next
  case (ended up g)
  then show ?thesis using assms(1) written_all [OF assms(1) ended(2)] by (simp add: pump_inv_def read_upto_def)
next
  case (wait g)
  then show ?thesis using assms(1) written_all [OF assms(1) wait(2)] by (simp add: pump_inv_def read_upto_def)
next
  case (woken g)
  then show ?thesis using assms(1) by (simp add: pump_inv_def read_upto_def)
next
  case (canceled g e)
  then show ?thesis using assms(1) by (simp add: pump_inv_def read_upto_def)
qed

lemma pump_inv_daemon:
  assumes inv: "pump_inv k opts start r"
  shows "pump_inv k opts start (r\<lparr>pr_fake := apply_op x (pr_fake r),
    pr_object := object_after (pr_fake r) (apply_op x (pr_fake r)) (pr_object r)\<rparr>)" (is "pump_inv k opts start ?t")
proof -
  have "op_ok (pr_fake r) (pr_fake ?t)" using inv op_ok_step by (simp add: pump_inv_def)
  moreover have "points (pr_fake r) (pr_object r)" using inv by (simp add: pump_inv_def)
  ultimately have ok: "ids_ok (pr_fake ?t)" "points (pr_fake ?t) (pr_object ?t)"
    "signalled (pr_object r) (running_in (pr_fake r) (pr_object r)) (pr_object ?t) (running_in (pr_fake ?t) (pr_object ?t))"
    unfolding op_ok_def by simp_all
  then obtain ls where ls: "fc_logs (pr_object ?t) = fc_logs (pr_object r) @ ls" unfolding signalled_def by blast
  have nx: "pr_next r \<le> length (fc_logs (pr_object r))" using inv by (simp add: pump_inv_def)
  have same: "read_upto k opts start ?t n = read_upto k opts start r n" if "n \<le> pr_next r" for n
    using that nx ls ok(3) unfolding read_upto_def signalled_def by simp
  have taken: "take (pr_next r) (fc_logs (pr_object ?t)) = take (pr_next r) (fc_logs (pr_object r))"
    using nx ls by simp
  have current: "g \<le> fc_log_notify (pr_object ?t) \<and>
      (g = fc_log_notify (pr_object ?t) \<longrightarrow> pr_next r = length (fc_logs (pr_object ?t)) \<and>
         (up \<longrightarrow> running_in (pr_fake ?t) (pr_object ?t)))"
    if "g \<le> fc_log_notify (pr_object r) \<and>
      (g = fc_log_notify (pr_object r) \<longrightarrow> pr_next r = length (fc_logs (pr_object r)) \<and>
         (up \<longrightarrow> running_in (pr_fake r) (pr_object r)))" for up g
    using that ok(3) unfolding signalled_def by auto
  have simple: "pr_phase ?t = pr_phase r" "pr_next ?t = pr_next r" "pr_body ?t = pr_body r" "pr_open ?t = pr_open r"
    "pr_ctx_err ?t = pr_ctx_err r" by simp_all
  have base: "ids_ok (pr_fake ?t) \<and> points (pr_fake ?t) (pr_object ?t) \<and> start \<le> pr_next r \<and>
    pr_next r \<le> length (fc_logs (pr_object ?t))" using ok ls nx inv by (simp add: pump_inv_def)
  show ?thesis
  proof (cases "pr_phase r")
    case Scanning
    then show ?thesis using inv same base unfolding pump_inv_def Let_def simple by simp
  next
    case (Writing es up g)
    then show ?thesis using inv same base current [of g up] unfolding pump_inv_def Let_def simple taken by auto
  next
    case (Waiting g)
    then show ?thesis using inv same base current [of g True] unfolding pump_inv_def Let_def simple by simp
  next
    case (Ended e)
    then show ?thesis using inv same base unfolding pump_inv_def Let_def simple by simp
  next
    case ReaderGone
    then show ?thesis using inv same base unfolding pump_inv_def Let_def simple by auto
  qed
qed

lemma pump_inv_outside:
  assumes "pump_inv k opts start r" "outside_step r t"
  shows "pump_inv k opts start t"
  using assms(2)
proof cases
  case (daemon x)
  then show ?thesis using pump_inv_daemon [OF assms(1)] by simp
next
  case (cancel e)
  then show ?thesis using assms(1) by (cases "pr_phase r") (simp_all add: pump_inv_def read_upto_def)
next
  case close_reader
  then show ?thesis using assms(1) by (cases "pr_phase r") (simp_all add: pump_inv_def read_upto_def)
qed

lemma pump_inv_steps:
  assumes "(log_step k opts)\<^sup>*\<^sup>* r t" "pump_inv k opts start r"
  shows "pump_inv k opts start t"
  using assms
proof induction
  case (step t u)
  then have "pump_inv k opts start t" by simp
  then show ?case using step.hyps(2) pump_inv_step pump_inv_outside unfolding log_step_def by blast
qed

text \<open>Without a change of the daemon a read without follow is the body \<open>fake_container_logs\<close> answers.\<close>

lemma fake_container_logs_body:
  "open_logs (tail_options tail) i f = Inr (c, start) \<Longrightarrow>
   fake_container_logs k i tail f = (Inr (body_of k (tail_options tail) (fc_tty c) (drop start (fc_logs c))), f)"
  by (simp add: fake_container_logs_def body_of_def)

section \<open>Properties\<close>

text \<open>
  C23: A reader of a container's log gets the chosen lines from its start on, in order and each once, up to
  some line, whatever happens to the daemon meanwhile. A follower sleeps through nothing: when the pump
  waits and nothing would wake it, the reader has every line written so far and the container is still
  running. And a stream that ends without an error gave every line the last scan saw.
\<close>

theorem follower_misses_nothing:
  assumes "ids_ok f" "open_logs opts i f = Inr (c, start)"
    and "(log_step k opts)\<^sup>*\<^sup>* (pump_start f c start ctx_err) r"
  shows "(\<exists>n. start \<le> n \<and> n \<le> length (fc_logs (pr_object r)) \<and> pr_body r = read_upto k opts start r n) \<and>
    (\<forall>g. pr_phase r = Waiting g \<and> \<not> (\<exists>t. pump_step k opts r t) \<longrightarrow>
       pr_body r = body_of k opts (fc_tty (pr_object r)) (drop start (fc_logs (pr_object r))) \<and>
       running_in (pr_fake r) (pr_object r)) \<and>
    (pr_phase r = Ended None \<longrightarrow> pr_body r = read_upto k opts start r (pr_next r))"
proof -
  have inv: "pump_inv k opts start r" by (rule pump_inv_steps [OF assms(3) pump_inv_start [OF assms(1,2)]])
  then have le: "start \<le> pr_next r" "pr_next r \<le> length (fc_logs (pr_object r))" by (simp_all add: pump_inv_def)
  have "\<exists>n. start \<le> n \<and> n \<le> pr_next r \<and> pr_body r = read_upto k opts start r n"
    using inv le by (fastforce simp: pump_inv_def Let_def split: pump_phase.splits)
  moreover have "pr_body r = body_of k opts (fc_tty (pr_object r)) (drop start (fc_logs (pr_object r))) \<and>
      running_in (pr_fake r) (pr_object r)" if "pr_phase r = Waiting g" "\<not> (\<exists>t. pump_step k opts r t)" for g
  proof -
    have "g = fc_log_notify (pr_object r)" using that pump_step.woken [of r g k opts] by blast
    then show ?thesis using inv that(1) by (simp add: pump_inv_def read_upto_def)
  qed
  moreover have "pr_body r = read_upto k opts start r (pr_next r)" if "pr_phase r = Ended None"
    using inv that by (simp add: pump_inv_def)
  ultimately show ?thesis using le(2) by (meson le_trans)
qed

definition demo_log_fake :: fake where
  "demo_log_fake = apply_op (AppendLog ''c'' LogStdout ''up'') (apply_op (Start ''c'')
     (apply_op (Create empty_config empty_host ''c'') new_fake))"

definition demo_log_sdk :: sdk where
  "demo_log_sdk = \<lparr>sdk_match = (\<lambda>ts l. True), sdk_frame = (\<lambda>st line. line)\<rparr>"

definition follow_stdout :: log_options where
  "follow_stdout = \<lparr>lo_stdout = True, lo_stderr = False, lo_timestamps = False, lo_follow = True, lo_tail = ''''\<rparr>"

lemma demo_log_open:
  "ids_ok demo_log_fake \<and>
   (\<exists>c. open_logs follow_stdout ''c'' demo_log_fake = Inr (c, 0) \<and> lookup demo_log_fake (fc_id c) = Some c \<and>
      fc_state c = ''running'' \<and> fc_log_notify c = 1 \<and>
      (\<exists>t. fc_logs c = [\<lparr>le_stream = LogStdout, le_at = t, le_line = ''up'' @ [CHR 0x0A]\<rparr>]))"
proof -
  have ids: "ids_ok demo_log_fake"
  proof -
    have "ids_ok new_fake" by (simp add: ids_ok_def new_fake_def)
    then show ?thesis unfolding demo_log_fake_def using op_ok_step unfolding op_ok_def by blast
  qed
  have run: "\<exists>c. find_container demo_log_fake ''c'' = Some c \<and> fk_logs_err demo_log_fake = None \<and>
      fc_state c = ''running'' \<and> fc_log_notify c = 1 \<and> fc_log_driver c \<noteq> ''none'' \<and>
      (\<exists>t. fc_logs c = [\<lparr>le_stream = LogStdout, le_at = t, le_line = ''up'' @ [CHR 0x0A]\<rparr>])"
    by (simp add: demo_log_fake_def new_fake_def fake_container_create_def record_container_def empty_config_def
        empty_host_def fake_container_start_def append_log_def find_container_def find_by_name_def
        ipv6_sysctl_key_def first_sysctl_error_def netns_error_def
        is_user_defined_network_def joined_netns_owner_def has_prefix_def missing_volume_def update_container_def wake_log_followers_def Let_def)
  then show ?thesis
    using ids by (auto simp: open_logs_def follow_stdout_def tail_start_def atoi_def lookup_find)
qed

lemma pump_first: "pump_step k opts r t \<Longrightarrow> (log_step k opts)\<^sup>*\<^sup>* t u \<Longrightarrow> (log_step k opts)\<^sup>*\<^sup>* r u"
  by (rule converse_rtranclp_into_rtranclp) (simp_all add: log_step_def)

theorem follower_misses_nothing_witness:
  "\<exists>r. pr_phase r = Waiting 1 \<and> \<not> (\<exists>t. pump_step demo_log_sdk follow_stdout r t) \<and>
     pr_body r = body_of demo_log_sdk follow_stdout (fc_tty (pr_object r)) (fc_logs (pr_object r)) \<and>
     length (fc_logs (pr_object r)) = 1 \<and> running_in (pr_fake r) (pr_object r)"
proof -
  obtain c t where c: "open_logs follow_stdout ''c'' demo_log_fake = Inr (c, 0)" "lookup demo_log_fake (fc_id c) = Some c"
      "fc_state c = ''running''" "fc_log_notify c = 1"
      "fc_logs c = [\<lparr>le_stream = LogStdout, le_at = t, le_line = ''up'' @ [CHR 0x0A]\<rparr>]"
    using demo_log_open by blast
  let ?e = "\<lparr>le_stream = LogStdout, le_at = t, le_line = ''up'' @ [CHR 0x0A]\<rparr>"
  let ?p0 = "pump_start demo_log_fake c 0 None"
  let ?p1 = "?p0\<lparr>pr_next := 1, pr_phase := Writing [?e] True 1\<rparr>"
  let ?p2 = "?p1\<lparr>pr_phase := Writing [] True 1, pr_body := write_log_entry demo_log_sdk follow_stdout (fc_tty c) ?e\<rparr>"
  let ?p3 = "?p2\<lparr>pr_phase := Waiting 1\<rparr>"
  have "pump_step demo_log_sdk follow_stdout ?p0 ?p1"
    using pump_step.scan [of ?p0 demo_log_sdk follow_stdout] c by (simp add: pump_start_def running_in_def)
  moreover have "pump_step demo_log_sdk follow_stdout ?p1 ?p2"
    using pump_step.put [of ?p1 ?e "[]" True 1 follow_stdout demo_log_sdk]
    by (simp add: pump_start_def chosen_def follow_stdout_def)
  moreover have "pump_step demo_log_sdk follow_stdout ?p2 ?p3"
    by (rule pump_step.wait) (simp_all add: follow_stdout_def)
  ultimately have run: "(log_step demo_log_sdk follow_stdout)\<^sup>*\<^sup>* ?p0 ?p3"
    by (elim pump_first) (rule rtranclp.rtrancl_refl)
  have stuck: "\<not> (\<exists>t. pump_step demo_log_sdk follow_stdout ?p3 t)"
    using c by (auto simp: pump_start_def elim!: pump_stepE)
  have ids: "ids_ok demo_log_fake" using demo_log_open by blast
  from follower_misses_nothing [OF ids c(1) run] stuck show ?thesis
    using c by (intro exI [of _ ?p3]) (simp add: pump_start_def)
qed

end
