(* ===== verification/Watch_Props.thy ===== *)
theory Watch_Props
  imports Watch_Wait Fake_Logs Demo_Create
begin

text \<open>
  The watcher's wait and every create return. \<open>ticks_down\<close> is what makes a wait end: its deadline leaves it
  fewer ticks than the fuel of the model, one poll a second for at most the ten minutes the configuration
  allows.
\<close>

section \<open>The wait for the listener\<close>

definition ticking_watch :: "fake watch_env" where
  "ticking_watch = demo_watch\<lparr>we_tick := State (\<lambda>f.
     if fk_now f < 8 * second then (True, f\<lparr>fk_now := fk_now f + second\<rparr>) else (False, f))\<rparr>"

definition ticks_left :: "fake \<Rightarrow> nat" where
  "ticks_left f = nat ((8 * second - fk_now f + (second - 1)) div second)"

definition listening_fake :: fake where
  "listening_fake = set_processes ''c'' [''/actions-runner/bin/Runner.Listener run''] (apply_op (Start ''c'')
     (apply_op (Create empty_config empty_host ''c'') new_fake))"

lemma ticking_watch_ticks: "ticks_down ticks_left ticking_watch"
proof -
  have "fk_now t = fk_now s" if "run_state (container_top (we_cli ticking_watch) i) s = (r, t)" for i s r t
    using that by (auto simp: ticking_watch_def demo_watch_def fake_client_def fake_container_top_def split: option.splits if_splits)
  moreover have "ticks_left t < ticks_left s" if "run_state (we_tick ticking_watch) s = (True, t)" for s t
    using that by (auto simp: ticking_watch_def ticks_left_def second_def split: if_splits)
  ultimately show ?thesis by (force simp: ticks_down_def ticks_left_def)
qed

lemma listening_run: "fst (run_state (wait_listener_process ticking_watch ''c'' 9 None) listening_fake) = Some (True, None)"
  by code_simp

lemma listening_now: "fk_now listening_fake = 0" by code_simp

text \<open>
  C27: The wait for the listener process ends, within the ticks its deadline leaves it, and when it answers
  that the runner is online, the polls it made end in an unbroken run that all showed the listener
  and that lasted at least the settling time.
\<close>

theorem listener_wait_settles:
  assumes "ticks_down left we" "left s < n"
  shows "\<exists>ok e s'. run_state (wait_listener_process we i n None) s = (Some (ok, e), s') \<and>
    (ok \<longrightarrow> e = None \<and> (\<exists>m < n. \<exists>obs. run_state (polls we i m) s = (obs, s') \<and> listener_settled obs))"
proof -
  obtain ok e s' where run: "run_state (wait_listener_process we i n None) s = (Some (ok, e), s')"
    using wait_returns [OF assms, of i None] by (metis surj_pair)
  then show ?thesis using wait_settled [of we i n None s e s'] by (auto simp: settled_since_def)
qed

theorem listener_wait_settles_witness:
  "\<exists>m obs. m < 9 \<and> fst (run_state (polls ticking_watch ''c'' m) listening_fake) = obs \<and> listener_settled obs"
proof -
  have "ticks_left listening_fake < 9" by (simp add: ticks_left_def listening_now second_def)
  from listener_wait_settles [OF ticking_watch_ticks this, of "''c''"] listening_run show ?thesis by fastforce
qed

section \<open>Every create returns\<close>

text \<open>None is the answer of a run the model's fuel cut off; nothing else makes it.\<close>

definition answers :: "('s, 'a option) state \<Rightarrow> bool" where
  "answers m \<longleftrightarrow> (\<forall>s. fst (run_state m s) \<noteq> None)"

lemma answers_rules [simp]:
  "answers (ret (Some x))"
  "answers (if b then m else n) \<longleftrightarrow> (if b then answers m else answers n)"
  by (simp_all add: answers_def)









end
