(* ===== verification/Fake_Hooks.thy ===== *)
theory Fake_Hooks
  imports Fake_Logs
begin

text \<open>
  The function-valued test hooks of \<open>internal/docker/fake.go\<close> and \<open>fake_dindio.go\<close>. A hook runs before the call
  takes the mutex, so it is a state transformer that goes first: what another process may do to the
  daemon in that window. \<open>hooked_client\<close> is the client a test uses; without hooks it is \<open>fake_client\<close>.
\<close>

record fake_hooks =
  fh_create :: "(fake, unit) state option"
  fh_volume_list :: "(fake, unit) state option"
  fh_volume_inspect :: "(string \<Rightarrow> (fake, unit) state) option"
  fh_volume_inspect_err :: "(string \<Rightarrow> (fake, gerr option) state) option"
  fh_volume_remove :: "(string \<Rightarrow> (fake, unit) state) option"
  fh_exec_output :: "(string list \<Rightarrow> (fake, (string \<times> int) res) state) option"

definition no_hooks :: fake_hooks where
  "no_hooks = \<lparr>fh_create = None, fh_volume_list = None, fh_volume_inspect = None, fh_volume_inspect_err = None,
     fh_volume_remove = None, fh_exec_output = None\<rparr>"

definition hooked_create ::
  "fake_hooks \<Rightarrow> container_config \<Rightarrow> host_config \<Rightarrow> string \<Rightarrow> (fake, string \<times> gerr option) state" where
  "hooked_create h cfg host name = do {
     u \<leftarrow> (case fh_create h of None \<Rightarrow> ret () | Some hook \<Rightarrow> hook);
     State (fake_container_create cfg host name)
   }"

definition hooked_volume_list :: "sdk \<Rightarrow> fake_hooks \<Rightarrow> string list \<Rightarrow> (fake, volume option list res) state" where
  "hooked_volume_list k h fs = do {
     u \<leftarrow> (case fh_volume_list h of None \<Rightarrow> ret () | Some hook \<Rightarrow> hook);
     State (fake_volume_list k fs)
   }"

definition hooked_volume_inspect :: "fake_hooks \<Rightarrow> string \<Rightarrow> (fake, volume res) state" where
  "hooked_volume_inspect h name = do {
     u \<leftarrow> (case fh_volume_inspect h of None \<Rightarrow> ret () | Some hook \<Rightarrow> hook name);
     e \<leftarrow> (case fh_volume_inspect_err h of None \<Rightarrow> ret None | Some hook \<Rightarrow> hook name);
     case e of
       Some err \<Rightarrow> ret (Inl err)
     | None \<Rightarrow> State (fake_volume_inspect name)
   }"

definition hooked_volume_remove :: "fake_hooks \<Rightarrow> string \<Rightarrow> (fake, gerr option) state" where
  "hooked_volume_remove h name = do {
     u \<leftarrow> (case fh_volume_remove h of None \<Rightarrow> ret () | Some hook \<Rightarrow> hook name);
     State (fake_volume_remove name)
   }"

text \<open>A call that fails before it is recorded does not reach \<open>ExecOutputFunc\<close>.\<close>

definition hooked_exec_output :: "fake_hooks \<Rightarrow> string \<Rightarrow> string list \<Rightarrow> (fake, (string \<times> int) res) state" where
  "hooked_exec_output h i cmd = do {
     r \<leftarrow> State (fake_exec_output i cmd);
     case (r, fh_exec_output h) of
       (Inr _, Some fn) \<Rightarrow> fn cmd
     | _ \<Rightarrow> ret r
   }"

definition hooked_client :: "sdk \<Rightarrow> fake_hooks \<Rightarrow> fake client" where
  "hooked_client k h = (fake_client k)
     \<lparr>container_create := hooked_create h, exec_output := hooked_exec_output h,
      volume_inspect := hooked_volume_inspect h, volume_remove := (\<lambda>n force. hooked_volume_remove h n),
      volume_list := hooked_volume_list k h\<rparr>"

lemma hooked_client_no_hooks: "hooked_client k no_hooks = fake_client k"
proof -
  have "hooked_exec_output no_hooks i cmd = State (fake_exec_output i cmd)" for i cmd
    by (rule state.expand) (auto simp: hooked_exec_output_def no_hooks_def fun_eq_iff split: prod.split sum.split)
  then have x: "hooked_exec_output no_hooks = (\<lambda>i cmd. State (fake_exec_output i cmd))" by (intro ext)
  show ?thesis
    by (simp add: hooked_client_def fake_client_def x)
      (simp add: no_hooks_def hooked_create_def [abs_def] hooked_volume_list_def [abs_def]
        hooked_volume_inspect_def [abs_def] hooked_volume_remove_def [abs_def])
qed

end
